(* ===== verification/Prelude.thy ===== *)
theory Prelude
  imports Main
begin

text \<open>
  Shared vocabulary of the development: the Python values that travel in reply
  dictionaries, the exceptions the controller raises and catches, string helpers
  with Python's meaning, and a state monad with exceptions in which the effectful
  methods are written.  \<open>wp\<close> (weakest precondition), \<open>keeps\<close> (a method leaves a
  component of the state alone) and \<open>acts\<close> (what a method does to a component when it
  returns normally) carry the proofs about those methods; their composition rules
  are collected in \<open>wp_simps\<close>, \<open>frame\<close> and \<open>act\<close>.
\<close>

named_theorems wp_simps \<open>weakest preconditions of the monad's combinators and of operations\<close>
named_theorems frame \<open>which component an operation leaves unchanged\<close>
named_theorems total \<open>exceptions an operation does not raise\<close>
named_theorems post \<open>what an operation returns\<close>
named_theorems drift \<open>where a component may have gone after an operation\<close>
named_theorems act \<open>how an operation changes a component when it returns normally\<close>

section \<open>Python values and reply dictionaries\<close>

datatype jval =
    JStr string
  | JInt int
  | JBool bool
  | JNull
  | JList "jval list"
  | JDict "string \<Rightarrow> jval option"

type_synonym body = "string \<rightharpoonup> jval"

definition failed :: "body \<Rightarrow> bool" where
  "failed b \<longleftrightarrow> b ''error'' \<noteq> None"

definition success :: "body \<Rightarrow> bool" where
  "success b \<longleftrightarrow> \<not> failed b"

definition has_key :: "body \<Rightarrow> string \<Rightarrow> bool" where
  "has_key b k \<longleftrightarrow> b k \<noteq> None"

fun jstr :: "jval option \<Rightarrow> string" where
  "jstr (Some (JStr s)) = s"
| "jstr _ = []"

fun truthy :: "jval \<Rightarrow> bool" where
  "truthy (JStr s) = (s \<noteq> [])"
| "truthy (JInt i) = (i \<noteq> 0)"
| "truthy (JBool b) = b"
| "truthy JNull = False"
| "truthy (JList xs) = (xs \<noteq> [])"
| "truthy (JDict d) = (d \<noteq> Map.empty)"

text \<open>\<open>server.error(msg)\<close>: the standard error dictionary.\<close>

definition error_body :: "string \<Rightarrow> body" where
  "error_body msg = [''error'' \<mapsto> JStr msg]"

lemma failed_error_body [simp]: "failed (error_body msg)"
  by (simp add: failed_def error_body_def)

lemma success_iff [simp]: "success b \<longleftrightarrow> \<not> failed b"
  by (simp add: success_def)

lemma failed_upd_other [simp]: "k \<noteq> ''error'' \<Longrightarrow> failed (b(k \<mapsto> v)) = failed b"
  by (simp add: failed_def)

lemma failed_empty [simp]: "\<not> failed Map.empty"
  by (simp add: failed_def)

section \<open>Exceptions\<close>

datatype sysinfo_error =
    CONNECT_FAILURE | COMM_FAILURE | COMM_TIMEDOUT | NOT_FOUND
  | UNEXPECTED_RESPONSE | PARSE_FAILURE | JSON_PARSE_FAILURE

datatype pyexn =
    IOError string
  | HTTPException string
  | ValueError string
  | KeyError string
  | IndexError string
  | DBError string
  | TypeError string
  | AttributeError string
  | UnboundLocalError string
  | RuntimeError string
  | ZeroDivisionError string
  | InvalidStateError string
  | DiskException string
  | CommandException string
  | SysteminfoException sysinfo_error string
  | ArchiveException string
  | Blocked

text \<open>
  Python 2: \<open>StandardError\<close> covers the built-in exceptions and \<open>InvalidStateError\<close>;
  \<open>httplib.HTTPException\<close>, \<open>DiskException\<close>, \<open>CommandException\<close>, SQLAlchemy's own exceptions (\<open>DBError\<close>), \<open>SysteminfoException\<close> and \<open>ArchiveException\<close> derive from
  \<open>Exception\<close> directly, so an \<open>except StandardError\<close> clause does not catch them.
  \<open>Blocked\<close> is no Python exception: it marks a call that waits for a lock and does not
  come back unless another thread moves; no \<open>except\<close> clause catches it.
\<close>

fun is_standard_error :: "pyexn \<Rightarrow> bool" where
  "is_standard_error (HTTPException _) = False"
| "is_standard_error (DiskException _) = False"
| "is_standard_error (CommandException _) = False"
| "is_standard_error (SysteminfoException _ _) = False"
| "is_standard_error (ArchiveException _) = False"
| "is_standard_error (DBError _) = False"
| "is_standard_error Blocked = False"
| "is_standard_error _ = True"

section \<open>Strings\<close>

text \<open>\<open>s.find(pat) != -1\<close>\<close>

fun starts_with :: "string \<Rightarrow> string \<Rightarrow> bool" where
  "starts_with [] _ = True"
| "starts_with (p # ps) [] = False"
| "starts_with (p # ps) (c # cs) = (p = c \<and> starts_with ps cs)"

fun contains :: "string \<Rightarrow> string \<Rightarrow> bool" where
  "contains pat [] = (pat = [])"
| "contains pat (c # cs) = (starts_with pat (c # cs) \<or> contains pat cs)"

text \<open>\<open>s.split(sep)\<close> for a one-character separator: always at least one part.\<close>

fun split_on :: "char \<Rightarrow> string \<Rightarrow> string list" where
  "split_on sep [] = [[]]"
| "split_on sep (c # cs) =
     (if c = sep then [] # split_on sep cs
      else (case split_on sep cs of [] \<Rightarrow> [[c]] | p # ps \<Rightarrow> (c # p) # ps))"

definition is_space :: "char \<Rightarrow> bool" where
  "is_space c \<longleftrightarrow> c \<in> {CHR '' '', CHR 0x09, CHR 0x0A, CHR 0x0B, CHR 0x0C, CHR 0x0D}"

definition lstrip :: "string \<Rightarrow> string" where
  "lstrip s = dropWhile is_space s"

definition strip :: "string \<Rightarrow> string" where
  "strip s = rev (lstrip (rev (lstrip s)))"

definition is_digit :: "char \<Rightarrow> bool" where
  "is_digit c \<longleftrightarrow> 48 \<le> (of_char c :: nat) \<and> (of_char c :: nat) \<le> 57"

definition isdigit :: "string \<Rightarrow> bool" where
  "isdigit s \<longleftrightarrow> s \<noteq> [] \<and> list_all is_digit s"

fun digits_value :: "nat \<Rightarrow> string \<Rightarrow> nat" where
  "digits_value n [] = n"
| "digits_value n (c # cs) = digits_value (10 * n + (of_char c - 48)) cs"

text \<open>\<open>int(s)\<close>: blanks around an optionally signed decimal number, \<open>None\<close> for ValueError.\<close>

definition parse_int :: "string \<Rightarrow> int option" where
  "parse_int s =
     (let t = strip s in
      if isdigit t then Some (int (digits_value 0 t))
      else if t \<noteq> [] \<and> hd t = CHR ''-'' \<and> isdigit (tl t) then Some (- int (digits_value 0 (tl t)))
      else if t \<noteq> [] \<and> hd t = CHR ''+'' \<and> isdigit (tl t) then Some (int (digits_value 0 (tl t)))
      else None)"

text \<open>\<open>upper()\<close> on ASCII letters, as the host name comparisons use it.\<close>

definition upper_char :: "char \<Rightarrow> char" where
  "upper_char c =
     (if 97 \<le> (of_char c :: nat) \<and> (of_char c :: nat) \<le> 122 then char_of ((of_char c :: nat) - 32) else c)"

definition upper :: "string \<Rightarrow> string" where
  "upper = map upper_char"

definition lower_char :: "char \<Rightarrow> char" where
  "lower_char c =
     (if 65 \<le> (of_char c :: nat) \<and> (of_char c :: nat) \<le> 90 then char_of ((of_char c :: nat) + 32) else c)"

definition lower :: "string \<Rightarrow> string" where
  "lower = map lower_char"

text \<open>\<open>str(n)\<close> on integers.\<close>

fun nat_str :: "nat \<Rightarrow> string" where
  "nat_str n = (if n < 10 then [char_of (48 + n)] else nat_str (n div 10) @ [char_of (48 + n mod 10)])"

declare nat_str.simps [simp del]

definition two_digits :: "nat \<Rightarrow> string" where
  "two_digits n = (if n < 10 then CHR ''0'' # nat_str n else nat_str n)"

definition int_str :: "int \<Rightarrow> string" where
  "int_str i = (if i < 0 then CHR ''-'' # nat_str (nat (- i)) else nat_str (nat i))"

lemma split_on_nonempty [simp]: "split_on sep s \<noteq> []"
  by (induction s) (auto split: list.splits)

lemma starts_with_refl [simp]: "starts_with s s"
  by (induction s) auto

lemma starts_with_append [simp]: "starts_with s (s @ t)"
  by (induction s) auto

lemma contains_append: "contains pat t \<Longrightarrow> contains pat (s @ t)"
  by (induction s) auto

lemma contains_refl_append [simp]: "contains pat (s @ pat @ t)"
proof (rule contains_append)
  show "contains pat (pat @ t)"
    by (cases "pat @ t") (auto simp del: append_is_Nil_conv intro: starts_with_append
        dest: sym [of "pat @ t"] simp: append_eq_Cons_conv)
qed

section \<open>Numbers as text\<close>

lemma digit_char: "k < 10 \<Longrightarrow> is_digit (char_of (48 + k :: nat)) \<and> of_char (char_of (48 + k :: nat)) = 48 + k"
  by (simp add: is_digit_def of_char_mod_256)

lemma nat_str_digits: "list_all is_digit (nat_str n)"
proof (induction n rule: nat_str.induct)
  case (1 n)
  have d: "is_digit (char_of (48 + k))" if "k < 10" for k :: nat
    using that by (simp add: is_digit_def)
  with 1 show ?case by (subst nat_str.simps) simp
qed

lemma nat_str_nonempty: "nat_str n \<noteq> []"
  by (subst nat_str.simps) simp

lemma nat_str_isdigit: "isdigit (nat_str n)"
  by (simp add: isdigit_def nat_str_digits nat_str_nonempty)

lemma digits_value_snoc: "digits_value a (s @ [c]) = 10 * digits_value a s + (of_char c - 48)"
  by (induction s arbitrary: a) simp_all

lemma digits_value_nat_str: "digits_value 0 (nat_str n) = n"
proof (induction n rule: nat_str.induct)
  case (1 n)
  then show ?case
    by (subst nat_str.simps) (use digit_char [of n] digit_char [of "n mod 10"] in \<open>auto simp: digits_value_snoc\<close>)
qed

lemma digit_no_space: "is_digit c \<Longrightarrow> \<not> is_space c"
  by (auto simp: is_digit_def is_space_def)

lemma strip_no_space: "list_all (\<lambda>c. \<not> is_space c) s \<Longrightarrow> strip s = s"
proof -
  assume s: "list_all (\<lambda>c. \<not> is_space c) s"
  have "dropWhile is_space t = t" if "list_all (\<lambda>c. \<not> is_space c) t" for t
    using that by (cases t) simp_all
  with s show ?thesis by (simp add: strip_def lstrip_def)
qed

lemma strip_digits:
  assumes "isdigit s"
  shows "strip s = s" "strip (CHR ''-'' # s) = CHR ''-'' # s"
proof -
  have "list_all (\<lambda>c. \<not> is_space c) s" using assms digit_no_space by (auto simp: isdigit_def list_all_iff)
  moreover have "\<not> is_space CHR ''-''" by (simp add: is_space_def)
  ultimately show "strip s = s" "strip (CHR ''-'' # s) = CHR ''-'' # s" by (simp_all add: strip_no_space)
qed

lemma parse_int_str: "parse_int (int_str i) = Some i"
proof -
  have nd: "\<not> isdigit (CHR ''-'' # s)" for s by (simp add: isdigit_def is_digit_def)
  show ?thesis
    using nat_str_isdigit
    by (auto simp: parse_int_def int_str_def Let_def strip_digits digits_value_nat_str nd)
qed

section \<open>The state monad with exceptions\<close>

type_synonym ('s, 'a) M = "'s \<Rightarrow> (pyexn + 'a) \<times> 's"

definition ret :: "'a \<Rightarrow> ('s, 'a) M" where
  "ret x = (\<lambda>s. (Inr x, s))"

definition raise :: "pyexn \<Rightarrow> ('s, 'a) M" where
  "raise e = (\<lambda>s. (Inl e, s))"

definition bnd :: "('s, 'a) M \<Rightarrow> ('a \<Rightarrow> ('s, 'b) M) \<Rightarrow> ('s, 'b) M" where
  "bnd m k = (\<lambda>s. case m s of (Inl e, s') \<Rightarrow> (Inl e, s') | (Inr x, s') \<Rightarrow> k x s')"

definition sq :: "('s, 'a) M \<Rightarrow> ('s, 'b) M \<Rightarrow> ('s, 'b) M" where
  "sq m n = bnd m (\<lambda>_. n)"

definition gets :: "('s \<Rightarrow> 'a) \<Rightarrow> ('s, 'a) M" where
  "gets f = (\<lambda>s. (Inr (f s), s))"

definition modify :: "('s \<Rightarrow> 's) \<Rightarrow> ('s, unit) M" where
  "modify f = (\<lambda>s. (Inr (), f s))"

text \<open>\<open>try: m / except <p>: h\<close>\<close>

definition catch :: "('s, 'a) M \<Rightarrow> (pyexn \<Rightarrow> bool) \<Rightarrow> (pyexn \<Rightarrow> ('s, 'a) M) \<Rightarrow> ('s, 'a) M" where
  "catch m p h = (\<lambda>s. case m s of (Inl e, s') \<Rightarrow> if p e then h e s' else (Inl e, s') | (Inr x, s') \<Rightarrow> (Inr x, s'))"

text \<open>\<open>for x in xs: f(x)\<close>\<close>

fun for_each :: "'a list \<Rightarrow> ('a \<Rightarrow> ('s, unit) M) \<Rightarrow> ('s, unit) M" where
  "for_each [] f = ret ()"
| "for_each (x # xs) f = sq (f x) (for_each xs f)"

text \<open>\<open>acc = f(x, acc)\<close> for each \<open>x\<close> in order\<close>

fun fold_m :: "('a \<Rightarrow> 'b \<Rightarrow> ('s, 'b) M) \<Rightarrow> 'a list \<Rightarrow> 'b \<Rightarrow> ('s, 'b) M" where
  "fold_m f [] acc = ret acc"
| "fold_m f (x # xs) acc = bnd (f x acc) (fold_m f xs)"

text \<open>Statements one after the other.\<close>

fun seqs :: "('s, unit) M list \<Rightarrow> ('s, unit) M" where
  "seqs [] = ret ()"
| "seqs (m # ms) = sq m (seqs ms)"

abbreviation when_m :: "bool \<Rightarrow> ('s, unit) M \<Rightarrow> ('s, unit) M" where
  "when_m b m \<equiv> (if b then m else ret ())"

lemmas monad_defs = ret_def raise_def bnd_def sq_def gets_def modify_def catch_def

lemma ret_run [simp]: "ret x s = (Inr x, s)"
  by (simp add: ret_def)

lemma raise_run [simp]: "raise e s = (Inl e, s)"
  by (simp add: raise_def)

lemma gets_run [simp]: "gets f s = (Inr (f s), s)"
  by (simp add: gets_def)

lemma modify_run [simp]: "modify f s = (Inr (), f s)"
  by (simp add: modify_def)

lemma bnd_Inr: "m s = (Inr x, t) \<Longrightarrow> bnd m k s = k x t"
  by (simp add: bnd_def)

lemma bnd_Inl: "m s = (Inl e, t) \<Longrightarrow> bnd m k s = (Inl e, t)"
  by (simp add: bnd_def)

lemma sq_Inr: "m s = (Inr x, t) \<Longrightarrow> sq m n s = n t"
  by (simp add: sq_def bnd_def)

text \<open>A \<open>bnd\<close> that returns: its first part returned.\<close>

lemma bnd_returnsE:
  assumes "bnd m k s = (Inr y, u)"
  obtains x t where "m s = (Inr x, t)" "k x t = (Inr y, u)"
  using assms by (auto simp: bnd_def split: prod.splits sum.splits)

lemma sq_returnsE:
  assumes "sq m n s = (Inr y, u)"
  obtains x t where "m s = (Inr x, t)" "n t = (Inr y, u)"
  using assms by (auto simp: sq_def elim: bnd_returnsE)

section \<open>Weakest preconditions\<close>

definition wp :: "('s, 'a) M \<Rightarrow> (pyexn + 'a \<Rightarrow> 's \<Rightarrow> bool) \<Rightarrow> 's \<Rightarrow> bool" where
  "wp m Q s = (case m s of (r, s') \<Rightarrow> Q r s')"

lemma wp_ret [wp_simps]: "wp (ret x) Q s = Q (Inr x) s"
  by (simp add: wp_def)

lemma wp_raise [wp_simps]: "wp (raise e) Q s = Q (Inl e) s"
  by (simp add: wp_def)

text \<open>\<open>ret\<close> and \<open>raise\<close> as the simplifier leaves them, eta-contracted.\<close>

lemma wp_Pair [simp, wp_simps]: "wp (Pair r) Q s = Q r s"
  by (simp add: wp_def)

lemma wp_gets [wp_simps]: "wp (gets f) Q s = Q (Inr (f s)) s"
  by (simp add: wp_def)

lemma wp_modify [wp_simps]: "wp (modify f) Q s = Q (Inr ()) (f s)"
  by (simp add: wp_def)

lemma wp_bnd [wp_simps]:
  "wp (bnd m k) Q s = wp m (\<lambda>r s'. case r of Inl e \<Rightarrow> Q (Inl e) s' | Inr x \<Rightarrow> wp (k x) Q s') s"
  by (simp add: wp_def bnd_def split: prod.splits sum.splits)

lemma wp_sq [wp_simps]:
  "wp (sq m n) Q s = wp m (\<lambda>r s'. case r of Inl e \<Rightarrow> Q (Inl e) s' | Inr x \<Rightarrow> wp n Q s') s"
  by (simp add: sq_def wp_bnd)

lemma wp_catch [wp_simps]:
  "wp (catch m p h) Q s =
     wp m (\<lambda>r s'. case r of Inl e \<Rightarrow> (if p e then wp (h e) Q s' else Q (Inl e) s') | Inr x \<Rightarrow> Q (Inr x) s') s"
  by (simp add: wp_def catch_def split: prod.splits sum.splits)

lemma wp_if [wp_simps]: "wp (if b then m else n) Q s = (if b then wp m Q s else wp n Q s)"
  by simp

lemma wp_run: "wp m Q s \<Longrightarrow> m s = (r, s') \<Longrightarrow> Q r s'"
  by (simp add: wp_def)

lemma wp_mono: "wp m P s \<Longrightarrow> (\<And>r s'. P r s' \<Longrightarrow> Q r s') \<Longrightarrow> wp m Q s"
  by (auto simp: wp_def split: prod.splits)

section \<open>Frame rules\<close>

text \<open>\<open>keeps f m\<close>: whatever happens, an exception included, \<open>m\<close> leaves \<open>f\<close> as it was.\<close>

definition keeps :: "('s \<Rightarrow> 'b) \<Rightarrow> ('s, 'a) M \<Rightarrow> bool" where
  "keeps f m \<longleftrightarrow> (\<forall>s. f (snd (m s)) = f s)"

text \<open>\<open>acts f g m\<close>: when \<open>m\<close> returns normally, \<open>f\<close> has been changed by \<open>g\<close>.\<close>

definition acts :: "('s \<Rightarrow> 'b) \<Rightarrow> ('b \<Rightarrow> 'b) \<Rightarrow> ('s, 'a) M \<Rightarrow> bool" where
  "acts f g m \<longleftrightarrow> (\<forall>s x s'. m s = (Inr x, s') \<longrightarrow> f s' = g (f s))"

lemma keepsD: "keeps f m \<Longrightarrow> m s = (r, s') \<Longrightarrow> f s' = f s"
  by (auto simp: keeps_def dest: spec [of _ s])

lemma keeps_snd: "keeps f m \<Longrightarrow> f (snd (m s)) = f s"
  by (simp add: keeps_def)

lemma keeps_ret [frame]: "keeps f (ret x)"
  by (simp add: keeps_def)

lemma keeps_raise [frame]: "keeps f (raise e)"
  by (simp add: keeps_def)

lemma keeps_gets [frame]: "keeps f (gets g)"
  by (simp add: keeps_def)

lemma keeps_bnd [frame]: "keeps f m \<Longrightarrow> (\<And>x. keeps f (k x)) \<Longrightarrow> keeps f (bnd m k)"
  by (simp add: keeps_def bnd_def split: prod.splits sum.splits) (metis snd_conv)

lemma keeps_sq [frame]: "keeps f m \<Longrightarrow> keeps f n \<Longrightarrow> keeps f (sq m n)"
  by (simp add: sq_def keeps_bnd)

lemma keeps_catch [frame]: "keeps f m \<Longrightarrow> (\<And>e. keeps f (h e)) \<Longrightarrow> keeps f (catch m p h)"
  by (simp add: keeps_def catch_def split: prod.splits sum.splits) (metis snd_conv)

lemma keeps_seqs_Nil [frame]: "keeps f (seqs [])"
  by (simp add: keeps_ret)

lemma keeps_seqs_Cons [frame]: "keeps f m \<Longrightarrow> keeps f (seqs ms) \<Longrightarrow> keeps f (seqs (m # ms))"
  by (simp add: keeps_sq)

lemma keeps_if [frame]: "keeps f m \<Longrightarrow> keeps f n \<Longrightarrow> keeps f (if b then m else n)"
  by simp

lemma keeps_option [frame]:
  "keeps f m \<Longrightarrow> (\<And>x. keeps f (k x)) \<Longrightarrow> keeps f (case v of None \<Rightarrow> m | Some x \<Rightarrow> k x)"
  by (cases v) simp_all

lemma keeps_sum [frame]:
  "(\<And>x. keeps f (m x)) \<Longrightarrow> (\<And>x. keeps f (k x)) \<Longrightarrow> keeps f (case v of Inl x \<Rightarrow> m x | Inr x \<Rightarrow> k x)"
  by (cases v) simp_all

lemma keeps_list [frame]:
  "keeps f m \<Longrightarrow> (\<And>x xs. keeps f (k x xs)) \<Longrightarrow> keeps f (case v of [] \<Rightarrow> m | x # xs \<Rightarrow> k x xs)"
  by (cases v) simp_all

lemma keeps_prod [frame]:
  "(\<And>x y. keeps f (k x y)) \<Longrightarrow> keeps f (case v of (x, y) \<Rightarrow> k x y)"
  by (cases v) simp_all

lemma keeps_Let [frame]: "(\<And>x. keeps f (k x)) \<Longrightarrow> keeps f (Let v k)"
  by simp

lemma keeps_modify [frame]: "(\<And>s. f (g s) = f s) \<Longrightarrow> keeps f (modify g)"
  by (simp add: keeps_def)

lemma keeps_for_each [frame]: "(\<And>x. keeps f (g x)) \<Longrightarrow> keeps f (for_each xs g)"
  by (induction xs) (auto intro: frame)

lemma keeps_fold_m [frame]: "(\<And>x a. keeps f (g x a)) \<Longrightarrow> keeps f (fold_m g xs acc)"
  by (induction xs arbitrary: acc) (auto intro: frame)

text \<open>What is kept of the whole is kept of a part.\<close>

lemma keeps_part: "keeps f m \<Longrightarrow> keeps (\<lambda>s. g (f s)) m"
  by (simp add: keeps_def)

lemma keeps_pair: "keeps f m \<Longrightarrow> keeps g m \<Longrightarrow> keeps (\<lambda>s. (f s, g s)) m"
  by (simp add: keeps_def)

lemma wp_keeps: "keeps f m \<Longrightarrow> (\<And>r s'. f s' = f s \<Longrightarrow> Q r s') \<Longrightarrow> wp m Q s"
  by (auto simp: wp_def split: prod.splits dest: keepsD)

lemma actsD: "acts f g m \<Longrightarrow> m s = (Inr x, s') \<Longrightarrow> f s' = g (f s)"
  by (auto simp: acts_def)

lemma keeps_acts: "keeps f m \<Longrightarrow> acts f id m"
  by (auto simp: acts_def dest: keepsD)

lemma acts_raise [act]: "acts f g (raise e)"
  by (simp add: acts_def)

lemma acts_bnd_keeps: "keeps f m \<Longrightarrow> (\<And>x. acts f g (k x)) \<Longrightarrow> acts f g (bnd m k)"
  unfolding acts_def bnd_def by (auto split: prod.splits sum.splits dest!: keepsD)

lemma acts_sq_keeps: "keeps f m \<Longrightarrow> acts f g n \<Longrightarrow> acts f g (sq m n)"
  by (simp add: sq_def acts_bnd_keeps)

lemma acts_keeps_bnd:
  assumes "acts f g m" and "\<And>x. keeps f (k x)"
  shows "acts f g (bnd m k)"
  using assms(1) keepsD [OF assms(2)]
  unfolding acts_def bnd_def by (fastforce split: prod.splits sum.splits)

lemma acts_keeps_sq: "acts f g m \<Longrightarrow> keeps f n \<Longrightarrow> acts f g (sq m n)"
  by (simp add: sq_def acts_keeps_bnd)

lemma acts_seqs_Cons: "acts f g (sq m (seqs ms)) \<Longrightarrow> acts f g (seqs (m # ms))"
  by simp

lemma acts_ret_id: "acts f id (ret x)"
  by (simp add: acts_def)

text \<open>A bracket: \<open>m\<close> changes \<open>f\<close> by \<open>g\<close>, and \<open>k\<close> by \<open>h\<close>.\<close>

lemma acts_comp:
  assumes "acts f g m" and "\<And>x. acts f h (k x)"
  shows "acts f (h \<circ> g) (bnd m k)"
  using assms unfolding acts_def bnd_def by (fastforce split: prod.splits sum.splits)

lemma acts_bnd_id: "acts f id m \<Longrightarrow> (\<And>x. acts f id (k x)) \<Longrightarrow> acts f id (bnd m k)"
  using acts_comp [of f id m id k] by simp

lemma acts_sq_id: "acts f id m \<Longrightarrow> acts f id n \<Longrightarrow> acts f id (sq m n)"
  by (simp add: sq_def acts_bnd_id)

lemma acts_bnd_then: "acts f id m \<Longrightarrow> (\<And>x. acts f g (k x)) \<Longrightarrow> acts f g (bnd m k)"
  using acts_comp [of f id m g k] by simp

lemma acts_sq_then: "acts f id m \<Longrightarrow> acts f g n \<Longrightarrow> acts f g (sq m n)"
  by (simp add: sq_def acts_bnd_then)

lemma acts_seqs_id: "acts f id m \<Longrightarrow> acts f id (seqs ms) \<Longrightarrow> acts f id (seqs (m # ms))"
  by (simp add: acts_sq_id)

lemma acts_seqs_Nil: "acts f id (seqs [])"
  by (simp add: acts_ret_id)

lemma acts_if [act]: "acts f g m \<Longrightarrow> acts f g n \<Longrightarrow> acts f g (if b then m else n)"
  by simp

lemma acts_option [act]:
  "acts f g m \<Longrightarrow> (\<And>x. acts f g (k x)) \<Longrightarrow> acts f g (case v of None \<Rightarrow> m | Some x \<Rightarrow> k x)"
  by (cases v) simp_all

lemma acts_Let [act]: "(\<And>x. acts f g (k x)) \<Longrightarrow> acts f g (Let v k)"
  by simp

text \<open>
  \<open>keeps_for p f m\<close>: \<open>m\<close> leaves \<open>f\<close> alone when it returns and when it raises an
  exception of \<open>p\<close>: what the handler of a \<open>try\<close> block needs.
\<close>

definition keeps_for :: "(pyexn \<Rightarrow> bool) \<Rightarrow> ('s \<Rightarrow> 'b) \<Rightarrow> ('s, 'a) M \<Rightarrow> bool" where
  "keeps_for p f m \<longleftrightarrow> (\<forall>s r s'. m s = (r, s') \<longrightarrow> (\<forall>e. r = Inl e \<longrightarrow> p e) \<longrightarrow> f s' = f s)"

lemma keeps_forD: "keeps_for p f m \<Longrightarrow> m s = (r, s') \<Longrightarrow> (\<And>e. r = Inl e \<Longrightarrow> p e) \<Longrightarrow> f s' = f s"
  by (auto simp: keeps_for_def)

lemma keeps_keeps_for: "keeps f m \<Longrightarrow> keeps_for p f m"
  by (auto simp: keeps_for_def dest: keepsD)

lemma keeps_for_bnd:
  assumes "keeps_for p f m" and "\<And>x. keeps_for p f (k x)"
  shows "keeps_for p f (bnd m k)"
  unfolding keeps_for_def
proof (intro allI impI)
  fix s r s' assume run: "bnd m k s = (r, s')" and r: "\<forall>e. r = Inl e \<longrightarrow> p e"
  obtain q t where q: "m s = (q, t)" by fastforce
  show "f s' = f s"
  proof (cases q)
    case (Inl e)
    with run q have "r = Inl e" "s' = t" by (simp_all add: bnd_def)
    with keeps_forD [OF assms(1) q] r Inl show ?thesis by simp
  next
    case (Inr x)
    with run q have k: "k x t = (r, s')" by (simp add: bnd_def)
    from keeps_forD [OF assms(1) q] keeps_forD [OF assms(2) k] r Inr show ?thesis by simp
  qed
qed

lemma keeps_for_sq: "keeps_for p f m \<Longrightarrow> keeps_for p f n \<Longrightarrow> keeps_for p f (sq m n)"
  by (simp add: sq_def keeps_for_bnd)

lemma keeps_for_seqs: "keeps_for p f m \<Longrightarrow> keeps_for p f (seqs ms) \<Longrightarrow> keeps_for p f (seqs (m # ms))"
  by (simp add: keeps_for_sq)

lemma acts_catch:
  assumes "keeps_for p f m" and "\<And>e. p e \<Longrightarrow> acts f id (h e)"
  shows "acts f id (catch m p h)"
  unfolding acts_def
proof (intro allI impI)
  fix s x s' assume run: "catch m p h s = (Inr x, s')"
  obtain q t where q: "m s = (q, t)" by fastforce
  show "f s' = id (f s)"
  proof (cases q)
    case (Inl e)
    with run q have "p e" "h e t = (Inr x, s')" by (auto simp: catch_def split: if_splits)
    with Inl keeps_forD [OF assms(1) q] actsD [OF assms(2)] show ?thesis by auto
  next
    case (Inr y)
    with run q have "s' = t" by (simp add: catch_def)
    with Inr keeps_forD [OF assms(1) q] show ?thesis by simp
  qed
qed

section \<open>Drift\<close>

text \<open>
  \<open>moves f V m\<close>: whatever happens, \<open>m\<close> leaves \<open>f\<close> as it was or takes it to a value in
  \<open>V\<close>.  \<open>lands f V m\<close>: when \<open>m\<close> returns normally, \<open>f\<close> is in \<open>V\<close>.
\<close>

definition moves :: "('s \<Rightarrow> 'b) \<Rightarrow> 'b set \<Rightarrow> ('s, 'a) M \<Rightarrow> bool" where
  "moves f V m \<longleftrightarrow> (\<forall>s. f (snd (m s)) \<in> insert (f s) V)"

definition lands :: "('s \<Rightarrow> 'b) \<Rightarrow> 'b set \<Rightarrow> ('s, 'a) M \<Rightarrow> bool" where
  "lands f V m \<longleftrightarrow> (\<forall>s x s'. m s = (Inr x, s') \<longrightarrow> f s' \<in> V)"

lemma movesD: "moves f V m \<Longrightarrow> m s = (r, s') \<Longrightarrow> f s' \<in> insert (f s) V"
  by (auto simp: moves_def dest: spec [of _ s])

lemma movesI: "(\<And>s r s'. m s = (r, s') \<Longrightarrow> f s' \<in> insert (f s) V) \<Longrightarrow> moves f V m"
  by (simp add: moves_def) (metis prod.collapse)

lemma landsD: "lands f V m \<Longrightarrow> m s = (Inr x, s') \<Longrightarrow> f s' \<in> V"
  by (auto simp: lands_def)

lemma keeps_moves: "keeps f m \<Longrightarrow> moves f V m"
  by (simp add: keeps_def moves_def)

lemma moves_none: "moves f {} m \<longleftrightarrow> keeps f m"
  by (simp add: keeps_def moves_def)

lemma moves_bnd [drift]:
  assumes "moves f V m" and "\<And>x. moves f V (k x)"
  shows "moves f V (bnd m k)"
proof (rule movesI)
  fix s r s' assume run: "bnd m k s = (r, s')"
  obtain q t where q: "m s = (q, t)" by fastforce
  with run movesD [OF assms(1) q] movesD [OF assms(2)] show "f s' \<in> insert (f s) V"
    by (cases q) (fastforce simp: bnd_def)+
qed

lemma moves_catch [drift]:
  assumes "moves f V m" and "\<And>e. moves f V (h e)"
  shows "moves f V (catch m p h)"
proof (rule movesI)
  fix s r s' assume run: "catch m p h s = (r, s')"
  obtain q t where q: "m s = (q, t)" by fastforce
  with run movesD [OF assms(1) q] movesD [OF assms(2)] show "f s' \<in> insert (f s) V"
    by (cases q) (fastforce simp: catch_def split: if_splits)+
qed

lemma moves_sq [drift]: "moves f V m \<Longrightarrow> moves f V n \<Longrightarrow> moves f V (sq m n)"
  by (simp add: sq_def moves_bnd)

lemma moves_pure [drift]: "moves f V (ret x)" "moves f V (raise e)" "moves f V (gets g)" "moves f V (seqs [])"
  by (auto intro!: keeps_moves frame)

lemma moves_seqs_Cons [drift]: "moves f V m \<Longrightarrow> moves f V (seqs ms) \<Longrightarrow> moves f V (seqs (m # ms))"
  by (simp add: moves_sq)

lemma moves_cases [drift]:
  "moves f V m \<Longrightarrow> moves f V n \<Longrightarrow> moves f V (if b then m else n)"
  "moves f V m \<Longrightarrow> (\<And>x. moves f V (k x)) \<Longrightarrow> moves f V (case v of None \<Rightarrow> m | Some x \<Rightarrow> k x)"
  "(\<And>x. moves f V (p x)) \<Longrightarrow> (\<And>x. moves f V (q x)) \<Longrightarrow> moves f V (case z of Inl x \<Rightarrow> p x | Inr x \<Rightarrow> q x)"
  "moves f V m \<Longrightarrow> (\<And>x xs. moves f V (g x xs)) \<Longrightarrow> moves f V (case l of [] \<Rightarrow> m | x # xs \<Rightarrow> g x xs)"
  "(\<And>x y. moves f V (h x y)) \<Longrightarrow> moves f V (case pr of (x, y) \<Rightarrow> h x y)"
  "(\<And>x. moves f V (j x)) \<Longrightarrow> moves f V (Let v' j)"
  by (simp_all split: option.split sum.split list.split prod.split)

lemma moves_for_each [drift]: "(\<And>x. moves f V (g x)) \<Longrightarrow> moves f V (for_each xs g)"
  by (induction xs) (auto intro: drift)

lemma moves_mono: "moves f V m \<Longrightarrow> V \<subseteq> W \<Longrightarrow> moves f W m"
  by (auto simp: moves_def)

text \<open>Once in \<open>V\<close>, a drift to \<open>V\<close> stays there.\<close>

lemma lands_bnd_any: "(\<And>x. lands f V (k x)) \<Longrightarrow> lands f V (bnd m k)"
  unfolding lands_def by (metis bnd_returnsE)

lemma lands_sq_any: "lands f V n \<Longrightarrow> lands f V (sq m n)"
  by (simp add: sq_def lands_bnd_any)

lemma lands_bnd_moves:
  assumes "lands f V m" and "\<And>x. moves f V (k x)"
  shows "lands f V (bnd m k)"
  unfolding lands_def
proof (intro allI impI)
  fix s y u assume "bnd m k s = (Inr y, u)"
  then obtain x t where m: "m s = (Inr x, t)" and k: "k x t = (Inr y, u)" by (rule bnd_returnsE)
  from landsD [OF assms(1) m] movesD [OF assms(2) k] show "f u \<in> V" by (simp add: insert_absorb)
qed

lemma lands_sq_moves: "lands f V m \<Longrightarrow> moves f V n \<Longrightarrow> lands f V (sq m n)"
  by (simp add: sq_def lands_bnd_moves)

lemma lands_seqs_moves: "lands f V m \<Longrightarrow> moves f V (seqs ms) \<Longrightarrow> lands f V (seqs (m # ms))"
  by (simp add: lands_sq_moves)

lemma lands_raise: "lands f V (raise e)"
  by (simp add: lands_def)

lemma lands_cases:
  "lands f V m \<Longrightarrow> lands f V n \<Longrightarrow> lands f V (if b then m else n)"
  "lands f V m \<Longrightarrow> (\<And>x. lands f V (k x)) \<Longrightarrow> lands f V (case v of None \<Rightarrow> m | Some x \<Rightarrow> k x)"
  "(\<And>x. lands f V (j x)) \<Longrightarrow> lands f V (Let v' j)"
  by (simp_all split: option.split)

section \<open>Results\<close>

text \<open>\<open>avoids e m\<close>: \<open>m\<close> never raises \<open>e\<close>.\<close>

definition avoids :: "pyexn \<Rightarrow> ('s, 'a) M \<Rightarrow> bool" where
  "avoids e m \<longleftrightarrow> (\<forall>s. fst (m s) \<noteq> Inl e)"

text \<open>\<open>returns P m\<close>: when \<open>m\<close> returns, its value satisfies \<open>P\<close>.\<close>

definition returns :: "('a \<Rightarrow> bool) \<Rightarrow> ('s, 'a) M \<Rightarrow> bool" where
  "returns P m \<longleftrightarrow> (\<forall>s x s'. m s = (Inr x, s') \<longrightarrow> P x)"

lemma avoidsD: "avoids e m \<Longrightarrow> m s \<noteq> (Inl e, s')"
  by (auto simp: avoids_def dest: spec [of _ s])

lemma acts_keeps_for: "acts f id m \<Longrightarrow> (\<And>e. p e \<Longrightarrow> avoids e m) \<Longrightarrow> keeps_for p f m"
  unfolding keeps_for_def
proof (intro allI impI)
  fix s r s' assume m: "acts f id m" "\<And>e. p e \<Longrightarrow> avoids e m" "m s = (r, s')" "\<forall>e. r = Inl e \<longrightarrow> p e"
  show "f s' = f s"
  proof (cases r)
    case (Inl e)
    with m(2-4) avoidsD [of e m s s'] show ?thesis by simp
  next
    case (Inr x)
    with actsD [OF m(1)] m(3) show ?thesis by simp
  qed
qed

lemma avoids_ret [total]: "avoids e (ret x)"
  by (simp add: avoids_def)

lemma avoids_raise [total]: "e' \<noteq> e \<Longrightarrow> avoids e (raise e')"
  by (simp add: avoids_def)

lemma avoids_gets [total]: "avoids e (gets g)"
  by (simp add: avoids_def)

lemma avoids_modify [total]: "avoids e (modify g)"
  by (simp add: avoids_def)

lemma avoids_bnd [total]: "avoids e m \<Longrightarrow> (\<And>x. avoids e (k x)) \<Longrightarrow> avoids e (bnd m k)"
  by (simp add: avoids_def bnd_def split: prod.splits sum.splits) (metis fst_conv)

lemma avoids_sq [total]: "avoids e m \<Longrightarrow> avoids e n \<Longrightarrow> avoids e (sq m n)"
  by (simp add: sq_def avoids_bnd)

lemma avoids_seqs_Nil [total]: "avoids e (seqs [])"
  by (simp add: avoids_ret)

lemma avoids_seqs_Cons [total]: "avoids e m \<Longrightarrow> avoids e (seqs ms) \<Longrightarrow> avoids e (seqs (m # ms))"
  by (simp add: avoids_sq)

lemma avoids_if [total]: "avoids e m \<Longrightarrow> avoids e n \<Longrightarrow> avoids e (if b then m else n)"
  by simp

lemma avoids_option [total]:
  "avoids e m \<Longrightarrow> (\<And>x. avoids e (k x)) \<Longrightarrow> avoids e (case v of None \<Rightarrow> m | Some x \<Rightarrow> k x)"
  by (cases v) simp_all

lemma avoids_sum [total]:
  "(\<And>x. avoids e (m x)) \<Longrightarrow> (\<And>x. avoids e (k x)) \<Longrightarrow> avoids e (case v of Inl x \<Rightarrow> m x | Inr x \<Rightarrow> k x)"
  by (cases v) simp_all

lemma avoids_prod [total]: "(\<And>x y. avoids e (k x y)) \<Longrightarrow> avoids e (case v of (x, y) \<Rightarrow> k x y)"
  by (cases v) simp_all

lemma avoids_list [total]:
  "avoids e m \<Longrightarrow> (\<And>x xs. avoids e (k x xs)) \<Longrightarrow> avoids e (case v of [] \<Rightarrow> m | x # xs \<Rightarrow> k x xs)"
  by (cases v) simp_all

lemma avoids_Let [total]: "(\<And>x. avoids e (k x)) \<Longrightarrow> avoids e (Let v k)"
  by simp

lemma avoids_fold_m: "(\<And>x a. avoids e (g x a)) \<Longrightarrow> avoids e (fold_m g xs acc)"
  by (induction xs arbitrary: acc) (auto intro: total)

lemma returnsD: "returns P m \<Longrightarrow> m s = (Inr x, s') \<Longrightarrow> P x"
  by (auto simp: returns_def)

lemma returns_ret [post]: "P x \<Longrightarrow> returns P (ret x)"
  by (simp add: returns_def)

lemma returns_raise [post]: "returns P (raise e)"
  by (simp add: returns_def)

lemma returns_bnd:
  assumes "returns Q m" and "\<And>x. Q x \<Longrightarrow> returns P (k x)"
  shows "returns P (bnd m k)"
  unfolding returns_def bnd_def
proof (intro allI impI)
  fix s x s'
  assume "(case m s of (Inl e, s') \<Rightarrow> (Inl e, s') | (Inr x, s') \<Rightarrow> k x s') = (Inr x, s')"
  then obtain y t where m: "m s = (Inr y, t)" and k: "k y t = (Inr x, s')"
    by (auto split: prod.splits sum.splits)
  from assms(2) [OF returnsD [OF assms(1) m]] k show "P x" by (rule returnsD)
qed

lemma returns_bnd_any [post]: "(\<And>x. returns P (k x)) \<Longrightarrow> returns P (bnd m k)"
  by (rule returns_bnd [where Q = "\<lambda>_. True"]) (simp_all add: returns_def)

lemma returns_sq [post]: "returns P n \<Longrightarrow> returns P (sq m n)"
  by (simp add: sq_def returns_bnd_any)

lemma returns_if: "(b \<Longrightarrow> returns P m) \<Longrightarrow> (\<not> b \<Longrightarrow> returns P n) \<Longrightarrow> returns P (if b then m else n)"
  by simp

end
