(* ===== verification/States.thy ===== *)
theory States
  imports Prelude
begin

text \<open>
  The main state of an environment (\<open>state.py\<close>), the events the modelled code
  generates, and the table of the status monitor (\<open>state_transitions.py\<close>) that maps a
  main state and a reported Tableau status to a new state and events.  The table is
  kept as the nested dictionary it is in Python, because the status monitor looks keys
  up at both levels.
\<close>

section \<open>Main states\<close>

datatype mstate =
    STATE_DISCONNECTED
  | STATE_PENDING
  | STATE_STOPPING
  | STATE_STOPPING_RESTORE
  | STATE_STOPPED
  | STATE_STOPPED_UNEXPECTED
  | STATE_STOPPED_RESTORE
  | STATE_STOPPED_BACKUP
  | STATE_STOPPED_BACKUP_RESTORE
  | STATE_STOPPED_FILEDEL
  | STATE_STOPPED_ZIPLOGS
  | STATE_STARTING
  | STATE_STARTING_RESTORE
  | STATE_STARTED
  | STATE_STARTED_BACKUP
  | STATE_STARTED_BACKUP_RESTORE
  | STATE_STARTED_BACKUP_STOP
  | STATE_STARTED_BACKUP_RESTART
  | STATE_RESTARTING
  | STATE_STARTED_FILEDEL
  | STATE_STARTED_ZIPLOGS
  | STATE_STARTED_CLEANUP
  | STATE_STOPPED_CLEANUP
  | STATE_DEGRADED
  | STATE_UPGRADING
  | STATE_PRIMARY_NOT_ENABLED

fun state_name :: "mstate \<Rightarrow> string" where
  "state_name STATE_DISCONNECTED = ''DISCONNECTED''"
| "state_name STATE_PENDING = ''PENDING''"
| "state_name STATE_STOPPING = ''STOPPING''"
| "state_name STATE_STOPPING_RESTORE = ''STOPPING-RESTORE''"
| "state_name STATE_STOPPED = ''STOPPED''"
| "state_name STATE_STOPPED_UNEXPECTED = ''STOPPED-UNEXPECTED''"
| "state_name STATE_STOPPED_RESTORE = ''STOPPED-RESTORE''"
| "state_name STATE_STOPPED_BACKUP = ''STOPPED-BACKUP''"
| "state_name STATE_STOPPED_BACKUP_RESTORE = ''STOPPED-BACKUP-RESTORE''"
| "state_name STATE_STOPPED_FILEDEL = ''STOPPED-FILEDEL''"
| "state_name STATE_STOPPED_ZIPLOGS = ''STOPPED-ZIPLOGS''"
| "state_name STATE_STARTING = ''STARTING''"
| "state_name STATE_STARTING_RESTORE = ''STARTING-RESTORE''"
| "state_name STATE_STARTED = ''STARTED''"
| "state_name STATE_STARTED_BACKUP = ''STARTED-BACKUP''"
| "state_name STATE_STARTED_BACKUP_RESTORE = ''STARTED-BACKUP-RESTORE''"
| "state_name STATE_STARTED_BACKUP_STOP = ''STARTED-BACKUP-STOP''"
| "state_name STATE_STARTED_BACKUP_RESTART = ''STARTED-BACKUP-RESTART''"
| "state_name STATE_RESTARTING = ''RESTARTING''"
| "state_name STATE_STARTED_FILEDEL = ''STARTED-FILEDEL''"
| "state_name STATE_STARTED_ZIPLOGS = ''STARTED-ZIPLOGS''"
| "state_name STATE_STARTED_CLEANUP = ''STARTED-CLEANUP''"
| "state_name STATE_STOPPED_CLEANUP = ''STOPPED-CLEANUP''"
| "state_name STATE_DEGRADED = ''DEGRADED''"
| "state_name STATE_UPGRADING = ''UPGRADING''"
| "state_name STATE_PRIMARY_NOT_ENABLED = ''PRIMARY-NOT-ENABLED''"

section \<open>Reported Tableau status\<close>

definition STATUS_RUNNING :: string where "STATUS_RUNNING = ''RUNNING''"
definition STATUS_STOPPED :: string where "STATUS_STOPPED = ''STOPPED''"
definition STATUS_DEGRADED :: string where "STATUS_DEGRADED = ''DEGRADED''"
definition STATUS_UNKNOWN :: string where "STATUS_UNKNOWN = ''UNKNOWN''"

lemmas status_defs = STATUS_RUNNING_def STATUS_STOPPED_def STATUS_DEGRADED_def STATUS_UNKNOWN_def

section \<open>Event keys\<close>

text \<open>
  An event key is its string; the names are those of \<open>EventControl\<close>.
\<close>

datatype ekey = EV string

abbreviation EV_INIT_STATE_STARTED :: ekey where "EV_INIT_STATE_STARTED \<equiv> EV ''INIT-STATE-STARTED''"
abbreviation EV_INIT_STATE_STOPPED :: ekey where "EV_INIT_STATE_STOPPED \<equiv> EV ''INIT-STATE-STOPPED''"
abbreviation EV_INIT_STATE_DEGRADED :: ekey where "EV_INIT_STATE_DEGRADED \<equiv> EV ''INIT-STATE-DEGRADED''"
abbreviation EV_STATE_STARTED :: ekey where "EV_STATE_STARTED \<equiv> EV ''STATE-STARTED''"
abbreviation EV_STATE_STOPPED :: ekey where "EV_STATE_STOPPED \<equiv> EV ''STATE-STOPPED''"
abbreviation EV_STATE_DEGRADED :: ekey where "EV_STATE_DEGRADED \<equiv> EV ''STATE-DEGRADED''"
abbreviation EV_STATE_STARTED_AFTER_DEGRADED :: ekey where "EV_STATE_STARTED_AFTER_DEGRADED \<equiv> EV ''STATE-STARTED-AFTER-DEGRADED''"
abbreviation EV_STATE_UNEXPECTED_STATE_STOPPED :: ekey where "EV_STATE_UNEXPECTED_STATE_STOPPED \<equiv> EV ''STATE-UNEXPECTED-STOPPED''"
abbreviation EV_STATE_UNEXPECTED_STATE_STARTED :: ekey where "EV_STATE_UNEXPECTED_STATE_STARTED \<equiv> EV ''STATE-UNEXPECTED-STARTED''"
abbreviation EV_BACKUP_STARTED :: ekey where "EV_BACKUP_STARTED \<equiv> EV ''BACKUP-STARTED''"
abbreviation EV_BACKUP_FINISHED :: ekey where "EV_BACKUP_FINISHED \<equiv> EV ''BACKUP-FINISHED''"
abbreviation EV_BACKUP_FINISHED_COPY_FAILED :: ekey where "EV_BACKUP_FINISHED_COPY_FAILED \<equiv> EV ''BACKUP-FINISHED-COPY-FAILED''"
abbreviation EV_BACKUP_FAILED :: ekey where "EV_BACKUP_FAILED \<equiv> EV ''BACKUP-FAILED''"
abbreviation EV_BACKUP_STARTED_SCHEDULED :: ekey where "EV_BACKUP_STARTED_SCHEDULED \<equiv> EV ''BACKUP-STARTED-SCHEDULED''"
abbreviation EV_BACKUP_FINISHED_SCHEDULED :: ekey where "EV_BACKUP_FINISHED_SCHEDULED \<equiv> EV ''BACKUP-FINISHED-SCHEDULED''"
abbreviation EV_BACKUP_FAILED_SCHEDULED :: ekey where "EV_BACKUP_FAILED_SCHEDULED \<equiv> EV ''BACKUP-FAILED-SCHEDULED''"
abbreviation EV_BACKUP_BEFORE_STOP_STARTED :: ekey where "EV_BACKUP_BEFORE_STOP_STARTED \<equiv> EV ''BACKUP-BEFORE-STOP-STARTED''"
abbreviation EV_BACKUP_BEFORE_STOP_FINISHED :: ekey where "EV_BACKUP_BEFORE_STOP_FINISHED \<equiv> EV ''BACKUP-BEFORE-STOP-FINISHED''"
abbreviation EV_BACKUP_BEFORE_STOP_FAILED :: ekey where "EV_BACKUP_BEFORE_STOP_FAILED \<equiv> EV ''BACKUP-BEFORE-STOP-FAILED''"
abbreviation EV_BACKUP_BEFORE_RESTART_STARTED :: ekey where "EV_BACKUP_BEFORE_RESTART_STARTED \<equiv> EV ''BACKUP-BEFORE-RESTART-STARTED''"
abbreviation EV_BACKUP_BEFORE_RESTART_FINISHED :: ekey where "EV_BACKUP_BEFORE_RESTART_FINISHED \<equiv> EV ''BACKUP-BEFORE-RESTART-FINISHED''"
abbreviation EV_BACKUP_BEFORE_RESTART_FAILED :: ekey where "EV_BACKUP_BEFORE_RESTART_FAILED \<equiv> EV ''BACKUP-BEFORE-RESTART-FAILED''"
abbreviation EV_BACKUP_BEFORE_RESTORE_STARTED :: ekey where "EV_BACKUP_BEFORE_RESTORE_STARTED \<equiv> EV ''BACKUP-BEFORE-RESTORE-STARTED''"
abbreviation EV_BACKUP_BEFORE_RESTORE_FINISHED :: ekey where "EV_BACKUP_BEFORE_RESTORE_FINISHED \<equiv> EV ''BACKUP-BEFORE-RESTORE-FINISHED''"
abbreviation EV_BACKUP_BEFORE_RESTORE_FAILED :: ekey where "EV_BACKUP_BEFORE_RESTORE_FAILED \<equiv> EV ''BACKUP-BEFORE-RESTORE-FAILED''"
abbreviation EV_RESTART_STARTED :: ekey where "EV_RESTART_STARTED \<equiv> EV ''RESTART-STARTED''"
abbreviation EV_RESTART_FINISHED :: ekey where "EV_RESTART_FINISHED \<equiv> EV ''RESTART-FINISHED''"
abbreviation EV_RESTART_FAILED :: ekey where "EV_RESTART_FAILED \<equiv> EV ''RESTART-FAILED''"
abbreviation EV_RESTORE_STARTED :: ekey where "EV_RESTORE_STARTED \<equiv> EV ''RESTORE-STARTED''"
abbreviation EV_RESTORE_FINISHED :: ekey where "EV_RESTORE_FINISHED \<equiv> EV ''RESTORE-FINISHED''"
abbreviation EV_RESTORE_FAILED :: ekey where "EV_RESTORE_FAILED \<equiv> EV ''RESTORE-FAILED''"
abbreviation EV_TABLEAU_START_FAILED :: ekey where "EV_TABLEAU_START_FAILED \<equiv> EV ''TABLEAU-START-FAILED''"
abbreviation EV_MAINT_START_FAILED :: ekey where "EV_MAINT_START_FAILED \<equiv> EV ''MAINT-START-FAILED''"
abbreviation EV_MAINT_STOP_FAILED :: ekey where "EV_MAINT_STOP_FAILED \<equiv> EV ''MAINT-STOP-FAILED''"
abbreviation EV_MAINT_OFFLINE :: ekey where "EV_MAINT_OFFLINE \<equiv> EV ''MAINT-OFFLINE''"
abbreviation EV_MAINT_ONLINE :: ekey where "EV_MAINT_ONLINE \<equiv> EV ''MAINT-ONLINE''"
abbreviation EV_ARCHIVE_START_FAILED :: ekey where "EV_ARCHIVE_START_FAILED \<equiv> EV ''ARCHIVE-START-FAILED''"
abbreviation EV_ARCHIVE_STOP_FAILED :: ekey where "EV_ARCHIVE_STOP_FAILED \<equiv> EV ''ARCHIVE-STOP-FAILED''"
abbreviation EV_AGENT_DISCONNECT :: ekey where "EV_AGENT_DISCONNECT \<equiv> EV ''AGENT-DISCONNECT''"
abbreviation EV_LICENSE_INVALID :: ekey where "EV_LICENSE_INVALID \<equiv> EV ''LICENSE-INVALID''"
abbreviation EV_LICENSE_VALID :: ekey where "EV_LICENSE_VALID \<equiv> EV ''LICENSE-VALID''"
abbreviation EV_LICENSE_REPAIR_STARTED :: ekey where "EV_LICENSE_REPAIR_STARTED \<equiv> EV ''LICENSE-REPAIR-STARTED''"
abbreviation EV_LICENSE_REPAIR_FINISHED :: ekey where "EV_LICENSE_REPAIR_FINISHED \<equiv> EV ''LICENSE-REPAIR-FINISHED''"
abbreviation EV_LICENSE_REPAIR_FAILED :: ekey where "EV_LICENSE_REPAIR_FAILED \<equiv> EV ''LICENSE-REPAIR-FAILED''"
abbreviation EV_PHONE_HOME_FAILED :: ekey where "EV_PHONE_HOME_FAILED \<equiv> EV ''PHONE-HOME-FAILED''"
abbreviation EV_PHONE_HOME_OK :: ekey where "EV_PHONE_HOME_OK \<equiv> EV ''PHONE-HOME-OK''"
abbreviation EV_AGENT_COMMUNICATION :: ekey where "EV_AGENT_COMMUNICATION \<equiv> EV ''AGENT-COMMUNICATION''"
abbreviation EV_SCHEDULED_JOB_FAILED :: ekey where "EV_SCHEDULED_JOB_FAILED \<equiv> EV ''SCHEDULE-JOB-FAILED''"
abbreviation EV_ZIPLOGS_STARTED :: ekey where "EV_ZIPLOGS_STARTED \<equiv> EV ''ZIPLOGS-STARTED''"
abbreviation EV_ZIPLOGS_FINISHED :: ekey where "EV_ZIPLOGS_FINISHED \<equiv> EV ''ZIPLOGS-FINISHED''"
abbreviation EV_ZIPLOGS_FAILED :: ekey where "EV_ZIPLOGS_FAILED \<equiv> EV ''ZIPLOGS-FAILED''"
abbreviation EV_CLEANUP_STARTED :: ekey where "EV_CLEANUP_STARTED \<equiv> EV ''CLEANUP-STARTED''"
abbreviation EV_CLEANUP_FINISHED :: ekey where "EV_CLEANUP_FINISHED \<equiv> EV ''CLEANUP-FINISHED''"
abbreviation EV_CLEANUP_FAILED :: ekey where "EV_CLEANUP_FAILED \<equiv> EV ''CLEANUP-FAILED''"
abbreviation EV_FIREWALL_OPEN_FAILED :: ekey where "EV_FIREWALL_OPEN_FAILED \<equiv> EV ''FIREWALL-OPEN-FAILED''"
abbreviation EV_PORT_CONNECTION_FAILED :: ekey where "EV_PORT_CONNECTION_FAILED \<equiv> EV ''PORT-CONNECTION-FAILED''"
abbreviation EV_PORT_CONNECTION_OKAY :: ekey where "EV_PORT_CONNECTION_OKAY \<equiv> EV ''PORT-CONNECTION-OKAY''"
abbreviation EV_DISK_USAGE_ABOVE_HIGH_WATERMERK :: ekey where "EV_DISK_USAGE_ABOVE_HIGH_WATERMERK \<equiv> EV ''DISK-USAGE-ABOVE-HIGH-WATERMARK''"
abbreviation EV_DISK_USAGE_ABOVE_LOW_WATERMARK :: ekey where "EV_DISK_USAGE_ABOVE_LOW_WATERMARK \<equiv> EV ''DISK-USAGE-ABOVE-LOW-WATERMARK''"
abbreviation EV_DISK_USAGE_OKAY :: ekey where "EV_DISK_USAGE_OKAY \<equiv> EV ''DISK-USAGE-OKAY''"
abbreviation EV_CPU_LOAD_ABOVE_HIGH_WATERMARK :: ekey where "EV_CPU_LOAD_ABOVE_HIGH_WATERMARK \<equiv> EV ''CPU-LOAD-ABOVE-HIGH-WATERMARK''"
abbreviation EV_CPU_LOAD_PROCESS_ABOVE_HIGH_WATERMARK :: ekey where "EV_CPU_LOAD_PROCESS_ABOVE_HIGH_WATERMARK \<equiv> EV ''CPU-LOAD-PROCESS-ABOVE-HIGH-WATERMARK''"
abbreviation EV_CPU_LOAD_ABOVE_LOW_WATERMARK :: ekey where "EV_CPU_LOAD_ABOVE_LOW_WATERMARK \<equiv> EV ''CPU-LOAD-ABOVE-LOW-WATERMARK''"
abbreviation EV_CPU_LOAD_PROCESS_ABOVE_LOW_WATERMARK :: ekey where "EV_CPU_LOAD_PROCESS_ABOVE_LOW_WATERMARK \<equiv> EV ''CPU-LOAD-PROCESS-ABOVE-LOW-WATERMARK''"
abbreviation EV_CPU_LOAD_OKAY :: ekey where "EV_CPU_LOAD_OKAY \<equiv> EV ''CPU-LOAD-OKAY''"
abbreviation EV_CPU_LOAD_PROCESS_OKAY :: ekey where "EV_CPU_LOAD_PROCESS_OKAY \<equiv> EV ''CPU-LOAD-PROCESS-OKAY''"
abbreviation EV_MEMORY_PROCESS_ABOVE_HIGH_WATERMARK :: ekey where "EV_MEMORY_PROCESS_ABOVE_HIGH_WATERMARK \<equiv> EV ''MEMORY-PROCESS-ABOVE-HIGH-WATERMARK''"
abbreviation EV_MEMORY_PROCESS_ABOVE_LOW_WATERMARK :: ekey where "EV_MEMORY_PROCESS_ABOVE_LOW_WATERMARK \<equiv> EV ''MEMORY-PROCESS-ABOVE-LOW-WATERMARK''"
abbreviation EV_MEMORY_PROCESS_OKAY :: ekey where "EV_MEMORY_PROCESS_OKAY \<equiv> EV ''MEMORY-PROCESS-OKAY''"
abbreviation EV_EMAIL_TEST :: ekey where "EV_EMAIL_TEST \<equiv> EV ''EMAIL-TEST''"
abbreviation EV_EMAIL_SPIKE :: ekey where "EV_EMAIL_SPIKE \<equiv> EV ''EMAIL-SPIKE''"
abbreviation EV_WORKBOOK_REFRESH_ARCHIVE_FAILED :: ekey where "EV_WORKBOOK_REFRESH_ARCHIVE_FAILED \<equiv> EV ''WORKBOOK-REFRESH-ARCHIVE-FAILED''"
abbreviation EV_DATASOURCE_REFRESH_ARCHIVE_FAILED :: ekey where "EV_DATASOURCE_REFRESH_ARCHIVE_FAILED \<equiv> EV ''DATASOURCE-REFRESH-ARCHIVE-FAILED''"
abbreviation EV_SYSTEM_EXCEPTION :: ekey where "EV_SYSTEM_EXCEPTION \<equiv> EV ''SYSTEM-EXCEPTION''"
abbreviation EV_SYSTEMINFO_FAILED :: ekey where "EV_SYSTEMINFO_FAILED \<equiv> EV ''SYSTEMINFO-FAILED''"
abbreviation EV_SYSTEMINFO_OKAY :: ekey where "EV_SYSTEMINFO_OKAY \<equiv> EV ''SYSTEMINFO-OKAY''"
abbreviation EV_BACKUP_FINISHED_SCHEDULED_COPY_FAILED :: ekey where "EV_BACKUP_FINISHED_SCHEDULED_COPY_FAILED \<equiv> EV ''BACKUP-FINISHED-SCHEDULED-COPY-FAILED''"
abbreviation EV_BACKUP_BEFORE_STOP_FINISHED_COPY_FAILED :: ekey where "EV_BACKUP_BEFORE_STOP_FINISHED_COPY_FAILED \<equiv> EV ''BACKUP-BEFORE-STOP-FINISHED-COPY-FAILED''"
abbreviation EV_BACKUP_BEFORE_RESTART_FINISHED_COPY_FAILED :: ekey where "EV_BACKUP_BEFORE_RESTART_FINISHED_COPY_FAILED \<equiv> EV ''BACKUP-BEFORE-RESTART-FINISHED-COPY-FAILED''"
abbreviation EV_BACKUP_BEFORE_RESTORE_FINISHED_COPY_FAILED :: ekey where "EV_BACKUP_BEFORE_RESTORE_FINISHED_COPY_FAILED \<equiv> EV ''BACKUP-BEFORE-RESTORE-FINISHED-COPY-FAILED''"
abbreviation EV_TABLEAU_ADMIN_CREDENTIALS_FAILED_EXTRACTS :: ekey where "EV_TABLEAU_ADMIN_CREDENTIALS_FAILED_EXTRACTS \<equiv> EV ''TABLEAU-ADMIN-CREDENTIALS-FAILED-EXTRACTS''"

section \<open>The transition table\<close>

text \<open>
  Values of the dictionaries of \<open>state_transitions.py\<close>: a state, one event, a list of
  events, \<open>True\<close>, or a dictionary again.
\<close>

datatype dval =
    DState mstate
  | DEvent ekey
  | DEvents "ekey list"
  | DTrue
  | DDict "(string \<times> dval) list"

type_synonym ddict = "(string \<times> dval) list"

definition STOP_DICT :: ddict where
  "STOP_DICT =
    [(STATUS_RUNNING, DDict
        [(''state'', DState STATE_STARTED),
         (''events'', DEvent EV_STATE_UNEXPECTED_STATE_STARTED),
         (''maint-stop'', DTrue)]),
     (STATUS_STOPPED, DDict [(''state'', DState STATE_STOPPED)]),
     (STATUS_DEGRADED, DDict
        [(''state'', DState STATE_DEGRADED),
         (''events'', DEvents [EV_STATE_UNEXPECTED_STATE_STARTED, EV_STATE_DEGRADED]),
         (''maint-stop'', DTrue)])]"

definition START_DICT :: ddict where
  "START_DICT =
    [(STATUS_RUNNING, DDict [(''state'', DState STATE_STARTED)]),
     (STATUS_STOPPED, DDict
        [(''state'', DState STATE_STOPPED_UNEXPECTED),
         (''events'', DEvent EV_STATE_UNEXPECTED_STATE_STOPPED)]),
     (STATUS_DEGRADED, DDict
        [(''state'', DState STATE_DEGRADED),
         (''events'', DEvent EV_STATE_DEGRADED)])]"

definition TRANSITIONS :: "(mstate \<times> ddict) list" where
  "TRANSITIONS =
    [(STATE_PENDING,
       [(STATUS_RUNNING, DDict
           [(''state'', DState STATE_STARTED), (''events'', DEvent EV_INIT_STATE_STARTED)]),
        (STATUS_STOPPED, DDict
           [(''state'', DState STATE_STOPPED), (''events'', DEvent EV_INIT_STATE_STOPPED)]),
        (STATUS_DEGRADED, DDict
           [(''state'', DState STATE_DEGRADED), (''events'', DEvent EV_INIT_STATE_DEGRADED)])]),
     (STATE_STOPPED, STOP_DICT),
     (STATE_STOPPING, STOP_DICT),
     (STATE_STOPPING_RESTORE, STOP_DICT),
     (STATE_STOPPED_UNEXPECTED,
       [(STATUS_RUNNING, DDict
           [(''state'', DState STATE_STARTED),
            (''events'', DEvent EV_STATE_UNEXPECTED_STATE_STARTED),
            (''maint-stop'', DTrue)]),
        (STATUS_STOPPED, DDict []),
        (STATUS_DEGRADED, DDict
           [(''state'', DState STATE_DEGRADED),
            (''events'', DEvents [EV_STATE_UNEXPECTED_STATE_STARTED, EV_STATE_DEGRADED]),
            (''maint-stop'', DTrue)])]),
     (STATE_STARTED, START_DICT),
     (STATE_STARTING, START_DICT),
     (STATE_STARTING_RESTORE, STOP_DICT),
     (STATE_RESTARTING, START_DICT),
     (STATE_DEGRADED,
       [(STATUS_RUNNING, DDict
           [(''state'', DState STATE_STARTED),
            (''events'', DEvent EV_STATE_STARTED_AFTER_DEGRADED)]),
        (STATUS_STOPPED, DDict
           [(''state'', DState STATE_STOPPED_UNEXPECTED),
            (''events'', DEvent EV_STATE_UNEXPECTED_STATE_STOPPED)]),
        (STATUS_DEGRADED, DDict [(''events'', DEvent EV_STATE_DEGRADED)])])]"

text \<open>\<open>TRANSITIONS[prev_state][tableau_status]\<close>; \<open>None\<close> is the KeyError.\<close>

definition transition :: "mstate \<Rightarrow> string \<Rightarrow> ddict option" where
  "transition prev status =
     (case map_of TRANSITIONS prev of
        None \<Rightarrow> None
      | Some d \<Rightarrow> (case map_of d status of Some (DDict info) \<Rightarrow> Some info | _ \<Rightarrow> None))"

text \<open>\<open>info['state']\<close> where the key is present.\<close>

definition info_state :: "ddict \<Rightarrow> mstate option" where
  "info_state info = (case map_of info ''state'' of Some (DState s) \<Rightarrow> Some s | _ \<Rightarrow> None)"

text \<open>The \<open>'events'\<close> entry, with a single event made a list.\<close>

definition info_events :: "ddict \<Rightarrow> ekey list" where
  "info_events info =
     (case map_of info ''events'' of
        Some (DEvent e) \<Rightarrow> [e]
      | Some (DEvents es) \<Rightarrow> es
      | _ \<Rightarrow> [])"

section \<open>Facts about the table\<close>

lemmas table_defs = TRANSITIONS_def STOP_DICT_def START_DICT_def status_defs

definition known_status :: "string \<Rightarrow> bool" where
  "known_status s \<longleftrightarrow> s \<in> {STATUS_RUNNING, STATUS_STOPPED, STATUS_DEGRADED}"

definition resting_states :: "mstate set" where
  "resting_states = {STATE_STARTED, STATE_STOPPED, STATE_STOPPED_UNEXPECTED, STATE_DEGRADED}"

lemma known_status_cases:
  assumes "known_status s"
  obtains "s = STATUS_RUNNING" | "s = STATUS_STOPPED" | "s = STATUS_DEGRADED"
  using assms by (auto simp: known_status_def)

lemma status_distinct [simp]:
  "STATUS_RUNNING \<noteq> STATUS_STOPPED" "STATUS_STOPPED \<noteq> STATUS_RUNNING"
  "STATUS_RUNNING \<noteq> STATUS_DEGRADED" "STATUS_DEGRADED \<noteq> STATUS_RUNNING"
  "STATUS_STOPPED \<noteq> STATUS_DEGRADED" "STATUS_DEGRADED \<noteq> STATUS_STOPPED"
  "STATUS_UNKNOWN \<noteq> STATUS_RUNNING" "STATUS_UNKNOWN \<noteq> STATUS_STOPPED"
  "STATUS_UNKNOWN \<noteq> STATUS_DEGRADED"
  by (simp_all add: status_defs)

lemma dom_TRANSITIONS:
  "map_of TRANSITIONS s \<noteq> None \<longleftrightarrow>
     s \<in> {STATE_PENDING, STATE_STOPPED, STATE_STOPPING, STATE_STOPPING_RESTORE,
          STATE_STOPPED_UNEXPECTED, STATE_STARTED, STATE_STARTING, STATE_STARTING_RESTORE,
          STATE_RESTARTING, STATE_DEGRADED}"
  by (cases s) (simp_all add: TRANSITIONS_def)

lemma transition_total:
  assumes "map_of TRANSITIONS s \<noteq> None" and "known_status st"
  shows "transition s st \<noteq> None"
  using assms(2)
proof (cases rule: known_status_cases)
  case 1
  with assms(1) show ?thesis by (cases s) (simp_all add: transition_def table_defs)
next
  case 2
  with assms(1) show ?thesis by (cases s) (simp_all add: transition_def table_defs)
next
  case 3
  with assms(1) show ?thesis by (cases s) (simp_all add: transition_def table_defs)
qed

end
