(* ===== verification/RWLock.thy ===== *)
theory RWLock
  imports Prelude
begin

text \<open>
  \<open>rwlock.py\<close>: the reader-writer lock that guards upgrades.  First the lock's fields
  and the body of each method as a function that either finishes, waits on one of the
  two condition variables, or raises; then the threads that use it, as a step relation
  in which every acquisition of the internal \<open>monitor\<close> is one atomic step.
\<close>

section \<open>The lock and its methods\<close>

text \<open>
  \<open>rwlock\<close> counts readers, \<open>-1\<close> is a writer; \<open>monitor\<close> tells whether the internal
  mutex is held when no method is running: it is released on every way out of a method
  but the two \<open>raise RuntimeError\<close>.
\<close>

record rwl =
  rwlock :: int
  writers_waiting :: nat
  monitor :: bool

definition rw_init :: rwl where
  "rw_init = \<lparr>rwlock = 0, writers_waiting = 0, monitor = False\<rparr>"

datatype wake = WakeNone | WakeWriter | WakeReaders

text \<open>
  Outcome of a method entered by a thread: it returns a value, it must wait (on the
  monitor or on a condition variable), or it raises.
\<close>

datatype 'a outcome = Done 'a rwl | Waits rwl | Raises pyexn rwl

definition read_acquire :: "bool \<Rightarrow> rwl \<Rightarrow> bool outcome" where
  "read_acquire blocking l =
     (if monitor l then Waits l
      else if rwlock l < 0 \<or> writers_waiting l \<noteq> 0 then
        (if \<not> blocking then Done False l else Waits l)
      else Done True (l\<lparr>rwlock := rwlock l + 1\<rparr>))"

definition write_acquire :: "rwl \<Rightarrow> unit outcome" where
  "write_acquire l =
     (if monitor l then Waits l
      else if rwlock l \<noteq> 0 then Waits (l\<lparr>writers_waiting := writers_waiting l + 1\<rparr>)
      else Done () (l\<lparr>rwlock := -1\<rparr>))"

text \<open>\<open>finish_release\<close>: which waiters to notify; the monitor is released.\<close>

definition finish_release :: "rwl \<Rightarrow> wake \<times> rwl" where
  "finish_release l =
     (let wake_writers = (writers_waiting l \<noteq> 0 \<and> rwlock l = 0);
          wake_readers = (writers_waiting l = 0)
      in (if wake_writers then WakeWriter else if wake_readers then WakeReaders else WakeNone,
          l\<lparr>monitor := False\<rparr>))"

definition read_release :: "rwl \<Rightarrow> wake outcome" where
  "read_release l =
     (if monitor l then Waits l
      else if rwlock l \<le> 0 then
        Raises (RuntimeError ''read_release: Attempt to release an unacquired read lock'')
               (l\<lparr>monitor := True\<rparr>)
      else (let (w, l') = finish_release (l\<lparr>rwlock := rwlock l - 1, monitor := True\<rparr>) in Done w l'))"

definition write_release :: "rwl \<Rightarrow> wake outcome" where
  "write_release l =
     (if monitor l then Waits l
      else if rwlock l < 0 then
        (let (w, l') = finish_release (l\<lparr>rwlock := 0, monitor := True\<rparr>) in Done w l')
      else Raises (RuntimeError ''write_release: Attempted to release a write lock, but the write lock isn't held.'') (l\<lparr>monitor := True\<rparr>))"

lemmas rwl_defs = read_acquire_def write_acquire_def finish_release_def read_release_def write_release_def

text \<open>Once a method has raised, the mutex is held for ever: every method waits.\<close>

lemma monitor_held_waits:
  assumes "monitor l"
  shows "read_acquire b l = Waits l" "write_acquire l = Waits l"
    "read_release l = Waits l" "write_release l = Waits l"
  using assms by (simp_all add: rwl_defs)

section \<open>Threads\<close>

text \<open>
  What a thread is doing: outside; asleep in \<open>readers_ready.wait()\<close> or in
  \<open>writers_ready.wait()\<close>; notified, and about to take the monitor again to re-test its
  \<open>while\<close> condition; holding a read or the write lock; or past the release, about to send
  the notification it decided on under the monitor.
\<close>

datatype pc =
    Outside
  | RWait | RWoken | RHold
  | WWait | WWoken | WHold
  | Notify wake

record rw_sys =
  lk :: rwl
  pcs :: "nat \<Rightarrow> pc"

definition rw_sys_init :: rw_sys where
  "rw_sys_init = \<lparr>lk = rw_init, pcs = (\<lambda>_. Outside)\<rparr>"

text \<open>
  One rule per atomic section.  A thread releases only a lock it holds (the decorator
  \<open>upgrade_rwlock\<close> and the balanced callers); \<open>notify()\<close> wakes one waiting writer if
  there is one, \<open>notifyAll()\<close> wakes every waiting reader.
\<close>

inductive rw_step :: "rw_sys \<Rightarrow> rw_sys \<Rightarrow> bool" where
  r_enter: "pcs s i = Outside \<Longrightarrow> read_acquire True (lk s) = Done True l' \<Longrightarrow>
     rw_step s (s\<lparr>lk := l', pcs := (pcs s)(i := RHold)\<rparr>)"
| r_try_fail: "pcs s i = Outside \<Longrightarrow> read_acquire False (lk s) = Done False l' \<Longrightarrow>
     rw_step s (s\<lparr>lk := l'\<rparr>)"
| r_sleep: "pcs s i \<in> {Outside, RWoken} \<Longrightarrow> read_acquire True (lk s) = Waits l' \<Longrightarrow>
     rw_step s (s\<lparr>lk := l', pcs := (pcs s)(i := RWait)\<rparr>)"
| r_retry: "pcs s i = RWoken \<Longrightarrow> read_acquire True (lk s) = Done True l' \<Longrightarrow>
     rw_step s (s\<lparr>lk := l', pcs := (pcs s)(i := RHold)\<rparr>)"
| w_enter: "pcs s i = Outside \<Longrightarrow> write_acquire (lk s) = Done () l' \<Longrightarrow>
     rw_step s (s\<lparr>lk := l', pcs := (pcs s)(i := WHold)\<rparr>)"
| w_sleep: "pcs s i = Outside \<Longrightarrow> write_acquire (lk s) = Waits l' \<Longrightarrow>
     rw_step s (s\<lparr>lk := l', pcs := (pcs s)(i := WWait)\<rparr>)"
| w_retry: "pcs s i = WWoken \<Longrightarrow>
     write_acquire ((lk s)\<lparr>writers_waiting := writers_waiting (lk s) - 1\<rparr>) = Done () l' \<Longrightarrow>
     rw_step s (s\<lparr>lk := l', pcs := (pcs s)(i := WHold)\<rparr>)"
| w_sleep_again: "pcs s i = WWoken \<Longrightarrow>
     write_acquire ((lk s)\<lparr>writers_waiting := writers_waiting (lk s) - 1\<rparr>) = Waits l' \<Longrightarrow>
     rw_step s (s\<lparr>lk := l', pcs := (pcs s)(i := WWait)\<rparr>)"
| r_leave: "pcs s i = RHold \<Longrightarrow> read_release (lk s) = Done w l' \<Longrightarrow>
     rw_step s (s\<lparr>lk := l', pcs := (pcs s)(i := Notify w)\<rparr>)"
| w_leave: "pcs s i = WHold \<Longrightarrow> write_release (lk s) = Done w l' \<Longrightarrow>
     rw_step s (s\<lparr>lk := l', pcs := (pcs s)(i := Notify w)\<rparr>)"
| notify_none: "pcs s i = Notify WakeNone \<Longrightarrow> rw_step s (s\<lparr>pcs := (pcs s)(i := Outside)\<rparr>)"
| notify_writer: "pcs s i = Notify WakeWriter \<Longrightarrow> pcs s j = WWait \<Longrightarrow>
     rw_step s (s\<lparr>pcs := (pcs s)(i := Outside, j := WWoken)\<rparr>)"
| notify_no_writer: "pcs s i = Notify WakeWriter \<Longrightarrow> (\<forall>j. pcs s j \<noteq> WWait) \<Longrightarrow>
     rw_step s (s\<lparr>pcs := (pcs s)(i := Outside)\<rparr>)"
| notify_readers: "pcs s i = Notify WakeReaders \<Longrightarrow>
     rw_step s (s\<lparr>pcs := (\<lambda>j. if j = i then Outside else if pcs s j = RWait then RWoken else pcs s j)\<rparr>)"

inductive rw_reachable :: "rw_sys \<Rightarrow> bool" where
  start: "rw_reachable rw_sys_init"
| more: "rw_reachable s \<Longrightarrow> rw_step s t \<Longrightarrow> rw_reachable t"

inductive_cases rw_stepE: "rw_step s t"

section \<open>The lock counts its users\<close>

text \<open>
  \<open>cnt f P\<close> is the number of threads at a program counter in \<open>P\<close>.  The invariant:
  finitely many threads are inside; the counter is the number of readers, or \<open>-1\<close> for
  exactly one writer and no reader; \<open>writers_waiting\<close> is the number of writers inside
  \<open>wait()\<close>; and no method leaves the monitor locked.
\<close>

definition cnt :: "(nat \<Rightarrow> pc) \<Rightarrow> pc set \<Rightarrow> int" where
  "cnt f P = int (card {i. f i \<in> P})"

definition rw_inv :: "rw_sys \<Rightarrow> bool" where
  "rw_inv s \<longleftrightarrow>
     finite {i. pcs s i \<noteq> Outside} \<and>
     \<not> monitor (lk s) \<and>
     int (writers_waiting (lk s)) = cnt (pcs s) {WWait, WWoken} \<and>
     ((cnt (pcs s) {WHold} = 0 \<and> rwlock (lk s) = cnt (pcs s) {RHold}) \<or>
      (cnt (pcs s) {WHold} = 1 \<and> cnt (pcs s) {RHold} = 0 \<and> rwlock (lk s) = -1))"

lemma finite_at: "finite {i. f i \<noteq> Outside} \<Longrightarrow> Outside \<notin> P \<Longrightarrow> finite {i. f i \<in> P}"
  by (rule finite_subset [of _ "{i. f i \<noteq> Outside}"]) auto

lemma cnt_move:
  assumes "finite {i. f i \<noteq> Outside}" and "Outside \<notin> P"
  shows "cnt (f(i := p)) P = cnt f P - of_bool (f i \<in> P) + of_bool (p \<in> P)"
proof -
  let ?A = "{k. f k \<in> P}"
  have fin: "finite ?A" using assms by (rule finite_at)
  have "{k. (f(i := p)) k \<in> P} = (if p \<in> P then insert i ?A else ?A - {i})"
    by auto
  moreover have "int (card (insert i ?A)) = int (card ?A) - of_bool (f i \<in> P) + 1"
    using fin by (simp add: card_insert_if)
  moreover have "int (card (?A - {i})) = int (card ?A) - of_bool (f i \<in> P)"
  proof (cases "i \<in> ?A")
    case True
    with fin have "0 < card ?A" by (auto simp: card_gt_0_iff)
    with True show ?thesis by simp
  qed simp
  ultimately show ?thesis by (simp add: cnt_def)
qed

lemma finite_move: "finite {k. f k \<noteq> Outside} \<Longrightarrow> finite {k. (f(i := p)) k \<noteq> Outside}"
  by (rule finite_subset [of _ "insert i {k. f k \<noteq> Outside}"]) auto

lemma cnt_nonneg: "0 \<le> cnt f P"
  by (simp add: cnt_def)

lemma cnt_pos:
  assumes "finite {i. f i \<noteq> Outside}" and "Outside \<notin> P" and "f i \<in> P"
  shows "0 < cnt f P"
  using finite_at [OF assms(1,2)] assms(3) by (auto simp: cnt_def card_gt_0_iff)

lemma cnt_zero: "finite {i. f i \<noteq> Outside} \<Longrightarrow> Outside \<notin> P \<Longrightarrow> cnt f P = 0 \<Longrightarrow> f i \<notin> P"
  using cnt_pos [of f P i] by auto

text \<open>Moving one thread and replacing the lock's fields: the shape of most steps.\<close>

lemma rw_inv_move:
  assumes fin: "finite {k. pcs s k \<noteq> Outside}"
    and mon: "\<not> monitor l"
    and ww: "int (writers_waiting l) =
      cnt (pcs s) {WWait, WWoken} - of_bool (pcs s i \<in> {WWait, WWoken}) + of_bool (p \<in> {WWait, WWoken})"
    and rw: "(cnt (pcs s) {WHold} - of_bool (pcs s i = WHold) + of_bool (p = WHold) = 0 \<and>
        rwlock l = cnt (pcs s) {RHold} - of_bool (pcs s i = RHold) + of_bool (p = RHold)) \<or>
      (cnt (pcs s) {WHold} - of_bool (pcs s i = WHold) + of_bool (p = WHold) = 1 \<and>
        cnt (pcs s) {RHold} - of_bool (pcs s i = RHold) + of_bool (p = RHold) = 0 \<and> rwlock l = -1)"
  shows "rw_inv (s\<lparr>lk := l, pcs := (pcs s)(i := p)\<rparr>)"
proof -
  define g where "g = (pcs s)(i := p)"
  have c: "cnt g P = cnt (pcs s) P - of_bool (pcs s i \<in> P) + of_bool (p \<in> P)" if "Outside \<notin> P" for P
    unfolding g_def by (rule cnt_move [OF fin that])
  have "finite {k. g k \<noteq> Outside}"
    unfolding g_def by (rule finite_move [OF fin])
  with mon ww rw c [of "{WHold}"] c [of "{RHold}"] c [of "{WWait, WWoken}"]
  have "rw_inv (s\<lparr>lk := l, pcs := g\<rparr>)"
    unfolding rw_inv_def by simp
  then show ?thesis by (simp only: g_def)
qed

lemma rw_inv_init: "rw_inv rw_sys_init"
  by (simp add: rw_inv_def rw_sys_init_def rw_init_def cnt_def)

lemma rw_invD:
  assumes "rw_inv s"
  shows "finite {i. pcs s i \<noteq> Outside}" "\<not> monitor (lk s)"
    "int (writers_waiting (lk s)) = cnt (pcs s) {WWait, WWoken}"
    "(cnt (pcs s) {WHold} = 0 \<and> rwlock (lk s) = cnt (pcs s) {RHold}) \<or>
      (cnt (pcs s) {WHold} = 1 \<and> cnt (pcs s) {RHold} = 0 \<and> rwlock (lk s) = -1)"
  using assms by (simp_all add: rw_inv_def)

lemma rw_inv_nolk:
  assumes "rw_inv s" and "pcs s i \<notin> {RHold, WHold, WWait, WWoken}" and "p \<notin> {RHold, WHold, WWait, WWoken}"
  shows "rw_inv (s\<lparr>pcs := (pcs s)(i := p)\<rparr>)"
  using rw_inv_move [of s "lk s" i p] rw_invD [OF assms(1)] assms(2,3) by simp

lemma rw_inv_wake_writer:
  assumes inv: "rw_inv s" and i: "pcs s i = Notify w" and j: "pcs s j = WWait"
  shows "rw_inv (s\<lparr>pcs := (pcs s)(i := Outside, j := WWoken)\<rparr>)"
proof -
  let ?s = "s\<lparr>pcs := (pcs s)(i := Outside)\<rparr>"
  have inv': "rw_inv ?s" using inv i by (intro rw_inv_nolk) simp_all
  have "pcs ?s j = WWait" using i j by auto
  with rw_invD [OF inv'] show ?thesis
    using rw_inv_move [of ?s "lk ?s" j WWoken] by simp
qed

lemma rw_inv_wake_readers:
  assumes inv: "rw_inv s" and i: "pcs s i = Notify WakeReaders"
  shows "rw_inv (s\<lparr>pcs := (\<lambda>j. if j = i then Outside else if pcs s j = RWait then RWoken else pcs s j)\<rparr>)"
    (is "rw_inv ?t")
proof -
  have same: "{k. pcs ?t k \<in> P} = {k. pcs s k \<in> P}" if "Outside \<notin> P" "RWait \<notin> P" "RWoken \<notin> P" "Notify WakeReaders \<notin> P" for P
    using that i by auto
  have "cnt (pcs ?t) P = cnt (pcs s) P" if "Outside \<notin> P" "RWait \<notin> P" "RWoken \<notin> P" "Notify WakeReaders \<notin> P" for P
    unfolding cnt_def by (simp only: same [OF that])
  moreover have "finite {k. pcs ?t k \<noteq> Outside}"
    using rw_invD(1) [OF inv] by (rule finite_subset [rotated]) auto
  moreover have "lk ?t = lk s" by simp
  ultimately show ?thesis
    using rw_invD(2-) [OF inv] unfolding rw_inv_def by (simp del: rw_sys.simps)
qed

lemma rw_step_inv:
  assumes "rw_step s t" and "rw_inv s"
  shows "rw_inv t"
  using assms
proof (induction rule: rw_step.induct)
  case (notify_writer s i j)
  then show ?case by (intro rw_inv_wake_writer)
next
  case (notify_readers s i)
  then show ?case by (intro rw_inv_wake_readers)
next
  case (notify_none s i)
  then show ?case by (intro rw_inv_nolk) simp_all
next
  case (notify_no_writer s i)
  then show ?case by (intro rw_inv_nolk) simp_all
next
  case (r_try_fail s i l')
  then show ?case by (auto simp: read_acquire_def split: if_splits)
next
  case (r_leave s i w l')
  have "cnt (pcs s) {WHold} = 0 \<and> rwlock (lk s) = cnt (pcs s) {RHold} \<and> 0 < cnt (pcs s) {RHold}"
    using rw_invD [OF r_leave.prems] r_leave.hyps(1) cnt_pos [of "pcs s" "{RHold}" i] by auto
  with rw_invD [OF r_leave.prems] r_leave.hyps show ?case
    by (intro rw_inv_move) (auto simp: rwl_defs Let_def split: if_splits)
next
  case (w_leave s i w l')
  have "cnt (pcs s) {WHold} = 1 \<and> cnt (pcs s) {RHold} = 0"
    using rw_invD [OF w_leave.prems] w_leave.hyps(1) cnt_pos [of "pcs s" "{WHold}" i] by auto
  with rw_invD [OF w_leave.prems] w_leave.hyps show ?case
    by (intro rw_inv_move) (auto simp: rwl_defs Let_def split: if_splits)
next
  case (w_retry s i l')
  have "0 < cnt (pcs s) {WWait, WWoken}"
    using rw_invD(1) [OF w_retry.prems] w_retry.hyps(1) by (intro cnt_pos) auto
  with rw_invD [OF w_retry.prems] w_retry.hyps cnt_nonneg [of "pcs s" "{RHold}"] show ?case
    by (intro rw_inv_move) (auto simp: write_acquire_def split: if_splits)
next
  case (w_sleep_again s i l')
  have "0 < cnt (pcs s) {WWait, WWoken}"
    using rw_invD(1) [OF w_sleep_again.prems] w_sleep_again.hyps(1) by (intro cnt_pos) auto
  with rw_invD [OF w_sleep_again.prems] w_sleep_again.hyps show ?case
    by (intro rw_inv_move) (auto simp: write_acquire_def split: if_splits)
next
  case (r_enter s i l')
  with rw_invD [OF r_enter.prems] show ?case
    by (intro rw_inv_move) (auto simp: read_acquire_def split: if_splits)
next
  case (r_retry s i l')
  with rw_invD [OF r_retry.prems] show ?case
    by (intro rw_inv_move) (auto simp: read_acquire_def split: if_splits)
next
  case (r_sleep s i l')
  with rw_invD [OF r_sleep.prems] show ?case
    by (intro rw_inv_move) (auto simp: read_acquire_def split: if_splits)
next
  case (w_enter s i l')
  with rw_invD [OF w_enter.prems] cnt_nonneg [of "pcs s" "{RHold}"] show ?case
    by (intro rw_inv_move) (auto simp: write_acquire_def split: if_splits)
next
  case (w_sleep s i l')
  with rw_invD [OF w_sleep.prems] show ?case
    by (intro rw_inv_move) (auto simp: write_acquire_def split: if_splits)
qed

lemma rw_reachable_inv: "rw_reachable s \<Longrightarrow> rw_inv s"
  by (induction rule: rw_reachable.induct) (auto intro: rw_inv_init rw_step_inv)

section \<open>No wake-up is lost\<close>

text \<open>
  A writer asleep while the lock is free has a notification under way; a reader asleep
  while no writer holds or wants the lock has one too.
\<close>

definition no_lost :: "rw_sys \<Rightarrow> bool" where
  "no_lost s \<longleftrightarrow>
     (\<forall>i. pcs s i = WWait \<longrightarrow> rwlock (lk s) \<noteq> 0 \<or> (\<exists>j. pcs s j \<in> {WWoken, Notify WakeWriter})) \<and>
     (\<forall>i. pcs s i = RWait \<longrightarrow>
        rwlock (lk s) < 0 \<or> writers_waiting (lk s) \<noteq> 0 \<or> (\<exists>j. pcs s j = Notify WakeReaders))"

lemma no_lost_write_locked: "rwlock (lk s) < 0 \<Longrightarrow> no_lost s"
  by (auto simp: no_lost_def)

lemma no_lost_woken_writer:
  "pcs s j = WWoken \<Longrightarrow> writers_waiting (lk s) \<noteq> 0 \<Longrightarrow> no_lost s"
  by (auto simp: no_lost_def)

lemma waiting_writer_counted:
  assumes "rw_inv s" and "pcs s i \<in> {WWait, WWoken}"
  shows "writers_waiting (lk s) \<noteq> 0"
  using rw_invD(3) [OF assms(1)] cnt_pos [OF rw_invD(1) [OF assms(1)], of "{WWait, WWoken}" i] assms(2)
  by auto

lemma counted_writer_waits:
  assumes "rw_inv s" and "writers_waiting (lk s) \<noteq> 0"
  shows "\<exists>i. pcs s i \<in> {WWait, WWoken}"
proof (rule ccontr)
  assume "\<not> ?thesis"
  then have "{i. pcs s i \<in> {WWait, WWoken}} = {}" by auto
  then have "cnt (pcs s) {WWait, WWoken} = 0" by (simp add: cnt_def)
  with rw_invD(3) [OF assms(1)] assms(2) show False by simp
qed

text \<open>The step of a thread that is neither woken nor notifying keeps every promise.\<close>

lemma no_lost_move:
  assumes "no_lost s" and "pcs s i \<notin> {WWoken, Notify WakeWriter, Notify WakeReaders}"
    and "p \<notin> {WWait, RWait}"
    and "rwlock l \<noteq> 0 \<or> rwlock (lk s) = 0 \<or> (\<forall>j. pcs s j \<noteq> WWait)"
    and "rwlock l < 0 \<or> rwlock (lk s) \<ge> 0" and "writers_waiting l = writers_waiting (lk s)"
  shows "no_lost (s\<lparr>lk := l, pcs := (pcs s)(i := p)\<rparr>)"
  unfolding no_lost_def
proof (intro conjI allI impI)
  let ?t = "s\<lparr>lk := l, pcs := (pcs s)(i := p)\<rparr>"
  fix k assume "pcs ?t k = WWait"
  with assms(3) have "pcs s k = WWait" by (auto split: if_splits)
  with assms(1,4) show "rwlock (lk ?t) \<noteq> 0 \<or> (\<exists>j. pcs ?t j \<in> {WWoken, Notify WakeWriter})"
    using assms(2) unfolding no_lost_def by (auto 4 4)
next
  let ?t = "s\<lparr>lk := l, pcs := (pcs s)(i := p)\<rparr>"
  fix k assume "pcs ?t k = RWait"
  with assms(3) have "pcs s k = RWait" by (auto split: if_splits)
  with assms(1,5,6) show "rwlock (lk ?t) < 0 \<or> writers_waiting (lk ?t) \<noteq> 0 \<or> (\<exists>j. pcs ?t j = Notify WakeReaders)"
    using assms(2) unfolding no_lost_def by (auto 4 4)
qed

lemma no_lost_release:
  assumes inv: "rw_inv s" and "pcs s i \<in> {RHold, WHold}"
    and "(w, l') = finish_release l" and "writers_waiting l = writers_waiting (lk s)" and "0 \<le> rwlock l"
  shows "no_lost (s\<lparr>lk := l', pcs := (pcs s)(i := Notify w)\<rparr>)"
proof -
  have ww: "writers_waiting (lk s) \<noteq> 0" if "pcs s k = WWait" for k
    using waiting_writer_counted [OF inv, of k] that by simp
  from assms(3) have l': "l' = l\<lparr>monitor := False\<rparr>"
    and w: "w = (if writers_waiting l \<noteq> 0 \<and> rwlock l = 0 then WakeWriter
                 else if writers_waiting l = 0 then WakeReaders else WakeNone)"
    by (simp_all add: finish_release_def Let_def)
  show ?thesis
    unfolding no_lost_def w l' using assms(2,4) ww by (auto dest: ww)
qed

lemma rw_step_no_lost:
  assumes "rw_step s t" and "rw_inv s" and "no_lost s"
  shows "no_lost t"
  using assms
proof (induction rule: rw_step.induct)
  case (r_enter s i l')
  with rw_invD(4) [OF r_enter.prems(1)] show ?case
    by (intro no_lost_move) (auto simp: read_acquire_def split: if_splits)
next
  case (r_try_fail s i l')
  then show ?case by (auto simp: read_acquire_def split: if_splits)
next
  case (r_sleep s i l')
  then have l': "l' = lk s" and busy: "rwlock (lk s) < 0 \<or> writers_waiting (lk s) \<noteq> 0"
    using rw_invD(2) [OF r_sleep.prems(1)] by (auto simp: read_acquire_def split: if_splits)
  let ?t = "s\<lparr>lk := l', pcs := (pcs s)(i := RWait)\<rparr>"
  have "rwlock (lk ?t) \<noteq> 0 \<or> (\<exists>j. pcs ?t j \<in> {WWoken, Notify WakeWriter})" if "pcs ?t k = WWait" for k
  proof -
    from that have "pcs s k = WWait" by (auto split: if_splits)
    with r_sleep.prems(2) consider "rwlock (lk s) \<noteq> 0" | j where "pcs s j \<in> {WWoken, Notify WakeWriter}"
      unfolding no_lost_def by blast
    then show ?thesis
    proof cases
      case (2 j)
      with r_sleep.hyps(1) have "pcs ?t j \<in> {WWoken, Notify WakeWriter}" by auto
      then show ?thesis by blast
    qed (simp add: l')
  qed
  with busy l' show ?case unfolding no_lost_def by auto
next
  case (r_retry s i l')
  with rw_invD(4) [OF r_retry.prems(1)] show ?case
    by (intro no_lost_move) (auto simp: read_acquire_def split: if_splits)
next
  case (w_enter s i l')
  then show ?case
    by (intro no_lost_write_locked) (auto simp: write_acquire_def split: if_splits)
next
  case (w_sleep s i l')
  then have "rwlock l' \<noteq> 0" "writers_waiting l' \<noteq> 0"
    using rw_invD(2) [OF w_sleep.prems(1)] by (auto simp: write_acquire_def split: if_splits)
  then show ?case by (auto simp: no_lost_def)
next
  case (w_retry s i l')
  then show ?case
    by (intro no_lost_write_locked) (auto simp: write_acquire_def split: if_splits)
next
  case (w_sleep_again s i l')
  then have "rwlock l' \<noteq> 0" "writers_waiting l' \<noteq> 0"
    using rw_invD(2) [OF w_sleep_again.prems(1)] by (auto simp: write_acquire_def split: if_splits)
  then show ?case by (auto simp: no_lost_def)
next
  case (r_leave s i w l')
  then have g: "0 < rwlock (lk s)" "(w, l') = finish_release ((lk s)\<lparr>rwlock := rwlock (lk s) - 1, monitor := True\<rparr>)"
    by (auto simp: read_release_def Let_def split: if_splits prod.splits)
  show ?case using r_leave.hyps(1) g by (intro no_lost_release [OF r_leave.prems(1) _ g(2)]) auto
next
  case (w_leave s i w l')
  then have g: "(w, l') = finish_release ((lk s)\<lparr>rwlock := 0, monitor := True\<rparr>)"
    by (auto simp: write_release_def Let_def split: if_splits prod.splits)
  show ?case using w_leave.hyps(1) by (intro no_lost_release [OF w_leave.prems(1) _ g]) auto
next
  case (notify_none s i)
  then have "no_lost (s\<lparr>lk := lk s, pcs := (pcs s)(i := Outside)\<rparr>)"
    by (intro no_lost_move) auto
  then show ?case by simp
next
  case (notify_writer s i j)
  then show ?case
    using waiting_writer_counted [of s j] by (intro no_lost_woken_writer [where j = j]) auto
next
  case (notify_no_writer s i)
  have ne: "pcs s j = Notify WakeReaders \<Longrightarrow> j \<noteq> i" for j
    using notify_no_writer.hyps(1) by auto
  have "rwlock (lk s) < 0 \<or> writers_waiting (lk s) \<noteq> 0 \<or> (\<exists>j. j \<noteq> i \<and> pcs s j = Notify WakeReaders)"
    if "pcs s k = RWait" for k
    using notify_no_writer.prems(2) that ne unfolding no_lost_def by metis
  with notify_no_writer.hyps show ?case unfolding no_lost_def by auto
next
  case (notify_readers s i)
  show ?case
    unfolding no_lost_def
  proof (intro conjI allI impI)
    let ?t = "s\<lparr>pcs := (\<lambda>j. if j = i then Outside else if pcs s j = RWait then RWoken else pcs s j)\<rparr>"
    fix k assume "pcs ?t k = WWait"
    then have "pcs s k = WWait" by (auto split: if_splits)
    with notify_readers.prems(2) consider "rwlock (lk s) \<noteq> 0" | j where "pcs s j \<in> {WWoken, Notify WakeWriter}"
      unfolding no_lost_def by blast
    then show "rwlock (lk ?t) \<noteq> 0 \<or> (\<exists>j. pcs ?t j \<in> {WWoken, Notify WakeWriter})"
    proof cases
      case (2 j)
      with notify_readers.hyps have "pcs ?t j \<in> {WWoken, Notify WakeWriter}" by auto
      then show ?thesis by blast
    qed simp
  next
    let ?t = "s\<lparr>pcs := (\<lambda>j. if j = i then Outside else if pcs s j = RWait then RWoken else pcs s j)\<rparr>"
    fix k assume "pcs ?t k = RWait"
    then show "rwlock (lk ?t) < 0 \<or> writers_waiting (lk ?t) \<noteq> 0 \<or> (\<exists>j. pcs ?t j = Notify WakeReaders)"
      by (auto split: if_splits)
  qed
qed

lemma rw_reachable_no_lost: "rw_reachable s \<Longrightarrow> no_lost s"
proof (induction rule: rw_reachable.induct)
  case start
  show ?case by (simp add: no_lost_def rw_sys_init_def)
next
  case (more s t)
  then show ?case using rw_step_no_lost rw_reachable_inv by blast
qed

section \<open>Properties\<close>

lemma free_lock:
  assumes "rw_inv s" and "\<forall>k. pcs s k \<notin> {RHold, WHold}"
  shows "rwlock (lk s) = 0"
proof -
  have "{k. pcs s k \<in> {WHold}} = {}" "{k. pcs s k \<in> {RHold}} = {}" using assms(2) by auto
  then have "cnt (pcs s) {WHold} = 0" "cnt (pcs s) {RHold} = 0" by (simp_all add: cnt_def)
  with rw_invD(4) [OF assms(1)] show ?thesis by simp
qed

text \<open>
  C1: in every reachable state of the reader-writer lock, while one thread holds the
  write lock no other thread holds the read lock or the write lock.
\<close>

theorem rw_exclusion:
  assumes "rw_reachable s" and "pcs s i = WHold" and "i \<noteq> j"
  shows "pcs s j \<notin> {RHold, WHold}"
proof -
  have inv: "rw_inv s" by (rule rw_reachable_inv [OF assms(1)])
  have "0 < cnt (pcs s) {WHold}" using assms(2) rw_invD(1) [OF inv] by (intro cnt_pos [of _ _ i]) simp_all
  then have "cnt (pcs s) {WHold} \<noteq> 0" by simp
  then have one: "cnt (pcs s) {WHold} = 1" "cnt (pcs s) {RHold} = 0"
    using rw_invD(4) [OF inv] by auto
  have "pcs s j \<notin> {RHold}" using cnt_zero [OF rw_invD(1) [OF inv] _ one(2)] by simp
  moreover have "pcs s j \<noteq> WHold"
  proof
    assume "pcs s j = WHold"
    then have "{i, j} \<subseteq> {k. pcs s k \<in> {WHold}}" using assms(2) by auto
    then have "card {i, j} \<le> card {k. pcs s k \<in> {WHold}}"
      using finite_at [OF rw_invD(1) [OF inv], of "{WHold}"] by (intro card_mono) auto
    with one(1) assms(3) show False by (simp add: cnt_def)
  qed
  ultimately show ?thesis by simp
qed

theorem rw_exclusion_witness:
  "pcs (rw_sys_init\<lparr>lk := rw_init\<lparr>rwlock := -1\<rparr>, pcs := (\<lambda>_. Outside)(0 := WHold)\<rparr>) 1 \<notin> {RHold, WHold}"
proof -
  let ?s = "rw_sys_init\<lparr>lk := rw_init\<lparr>rwlock := -1\<rparr>, pcs := (\<lambda>_. Outside)(0 := WHold)\<rparr>"
  have "rw_step rw_sys_init ?s"
    using rw_step.w_enter [of rw_sys_init 0 "rw_init\<lparr>rwlock := -1\<rparr>"]
    by (simp add: rw_sys_init_def rw_init_def write_acquire_def)
  then have "rw_reachable ?s" by (rule rw_reachable.more [OF rw_reachable.start])
  from rw_exclusion [OF this, of 0 1] show ?thesis by simp
qed

text \<open>
  C15: a thread is never left asleep on a free lock: in every reachable state in which
  nobody holds the lock and some thread waits for it, a woken writer or a releasing
  thread with its notification still to send can move, and moves to holding the write
  lock or out of the lock.
\<close>

theorem rw_progress:
  assumes "rw_reachable s" and "pcs s i \<in> {RWait, WWait}" and "\<forall>k. pcs s k \<notin> {RHold, WHold}"
  shows "\<exists>j t. rw_step s t \<and> pcs s j \<in> {WWoken, Notify WakeWriter, Notify WakeReaders} \<and>
    pcs t j \<in> {WHold, Outside}"
proof -
  note inv = rw_reachable_inv [OF assms(1)] and nl = rw_reachable_no_lost [OF assms(1)]
  have free: "rwlock (lk s) = 0" by (rule free_lock [OF inv assms(3)])
  have w1: "\<exists>j. pcs s j \<in> {WWoken, Notify WakeWriter}" if "pcs s k = WWait" for k
    using nl [unfolded no_lost_def, THEN conjunct1, rule_format, OF that] free by simp
  have writers: "\<exists>j. pcs s j \<in> {WWoken, Notify WakeWriter}" if "pcs s k \<in> {WWait, WWoken}" for k
  proof (cases "pcs s k = WWait")
    case True
    then show ?thesis by (rule w1)
  next
    case False
    with that have "pcs s k \<in> {WWoken, Notify WakeWriter}" by simp
    then show ?thesis ..
  qed
  have "\<exists>j. pcs s j \<in> {WWoken, Notify WakeWriter, Notify WakeReaders}"
  proof (cases "pcs s i = WWait")
    case True
    from w1 [OF this] show ?thesis by auto
  next
    case False
    with assms(2) have "pcs s i = RWait" by simp
    from nl [unfolded no_lost_def, THEN conjunct2, rule_format, OF this] free
    consider "writers_waiting (lk s) \<noteq> 0" | j where "pcs s j = Notify WakeReaders" by auto
    then show ?thesis
    proof cases
      case 1
      from counted_writer_waits [OF inv this] obtain k where "pcs s k \<in> {WWait, WWoken}" by blast
      from writers [OF this] show ?thesis by auto
    next
      case (2 j)
      then have "pcs s j \<in> {WWoken, Notify WakeWriter, Notify WakeReaders}" by simp
      then show ?thesis ..
    qed
  qed
  then obtain j where "pcs s j \<in> {WWoken, Notify WakeWriter, Notify WakeReaders}" ..
  then consider "pcs s j = WWoken" | "pcs s j = Notify WakeWriter" | "pcs s j = Notify WakeReaders" by auto
  then show ?thesis
  proof cases
    case 1
    have "write_acquire ((lk s)\<lparr>writers_waiting := writers_waiting (lk s) - 1\<rparr>) =
        Done () ((lk s)\<lparr>writers_waiting := writers_waiting (lk s) - 1, rwlock := -1\<rparr>)"
      using free rw_invD(2) [OF inv] by (simp add: write_acquire_def)
    note st = rw_step.w_retry [OF 1 this]
    show ?thesis by (intro exI [of _ j] exI conjI, rule st) (simp_all add: 1)
  next
    case 2
    show ?thesis
    proof (cases "\<exists>k. pcs s k = WWait")
      case True
      then obtain k where k: "pcs s k = WWait" ..
      from 2 k have "k \<noteq> j" by auto
      show ?thesis
        by (intro exI [of _ j] exI conjI, rule rw_step.notify_writer [OF 2 k]) (use 2 \<open>k \<noteq> j\<close> in simp_all)
    next
      case False
      then have none: "\<forall>k. pcs s k \<noteq> WWait" by simp
      show ?thesis
        by (intro exI [of _ j] exI conjI, rule rw_step.notify_no_writer [OF 2 none]) (simp_all add: 2)
    qed
  next
    case 3
    show ?thesis by (intro exI [of _ j] exI conjI, rule rw_step.notify_readers [OF 3]) (simp_all add: 3)
  qed
qed

text \<open>
  The run behind the witness: a reader enters, a writer goes to sleep, the reader leaves.
\<close>

definition sleepy :: rw_sys where
  "sleepy = \<lparr>lk = \<lparr>rwlock = 0, writers_waiting = 1, monitor = False\<rparr>,
     pcs = (\<lambda>_. Outside)(0 := Notify WakeWriter, 1 := WWait)\<rparr>"

lemma rw_reachable_sleepy: "rw_reachable sleepy"
proof -
  let ?a = "rw_sys_init\<lparr>lk := \<lparr>rwlock = 1, writers_waiting = 0, monitor = False\<rparr>,
    pcs := (\<lambda>_. Outside)(0 := RHold)\<rparr>"
  let ?b = "?a\<lparr>lk := \<lparr>rwlock = 1, writers_waiting = 1, monitor = False\<rparr>,
    pcs := (\<lambda>_. Outside)(0 := RHold, 1 := WWait)\<rparr>"
  have "rw_step rw_sys_init ?a"
    using rw_step.r_enter [of rw_sys_init 0] by (simp add: rw_sys_init_def rw_init_def read_acquire_def)
  moreover have "rw_step ?a ?b"
    using rw_step.w_sleep [of ?a 1] by (simp add: write_acquire_def rw_sys_init_def)
  moreover have "rw_step ?b sleepy"
    using rw_step.r_leave [of ?b 0 WakeWriter "lk sleepy"]
    by (simp add: read_release_def finish_release_def Let_def sleepy_def fun_upd_twist rw_sys_init_def)
  ultimately show ?thesis
    by (blast intro: rw_reachable.more rw_reachable.start)
qed

theorem rw_progress_witness:
  "\<exists>j t. rw_step sleepy t \<and> pcs sleepy j \<in> {WWoken, Notify WakeWriter, Notify WakeReaders} \<and>
    pcs t j \<in> {WHold, Outside}"
proof (rule rw_progress [OF rw_reachable_sleepy, of 1])
  show "pcs sleepy 1 \<in> {RWait, WWait}" by (simp add: sleepy_def)
  show "\<forall>k. pcs sleepy k \<notin> {RHold, WHold}" by (simp add: sleepy_def)
qed

end
