(* ===== verification/World.thy ===== *)
theory World
  imports States RWLock
begin

text \<open>
  The state of one controller process as its handlers see it, and the small operations
  every component uses: replies on the telnet connection (\<open>clihandler.py\<close>: \<open>ack\<close>,
  \<open>error\<close>, \<open>report_status\<close>), the main state (\<open>state.py\<close>), the event log
  (\<open>event_control.py\<close>: \<open>gen\<close>), the two locks around user actions
  (\<open>agentmanager.py\<close>: \<open>user_action_lock\<close>; \<open>util.py\<close>: \<open>upgrade_rwlock\<close>) and one HTTP
  exchange with an agent.
\<close>

section \<open>Data\<close>

datatype agent_type = PRIMARY | WORKER | ARCHIVE

text \<open>
  An \<open>Agent\<close>: a row of the \<open>agent\<close> table, or the copy of it that is kept for a
  connected agent.  \<open>ag_agentid = 0\<close> is a row that was never stored.
\<close>

record agent =
  ag_agentid :: nat
  ag_conn_id :: nat
  ag_uuid :: string
  ag_displayname :: "string option"
  ag_display_order :: nat
  ag_enabled :: bool
  ag_hostname :: string
  ag_fqdn :: string
  ag_agent_type :: "agent_type option"
  ag_ip_address :: string
  ag_listen_port :: nat
  ag_iswin :: bool
  ag_data_dir :: string
  ag_install_dir :: string
  ag_tableau_data_dir :: string
  ag_username :: string
  ag_password :: string
  ag_initting :: bool

text \<open>
  Rows of \<open>agent_volumes\<close>, \<open>cloud\<close>, \<open>files\<close>, \<open>license\<close> and \<open>ports\<close>.  The secret
  key of a cloud row is the decrypted one.
\<close>

record volume =
  vol_volid :: nat
  vol_agentid :: nat
  vol_name :: string
  vol_path :: string
  vol_type :: string
  vol_size :: int
  vol_available_space :: int
  vol_archive :: bool
  vol_archive_limit :: int
  vol_active :: bool
  vol_system :: bool
  vol_priority :: int
  vol_color :: "char option"

record cloud =
  cl_cloudid :: nat
  cl_type :: string
  cl_name :: string
  cl_bucket :: string
  cl_access_key :: string
  cl_secret_key :: string

datatype storage_type = STORAGE_TYPE_VOL | STORAGE_TYPE_CLOUD

record file_entry =
  fe_fileid :: nat
  fe_name :: string
  fe_file_type :: string
  fe_storage_type :: storage_type
  fe_storageid :: nat
  fe_size :: int
  fe_auto :: bool
  fe_encrypted :: bool

record license =
  li_agentid :: nat
  li_type :: "string option"
  li_interactors :: "int option"
  li_viewers :: "int option"
  li_cores :: "int option"
  li_core_licenses :: "int option"

record port =
  po_portid :: nat
  po_service_name :: string
  po_dest_host :: string
  po_dest_port :: int
  po_agentid :: nat
  po_max_time :: int
  po_active :: bool
  po_color :: "string option"
  po_notified_color :: "string option"
  po_connect_ms :: "int option"
  po_ip_address :: "jval option"

text \<open>
  What comes back from an agent: an answer, or the two kinds of failure of \<open>httplib\<close>.  The
  body of an answer is given as what \<open>json.loads\<close> or the XML parser makes of it.
\<close>

datatype xelem = Elem string "(string \<times> string) list" "xelem list"

datatype raw =
    NoBody
  | NullBody
  | BadJson string
  | JsonBody body
  | TextBody string
  | BadXml string
  | XmlBody xelem

datatype netres =
    NetIOError string
  | NetHTTPError string
  | Resp nat string raw

datatype request = Request nat string string body

datatype event = Event ekey body "int option"

datatype reply =
    Ack
  | ErrorReply nat string
  | Report body

text \<open>A process line of the \<open>tableau_processes\<close> table.\<close>

record process =
  pr_agentid :: nat
  pr_name :: string
  pr_pid :: int
  pr_status :: string

text \<open>
  Values of the \<open>system\<close> table that the modelled code only reads, and the keys of the
  \<open>event_control\<close> table.
\<close>

record conf =
  cf_event_known :: "ekey \<Rightarrow> bool"
  cf_backup_auto_retain :: int
  cf_backup_user_retain :: int
  cf_ziplog_auto_retain :: int
  cf_ziplog_user_retain :: int
  cf_backup_dest_type :: storage_type
  cf_backup_dest_id :: "nat option"
  cf_event_degraded_min :: "nat option"
  cf_status_systeminfo :: bool
  cf_status_systeminfo_only :: bool
  cf_status_systeminfo_send_alerts :: bool
  cf_status_systeminfo_timeout_ms :: nat
  cf_tableau_server_url :: "string option"
  cf_tableau_internal_server_url :: "string option"
  cf_cli_get_status_interval :: nat
  cf_disk_watermark_low :: int
  cf_disk_watermark_high :: int
  cf_userids :: "int list"
  cf_credentials :: "(string \<times> (string \<times> string)) list"
  cf_tabcmd_timeout :: nat
  cf_s3_id :: nat
  cf_gcs_id :: nat

text \<open>A row of \<open>notifications\<close>; \<open>None\<close> is NULL.\<close>

record notification =
  nt_name :: string
  nt_agentid :: "nat option"
  nt_color :: "string option"
  nt_notified_color :: "string option"
  nt_description :: "string option"

text \<open>
  The process: rows of the database, the fields of the controller's objects, the
  answers the network still has to give (\<open>w_net\<close>: how long each exchange takes and
  what it returns; an empty list is a network that no longer answers), and what
  the process has sent and told (\<open>w_sent\<close>, \<open>w_replies\<close>, \<open>w_events\<close>).
  \<open>w_boto\<close> is the same for the calls to the cloud libraries (\<open>None\<close>: done), and \<open>w_stamp\<close>
  is the local clock: what \<open>time.strftime\<close> makes of a time.
  \<open>w_procs\<close> is the session's view of \<open>tableau_processes\<close>, \<open>w_procs_db\<close> the committed
  one.
\<close>

record world =
  w_state :: "mstate option"
  w_upgrading :: bool
  w_conf :: conf
  w_maint_started :: bool
  w_rw :: rwl
  w_thread :: nat
  w_ulock :: "nat \<Rightarrow> (nat \<times> nat) option"
  w_agents :: "(nat \<times> agent) list"
  w_db :: "agent list"
  w_disconnect_sent :: "nat list"
  w_yml :: "string \<Rightarrow> string option"
  w_vols :: "volume list"
  w_clouds :: "cloud list"
  w_files :: "file_entry list"
  w_next_fileid :: nat
  w_net :: "(nat \<times> netres) list"
  w_sent :: "request list"
  w_next_xid :: nat
  w_now :: nat
  w_replies :: "reply list"
  w_events :: "event list"
  w_procs :: "process list"
  w_procs_db :: "process list"
  w_first_degraded :: "nat option"
  w_sent_degraded :: bool
  w_url_worked :: "string option"
  w_check_event :: bool
  w_notifications :: "notification list"
  w_licenses :: "license list"
  w_ports :: "port list"
  w_boto :: "string option list"
  w_stamp :: "nat \<Rightarrow> string"

text \<open>A freshly started controller, with the values of \<open>system/defaults.py\<close>.\<close>

definition conf0 :: conf where
  "conf0 = \<lparr>cf_event_known = (\<lambda>_. True),
     cf_backup_auto_retain = 1, cf_backup_user_retain = 1,
     cf_ziplog_auto_retain = 1, cf_ziplog_user_retain = 1,
     cf_backup_dest_type = STORAGE_TYPE_VOL, cf_backup_dest_id = None,
     cf_event_degraded_min = Some 30,
     cf_status_systeminfo = True, cf_status_systeminfo_only = False,
     cf_status_systeminfo_send_alerts = False, cf_status_systeminfo_timeout_ms = 15000,
     cf_tableau_server_url = None, cf_tableau_internal_server_url = None,
     cf_cli_get_status_interval = 10,
     cf_disk_watermark_low = 101, cf_disk_watermark_high = 101,
     cf_userids = [], cf_credentials = [], cf_tabcmd_timeout = 600,
     cf_s3_id = 0, cf_gcs_id = 0\<rparr>"

definition world0 :: world where
  "world0 = \<lparr>w_state = Some STATE_DISCONNECTED, w_upgrading = False, w_conf = conf0,
     w_maint_started = False, w_rw = rw_init, w_thread = 0, w_ulock = (\<lambda>_. None),
     w_agents = [], w_db = [], w_disconnect_sent = [], w_yml = (\<lambda>_. None),
     w_vols = [], w_clouds = [], w_files = [], w_next_fileid = 1,
     w_net = [], w_sent = [], w_next_xid = 1, w_now = 0, w_replies = [], w_events = [],
     w_procs = [], w_procs_db = [], w_first_degraded = None, w_sent_degraded = False,
     w_url_worked = None, w_check_event = False, w_notifications = [],
     w_licenses = [], w_ports = [], w_boto = [], w_stamp = (\<lambda>t. nat_str t)\<rparr>"

definition agent0 :: agent where
  "agent0 = \<lparr>ag_agentid = 1, ag_conn_id = 1, ag_uuid = ''u1'', ag_displayname = Some ''Tableau Primary'',
     ag_display_order = 1, ag_enabled = True, ag_hostname = ''primary'', ag_fqdn = ''primary.local'',
     ag_agent_type = Some PRIMARY, ag_ip_address = ''10.0.0.1'', ag_listen_port = 8889,
     ag_iswin = True, ag_data_dir = ''C:'', ag_install_dir = ''C:'',
     ag_tableau_data_dir = ''C:'', ag_username = ''agent'', ag_password = ''secret'', ag_initting = False\<rparr>"

definition world1 :: world where
  "world1 = world0\<lparr>w_state := Some STATE_STARTED, w_agents := [(1, agent0)], w_db := [agent0]\<rparr>"

type_synonym 'a io = "(world, 'a) M"

section \<open>Replies\<close>

definition ERROR_USAGE :: nat where "ERROR_USAGE = 1"
definition ERROR_COMMAND_SYNTAX_ERROR :: nat where "ERROR_COMMAND_SYNTAX_ERROR = 2"
definition ERROR_NO_SUCH_COMMAND :: nat where "ERROR_NO_SUCH_COMMAND = 3"
definition ERROR_AGENT_NOT_FOUND :: nat where "ERROR_AGENT_NOT_FOUND = 10"
definition ERROR_AGENT_NOT_PRIMARY :: nat where "ERROR_AGENT_NOT_PRIMARY = 11"
definition ERROR_AGENT_NOT_CONNECTED :: nat where "ERROR_AGENT_NOT_CONNECTED = 12"
definition ERROR_AGENT_NOT_ENABLED :: nat where "ERROR_AGENT_NOT_ENABLED = 13"
definition ERROR_AGENT_NOT_SPECIFIED :: nat where "ERROR_AGENT_NOT_SPECIFIED = 14"
definition ERROR_BUSY :: nat where "ERROR_BUSY = 20"
definition ERROR_WRONG_STATE :: nat where "ERROR_WRONG_STATE = 21"
definition ERROR_INVALID_PORT :: nat where "ERROR_INVALID_PORT = 30"
definition ERROR_NOT_FOUND :: nat where "ERROR_NOT_FOUND = 31"
definition ERROR_BAD_VALUE :: nat where "ERROR_BAD_VALUE = 32"
definition ERROR_COMMAND_FAILED :: nat where "ERROR_COMMAND_FAILED = 50"
definition ERROR_INVALID_XID :: nat where "ERROR_INVALID_XID = 51"
definition ERROR_INTERNAL :: nat where "ERROR_INTERNAL = 99"

definition ERROR_STRINGS :: "(nat \<times> string) list" where
  "ERROR_STRINGS =
    [(ERROR_USAGE, ''Invalid usage''),
     (ERROR_AGENT_NOT_FOUND, ''Agent not found''),
     (ERROR_AGENT_NOT_PRIMARY, ''Agent not primary''),
     (ERROR_BUSY, ''Busy with another user request''),
     (ERROR_AGENT_NOT_SPECIFIED, ''No agent specified''),
     (ERROR_WRONG_STATE, ''wrong state for command''),
     (ERROR_INTERNAL, ''Internal error''),
     (70, ''Permission denied'')]"

text \<open>
  Replies are kept as they are before \<open>print_client\<close> formats them into a line.  The line is
  \<open>fmt % args\<close>, so that an error text with a per cent sign of its own reaches the client as an
  internal error; the texts here are the ones before that.
\<close>

definition print_client :: "reply \<Rightarrow> unit io" where
  "print_client r = modify (\<lambda>w. w\<lparr>w_replies := w_replies w @ [r]\<rparr>)"

definition ack :: "unit io" where
  "ack = print_client Ack"

text \<open>\<open>error(errnum)\<close> and \<open>error(errnum, msg)\<close>\<close>

definition error_num :: "nat \<Rightarrow> unit io" where
  "error_num n = print_client (ErrorReply n
     (case map_of ERROR_STRINGS n of Some m \<Rightarrow> m | None \<Rightarrow> ''No additional information''))"

definition error_msg :: "nat \<Rightarrow> string \<Rightarrow> unit io" where
  "error_msg n msg = print_client (ErrorReply n msg)"

definition print_usage :: "string \<Rightarrow> unit io" where
  "print_usage msg = error_msg ERROR_USAGE (''usage: '' @ msg)"

definition with_status :: "body \<Rightarrow> body" where
  "with_status b = b(''status'' \<mapsto> JStr (if success b then ''OK'' else ''error''))"

definition report_status :: "body \<Rightarrow> unit io" where
  "report_status b = print_client (Report (with_status b))"

section \<open>Main state\<close>

definition cur_state :: "world \<Rightarrow> mstate" where
  "cur_state w = (case w_state w of None \<Rightarrow> STATE_DISCONNECTED | Some s \<Rightarrow> s)"

definition get_state :: "mstate io" where
  "get_state = gets cur_state"

definition update_state :: "mstate \<Rightarrow> unit io" where
  "update_state s = modify (\<lambda>w. w\<lparr>w_state := Some s\<rparr>)"

section \<open>Events\<close>

text \<open>
  \<open>Agent.todict\<close>: the columns an event uses; the display name falls back to the host
  name.
\<close>

definition agent_todict :: "agent \<Rightarrow> body" where
  "agent_todict a =
     [''agentid'' \<mapsto> JInt (int (ag_agentid a)),
      ''uuid'' \<mapsto> JStr (ag_uuid a),
      ''displayname'' \<mapsto> JStr (case ag_displayname a of Some d \<Rightarrow> d | None \<Rightarrow> ag_hostname a),
      ''hostname'' \<mapsto> JStr (ag_hostname a),
      ''enabled'' \<mapsto> JBool (ag_enabled a)]"

text \<open>\<open>dict(body.items() + data.items())\<close>: on a common key the second one wins.\<close>

definition dict_add :: "body \<Rightarrow> body \<Rightarrow> body" where
  "dict_add b d = b ++ d"

text \<open>
  \<open>gen\<close>: nothing happens for a disabled agent or for a key the event control table does
  not hold; otherwise one row is written.  Texts (subject, description) and the e-mail
  are not modelled.
\<close>

definition gen :: "ekey \<Rightarrow> body \<Rightarrow> int option \<Rightarrow> unit io" where
  "gen key data userid =
     bnd (gets w_conf) (\<lambda>conf.
       if (case data ''enabled'' of Some v \<Rightarrow> \<not> truthy v | None \<Rightarrow> False) then ret ()
       else if \<not> cf_event_known conf key then ret ()
       else modify (\<lambda>w. w\<lparr>w_events := w_events w @ [Event key data userid]\<rparr>))"

section \<open>Locks\<close>

text \<open>
  \<open>threading.RLock\<close>: \<open>Some (t, n)\<close> is held by thread \<open>t\<close>, which has taken it \<open>n + 1\<close>
  times.  The owner may take it again; \<open>release\<close> by a thread that does not own it raises.
\<close>

definition ulock_free_for :: "nat \<Rightarrow> (nat \<times> nat) option \<Rightarrow> bool" where
  "ulock_free_for t l = (case l of None \<Rightarrow> True | Some (u, n) \<Rightarrow> u = t)"

fun ulock_acquire :: "nat \<Rightarrow> (nat \<times> nat) option \<Rightarrow> (nat \<times> nat) option" where
  "ulock_acquire t None = Some (t, 0)"
| "ulock_acquire t (Some (u, n)) = Some (u, Suc n)"

fun ulock_release :: "(nat \<times> nat) option \<Rightarrow> (nat \<times> nat) option" where
  "ulock_release None = None"
| "ulock_release (Some (u, 0)) = None"
| "ulock_release (Some (u, Suc n)) = Some (u, n)"

lemma ulock_release_acquire [simp]: "ulock_release (ulock_acquire t l) = l"
  by (cases "(t, l)" rule: ulock_acquire.cases) simp_all

definition user_action_lock :: "bool \<Rightarrow> agent \<Rightarrow> bool io" where
  "user_action_lock blocking a =
     bnd (gets (\<lambda>w. (w_thread w, w_ulock w (ag_conn_id a)))) (\<lambda>(t, l).
       if ulock_free_for t l then
         sq (modify (\<lambda>w. w\<lparr>w_ulock := (w_ulock w)(ag_conn_id a := ulock_acquire t l)\<rparr>)) (ret True)
       else if blocking then raise Blocked
       else ret False)"

definition user_action_unlock :: "agent \<Rightarrow> unit io" where
  "user_action_unlock a =
     bnd (gets (\<lambda>w. (w_thread w, w_ulock w (ag_conn_id a)))) (\<lambda>(t, l).
       if l \<noteq> None \<and> ulock_free_for t l then
         modify (\<lambda>w. w\<lparr>w_ulock := (w_ulock w)(ag_conn_id a := ulock_release l)\<rparr>)
       else raise (RuntimeError ''cannot release un-acquired lock''))"

text \<open>Methods of the upgrade lock, called on the controller's lock object.\<close>

definition rw_call :: "(rwl \<Rightarrow> 'a outcome) \<Rightarrow> 'a io" where
  "rw_call m =
     bnd (gets w_rw) (\<lambda>l. case m l of
       Done x l' \<Rightarrow> sq (modify (\<lambda>w. w\<lparr>w_rw := l'\<rparr>)) (ret x)
     | Waits l' \<Rightarrow> sq (modify (\<lambda>w. w\<lparr>w_rw := l'\<rparr>)) (raise Blocked)
     | Raises e l' \<Rightarrow> sq (modify (\<lambda>w. w\<lparr>w_rw := l'\<rparr>)) (raise e))"

text \<open>The decorator \<open>upgrade_rwlock\<close>: the read lock around a handler, given back in \<open>finally\<close>.\<close>

definition upgrade_rwlock :: "unit io \<Rightarrow> unit io" where
  "upgrade_rwlock f =
     sq (rw_call (read_acquire True))
        (\<lambda>w. case f w of
           (Inl Blocked, w') \<Rightarrow> (Inl Blocked, w')
         | (r, w') \<Rightarrow> (case rw_call read_release w' of
               (Inl e, w'') \<Rightarrow> (Inl e, w'')
             | (Inr _, w'') \<Rightarrow> (r, w'')))"

section \<open>One exchange with an agent\<close>

text \<open>
  \<open>httpconn.request(...); res = httpconn.getresponse(); res.read()\<close>, under the
  connection's own lock.  \<open>\<open>Request c m u b\<close>\<close> records the connection, method, URI and
  body.
\<close>

definition exchange :: "request \<Rightarrow> netres io" where
  "exchange r =
     bnd (gets w_net) (\<lambda>net.
       sq (modify (\<lambda>w. w\<lparr>w_sent := w_sent w @ [r]\<rparr>))
          (case net of
             [] \<Rightarrow> ret (NetIOError ''no answer'')
           | (d, x) # rest \<Rightarrow> sq (modify (\<lambda>w. w\<lparr>w_net := rest, w_now := w_now w + d\<rparr>)) (ret x)))"

definition sleep :: "nat \<Rightarrow> unit io" where
  "sleep n = modify (\<lambda>w. w\<lparr>w_now := w_now w + n\<rparr>)"

text \<open>\<open>httperror(res, ...)\<close>: the dictionary for an answer that is not 200 OK.\<close>

definition httperror :: "nat \<Rightarrow> string \<Rightarrow> body" where
  "httperror status reason =
     [''error'' \<mapsto> JStr ''HTTP failure'', ''status-code'' \<mapsto> JInt (int status), ''reason-phrase'' \<mapsto> JStr reason]"

text \<open>\<open>json.loads\<close>: \<open>None\<close> for the JSON value null.\<close>

definition json_loads :: "raw \<Rightarrow> body option io" where
  "json_loads r =
     (case r of
        NullBody \<Rightarrow> ret None
      | JsonBody b \<Rightarrow> ret (Some b)
      | _ \<Rightarrow> raise (ValueError ''No JSON object could be decoded''))"

section \<open>What the small operations leave alone\<close>

text \<open>The part of the state the user action lock and the upgrade lock live in.\<close>

definition locks :: "world \<Rightarrow> (nat \<Rightarrow> (nat \<times> nat) option) \<times> rwl \<times> nat \<times> conf" where
  "locks w = (w_ulock w, w_rw w, w_thread w, w_conf w)"

lemmas small_ops = print_client_def ack_def error_num_def error_msg_def print_usage_def
  report_status_def update_state_def sleep_def json_loads_def

lemma keeps_get_state [frame]: "keeps f get_state"
  unfolding get_state_def by (rule frame)

lemma keeps_json_loads [frame]: "keeps f (json_loads r)"
  unfolding json_loads_def by (cases r) (auto intro: frame)

lemma keeps_print_client: "(\<And>w r. f (w\<lparr>w_replies := r\<rparr>) = f w) \<Longrightarrow> keeps f (print_client r)"
  by (simp add: print_client_def keeps_modify)

lemma keeps_reply:
  assumes "\<And>w r. f (w\<lparr>w_replies := r\<rparr>) = f w"
  shows "keeps f ack" "keeps f (error_num n)" "keeps f (error_msg n m)" "keeps f (print_usage u)"
    "keeps f (report_status b)"
  using keeps_print_client [OF assms]
  by (simp_all add: ack_def error_num_def error_msg_def print_usage_def report_status_def)

lemma keeps_gen:
  assumes "\<And>w e. f (w\<lparr>w_events := e\<rparr>) = f w"
  shows "keeps f (gen k d u)"
  unfolding gen_def by (rule frame | rule assms)+

lemma keeps_exchange:
  assumes "\<And>w r. f (w\<lparr>w_sent := r\<rparr>) = f w" and "\<And>w n t. f (w\<lparr>w_net := n, w_now := t\<rparr>) = f w"
  shows "keeps f (exchange r)"
  unfolding exchange_def by (rule frame | rule assms)+

lemma locks_replies [simp]: "locks (w\<lparr>w_replies := r\<rparr>) = locks w" by (simp add: locks_def)
lemma locks_events [simp]: "locks (w\<lparr>w_events := e\<rparr>) = locks w" by (simp add: locks_def)

lemma keeps_locks_small [frame]:
  "keeps locks ack" "keeps locks (error_num n)" "keeps locks (error_msg n m)"
  "keeps locks (print_usage u)" "keeps locks (report_status b)" "keeps locks (gen k d uid)"
  "keeps locks (exchange r)" "keeps locks (update_state ms)" "keeps locks (sleep n)"
  by (auto intro!: keeps_reply keeps_gen keeps_exchange keeps_modify simp: locks_def update_state_def sleep_def)

lemma keeps_from_locks:
  assumes "keeps locks m"
  shows "keeps w_conf m" "keeps w_ulock m" "keeps w_rw m" "keeps w_thread m"
  using keeps_part [OF assms, of "\<lambda>(u, l, t, c). c"] keeps_part [OF assms, of "\<lambda>(u, l, t, c). u"]
    keeps_part [OF assms, of "\<lambda>(u, l, t, c). l"] keeps_part [OF assms, of "\<lambda>(u, l, t, c). t"]
  by (simp_all add: locks_def keeps_def)

lemma keeps_cur_state_small [frame]:
  "keeps cur_state ack" "keeps cur_state (error_num n)" "keeps cur_state (error_msg n m)"
  "keeps cur_state (print_usage u)" "keeps cur_state (report_status b)"
  "keeps cur_state (gen k d uid)" "keeps cur_state (exchange r)" "keeps cur_state (sleep n)"
  by (auto intro!: keeps_reply keeps_gen keeps_exchange keeps_modify simp: cur_state_def sleep_def)

lemma cur_state_update [simp]: "cur_state (w\<lparr>w_state := Some s\<rparr>) = s"
  by (simp add: cur_state_def)

lemma keeps_cur_state_lock [frame]:
  "keeps cur_state (user_action_lock b a)" "keeps cur_state (user_action_unlock a)"
  unfolding user_action_lock_def user_action_unlock_def
  by (rule frame | simp add: cur_state_def)+

section \<open>Brackets\<close>

text \<open>
  A lock taken and given back: \<open>proj\<close> is the part of the state the lock lives in, \<open>take\<close>
  tries to take it, \<open>g\<close> and \<open>r\<close> are what taking and giving back do to that part.
\<close>

locale bracket =
  fixes proj :: "'s \<Rightarrow> 'l" and take :: "('s, bool) M" and g :: "'l \<Rightarrow> 'l" and r :: "'l \<Rightarrow> 'l"
  assumes taken: "take s = (Inr True, s') \<Longrightarrow> proj s' = g (proj s)"
    and not_taken: "take s = (Inr False, s') \<Longrightarrow> proj s' = proj s"
    and given_back: "take s = (Inr True, s') \<Longrightarrow> r (g (proj s)) = proj s"
begin

lemma guarded:
  assumes "keeps proj busy" and "acts proj r body"
  shows "acts proj id (bnd take (\<lambda>ok. if \<not> ok then busy else body))"
proof -
  have "proj t = proj s" if "bnd take (\<lambda>ok. if \<not> ok then busy else body) s = (Inr x, t)" for s x t
  proof -
    obtain v s' where v: "take s = (v, s')" by fastforce
    show ?thesis
    proof (cases v)
      case (Inl e)
      with that v show ?thesis by (simp add: bnd_def)
    next
      case (Inr ok)
      show ?thesis
      proof (cases ok)
        case True
        with that v Inr have "body s' = (Inr x, t)" by (simp add: bnd_def)
        from actsD [OF assms(2) this] taken given_back v Inr True show ?thesis by simp
      next
        case False
        with that v Inr have "busy s' = (Inr x, t)" by (simp add: bnd_def)
        from keepsD [OF assms(1) this] not_taken v Inr False show ?thesis by simp
      qed
    qed
  qed
  then show ?thesis by (simp add: acts_def)
qed

end

definition lock_by :: "agent \<Rightarrow> (nat \<Rightarrow> (nat \<times> nat) option) \<times> rwl \<times> nat \<times> conf \<Rightarrow>
    (nat \<Rightarrow> (nat \<times> nat) option) \<times> rwl \<times> nat \<times> conf" where
  "lock_by a = (\<lambda>(u, l, t, c). (u(ag_conn_id a := ulock_acquire t (u (ag_conn_id a))), l, t, c))"

definition unlock_by :: "agent \<Rightarrow> (nat \<Rightarrow> (nat \<times> nat) option) \<times> rwl \<times> nat \<times> conf \<Rightarrow>
    (nat \<Rightarrow> (nat \<times> nat) option) \<times> rwl \<times> nat \<times> conf" where
  "unlock_by a = (\<lambda>(u, l, t, c). (u(ag_conn_id a := ulock_release (u (ag_conn_id a))), l, t, c))"

interpretation user_lock: bracket locks "user_action_lock b a" "lock_by a" "unlock_by a" for b a
  by unfold_locales
    (auto simp: user_action_lock_def lock_by_def unlock_by_def locks_def bnd_def sq_def
      split: if_splits)

lemma acts_unlock: "acts locks (unlock_by a) (user_action_unlock a)"
  by (auto simp: acts_def user_action_unlock_def unlock_by_def locks_def bnd_def split: if_splits)

lemma acts_upgrade_rwlock:
  assumes "acts locks id body"
  shows "acts locks id (upgrade_rwlock body)"
proof -
  have "locks w' = locks w" if run: "upgrade_rwlock body w = (Inr x, w')" for w x w'
  proof -
    from run obtain l v t where a: "read_acquire True (w_rw w) = Done v l"
      and b: "body (w\<lparr>w_rw := l\<rparr>) = (Inr x, t)"
      and c: "(case rw_call read_release t of (Inl e, w'') \<Rightarrow> (Inl e, w'') | (Inr _, w'') \<Rightarrow> (Inr x, w'')) = (Inr x, w')"
      by (auto simp: upgrade_rwlock_def rw_call_def sq_def bnd_def
          split: outcome.splits prod.splits sum.splits pyexn.splits)
    from actsD [OF assms b] have t: "locks t = locks (w\<lparr>w_rw := l\<rparr>)" by simp
    from a have "\<not> monitor (w_rw w)" "0 \<le> rwlock (w_rw w)" "l = (w_rw w)\<lparr>rwlock := rwlock (w_rw w) + 1\<rparr>"
      by (auto simp: read_acquire_def split: if_splits)
    with c t show ?thesis
      by (auto simp: rw_call_def sq_def bnd_def locks_def read_release_def finish_release_def Let_def
          split: outcome.splits prod.splits sum.splits)
  qed
  then show ?thesis by (simp add: acts_def)
qed

text \<open>
  How a handler's proof goes: \<open>acts locks id\<close> of the whole, by following the text; every
  statement either leaves the locks alone or is the unlock.
\<close>

lemma acts_unlock_sq: "keeps locks n \<Longrightarrow> acts locks (unlock_by a) (sq (user_action_unlock a) n)"
  by (rule acts_keeps_sq [OF acts_unlock])

lemma acts_unlock_seqs:
  "keeps locks (seqs ms) \<Longrightarrow> acts locks (unlock_by a) (seqs (user_action_unlock a # ms))"
  using acts_unlock_sq by simp

lemma acts_seqs_keeps: "keeps f m \<Longrightarrow> acts f g (seqs ms) \<Longrightarrow> acts f g (seqs (m # ms))"
  by (simp add: acts_sq_keeps)

lemma acts_keeps_id: "keeps f m \<Longrightarrow> acts f id m"
  by (rule keeps_acts)

lemmas locked = acts_raise acts_if acts_option acts_Let
  acts_unlock_seqs acts_unlock_sq acts_unlock user_lock.guarded acts_upgrade_rwlock
  acts_seqs_keeps acts_sq_keeps acts_bnd_keeps

end
