(* ===== verification/Agents.thy ===== *)
theory Agents
  imports World "HOL-Library.AList"
begin

text \<open>
  \<open>agentmanager.py\<close> and the queries of \<open>agent.py\<close>: the table of connected agents, how an
  agent is registered and removed, the lookups over connected and enabled agents, the
  classification of agents as workers or archive servers from the primary's yml file,
  and their display names.
\<close>

section \<open>Helpers of util.py\<close>

definition hostname_only :: "string \<Rightarrow> string" where
  "hostname_only h = takeWhile (\<lambda>c. c \<noteq> CHR ''.'') h"

text \<open>
  \<open>is_ip\<close> is \<open>socket.inet_aton\<close>: one to four numbers, decimal, octal or hexadecimal as in
  C, all but the last below 256 and the last filling the remaining bytes.
\<close>

definition digit_val :: "char \<Rightarrow> nat option" where
  "digit_val c =
     (let n = (of_char c :: nat) in
      if 48 \<le> n \<and> n \<le> 57 then Some (n - 48)
      else if 97 \<le> n \<and> n \<le> 102 then Some (n - 87)
      else if 65 \<le> n \<and> n \<le> 70 then Some (n - 55)
      else None)"

fun base_value :: "nat \<Rightarrow> nat \<Rightarrow> string \<Rightarrow> nat option" where
  "base_value b n [] = Some n"
| "base_value b n (c # cs) =
     (case digit_val c of None \<Rightarrow> None | Some d \<Rightarrow> if d < b then base_value b (b * n + d) cs else None)"

fun c_number :: "string \<Rightarrow> nat option" where
  "c_number [] = None"
| "c_number [c] = base_value 10 0 [c]"
| "c_number (c # d # cs) =
     (if c = CHR ''0'' \<and> (d = CHR ''x'' \<or> d = CHR ''X'') then (if cs = [] then None else base_value 16 0 cs)
      else if c = CHR ''0'' then base_value 8 0 (d # cs)
      else base_value 10 0 (c # d # cs))"

fun ip_parts :: "nat \<Rightarrow> nat option list \<Rightarrow> bool" where
  "ip_parts bytes [] = False"
| "ip_parts bytes [q] = (case q of None \<Rightarrow> False | Some n \<Rightarrow> 0 < bytes \<and> n < 256 ^ bytes)"
| "ip_parts bytes (p # ps) = (case p of None \<Rightarrow> False | Some n \<Rightarrow> 0 < bytes \<and> n < 256 \<and> ip_parts (bytes - 1) ps)"

definition is_ip :: "string \<Rightarrow> bool" where
  "is_ip s = ip_parts 4 (map c_number (split_on CHR ''.'' (takeWhile (\<lambda>c. \<not> is_space c) s)))"

section \<open>Rows of the agent table\<close>

definition get_by_id :: "agent list \<Rightarrow> nat \<Rightarrow> agent option" where
  "get_by_id db i = find (\<lambda>r. ag_agentid r = i) db"

definition get_by_uuid :: "agent list \<Rightarrow> string \<Rightarrow> agent option" where
  "get_by_uuid db u = find (\<lambda>r. ag_uuid r = u) db"

text \<open>\<open>query.one()\<close>: the only row, \<open>None\<close> for \<open>NoResultFound\<close> and \<open>MultipleResultsFound\<close>.\<close>

fun the_one :: "'a list \<Rightarrow> 'a option" where
  "the_one [x] = Some x"
| "the_one _ = None"

definition get_agentid_from_host :: "agent list \<Rightarrow> string \<Rightarrow> nat option" where
  "get_agentid_from_host db host =
     (if is_ip host
      then map_option ag_agentid (the_one (filter (\<lambda>r. ag_ip_address r = host \<and> ag_enabled r) db))
      else map_option ag_agentid
        (the_one (filter (\<lambda>r. upper (ag_hostname r) = upper (hostname_only host) \<and> ag_enabled r) db)))"

section \<open>The primary's yml file\<close>

text \<open>\<open>get_yml_list\<close>: \<open>None\<close> is the ValueError of a missing key.\<close>

definition get_yml_list :: "(string \<Rightarrow> string option) \<Rightarrow> string \<Rightarrow> string list option" where
  "get_yml_list yml key = map_option (\<lambda>v. map strip (split_on CHR '','' v)) (yml key)"

definition is_tableau_worker :: "(string \<Rightarrow> string option) \<Rightarrow> agent \<Rightarrow> bool" where
  "is_tableau_worker yml a =
     (case get_yml_list yml ''worker.hosts'' of
        None \<Rightarrow> False
      | Some hosts \<Rightarrow>
          if length hosts = 1 then False
          else list_ex (\<lambda>worker. if is_ip worker then worker = ag_ip_address a
                                 else upper (hostname_only worker) = upper (hostname_only (ag_hostname a)))
                 (tl hosts))"

section \<open>Display names\<close>

definition worker_name :: "nat \<Rightarrow> string" where
  "worker_name n = ''Tableau Worker '' @ nat_str n"

text \<open>The loop over \<open>worker1.host\<close>, \<open>worker2.host\<close>, ...; \<open>n\<close> keys are left.\<close>

fun worker_scan :: "(string \<Rightarrow> string option) \<Rightarrow> agent \<Rightarrow> nat \<Rightarrow> nat \<Rightarrow> string \<times> nat" where
  "worker_scan yml a num 0 = (worker_name 0, 100)"
| "worker_scan yml a num (Suc n) =
     (case yml (''worker'' @ nat_str num @ ''.host'') of
        None \<Rightarrow> (worker_name 0, 100)
      | Some value \<Rightarrow>
          if value = [] then (worker_name 0, 100)
          else if (if is_ip value then value = ag_ip_address a
                   else upper (hostname_only value) = upper (hostname_only (ag_hostname a)))
          then (worker_name num, 100 + num)
          else worker_scan yml a (num + 1) n)"

definition calc_worker_name :: "(string \<Rightarrow> string option) \<Rightarrow> agent \<Rightarrow> string \<times> nat" where
  "calc_worker_name yml a =
     (case get_yml_list yml ''worker.hosts'' of
        None \<Rightarrow> (worker_name 0, 100)
      | Some hosts \<Rightarrow>
          if length hosts \<le> 1 then (worker_name 0, 100)
          else worker_scan yml a 1 (length hosts))"

definition calc_archive_name :: "agent \<Rightarrow> string \<times> nat" where
  "calc_archive_name a =
     (if ag_fqdn a \<noteq> [] then (ag_hostname a, 200) else (''UNNAMED NON-WORKER/PRIMARY'', 100))"

definition calc_new_displayname :: "(string \<Rightarrow> string option) \<Rightarrow> agent \<Rightarrow> string \<times> nat" where
  "calc_new_displayname yml a =
     (case ag_agent_type a of
        Some PRIMARY \<Rightarrow> (''Tableau Primary'', 1)
      | Some ARCHIVE \<Rightarrow> calc_archive_name a
      | Some WORKER \<Rightarrow> calc_worker_name yml a
      | None \<Rightarrow> (''INVALID AGENT TYPE: None'', 0))"

definition displayname_unset :: "agent \<Rightarrow> bool" where
  "displayname_unset a \<longleftrightarrow> ag_displayname a = None \<or> ag_displayname a = Some []"

definition displayname_changeable :: "agent \<Rightarrow> bool" where
  "displayname_changeable a \<longleftrightarrow>
     (if displayname_unset a then True
      else if ag_agent_type a \<noteq> Some WORKER then False
      else ag_displayname a = Some (ag_hostname a))"

definition rename :: "(string \<Rightarrow> string option) \<Rightarrow> agent \<Rightarrow> agent" where
  "rename yml a =
     (case calc_new_displayname yml a of
        (n, d) \<Rightarrow> a\<lparr>ag_displayname := Some n, ag_display_order := d\<rparr>)"

section \<open>Classifying the agents\<close>

text \<open>One row of \<open>set_all_agent_types\<close>; rows without a type are not selected by the query.\<close>

definition set_agent_type :: "(string \<Rightarrow> string option) \<Rightarrow> agent \<Rightarrow> agent" where
  "set_agent_type yml e =
     (if ag_agent_type e = None \<or> ag_agent_type e = Some PRIMARY then e
      else
        (let ty = (if is_tableau_worker yml e then WORKER else ARCHIVE) in
         if ag_agent_type e = Some ty then e
         else
           (let e' = e\<lparr>ag_agent_type := Some ty\<rparr> in
            if ty \<noteq> WORKER then e'
            else if displayname_changeable e' then rename yml e'
            else e')))"

definition set_all_agent_types :: "unit io" where
  "set_all_agent_types = modify (\<lambda>w. w\<lparr>w_db := map (set_agent_type (w_yml w)) (w_db w)\<rparr>)"

section \<open>Connected agents\<close>

definition lift_sum :: "pyexn + 'a \<Rightarrow> 'a io" where
  "lift_sum r = (case r of Inl e \<Rightarrow> raise e | Inr x \<Rightarrow> ret x)"

text \<open>
  The enabled ones among the connected agents; \<open>make_transient(None)\<close> raises for an agent
  whose row is gone, before the test for \<open>None\<close> that follows it.
\<close>

fun enabled_agents :: "agent list \<Rightarrow> (nat \<times> agent) list \<Rightarrow> pyexn + (nat \<times> agent) list" where
  "enabled_agents db [] = Inr []"
| "enabled_agents db ((k, a) # rest) =
     (case get_by_uuid db (ag_uuid a) of
        None \<Rightarrow> Inl (AttributeError ''_sa_instance_state'')
      | Some r \<Rightarrow>
          (case enabled_agents db rest of
             Inl e \<Rightarrow> Inl e
           | Inr xs \<Rightarrow> Inr (if ag_enabled r then (k, a) # xs else xs)))"

definition all_agents :: "(nat \<times> agent) list io" where
  "all_agents = bnd (gets (\<lambda>w. enabled_agents (w_db w) (w_agents w))) lift_sum"

fun first_agent :: "(agent \<Rightarrow> bool) \<Rightarrow> (nat \<times> agent) list \<Rightarrow> agent option" where
  "first_agent P [] = None"
| "first_agent P ((k, a) # rest) = (if P a then Some a else first_agent P rest)"

definition agent_by_type :: "agent_type \<Rightarrow> agent option io" where
  "agent_by_type ty = bnd all_agents (\<lambda>xs. ret (first_agent (\<lambda>a. ag_agent_type a = Some ty) xs))"

definition agent_by_uuid :: "string \<Rightarrow> agent option io" where
  "agent_by_uuid u = bnd all_agents (\<lambda>xs. ret (first_agent (\<lambda>a. ag_uuid a = u) xs))"

definition agent_by_id :: "nat \<Rightarrow> agent option io" where
  "agent_by_id i = bnd all_agents (\<lambda>xs. ret (first_agent (\<lambda>a. ag_agentid a = i) xs))"

text \<open>
  \<open>agent_by_agentid\<close>: the loop variable is also the result, so after a loop that found
  nothing the last agent looked at is returned.
\<close>

fun last_or_match :: "nat \<Rightarrow> agent option \<Rightarrow> (nat \<times> agent) list \<Rightarrow> agent option" where
  "last_or_match i acc [] = acc"
| "last_or_match i acc ((k, a) # rest) =
     (if ag_agentid a = i then Some a else last_or_match i (Some a) rest)"

definition agent_by_agentid :: "nat \<Rightarrow> agent option io" where
  "agent_by_agentid i = bnd all_agents (\<lambda>xs. ret (last_or_match i None xs))"

definition agent_connected :: "agent \<Rightarrow> bool io" where
  "agent_connected a = gets (\<lambda>w. map_of (w_agents w) (ag_conn_id a) \<noteq> None)"

section \<open>Removing an agent\<close>

text \<open>\<open>forget\<close>: only the disconnect time of the row changes, which is not modelled.\<close>

definition forget :: "agent \<Rightarrow> bool io" where
  "forget a = ret (ag_agentid a \<noteq> 0)"

definition disconnect_info :: "agent \<Rightarrow> nat \<Rightarrow> string \<Rightarrow> string" where
  "disconnect_info temp c u =
     CHR 0x0A # ''Agent type: '' @ (case ag_displayname temp of Some d \<Rightarrow> d | None \<Rightarrow> ''None'') @
     CHR 0x0A # ''Agent connection-id: '' @ nat_str c @ CHR 0x0A # ''Agent uuid '' @ u"

definition remove_agent :: "agent \<Rightarrow> string \<Rightarrow> unit io" where
  "remove_agent a reason0 =
     (let reason = (if reason0 = [] then ''Agent communication failure'' else reason0);
          c = ag_conn_id a
      in bnd (agent_connected a) (\<lambda>connected.
        if \<not> connected then ret ()
        else bnd (forget a) (\<lambda>forgot.
          bnd (gets (\<lambda>w. (get_by_id (w_db w) (ag_agentid a), c \<in> set (w_disconnect_sent w)))) (\<lambda>(temp, sent).
            case temp of
              None \<Rightarrow> raise (AttributeError ''todict'')
            | Some temp_agent \<Rightarrow> seqs [
                when_m (\<not> sent) (seqs [
                  gen EV_AGENT_DISCONNECT
                    ((agent_todict temp_agent)(''error'' \<mapsto> JStr reason, ''info'' \<mapsto> JStr (disconnect_info temp_agent c (ag_uuid a)))) None,
                  modify (\<lambda>w. w\<lparr>w_disconnect_sent := c # w_disconnect_sent w\<rparr>)]),
                modify (\<lambda>w. w\<lparr>w_agents := AList.delete c (w_agents w)\<rparr>),
                when_m (forgot \<and> ag_agent_type a = Some PRIMARY) (update_state STATE_DISCONNECTED)]))))"

text \<open>
  \<open>Controller.remove_agent\<close>, which the commands call: when no primary is left, the table of
  Tableau's processes is emptied and the change committed.
\<close>

definition lose_agent :: "agent \<Rightarrow> string \<Rightarrow> unit io" where
  "lose_agent a reason =
     sq (remove_agent a reason)
       (bnd (agent_by_type PRIMARY) (\<lambda>primary.
          when_m (primary = None) (modify (\<lambda>w. w\<lparr>w_procs := [], w_procs_db := []\<rparr>))))"

section \<open>Registering an agent\<close>

text \<open>
  The loop of \<open>register\<close> over the dictionary it removes agents from: Python raises when
  the size of a dictionary has changed since the iteration began, the next time the
  loop asks for a key.
\<close>

fun register_loop :: "agent \<Rightarrow> nat \<Rightarrow> (nat \<times> agent) list \<Rightarrow> unit io" where
  "register_loop a size0 [] =
     bnd (gets (\<lambda>w. length (w_agents w))) (\<lambda>size.
       if size \<noteq> size0 then raise (RuntimeError ''dictionary changed size during iteration'') else ret ())"
| "register_loop a size0 ((k, atmp) # rest) =
     bnd (gets (\<lambda>w. length (w_agents w))) (\<lambda>size.
       if size \<noteq> size0 then raise (RuntimeError ''dictionary changed size during iteration'')
       else if ag_uuid atmp = ag_uuid a then remove_agent atmp ''An agent is already connected''
       else if ag_agent_type a = Some PRIMARY \<and> ag_agent_type atmp = Some PRIMARY then
         sq (remove_agent atmp ''A primary agent is already connected'') (register_loop a size0 rest)
       else register_loop a size0 rest)"

definition store_agent :: "agent \<Rightarrow> unit io" where
  "store_agent a =
     modify (\<lambda>w. w\<lparr>w_db := map (\<lambda>r. if ag_agentid r = ag_agentid a then a else r) (w_db w)\<rparr>)"

definition register_name :: "(string \<Rightarrow> string option) \<Rightarrow> agent \<Rightarrow> agent_type option \<Rightarrow> agent" where
  "register_name yml a orig_agent_type =
     (if displayname_unset a \<or>
         (ag_agent_type a = Some WORKER \<and> orig_agent_type = Some ARCHIVE \<and> displayname_changeable a)
      then rename yml a else a)"

definition register :: "agent \<Rightarrow> agent_type option \<Rightarrow> bool io" where
  "register new_agent orig_agent_type =
     bnd (gets w_yml) (\<lambda>yml.
       let a = register_name yml new_agent orig_agent_type
       in bnd (gets w_agents) (\<lambda>agents.
            sq (seqs [
                  register_loop a (length agents) agents,
                  store_agent a,
                  modify (\<lambda>w. w\<lparr>w_agents := AList.update (ag_conn_id a) a (w_agents w)\<rparr>),
                  when_m (ag_agent_type a = Some PRIMARY)
                    (seqs [update_state STATE_PENDING, set_all_agent_types])])
               (ret True)))"

section \<open>What these operations leave alone\<close>

lemma keeps_lift_sum [frame]: "keeps f (lift_sum r)"
  unfolding lift_sum_def by (rule frame)+

lemma keeps_lookups [frame]:
  "keeps f all_agents" "keeps f (agent_by_type ty)" "keeps f (agent_by_uuid u)"
  "keeps f (agent_by_id i)" "keeps f (agent_by_agentid i)" "keeps f (agent_connected a)"
  "keeps f (forget a)"
  unfolding all_agents_def agent_by_type_def agent_by_uuid_def agent_by_id_def
    agent_by_agentid_def agent_connected_def forget_def
  by (rule frame)+

lemma keeps_remove_agent:
  assumes "\<And>w x. f (w\<lparr>w_events := x\<rparr>) = f w" and "\<And>w x. f (w\<lparr>w_disconnect_sent := x\<rparr>) = f w"
    and "\<And>w x. f (w\<lparr>w_agents := x\<rparr>) = f w" and "\<And>w x. f (w\<lparr>w_state := x\<rparr>) = f w"
  shows "keeps f (remove_agent a reason)"
  unfolding remove_agent_def update_state_def by (rule frame keeps_gen | rule assms)+

lemma keeps_lose_agent:
  assumes "\<And>w x. f (w\<lparr>w_events := x\<rparr>) = f w" and "\<And>w x. f (w\<lparr>w_disconnect_sent := x\<rparr>) = f w"
    and "\<And>w x. f (w\<lparr>w_agents := x\<rparr>) = f w" and "\<And>w x. f (w\<lparr>w_state := x\<rparr>) = f w"
    and "\<And>w x. f (w\<lparr>w_procs := x, w_procs_db := x\<rparr>) = f w"
  shows "keeps f (lose_agent a reason)"
  unfolding lose_agent_def by (rule frame keeps_remove_agent assms)+

lemma keeps_locks_remove_agent [frame]: "keeps locks (remove_agent a reason)" "keeps locks (lose_agent a reason)"
  by (rule keeps_remove_agent keeps_lose_agent; simp add: locks_def)+

section \<open>Lookups find what they promise\<close>

definition row_enabled :: "agent list \<Rightarrow> agent \<Rightarrow> bool" where
  "row_enabled db a \<longleftrightarrow> (case get_by_uuid db (ag_uuid a) of Some r \<Rightarrow> ag_enabled r | None \<Rightarrow> False)"

lemma row_enabled_Some [simp]: "get_by_uuid db (ag_uuid a) = Some r \<Longrightarrow> row_enabled db a = ag_enabled r"
  by (simp add: row_enabled_def)

lemma enabled_agents_eq:
  "enabled_agents db as =
     (if \<exists>(k, a) \<in> set as. get_by_uuid db (ag_uuid a) = None then Inl (AttributeError ''_sa_instance_state'')
      else Inr (filter (\<lambda>(k, a). row_enabled db a) as))"
proof (induction as)
  case (Cons ka as)
  then show ?case by (cases ka) (auto split: option.splits)
qed simp

lemma first_agent_Some: "first_agent P xs = Some a \<Longrightarrow> P a \<and> a \<in> snd ` set xs"
  by (induction P xs rule: first_agent.induct) (auto split: if_splits)

lemma first_agent_None: "first_agent P xs = None \<longleftrightarrow> (\<forall>a \<in> snd ` set xs. \<not> P a)"
  by (induction P xs rule: first_agent.induct) auto

lemma last_or_match_None: "last_or_match i acc xs = None \<longleftrightarrow> acc = None \<and> xs = []"
  by (induction i acc xs rule: last_or_match.induct) auto

lemma last_or_match_found:
  "\<exists>a \<in> snd ` set xs. ag_agentid a = i \<Longrightarrow>
     \<exists>a \<in> snd ` set xs. last_or_match i acc xs = Some a \<and> ag_agentid a = i"
  by (induction i acc xs rule: last_or_match.induct) auto

lemma last_or_match_missing:
  "\<forall>a \<in> snd ` set xs. ag_agentid a \<noteq> i \<Longrightarrow>
     last_or_match i acc xs = (if xs = [] then acc else Some (snd (last xs)))"
  by (induction i acc xs rule: last_or_match.induct) auto

section \<open>The table of connected agents\<close>

text \<open>
  Keys are connection ids, no two agents share a connection or a uuid, and every
  connected agent has a row.
\<close>

definition agents_wf :: "world \<Rightarrow> bool" where
  "agents_wf w \<longleftrightarrow>
     distinct (map fst (w_agents w)) \<and>
     distinct (map (\<lambda>(k, b). ag_uuid b) (w_agents w)) \<and>
     (\<forall>(k, b) \<in> set (w_agents w). ag_conn_id b = k \<and> ag_agentid b \<noteq> 0 \<and>
        get_by_id (w_db w) (ag_agentid b) \<noteq> None)"

lemma agents_wfD:
  assumes "agents_wf w" and "(k, b) \<in> set (w_agents w)"
  shows "ag_conn_id b = k" "ag_agentid b \<noteq> 0" "\<exists>r. get_by_id (w_db w) (ag_agentid b) = Some r"
    "map_of (w_agents w) k = Some b"
  using assms by (auto simp: agents_wf_def)

lemma wp_gen [wp_simps]:
  "wp (gen k d u) Q w =
     (if (case d ''enabled'' of Some v \<Rightarrow> \<not> truthy v | None \<Rightarrow> False) \<or> \<not> cf_event_known (w_conf w) k
      then Q (Inr ()) w else Q (Inr ()) (w\<lparr>w_events := w_events w @ [Event k d u]\<rparr>))"
  by (simp add: gen_def wp_simps)

lemma wp_seqs_Nil [wp_simps]: "wp (seqs []) Q s = Q (Inr ()) s"
  by (simp add: wp_simps)

lemma wp_seqs_Cons [wp_simps]:
  "wp (seqs (m # ms)) Q s = wp m (\<lambda>r s'. case r of Inl e \<Rightarrow> Q (Inl e) s' | Inr x \<Rightarrow> wp (seqs ms) Q s') s"
  by (simp add: wp_simps)

lemma remove_agent_run:
  assumes "agents_wf w" and "(k, b) \<in> set (w_agents w)"
  shows "wp (remove_agent b reason)
    (\<lambda>r w'. r = Inr () \<and> w_agents w' = AList.delete k (w_agents w) \<and> w_db w' = w_db w \<and> w_yml w' = w_yml w \<and>
       cur_state w' = (if ag_agent_type b = Some PRIMARY then STATE_DISCONNECTED else cur_state w)) w"
proof -
  note d = agents_wfD [OF assms]
  from d(3) obtain r where "get_by_id (w_db w) (ag_agentid b) = Some r" ..
  with d(1,2,4) show ?thesis
    by (simp add: remove_agent_def agent_connected_def forget_def update_state_def wp_simps cur_state_def
        del: seqs.simps)
qed

lemma delete_filter: "AList.delete k xs = filter (\<lambda>(k', b). k' \<noteq> k) xs"
  by (auto simp: AList.delete_eq intro: filter_cong)

lemma agents_wf_inj:
  assumes "agents_wf w" and "(k, b) \<in> set (w_agents w)" and "(k', b') \<in> set (w_agents w)"
    and "ag_uuid b = ag_uuid b'"
  shows "k = k'" "b = b'"
  using assms(1-3) inj_onD [OF distinct_map [THEN iffD1, THEN conjunct2], of "\<lambda>(k, b). ag_uuid b" "w_agents w" "(k, b)" "(k', b')"] assms(4)
  by (auto simp: agents_wf_def)

lemma delete_uuid:
  assumes "agents_wf w" and "(k, b) \<in> set (w_agents w)"
  shows "AList.delete k (w_agents w) = filter (\<lambda>(k', c). ag_uuid c \<noteq> ag_uuid b) (w_agents w)"
  unfolding delete_filter
proof (rule filter_cong [OF refl])
  fix x assume x: "x \<in> set (w_agents w)"
  obtain k' c where kc: "x = (k', c)" by (cases x)
  have "k' = k" if "ag_uuid c = ag_uuid b" using agents_wf_inj(1) [OF assms(1) _ assms(2) that] x kc by simp
  moreover have "c = b" if "k' = k" using agents_wfD(4) [OF assms] agents_wfD(4) [OF assms(1)] x kc that by fastforce
  ultimately show "(case x of (k', b) \<Rightarrow> k' \<noteq> k) = (case x of (k', c) \<Rightarrow> ag_uuid c \<noteq> ag_uuid b)"
    using kc by auto
qed

lemma wf_without_uuid:
  assumes "agents_wf w" and "w_agents w' = filter P (w_agents w)" and "w_db w' = w_db w"
  shows "agents_wf w'"
proof -
  have d: "distinct (map f (filter P xs))" if "distinct (map f xs)" for f :: "nat \<times> agent \<Rightarrow> 'c" and xs
    using that by (rule distinct_map_filter)
  show ?thesis
    using assms d [of fst] d [of "\<lambda>(k, b). ag_uuid b"] by (auto simp: agents_wf_def)
qed

lemma wp_sqI:
  "wp m (\<lambda>r s'. r = Inr () \<and> P s') s \<Longrightarrow> (\<And>s'. P s' \<Longrightarrow> wp n Q s') \<Longrightarrow> wp (sq m n) Q s"
  by (simp add: wp_sq) (erule wp_mono, auto)

text \<open>
  The loop of \<open>register\<close> when no other connected agent is a rival primary: at most the
  old connection of the same agent goes.
\<close>

definition rival :: "agent \<Rightarrow> agent \<Rightarrow> bool" where
  "rival a b \<longleftrightarrow> ag_uuid b \<noteq> ag_uuid a \<and> ag_agent_type a = Some PRIMARY \<and> ag_agent_type b = Some PRIMARY"

lemma register_loop_run:
  assumes "agents_wf w" and "set rest \<subseteq> set (w_agents w)" and "n = length (w_agents w)"
    and "\<forall>(k, b) \<in> set rest. \<not> rival a b"
  shows "wp (register_loop a n rest)
    (\<lambda>r w'. r = Inr () \<and> w_db w' = w_db w \<and> w_yml w' = w_yml w \<and>
       w_agents w' = filter (\<lambda>(k, b). ag_uuid b \<noteq> ag_uuid a \<or> (k, b) \<notin> set rest) (w_agents w)) w"
  using assms(2,4)
proof (induction rest)
  case Nil
  have "filter (\<lambda>(k, b). True) (w_agents w) = w_agents w" by (simp add: case_prod_unfold)
  with assms(3) show ?case by (simp add: wp_simps)
next
  case (Cons x rest)
  obtain k b where x: "x = (k, b)" by (cases x)
  with Cons.prems have kb: "(k, b) \<in> set (w_agents w)" and nr: "\<not> rival a b" by auto
  show ?case
  proof (cases "ag_uuid b = ag_uuid a")
    case True
    have "filter (\<lambda>(k', c). ag_uuid c \<noteq> ag_uuid a \<or> (k', c) \<notin> set (x # rest)) (w_agents w) =
        filter (\<lambda>(k', c). ag_uuid c \<noteq> ag_uuid b) (w_agents w)"
    proof (rule filter_cong [OF refl])
      fix y assume "y \<in> set (w_agents w)"
      then show "(case y of (k', c) \<Rightarrow> ag_uuid c \<noteq> ag_uuid a \<or> (k', c) \<notin> set (x # rest)) =
          (case y of (k', c) \<Rightarrow> ag_uuid c \<noteq> ag_uuid b)"
        using agents_wf_inj [OF assms(1) _ kb] True x by (cases y) auto
    qed
    with delete_uuid [OF assms(1) kb] have "AList.delete k (w_agents w) =
        filter (\<lambda>(k', c). ag_uuid c \<noteq> ag_uuid a \<or> (k', c) \<notin> set (x # rest)) (w_agents w)" by simp
    then have "wp (remove_agent b ''An agent is already connected'')
      (\<lambda>r w'. r = Inr () \<and> w_db w' = w_db w \<and> w_yml w' = w_yml w \<and> w_agents w' =
        filter (\<lambda>(k', c). ag_uuid c \<noteq> ag_uuid a \<or> (k', c) \<notin> set (x # rest)) (w_agents w)) w"
      using wp_mono [OF remove_agent_run [OF assms(1) kb]] by simp
    then show ?thesis
      using assms(3) True x by (simp add: wp_simps)
  next
    case False
    with nr have n2: "\<not> (ag_agent_type a = Some PRIMARY \<and> ag_agent_type b = Some PRIMARY)"
      by (simp add: rival_def)
    have "filter (\<lambda>(k', c). ag_uuid c \<noteq> ag_uuid a \<or> (k', c) \<notin> set (x # rest)) (w_agents w) =
        filter (\<lambda>(k', c). ag_uuid c \<noteq> ag_uuid a \<or> (k', c) \<notin> set rest) (w_agents w)"
      using False x by (intro filter_cong) auto
    with Cons.IH Cons.prems False n2 assms(3) x show ?thesis by (auto simp: wp_simps)
  qed
qed

lemma rename_same [simp]:
  "ag_uuid (rename yml a) = ag_uuid a" "ag_conn_id (rename yml a) = ag_conn_id a"
  "ag_agentid (rename yml a) = ag_agentid a" "ag_agent_type (rename yml a) = ag_agent_type a"
  by (simp_all add: rename_def split: prod.splits)

lemma set_agent_type_same [simp]:
  "ag_agentid (set_agent_type yml e) = ag_agentid e" "ag_uuid (set_agent_type yml e) = ag_uuid e"
  "ag_hostname (set_agent_type yml e) = ag_hostname e" "ag_ip_address (set_agent_type yml e) = ag_ip_address e"
  by (simp_all add: set_agent_type_def Let_def rename_def split: prod.splits)

lemma get_by_id_map:
  assumes "\<And>r. ag_agentid (f r) = ag_agentid r"
  shows "(get_by_id (map f db) i = None) = (get_by_id db i = None)"
  using assms by (auto simp: get_by_id_def find_None_iff)

lemma update_append_new: "k \<notin> fst ` set xs \<Longrightarrow> AList.update k v xs = xs @ [(k, v)]"
  by (induction xs) auto

lemma wf_added:
  assumes "agents_wf w" and "w_agents w' = filter (\<lambda>(k, b). ag_uuid b \<noteq> ag_uuid a) (w_agents w) @ [(ag_conn_id a, a)]"
    and "map_of (w_agents w) (ag_conn_id a) = None" and "ag_agentid a \<noteq> 0" and "get_by_id (w_db w) (ag_agentid a) \<noteq> None"
    and "\<And>i. (get_by_id (w_db w') i = None) = (get_by_id (w_db w) i = None)"
  shows "agents_wf w'"
proof -
  let ?P = "\<lambda>(k, b). ag_uuid b \<noteq> ag_uuid a"
  have d: "distinct (map f (filter ?P xs))" if "distinct (map f xs)" for f :: "nat \<times> agent \<Rightarrow> 'c" and xs
    using that by (rule distinct_map_filter)
  have "ag_conn_id a \<notin> fst ` set (w_agents w)" using assms(3) by (simp add: map_of_eq_None_iff)
  then show ?thesis
    using assms d [of fst] d [of "\<lambda>(k, b). ag_uuid b"] by (auto simp: agents_wf_def)
qed

lemma register_run:
  assumes "agents_wf w" and "map_of (w_agents w) (ag_conn_id a) = None" and "ag_agentid a \<noteq> 0"
    and "get_by_id (w_db w) (ag_agentid a) \<noteq> None" and "\<forall>(k, b) \<in> set (w_agents w). \<not> rival a b"
  shows "\<exists>w'. register a orig w = (Inr True, w') \<and> agents_wf w' \<and>
    w_agents w' = filter (\<lambda>(k, b). ag_uuid b \<noteq> ag_uuid a) (w_agents w) @
      [(ag_conn_id a, register_name (w_yml w) a orig)] \<and>
    (ag_agent_type a = Some PRIMARY \<longrightarrow> cur_state w' = STATE_PENDING)"
proof -
  define a' where "a' = register_name (w_yml w) a orig"
  have same: "ag_uuid a' = ag_uuid a" "ag_conn_id a' = ag_conn_id a" "ag_agentid a' = ag_agentid a"
    "ag_agent_type a' = ag_agent_type a" by (simp_all add: a'_def register_name_def)
  have "\<forall>(k, b) \<in> set (w_agents w). \<not> rival a' b" using assms(5) same by (auto simp: rival_def)
  from register_loop_run [OF assms(1) subset_refl refl this]
  obtain t where t: "register_loop a' (length (w_agents w)) (w_agents w) w = (Inr (), t)" "w_db t = w_db w"
    "w_agents t = filter (\<lambda>(k, b). ag_uuid b \<noteq> ag_uuid a' \<or> (k, b) \<notin> set (w_agents w)) (w_agents w)"
    by (auto simp: wp_def split: prod.splits)
  have t3: "w_agents t = filter (\<lambda>(k, b). ag_uuid b \<noteq> ag_uuid a) (w_agents w)"
    unfolding t(3) same by (rule filter_cong) auto
  have "ag_conn_id a \<notin> fst ` set (w_agents t)" using assms(2) t3 by (auto simp: map_of_eq_None_iff image_iff)
  then have up: "AList.update (ag_conn_id a) a' (w_agents t) = w_agents t @ [(ag_conn_id a, a')]"
    by (simp add: update_append_new)
  define u where "u = t\<lparr>w_db := map (\<lambda>r. if ag_agentid r = ag_agentid a then a' else r) (w_db t),
    w_agents := w_agents t @ [(ag_conn_id a, a')]\<rparr>"
  define w' where "w' = (if ag_agent_type a = Some PRIMARY
    then u\<lparr>w_state := Some STATE_PENDING, w_db := map (set_agent_type (w_yml u)) (w_db u)\<rparr> else u)"
  have run: "register a orig w = (Inr True, w')"
    using t(1) up same
    by (simp add: register_def a'_def [symmetric] Let_def sq_def bnd_def store_agent_def update_state_def
        set_all_agent_types_def w'_def u_def)
  have db: "(get_by_id (w_db w') i = None) = (get_by_id (w_db w) i = None)" for i
  proof -
    have "(get_by_id (w_db u) i = None) = (get_by_id (w_db w) i = None)"
      unfolding u_def using t(2) same by (simp add: get_by_id_map)
    then show ?thesis by (simp add: w'_def get_by_id_map)
  qed
  have ags: "w_agents w' = filter (\<lambda>(k, b). ag_uuid b \<noteq> ag_uuid a) (w_agents w) @ [(ag_conn_id a, a')]"
    by (simp add: w'_def u_def t3)
  have "agents_wf w'"
    using wf_added [of w w' a'] assms(1-4) ags db same by simp
  with run ags show ?thesis
    by (intro exI [of _ w']) (simp add: w'_def cur_state_def flip: a'_def)
qed



text \<open>
  The dictionary \<open>register\<close> iterates over shrinks under the iteration when a second
  primary connects.
\<close>

lemma register_loop_rival:
  assumes "agents_wf w" and "set rest \<subseteq> set (w_agents w)" and "n = length (w_agents w)"
    and "(k, p) \<in> set rest" and "rival a p"
    and "\<forall>(k', b) \<in> set rest. ag_uuid b \<noteq> ag_uuid a \<and> (rival a b \<longrightarrow> k' = k)"
  shows "wp (register_loop a n rest)
    (\<lambda>r w'. r = Inl (RuntimeError ''dictionary changed size during iteration'') \<and>
       w_agents w' = AList.delete k (w_agents w) \<and> cur_state w' = STATE_DISCONNECTED) w"
  using assms(2,4,6)
proof (induction rest)
  case (Cons x rest)
  obtain k' b where x: "x = (k', b)" by (cases x)
  with Cons.prems have kb: "(k', b) \<in> set (w_agents w)" and u: "ag_uuid b \<noteq> ag_uuid a"
    and only: "rival a b \<Longrightarrow> k' = k" by auto
  show ?case
  proof (cases "rival a b")
    case True
    with assms(5) have pr: "ag_agent_type a = Some PRIMARY" "ag_agent_type b = Some PRIMARY" "k' = k"
      using only by (simp_all add: rival_def)
    have "k \<in> fst ` set (w_agents w)" using kb pr by force
    then have shorter: "length (AList.delete k (w_agents w)) \<noteq> length (w_agents w)"
      using length_filter_less [of "(k, b)" "w_agents w" "\<lambda>(k', b). k' \<noteq> k"] kb pr by (simp add: delete_filter)
    have removed: "wp (remove_agent b ''A primary agent is already connected'')
        (\<lambda>r w'. r = Inr () \<and> (w_agents w' = AList.delete k (w_agents w) \<and> cur_state w' = STATE_DISCONNECTED)) w"
      using wp_mono [OF remove_agent_run [OF assms(1) kb]] pr by simp
    have stop: "wp (register_loop a n rest) Q w' = Q (Inl (RuntimeError ''dictionary changed size during iteration'')) w'"
      if "length (w_agents w') \<noteq> n" for w' Q
      using that by (cases rest) (auto simp: wp_simps)
    have "wp (sq (remove_agent b ''A primary agent is already connected'') (register_loop a n rest))
        (\<lambda>r w'. r = Inl (RuntimeError ''dictionary changed size during iteration'') \<and>
          w_agents w' = AList.delete k (w_agents w) \<and> cur_state w' = STATE_DISCONNECTED) w"
      by (rule wp_sqI [OF removed]) (use shorter stop assms(3) in auto)
    with pr u assms(3) x show ?thesis by (simp add: wp_bnd wp_gets)
  next
    case False
    then have "(k', b) \<noteq> (k, p)" using assms(5) by auto
    with Cons.prems x have "(k, p) \<in> set rest" by auto
    with Cons.IH Cons.prems False u assms(3) x show ?thesis by (auto simp: wp_simps rival_def)
  qed
qed simp

text \<open>
  When a primary connects while another primary is connected, registering it raises:
  the old primary has been removed, the new one is not in the table, and the main state
  is disconnected.
\<close>

theorem register_second_primary:
  assumes "agents_wf w" and "(k, p) \<in> set (w_agents w)" and "rival a p"
    and "\<forall>(k', b) \<in> set (w_agents w). ag_uuid b \<noteq> ag_uuid a \<and> (rival a b \<longrightarrow> k' = k)"
  shows "\<exists>w'. register a orig w = (Inl (RuntimeError ''dictionary changed size during iteration''), w') \<and>
    w_agents w' = AList.delete k (w_agents w) \<and> cur_state w' = STATE_DISCONNECTED"
proof -
  let ?a = "register_name (w_yml w) a orig"
  have r: "rival ?a b = rival a b" "ag_uuid ?a = ag_uuid a" for b
    by (simp_all add: rival_def register_name_def)
  have "\<forall>(k', b) \<in> set (w_agents w). ag_uuid b \<noteq> ag_uuid ?a \<and> (rival ?a b \<longrightarrow> k' = k)"
    using assms(4) r by simp
  from register_loop_rival [OF assms(1) subset_refl refl assms(2) _ this] assms(3) r
  show ?thesis
    by (auto simp: register_def wp_def sq_def bnd_def Let_def split: prod.splits)
qed

theorem register_second_primary_witness:
  "\<exists>w'. register (agent0\<lparr>ag_agentid := 2, ag_conn_id := 2, ag_uuid := ''u2''\<rparr>) None world1 =
       (Inl (RuntimeError ''dictionary changed size during iteration''), w') \<and>
     w_agents w' = [] \<and> cur_state w' = STATE_DISCONNECTED"
  using register_second_primary
    [of world1 1 agent0 "agent0\<lparr>ag_agentid := 2, ag_conn_id := 2, ag_uuid := ''u2''\<rparr>" None]
  by (simp add: agents_wf_def world1_def agent0_def rival_def get_by_id_def)

lemma all_agents_run:
  "all_agents w =
     (if \<exists>(k, a) \<in> set (w_agents w). get_by_uuid (w_db w) (ag_uuid a) = None
      then (Inl (AttributeError ''_sa_instance_state''), w)
      else (Inr (filter (\<lambda>(k, a). row_enabled (w_db w) a) (w_agents w)), w))"
  by (simp add: all_agents_def bnd_def enabled_agents_eq lift_sum_def)

text \<open>
  A lookup by uuid answers with a connected agent of that uuid whose row is enabled,
  answers nothing only if there is none, and changes nothing; it raises exactly when a
  connected agent's row is gone.
\<close>

theorem agent_by_uuid_spec:
  "(case agent_by_uuid u w of
      (Inr (Some a), w') \<Rightarrow> w' = w \<and> ag_uuid a = u \<and> row_enabled (w_db w) a \<and> a \<in> snd ` set (w_agents w)
    | (Inr None, w') \<Rightarrow> w' = w \<and> \<not> (\<exists>a \<in> snd ` set (w_agents w). ag_uuid a = u \<and> row_enabled (w_db w) a)
    | (Inl e, w') \<Rightarrow> w' = w \<and> (\<exists>a \<in> snd ` set (w_agents w). get_by_uuid (w_db w) (ag_uuid a) = None))"
proof (cases "\<exists>(k, a) \<in> set (w_agents w). get_by_uuid (w_db w) (ag_uuid a) = None")
  case True
  then have "\<exists>a \<in> snd ` set (w_agents w). get_by_uuid (w_db w) (ag_uuid a) = None" by force
  with True show ?thesis by (simp add: agent_by_uuid_def bnd_def all_agents_run)
next
  case False
  let ?xs = "filter (\<lambda>(k, a). row_enabled (w_db w) a) (w_agents w)"
  have run: "agent_by_uuid u w = (Inr (first_agent (\<lambda>a. ag_uuid a = u) ?xs), w)"
    using False by (simp add: agent_by_uuid_def bnd_def all_agents_run)
  show ?thesis
  proof (cases "first_agent (\<lambda>a. ag_uuid a = u) ?xs")
    case None
    then have "\<forall>a \<in> snd ` set ?xs. ag_uuid a \<noteq> u" by (simp add: first_agent_None)
    then show ?thesis using run None by fastforce
  next
    case (Some a)
    from first_agent_Some [OF this] show ?thesis using run Some by force
  qed
qed

text \<open>
  Asking for an agent id that no enabled connected agent has answers with the last
  enabled agent, not with nothing.
\<close>

theorem agent_by_agentid_missing:
  assumes "\<forall>(k, a) \<in> set (w_agents w). get_by_uuid (w_db w) (ag_uuid a) \<noteq> None"
    and "\<forall>(k, a) \<in> set (w_agents w). row_enabled (w_db w) a \<longrightarrow> ag_agentid a \<noteq> i"
    and "filter (\<lambda>(k, a). row_enabled (w_db w) a) (w_agents w) = xs @ [(k, a)]"
  shows "agent_by_agentid i w = (Inr (Some a), w) \<and> ag_agentid a \<noteq> i"
proof -
  have "\<not> (\<exists>(k, a) \<in> set (w_agents w). get_by_uuid (w_db w) (ag_uuid a) = None)" using assms(1) by auto
  moreover have "\<forall>b \<in> snd ` set (xs @ [(k, a)]). ag_agentid b \<noteq> i"
    using assms(2) unfolding assms(3) [symmetric] by auto
  ultimately show ?thesis
    using last_or_match_missing [of "xs @ [(k, a)]" i None]
    by (auto simp: agent_by_agentid_def bnd_def all_agents_run assms(3))
qed

theorem agent_by_agentid_missing_witness:
  "agent_by_agentid 42 world1 = (Inr (Some agent0), world1) \<and> ag_agentid agent0 \<noteq> 42"
  using agent_by_agentid_missing [of world1 42 "[]" 1 agent0]
  by (simp add: world1_def agent0_def row_enabled_def get_by_uuid_def)

lemma is_tableau_worker_set [simp]: "is_tableau_worker yml (set_agent_type yml' e) = is_tableau_worker yml e"
  by (simp add: is_tableau_worker_def split: option.splits)

lemma set_agent_type_type:
  "ag_agent_type (set_agent_type yml e) =
     (if ag_agent_type e = None \<or> ag_agent_type e = Some PRIMARY then ag_agent_type e
      else Some (if is_tableau_worker yml e then WORKER else ARCHIVE))"
  by (auto simp: set_agent_type_def Let_def)

text \<open>
  Reclassifying the agents against the primary's yml file leaves the primary and
  untyped rows alone, makes every other row a worker exactly if the yml file names its
  host or address, and a second run changes nothing.
\<close>

theorem set_all_agent_types_spec:
  "\<exists>w'. set_all_agent_types w = (Inr (), w') \<and> set_all_agent_types w' = (Inr (), w') \<and>
     map ag_uuid (w_db w') = map ag_uuid (w_db w) \<and>
     map ag_agent_type (w_db w') =
       map (\<lambda>e. if ag_agent_type e \<in> {None, Some PRIMARY} then ag_agent_type e
         else Some (if is_tableau_worker (w_yml w) e then WORKER else ARCHIVE)) (w_db w)"
proof -
  have idem: "set_agent_type yml (set_agent_type yml e) = set_agent_type yml e" for yml e
    using set_agent_type_type [of yml e]
    by (subst set_agent_type_def) (auto simp: Let_def)
  show ?thesis
    by (simp add: set_all_agent_types_def set_agent_type_type idem o_def)
qed

end
