(* ===== verification/CliCmd.thy ===== *)
theory CliCmd
  imports Agents
begin

text \<open>
  \<open>cli_cmd.py\<close> and the requests of \<open>controller.py\<close> that talk to one agent: a command is
  started, its status is polled until it has finished or its time is over, and it is
  cleaned up; \<open>kill_cmd\<close> ends it, \<open>send_immediate\<close> is one request and its answer.
\<close>

section \<open>Obscuring passwords\<close>

text \<open>\<open>s.split()\<close>: the words between runs of white space.\<close>

fun words_from :: "string \<Rightarrow> string \<Rightarrow> string list" where
  "words_from cur [] = (if cur = [] then [] else [cur])"
| "words_from cur (c # cs) =
     (if is_space c then (if cur = [] then words_from [] cs else cur # words_from [] cs)
      else words_from (cur @ [c]) cs)"

definition words :: "string \<Rightarrow> string list" where
  "words s = words_from [] s"

fun join_with :: "string \<Rightarrow> string list \<Rightarrow> string" where
  "join_with sep [] = []"
| "join_with sep [x] = x"
| "join_with sep (x # y # ys) = x @ sep @ join_with sep (y # ys)"

fun safe_tokens :: "bool \<Rightarrow> string list \<Rightarrow> string list" where
  "safe_tokens obscure [] = []"
| "safe_tokens obscure (x # xs) =
     (if x = ''--password'' then x # safe_tokens True xs
      else if obscure then ''<>'' # safe_tokens False xs
      else x # safe_tokens False xs)"

definition safecmd :: "string \<Rightarrow> string" where
  "safecmd cmd = join_with '' '' (safe_tokens False (words cmd))"

section \<open>One request\<close>

text \<open>
  The part every request shares: the answer's status is tested, a bad answer or a
  failed exchange removes the agent and becomes an error dictionary; \<open>bad\<close> is the reason
  given for a status that is not 200, \<open>gone\<close> the reason and \<open>err\<close> the error message for a
  failure with a given text.
\<close>

definition checked_exchange ::
    "agent \<Rightarrow> request \<Rightarrow> (nat \<Rightarrow> string \<Rightarrow> string) \<Rightarrow> (string \<Rightarrow> string) \<Rightarrow> (string \<Rightarrow> string) \<Rightarrow> (body + raw) io" where
  "checked_exchange a rq bad gone err =
     bnd (exchange rq) (\<lambda>res. case res of
       Resp status reason raw \<Rightarrow>
         if status \<noteq> 200 then sq (lose_agent a (bad status reason)) (ret (Inl (httperror status reason)))
         else ret (Inr raw)
     | NetHTTPError s \<Rightarrow> sq (lose_agent a (gone s)) (ret (Inl (error_body (err s))))
     | NetIOError s \<Rightarrow> sq (lose_agent a (gone s)) (ret (Inl (error_body (err s)))))"

definition send_immediate :: "agent \<Rightarrow> string \<Rightarrow> string \<Rightarrow> body \<Rightarrow> body io" where
  "send_immediate a meth uri send_body =
     bnd (checked_exchange a (Request (ag_conn_id a) meth uri send_body)
            (\<lambda>status reason. ''Communication failure with agent. Immediate command, status: '' @ nat_str status)
            (\<lambda>s. ''Agent send_immediate command '' @ meth @ '' '' @ uri @ '' failed: '' @ s)
            (\<lambda>s. ''send_immediate method '' @ meth @ '', uri '' @ uri @ '' failed: '' @ s))
       (\<lambda>r. case r of
          Inl b \<Rightarrow> ret b
        | Inr NoBody \<Rightarrow> ret Map.empty
        | Inr raw \<Rightarrow> bnd (json_loads raw) (\<lambda>j. case j of
              None \<Rightarrow> raise (TypeError ''argument of type 'NoneType' is not iterable'')
            | Some b \<Rightarrow> ret b))"

definition kill_request :: "agent \<Rightarrow> jval \<Rightarrow> request" where
  "kill_request a xid = Request (ag_conn_id a) ''POST'' ''/cli'' [''action'' \<mapsto> JStr ''kill'', ''xid'' \<mapsto> xid]"

definition kill_cmd :: "jval \<Rightarrow> agent \<Rightarrow> body io" where
  "kill_cmd xid a =
     bnd (checked_exchange a (kill_request a xid)
            (\<lambda>status reason. ''Agent command failed with status: '' @ nat_str status)
            (\<lambda>s. ''Command to agent failed. Error: '' @ s)
            (\<lambda>s. ''kill_cmd: failed: '' @ s))
       (\<lambda>r. case r of
          Inl b \<Rightarrow> ret b
        | Inr raw \<Rightarrow> bnd (json_loads raw) (\<lambda>j. case j of
              None \<Rightarrow> ret (error_body ''POST //cli getresponse returned null body'')
            | Some b \<Rightarrow> ret b))"

section \<open>Starting a command\<close>

text \<open>\<open>CliStartRequest\<close>: the body of the request, with a fresh transaction id.\<close>

definition start_body :: "nat \<Rightarrow> string \<Rightarrow> body \<Rightarrow> bool \<Rightarrow> body" where
  "start_body xid cli env immediate =
     [''cli'' \<mapsto> JStr cli, ''action'' \<mapsto> JStr ''start'', ''xid'' \<mapsto> JInt (int xid)]
       ++ (if env = Map.empty then Map.empty else [''env'' \<mapsto> JDict env])
       ++ (if immediate then [''immediate'' \<mapsto> JBool True] else Map.empty)"

definition start_request :: "agent \<Rightarrow> nat \<Rightarrow> string \<Rightarrow> body \<Rightarrow> bool \<Rightarrow> request" where
  "start_request a xid cli env immediate =
     Request (ag_conn_id a) ''POST'' ''/cli'' (start_body xid cli env immediate)"

definition next_xid :: "nat io" where
  "next_xid = bnd (gets w_next_xid) (\<lambda>x. sq (modify (\<lambda>w. w\<lparr>w_next_xid := x + 1\<rparr>)) (ret x))"

definition with_error :: "string \<Rightarrow> body \<Rightarrow> body" where
  "with_error msg b = b(''error'' \<mapsto> JStr msg)"

text \<open>The tests on the answer to a start request.\<close>

definition check_started :: "nat \<Rightarrow> body \<Rightarrow> body" where
  "check_started xid b =
     (case b ''xid'' of
        None \<Rightarrow> with_error ''POST /cli response was missing the xid'' b
      | Some x \<Rightarrow>
          if x \<noteq> JInt (int xid) then with_error ''POST /cli xid was not the expected one'' b
          else (case b ''run-status'' of
              None \<Rightarrow> with_error ''POST /cli response missing 'run-status' '' b
            | Some rs \<Rightarrow>
                if rs \<noteq> JStr ''running'' \<and> rs \<noteq> JStr ''finished''
                then with_error ''POST /cli response for 'run-status' was not 'running' '' b
                else b))"

definition post_start :: "string \<Rightarrow> agent \<Rightarrow> body \<Rightarrow> bool \<Rightarrow> nat \<Rightarrow> (body + raw) io" where
  "post_start cmd a env immediate xid =
     checked_exchange a (start_request a xid cmd env immediate)
       (\<lambda>status reason. ''Command sent to agent failed. Error: '' @ reason)
       (\<lambda>s. ''Command to agent failed. Error: '' @ s)
       (\<lambda>s. ''_send_cli: '' @ safecmd cmd @ '' command failed with: '' @ s)"

definition send_cli :: "string \<Rightarrow> agent \<Rightarrow> body \<Rightarrow> bool \<Rightarrow> body io" where
  "send_cli cmd a env immediate =
     bnd next_xid (\<lambda>xid.
       bnd (post_start cmd a env immediate xid)
         (\<lambda>r. case r of
            Inl b \<Rightarrow> ret b
          | Inr raw \<Rightarrow> bnd (json_loads raw) (\<lambda>j. case j of
                None \<Rightarrow> ret (error_body ''POST /cli response had a null body'')
              | Some b \<Rightarrow> ret (check_started xid b))))"

section \<open>Polling a command\<close>

definition status_request :: "agent \<Rightarrow> jval \<Rightarrow> request" where
  "status_request a xid = Request (ag_conn_id a) ''GET'' ''/cli'' [''xid'' \<mapsto> xid]"

text \<open>\<open>body['exit-status'] != 0\<close> and \<open>"%d" % body['exit-status']\<close>\<close>

fun is_zero :: "jval \<Rightarrow> bool" where
  "is_zero (JInt i) = (i = 0)"
| "is_zero (JBool b) = (\<not> b)"
| "is_zero _ = False"

fun format_d :: "jval \<Rightarrow> string option" where
  "format_d (JInt i) = Some (int_str i)"
| "format_d (JBool b) = Some (if b then ''1'' else ''0'')"
| "format_d _ = None"

definition finished_status :: "agent \<Rightarrow> body \<Rightarrow> body io" where
  "finished_status a b =
     (case b ''exit-status'' of
        None \<Rightarrow> sq (lose_agent a ''AGENT-RETURNED-INVALID-STATUS'')
          (ret (error_body ''GET /cli command reply returned 'finished' but was missing 'exit-status'!''))
      | Some ex \<Rightarrow>
          if is_zero ex then ret b
          else (case b ''stderr'' of
              Some err \<Rightarrow>
                if truthy err then ret (b(''error'' \<mapsto> err))
                else (case format_d ex of
                    None \<Rightarrow> raise (TypeError ''%d format: a number is required'')
                  | Some n \<Rightarrow> ret (with_error (''Failed with exit status: '' @ n) b))
            | None \<Rightarrow> (case format_d ex of
                    None \<Rightarrow> raise (TypeError ''%d format: a number is required'')
                  | Some n \<Rightarrow> ret (with_error (''Failed with exit status: '' @ n) b))))"

text \<open>
  The \<open>while True\<close> loop of \<open>_get_cli_status\<close>.  The first argument is fuel, spent once per
  round; \<open>status_fuel\<close> below is enough whenever the polling interval is positive.
\<close>

definition poll :: "jval \<Rightarrow> agent \<Rightarrow> (body + raw) io" where
  "poll xid a =
     checked_exchange a (status_request a xid)
       (\<lambda>status reason. ''AGENT-RETURNED-INVALID-STATUS'')
       (\<lambda>s. ''Communication failure with agent: '' @ s)
       (\<lambda>s. ''GET /cli failed with: '' @ s)"

definition timed_out :: "jval \<Rightarrow> agent \<Rightarrow> string \<Rightarrow> nat \<Rightarrow> body io" where
  "timed_out xid a cmd timeout =
     sq (kill_cmd xid a)
        (ret (error_body (''Command timed out after '' @ nat_str timeout @ '' seconds: '' @ safecmd cmd)))"

text \<open>What an answer means: the command has finished, is still running, or neither.\<close>

definition disconnected_before :: "agent \<Rightarrow> body" where
  "disconnected_before a = error_body (''Agent disconnected before finishing: '' @ ag_uuid a)"

definition bad_status :: "agent \<Rightarrow> body io" where
  "bad_status a =
     sq (lose_agent a ''AGENT-RETURNED-INVALID-STATUS'')
        (ret (error_body ''GET /cli command reply was missing 'run-status'!  Will not retry''))"

definition unknown_status :: "agent \<Rightarrow> body io" where
  "unknown_status a =
     sq (lose_agent a ''Communication failure with agent: Unknown run-status'')
        (raise (TypeError ''not all arguments converted during string formatting''))"

fun get_cli_status :: "nat \<Rightarrow> jval \<Rightarrow> agent \<Rightarrow> string \<Rightarrow> nat \<Rightarrow> nat \<Rightarrow> body io" where
  "get_cli_status 0 xid a cmd timeout start = raise Blocked"
| "get_cli_status (Suc fuel) xid a cmd timeout start =
     bnd (gets w_now) (\<lambda>now.
       if start + timeout < now then timed_out xid a cmd timeout
       else bnd (agent_connected a) (\<lambda>connected.
         if \<not> ag_initting a \<and> \<not> connected then ret (disconnected_before a)
         else bnd (poll xid a) (\<lambda>r. case r of
              Inl b \<Rightarrow> ret b
            | Inr raw \<Rightarrow> bnd (json_loads raw) (\<lambda>j. case j of
                  None \<Rightarrow> ret (error_body ''Get /cli getresponse returned a null body'')
                | Some b \<Rightarrow>
                    (case b ''run-status'' of
                       None \<Rightarrow> bad_status a
                     | Some rs \<Rightarrow>
                         if rs = JStr ''finished'' then finished_status a b
                         else if rs = JStr ''running'' then
                           bnd (gets w_conf) (\<lambda>c. sq (sleep (cf_cli_get_status_interval c))
                             (get_cli_status fuel xid a cmd timeout start))
                         else unknown_status a)))))"

section \<open>Cleaning up, and the whole command\<close>

definition cleanup_request :: "agent \<Rightarrow> jval \<Rightarrow> request" where
  "cleanup_request a xid = Request (ag_conn_id a) ''POST'' ''/cli'' [''action'' \<mapsto> JStr ''cleanup'', ''xid'' \<mapsto> xid]"

definition send_cleanup :: "jval \<Rightarrow> agent \<Rightarrow> string \<Rightarrow> body io" where
  "send_cleanup xid a cmd =
     bnd (checked_exchange a (cleanup_request a xid)
            (\<lambda>status reason. ''Agent command failed with status: '' @ nat_str status)
            (\<lambda>s. ''Command to agent failed. Error: '' @ s)
            (\<lambda>s. ''/cli failed for command '' @ cmd @ '' with: '' @ s))
       (\<lambda>r. case r of
          Inl b \<Rightarrow> ret b
        | Inr raw \<Rightarrow> bnd (json_loads raw) (\<lambda>j. case j of
              None \<Rightarrow> ret (error_body ''POST //cli getresponse returned null body'')
            | Some b \<Rightarrow> ret b))"

definition status_fuel :: "nat \<Rightarrow> nat \<Rightarrow> nat" where
  "status_fuel timeout interval = timeout div interval + 2"

definition cli_cmd :: "string \<Rightarrow> agent \<Rightarrow> body \<Rightarrow> bool \<Rightarrow> nat \<Rightarrow> body io" where
  "cli_cmd cmd a env immediate timeout =
     bnd (send_cli cmd a env immediate) (\<lambda>b.
       if failed b then ret b
       else (case b ''run-status'' of
           None \<Rightarrow> ret (error_body (''_send_cli ('' @ safecmd cmd @ '') missing 'run-status' ''))
         | Some rs \<Rightarrow>
             if rs = JStr ''finished'' then ret b
             else (case b ''xid'' of
                 None \<Rightarrow> raise (KeyError ''xid'')
               | Some xid \<Rightarrow>
                   bnd (gets (\<lambda>w. (w_now w, cf_cli_get_status_interval (w_conf w)))) (\<lambda>(start, interval).
                   bnd (get_cli_status (status_fuel timeout interval) xid a cmd timeout start) (\<lambda>cli_body.
                     if \<not> has_key cli_body ''stdout'' \<and> \<not> failed cli_body
                     then raise (TypeError ''%d format: a number is required, not str'')
                     else bnd (send_cleanup xid a cmd) (\<lambda>cleanup_body.
                       if failed cli_body then ret cli_body
                       else if failed cleanup_body then ret cleanup_body
                       else ret cli_body))))))"

section \<open>What the requests leave alone\<close>

lemma moves_leaves [drift]:
  "moves f V (json_loads r)" "moves f V (agent_connected a)"
  by (auto intro!: keeps_moves frame)

lemma moves_checked_exchange:
  assumes "moves f V (exchange rq)" and "\<And>r. moves f V (lose_agent a r)"
  shows "moves f V (checked_exchange a rq bad gone err)"
  unfolding checked_exchange_def
  by (intro moves_bnd assms(1)) (auto split: netres.split intro!: moves_sq moves_pure assms(2))

lemma moves_raw [drift]:
  "\<lbrakk>\<And>b. moves f V (m b); moves f V n; \<And>x. moves f V (k x)\<rbrakk> \<Longrightarrow>
     moves f V (case r of Inl b \<Rightarrow> m b | Inr NoBody \<Rightarrow> n | Inr x \<Rightarrow> k x)"
  by (auto split: sum.split raw.split)

lemma moves_send_immediate:
  assumes x: "\<And>b. moves f V (exchange (Request (ag_conn_id a) m u b))" and r: "\<And>a r. moves f V (lose_agent a r)"
  shows "moves f V (send_immediate a m u b)"
  unfolding send_immediate_def by (rule drift moves_checked_exchange x r)+

lemma moves_commands:
  assumes x: "\<And>c b. moves f V (exchange (Request c ''POST'' ''/cli'' b))" "\<And>c b. moves f V (exchange (Request c ''GET'' ''/cli'' b))"
    and r: "\<And>a r. moves f V (lose_agent a r)"
    and n: "moves f V next_xid" and z: "\<And>n. moves f V (sleep n)"
  shows "moves f V (kill_cmd xid a)" "moves f V (send_cleanup xid a cmd)"
    "moves f V (send_cli cmd a env im)" "moves f V (get_cli_status fuel xid a cmd timeout start)"
    "moves f V (cli_cmd cmd a env im timeout)"
proof -
  note c = moves_checked_exchange [OF x(1) r] moves_checked_exchange [OF x(2) r]
  show k: "moves f V (kill_cmd xid a)" for xid unfolding kill_cmd_def kill_request_def by (rule drift c)+
  show cl: "moves f V (send_cleanup xid a cmd)" for xid cmd unfolding send_cleanup_def cleanup_request_def by (rule drift c)+
  show s: "moves f V (send_cli cmd a env im)" unfolding send_cli_def post_start_def start_request_def by (rule drift c n)+
  have fin: "moves f V (finished_status a b)" for b unfolding finished_status_def by (rule drift r)+
  have st: "moves f V (timed_out xid a cmd timeout)" "moves f V (bad_status a)" "moves f V (unknown_status a)"
    "moves f V (poll xid a)" for xid
    unfolding poll_def status_request_def timed_out_def bad_status_def unknown_status_def by (rule drift c k r)+
  show g: "moves f V (get_cli_status fuel xid a cmd timeout start)" for fuel xid start
    by (induction fuel) (simp_all only: get_cli_status.simps, (rule drift fin st z | assumption)+)
  show "moves f V (cli_cmd cmd a env im timeout)" unfolding cli_cmd_def by (rule drift s g cl)+
qed

lemma moves_requests:
  assumes x: "\<And>rq. moves f V (exchange rq)" and r: "\<And>a r. moves f V (lose_agent a r)"
    and n: "moves f V next_xid" and z: "\<And>n. moves f V (sleep n)"
  shows "moves f V (send_immediate a m u b)" "moves f V (kill_cmd xid a)" "moves f V (send_cleanup xid a cmd)"
    "moves f V (send_cli cmd a env im)" "moves f V (get_cli_status fuel xid a cmd timeout start)"
    "moves f V (cli_cmd cmd a env im timeout)"
  by (rule moves_send_immediate moves_commands x r n z)+

lemmas keeps_requests = moves_requests [where V = "{}", unfolded moves_none]

lemma keeps_finished_status:
  assumes "\<And>r. keeps f (lose_agent a r)"
  shows "keeps f (finished_status a b)"
  unfolding finished_status_def by (rule frame | rule assms)+

lemma keeps_raw [frame]:
  "\<lbrakk>\<And>b. keeps f (m b); keeps f n; \<And>x. keeps f (k x)\<rbrakk> \<Longrightarrow>
     keeps f (case r of Inl b \<Rightarrow> m b | Inr NoBody \<Rightarrow> n | Inr x \<Rightarrow> k x)"
  by (auto split: sum.split raw.split)

text \<open>
  The main state under a request: it is left alone, or the agent was the primary and has
  been lost.
\<close>

lemma moves_state_remove_agent [drift]:
  "moves cur_state {STATE_DISCONNECTED} (remove_agent a r)" "moves cur_state {STATE_DISCONNECTED} (lose_agent a r)"
proof -
  have u: "moves cur_state {STATE_DISCONNECTED} (update_state STATE_DISCONNECTED)"
    by (simp add: moves_def update_state_def)
  have m: "keeps cur_state (modify (\<lambda>w. w\<lparr>w_disconnect_sent := c # w_disconnect_sent w\<rparr>))"
    "keeps cur_state (modify (\<lambda>w. w\<lparr>w_agents := AList.delete c (w_agents w)\<rparr>))" for c
    by (simp_all add: keeps_def cur_state_def)
  have f: "keeps cur_state (forget a)" "keeps cur_state (agent_connected a)" by (rule frame)+
  show r: "moves cur_state {STATE_DISCONNECTED} (remove_agent a r)"
    unfolding remove_agent_def
    by (rule drift u keeps_moves [OF keeps_cur_state_small(6)] keeps_moves [OF m(1)] keeps_moves [OF m(2)]
        keeps_moves [OF f(1)])+
  have p: "keeps cur_state (modify (\<lambda>w. w\<lparr>w_procs := [], w_procs_db := []\<rparr>))" by (simp add: keeps_def cur_state_def)
  show "moves cur_state {STATE_DISCONNECTED} (lose_agent a r)"
    unfolding lose_agent_def by (rule drift r keeps_moves [OF p] keeps_moves [OF keeps_lookups(2)])+
qed

lemma moves_state_requests [drift]:
  "moves cur_state {STATE_DISCONNECTED} (send_immediate a m u b)"
  "moves cur_state {STATE_DISCONNECTED} (kill_cmd xid a)"
  "moves cur_state {STATE_DISCONNECTED} (cli_cmd cmd a env im timeout)"
proof -
  have n: "keeps cur_state next_xid" by (simp add: next_xid_def keeps_def bnd_def sq_def cur_state_def)
  have x: "keeps cur_state (exchange rq)" "keeps cur_state (sleep n)" for rq n by (rule frame)+
  note q = moves_requests [OF keeps_moves [OF x(1)] moves_state_remove_agent(2) keeps_moves [OF n] keeps_moves [OF x(2)]]
  show "moves cur_state {STATE_DISCONNECTED} (send_immediate a m u b)"
    "moves cur_state {STATE_DISCONNECTED} (kill_cmd xid a)"
    "moves cur_state {STATE_DISCONNECTED} (cli_cmd cmd a env im timeout)"
    by (rule q)+
qed

text \<open>A part of the state that no request writes.\<close>

lemma keeps_requests_field:
  assumes "\<And>w x. f (w\<lparr>w_sent := x\<rparr>) = f w" and "\<And>w n t. f (w\<lparr>w_net := n, w_now := t\<rparr>) = f w"
    and "\<And>w x. f (w\<lparr>w_now := x\<rparr>) = f w" and "\<And>w x. f (w\<lparr>w_next_xid := x\<rparr>) = f w"
    and "\<And>w x. f (w\<lparr>w_events := x\<rparr>) = f w" and "\<And>w x. f (w\<lparr>w_disconnect_sent := x\<rparr>) = f w"
    and "\<And>w x. f (w\<lparr>w_agents := x\<rparr>) = f w" and "\<And>w x. f (w\<lparr>w_state := x\<rparr>) = f w"
    and "\<And>w x. f (w\<lparr>w_procs := x, w_procs_db := x\<rparr>) = f w"
  shows "keeps f (send_immediate a m u b)" "keeps f (kill_cmd xid a)" "keeps f (cli_cmd cmd a env im timeout)"
proof -
  have x: "keeps f (exchange rq)" for rq by (rule keeps_exchange; rule assms)
  have r: "keeps f (lose_agent a r)" for a r by (rule keeps_lose_agent; rule assms)
  have n: "keeps f next_xid" unfolding next_xid_def by (rule frame assms)+
  have z: "keeps f (sleep n)" for n unfolding sleep_def by (rule frame assms)+
  show "keeps f (send_immediate a m u b)" "keeps f (kill_cmd xid a)" "keeps f (cli_cmd cmd a env im timeout)"
    by (rule keeps_requests [OF x r n z])+
qed

lemma keeps_locks_requests [frame]:
  "keeps locks (send_immediate a m u b)" "keeps locks (kill_cmd xid a)"
  "keeps locks (send_cli cmd a env im)" "keeps locks (cli_cmd cmd a env im timeout)"
  by (rule keeps_requests; (rule frame)?; simp add: next_xid_def locks_def keeps_def bnd_def sq_def)+

section \<open>Commands end\<close>

text \<open>Exceptions no request to an agent raises: waiting for a lock, and the status page's own.\<close>

fun calm :: "pyexn \<Rightarrow> bool" where
  "calm Blocked = True"
| "calm (SysteminfoException _ _) = True"
| "calm (ArchiveException _) = True"
| "calm _ = False"

lemma calm_neq [simp]:
  "calm e \<Longrightarrow> ValueError s \<noteq> e" "calm e \<Longrightarrow> TypeError s \<noteq> e" "calm e \<Longrightarrow> KeyError s \<noteq> e"
  "calm e \<Longrightarrow> AttributeError s \<noteq> e" "calm e \<Longrightarrow> DBError s \<noteq> e" "calm e \<Longrightarrow> RuntimeError s \<noteq> e"
  by auto

lemma avoids_lookup: "calm e \<Longrightarrow> avoids e (agent_by_type ty)"
  by (cases e) (auto simp: agent_by_type_def all_agents_def lift_sum_def enabled_agents_eq avoids_def bnd_def)

lemma avoids_remove_agent [total]: "calm e \<Longrightarrow> avoids e (remove_agent a r)" "calm e \<Longrightarrow> avoids e (lose_agent a r)"
  unfolding lose_agent_def remove_agent_def agent_connected_def forget_def gen_def update_state_def
  by (rule total avoids_lookup | simp)+

lemma avoids_json_loads [total]: "calm e \<Longrightarrow> avoids e (json_loads r)"
  unfolding json_loads_def by (cases r) (auto intro: total)

lemma avoids_exchange [total]: "avoids e (exchange rq)"
  unfolding exchange_def by (rule total)+

lemma avoids_checked_exchange [total]: "calm e \<Longrightarrow> avoids e (checked_exchange a rq bad gone err)"
  unfolding checked_exchange_def
  by (intro avoids_bnd avoids_exchange) (auto split: netres.split intro!: avoids_sq avoids_ret avoids_remove_agent)

lemma avoids_send_immediate [total]: "calm e \<Longrightarrow> avoids e (send_immediate a m u b)"
  unfolding send_immediate_def
  by (intro avoids_bnd avoids_checked_exchange) (auto split: sum.split raw.split option.split intro!: total)

lemma avoids_simple_requests [total]:
  "avoids Blocked (kill_cmd xid a)" "avoids Blocked (send_cleanup xid a cmd)"
  "avoids Blocked (send_cli cmd a env im)" "avoids Blocked (finished_status a b)"
  unfolding kill_cmd_def send_cleanup_def send_cli_def post_start_def next_xid_def finished_status_def
  by (rule total | simp)+

lemma avoids_fst: "avoids e m \<Longrightarrow> fst (m s) \<noteq> Inl e"
  by (simp add: avoids_def)

lemma exchange_time:
  assumes "exchange rq w = (r, w')"
  shows "w_now w \<le> w_now w'" "w_conf w' = w_conf w"
  using assms by (auto simp: exchange_def sq_def bnd_def split: list.splits)

lemma keeps_now_remove_agent: "keeps w_now (lose_agent a r)" "keeps w_conf (lose_agent a r)"
  by (rule keeps_lose_agent; simp)+

lemma checked_exchange_time:
  assumes "checked_exchange a rq bad gone err w = (r, w')"
  shows "w_now w \<le> w_now w'" "w_conf w' = w_conf w"
proof -
  obtain x t where x: "exchange rq w = (x, t)" by fastforce
  from exchange_time [OF x] show "w_now w \<le> w_now w'" "w_conf w' = w_conf w"
    using assms x keepsD [OF keeps_now_remove_agent(1)] keepsD [OF keeps_now_remove_agent(2)]
    by (auto simp: checked_exchange_def bnd_def sq_def split: sum.splits netres.splits if_splits prod.splits)
qed

text \<open>
  Every round of the loop lets at least the polling interval pass, so enough fuel to
  reach the timeout is enough fuel to return.
\<close>

lemma avoids_status_answers [total]:
  "avoids Blocked (timed_out xid a cmd timeout)" "avoids Blocked (bad_status a)"
  "avoids Blocked (unknown_status a)" "avoids Blocked (poll xid a)"
  unfolding poll_def timed_out_def bad_status_def unknown_status_def
  by (rule total | simp)+

lemma poll_time: "poll xid a w = (r, w') \<Longrightarrow> w_now w \<le> w_now w' \<and> w_conf w' = w_conf w"
  unfolding poll_def using checked_exchange_time by blast

lemma get_cli_status_fuel:
  assumes "0 < cf_cli_get_status_interval (w_conf w)"
    and "start + timeout < w_now w + fuel * cf_cli_get_status_interval (w_conf w)"
  shows "fst (get_cli_status (Suc fuel) xid a cmd timeout start w) \<noteq> Inl Blocked"
  using assms
proof (induction fuel arbitrary: w)
  case 0
  then show ?case using avoids_fst [OF avoids_status_answers(1)] by (simp add: bnd_def)
next
  case (Suc fuel)
  let ?i = "cf_cli_get_status_interval (w_conf w)"
  obtain r t where r: "poll xid a w = (r, t)" by fastforce
  note tm = poll_time [OF r]
  have rec: "fst (get_cli_status (Suc fuel) xid a cmd timeout start (t\<lparr>w_now := w_now t + ?i\<rparr>)) \<noteq> Inl Blocked"
    using Suc.prems tm by (intro Suc.IH) auto
  note ans = avoids_fst [OF avoids_status_answers(1)] avoids_fst [OF avoids_status_answers(2)]
    avoids_fst [OF avoids_status_answers(3)] avoids_fst [OF avoids_simple_requests(4)]
  show ?case
  proof (cases r)
    case (Inl e)
    with r avoidsD [OF avoids_status_answers(4)] have "e \<noteq> Blocked" by metis
    with Inl r ans show ?thesis
      by (subst get_cli_status.simps) (simp add: bnd_def agent_connected_def)
  next
    case (Inr v)
    show ?thesis
    proof (cases v)
      case b: (Inl b)
      with r ans Inr show ?thesis by (subst get_cli_status.simps) (simp add: bnd_def agent_connected_def)
    next
      case raw: (Inr raw)
      show ?thesis
      proof (cases raw)
        case (JsonBody b)
        with r ans Inr raw rec tm show ?thesis
          by (subst get_cli_status.simps)
            (auto simp: bnd_def agent_connected_def json_loads_def sleep_def sq_def
              simp del: get_cli_status.simps split: option.split)
      qed (use r ans Inr raw in \<open>subst get_cli_status.simps, simp add: bnd_def agent_connected_def json_loads_def\<close>)+
    qed
  qed
qed

text \<open>
  C14: a command sent to an agent always comes back: with a positive polling interval the
  loop that asks for its status ends within the rounds that fit into the timeout,
  whatever the agent answers, so \<open>cli_cmd\<close> returns a dictionary or raises.
\<close>

theorem cli_cmd_ends:
  assumes "0 < cf_cli_get_status_interval (w_conf w)"
  shows "fst (cli_cmd cmd a env immediate timeout w) \<noteq> Inl Blocked"
proof -
  obtain r t where r: "send_cli cmd a env immediate w = (r, t)" by fastforce
  have "keeps w_conf (send_cli cmd a env immediate)"
    by (rule keeps_from_locks(1), rule frame)
  from keepsD [OF this r] have i: "w_conf t = w_conf w" .
  let ?i = "cf_cli_get_status_interval (w_conf w)"
  have "timeout < (timeout div ?i + 1) * ?i"
    using assms by (metis add.commute dividend_less_div_times mult.commute mult_Suc_right plus_1_eq_Suc)
  then have "fst (get_cli_status (Suc (timeout div ?i + 1)) xid a cmd timeout (w_now t) t) \<noteq> Inl Blocked" for xid
    using assms i by (intro get_cli_status_fuel) auto
  then have st: "fst (get_cli_status (status_fuel timeout ?i) xid a cmd timeout (w_now t) t) \<noteq> Inl Blocked" for xid
    by (simp add: status_fuel_def del: get_cli_status.simps)
  show ?thesis
  proof (cases r)
    case (Inl e)
    with r avoidsD [OF avoids_simple_requests(3)] show ?thesis by (auto simp: cli_cmd_def bnd_def)
  next
    case (Inr b)
    have tail: "avoids Blocked (if \<not> has_key cb ''stdout'' \<and> \<not> failed cb
        then raise (TypeError ''%d format: a number is required, not str'')
        else bnd (send_cleanup xid a cmd) (\<lambda>cl. if failed cb then ret cb else if failed cl then ret cl else ret cb))"
      for cb xid by (rule total | simp)+
    have "fst (bnd (get_cli_status (status_fuel timeout ?i) xid a cmd timeout (w_now t)) (\<lambda>cb.
        if \<not> has_key cb ''stdout'' \<and> \<not> failed cb
        then raise (TypeError ''%d format: a number is required, not str'')
        else bnd (send_cleanup xid a cmd) (\<lambda>cl. if failed cb then ret cb else if failed cl then ret cl else ret cb)) t)
        \<noteq> Inl Blocked" for xid
      using st [of xid] avoids_fst [OF tail] unfolding bnd_def [of "get_cli_status _ _ _ _ _ _"]
      by (auto split: prod.split sum.split)
    with r Inr i show ?thesis
      unfolding cli_cmd_def by (auto simp: bnd_def [of "send_cli _ _ _ _"] bnd_def [of "gets _"] split: option.split)
  qed
qed

theorem cli_cmd_ends_witness:
  "fst (cli_cmd ''pinfo'' agent0 Map.empty True 60 world1) \<noteq> Inl Blocked"
  using cli_cmd_ends [of world1] by (simp add: world1_def world0_def conf0_def)

section \<open>What is sent\<close>

text \<open>\<open>sends R m\<close>: whatever happens, \<open>m\<close> only appends requests of \<open>R\<close> to what was sent.\<close>

definition sends :: "request set \<Rightarrow> 'a io \<Rightarrow> bool" where
  "sends R m \<longleftrightarrow> (\<forall>w. \<exists>rs. w_sent (snd (m w)) = w_sent w @ rs \<and> set rs \<subseteq> R)"

lemma sendsD: "sends R m \<Longrightarrow> m w = (r, w') \<Longrightarrow> \<exists>rs. w_sent w' = w_sent w @ rs \<and> set rs \<subseteq> R"
  by (auto simp: sends_def dest: spec [of _ w])

lemma keeps_sends: "keeps w_sent m \<Longrightarrow> sends R m"
  by (simp add: sends_def keeps_def)

lemma sends_bnd:
  assumes "sends R m" and "\<And>x. sends R (k x)"
  shows "sends R (bnd m k)"
  unfolding sends_def
proof
  fix w
  obtain r t where r: "m w = (r, t)" by fastforce
  from sendsD [OF assms(1) r] obtain rs where rs: "w_sent t = w_sent w @ rs" "set rs \<subseteq> R" by blast
  show "\<exists>rs. w_sent (snd (bnd m k w)) = w_sent w @ rs \<and> set rs \<subseteq> R"
  proof (cases r)
    case (Inl e)
    with r rs show ?thesis by (auto simp: bnd_def)
  next
    case (Inr x)
    obtain q u where q: "k x t = (q, u)" by fastforce
    from sendsD [OF assms(2) q] obtain qs where "w_sent u = w_sent t @ qs" "set qs \<subseteq> R" by blast
    with rs r q Inr show ?thesis by (intro exI [of _ "rs @ qs"]) (simp add: bnd_def)
  qed
qed

lemma sends_rules:
  "sends R l \<Longrightarrow> sends R n \<Longrightarrow> sends R (sq l n)"
  "sends R m \<Longrightarrow> sends R n \<Longrightarrow> sends R (if b then m else n)"
  "sends R m \<Longrightarrow> (\<And>x. sends R (k x)) \<Longrightarrow> sends R (case v of None \<Rightarrow> m | Some x \<Rightarrow> k x)"
  "(\<And>x. sends R (p x)) \<Longrightarrow> (\<And>x. sends R (q x)) \<Longrightarrow> sends R (case z of Inl x \<Rightarrow> p x | Inr x \<Rightarrow> q x)"
  by (auto simp: sq_def intro: sends_bnd split: option.split sum.split)

lemma keeps_sent_small: "keeps w_sent (lose_agent a r)" "keeps w_sent (sleep n)" "keeps w_sent next_xid"
  "keeps w_sent (agent_connected a)" "keeps w_sent (finished_status a b)" "keeps w_sent (bad_status a)"
  "keeps w_sent (unknown_status a)"
proof -
  show r: "keeps w_sent (lose_agent a r)" for r by (rule keeps_lose_agent) simp_all
  show "keeps w_sent (sleep n)" "keeps w_sent next_xid" by (simp_all add: sleep_def next_xid_def keeps_def bnd_def sq_def)
  show "keeps w_sent (agent_connected a)" by (rule frame)
  show "keeps w_sent (finished_status a b)" by (rule keeps_finished_status [OF r])
  show "keeps w_sent (bad_status a)" "keeps w_sent (unknown_status a)"
    unfolding bad_status_def unknown_status_def by (rule frame r)+
qed

lemma exchange_sent: "w_sent (snd (exchange rq w)) = w_sent w @ [rq]"
  by (simp add: exchange_def bnd_def sq_def split: list.split)

lemma checked_exchange_sent: "checked_exchange a rq bad gone err w = (r, w') \<Longrightarrow> w_sent w' = w_sent w @ [rq]"
proof -
  assume run: "checked_exchange a rq bad gone err w = (r, w')"
  obtain x t where x: "exchange rq w = (x, t)" by fastforce
  with exchange_sent [of rq w] have "w_sent t = w_sent w @ [rq]" by simp
  with run x keepsD [OF keeps_sent_small(1)] show ?thesis
    by (auto simp: checked_exchange_def bnd_def sq_def split: sum.splits netres.splits if_splits prod.splits)
qed

lemma sends_checked_exchange: "rq \<in> R \<Longrightarrow> sends R (checked_exchange a rq bad gone err)"
  unfolding sends_def
proof
  fix w assume "rq \<in> R"
  moreover obtain r t where "checked_exchange a rq bad gone err w = (r, t)" by fastforce
  ultimately show "\<exists>rs. w_sent (snd (checked_exchange a rq bad gone err w)) = w_sent w @ rs \<and> set rs \<subseteq> R"
    using checked_exchange_sent by force
qed

lemma sends_get_cli_status:
  "sends {status_request a xid, kill_request a xid} (get_cli_status fuel xid a cmd timeout start)"
proof (induction fuel)
  case 0
  show ?case unfolding get_cli_status.simps by (rule keeps_sends, rule frame)
next
  case (Suc fuel)
  have t: "sends {status_request a xid, kill_request a xid} (timed_out xid a cmd timeout)"
    unfolding timed_out_def kill_cmd_def
    by (rule sends_rules sends_bnd sends_checked_exchange | rule keeps_sends, (rule frame)+ | simp)+
  have p: "sends {status_request a xid, kill_request a xid} (poll xid a)"
    unfolding poll_def by (rule sends_checked_exchange) simp
  note k = keeps_sends [OF keeps_gets] keeps_sends [OF keeps_ret] keeps_sends [OF keeps_json_loads]
    keeps_sends [OF keeps_sent_small(2)] keeps_sends [OF keeps_sent_small(4)]
    keeps_sends [OF keeps_sent_small(5)] keeps_sends [OF keeps_sent_small(6)] keeps_sends [OF keeps_sent_small(7)]
  show ?case
    unfolding get_cli_status.simps
    by (rule Suc t p sends_rules sends_bnd k)+
qed

text \<open>What a finished command says about itself.\<close>

definition exited_zero :: "body \<Rightarrow> bool" where
  "exited_zero b \<longleftrightarrow> b ''run-status'' = Some (JStr ''finished'') \<and> (\<exists>ex. b ''exit-status'' = Some ex \<and> is_zero ex)"

lemma failed_with_error [simp]: "failed (with_error m b)" "failed (b(''error'' \<mapsto> v))"
  by (simp_all add: failed_def with_error_def)

lemma returns_finished_status:
  assumes "b ''run-status'' = Some (JStr ''finished'')"
  shows "returns (\<lambda>x. failed x \<or> exited_zero x) (finished_status a b)"
  unfolding finished_status_def using assms
  by (auto split: option.split intro!: post simp: exited_zero_def)

lemma returns_get_cli_status:
  "returns (\<lambda>x. failed x \<or> exited_zero x) (get_cli_status fuel xid a cmd timeout start)"
proof (induction fuel)
  case 0
  show ?case unfolding get_cli_status.simps by (rule post)
next
  case (Suc fuel)
  have poll: "returns (\<lambda>r. \<forall>b. r = Inl b \<longrightarrow> failed b) (poll xid a)"
    unfolding poll_def checked_exchange_def
    by (rule returns_bnd_any) (auto split: netres.split intro!: post simp: httperror_def failed_def error_body_def)
  show ?case
    unfolding get_cli_status.simps
    by (intro returns_bnd_any returns_if returns_bnd [OF poll])
      (auto simp: timed_out_def bad_status_def unknown_status_def disconnected_before_def
        intro!: post Suc returns_finished_status split: sum.split option.split simp del: get_cli_status.simps)
qed

lemma send_cli_run:
  assumes "send_cli cmd a env immediate w = (Inr b, t)"
  shows "w_sent t = w_sent w @ [start_request a (w_next_xid w) cmd env immediate]"
    and "failed b \<or> (b ''xid'' = Some (JInt (int (w_next_xid w))) \<and>
           b ''run-status'' \<in> {Some (JStr ''running''), Some (JStr ''finished'')})"
proof -
  let ?w = "w\<lparr>w_next_xid := w_next_xid w + 1\<rparr>"
  let ?x = "post_start cmd a env immediate (w_next_xid w)"
  obtain r u where r: "?x ?w = (r, u)" by fastforce
  have bad: "r = Inr (Inl c) \<Longrightarrow> failed c" for c
  proof -
    have "returns (\<lambda>r. \<forall>b. r = Inl b \<longrightarrow> failed b) ?x"
      unfolding post_start_def checked_exchange_def
      by (rule returns_bnd_any) (auto split: netres.split intro!: post simp: httperror_def failed_def error_body_def)
    from returnsD [OF this] r show "r = Inr (Inl c) \<Longrightarrow> failed c" by blast
  qed
  have ok: "failed (check_started (w_next_xid w) c) \<or>
      (check_started (w_next_xid w) c ''xid'' = Some (JInt (int (w_next_xid w))) \<and>
       check_started (w_next_xid w) c ''run-status'' \<in> {Some (JStr ''running''), Some (JStr ''finished'')})" for c
    by (auto simp: check_started_def split: option.splits)
  have n: "next_xid w = (Inr (w_next_xid w), ?w)" by (simp add: next_xid_def bnd_def sq_def)
  have run: "send_cli cmd a env immediate w = (case r of Inl e \<Rightarrow> (Inl e, u)
     | Inr (Inl b) \<Rightarrow> (Inr b, u)
     | Inr (Inr raw) \<Rightarrow> bnd (json_loads raw) (\<lambda>j. case j of
                None \<Rightarrow> ret (error_body ''POST /cli response had a null body'')
              | Some b \<Rightarrow> ret (check_started (w_next_xid w) b)) u)"
    using r n by (simp add: send_cli_def bnd_def [of next_xid] bnd_def [of ?x] split: sum.split)
  show "w_sent t = w_sent w @ [start_request a (w_next_xid w) cmd env immediate]"
    using assms checked_exchange_sent [OF r [unfolded post_start_def]] unfolding run
    by (auto simp: json_loads_def bnd_def split: sum.splits raw.splits option.splits)
  show "failed b \<or> (b ''xid'' = Some (JInt (int (w_next_xid w))) \<and>
           b ''run-status'' \<in> {Some (JStr ''running''), Some (JStr ''finished'')})"
    using assms bad ok unfolding run
    by (auto simp: json_loads_def bnd_def split: sum.splits raw.splits option.splits)
qed

lemma send_cleanup_sent:
  assumes "send_cleanup xid a cmd w = (Inr b, t)"
  shows "w_sent t = w_sent w @ [cleanup_request a xid]"
proof -
  from assms obtain r u where r: "checked_exchange a (cleanup_request a xid)
            (\<lambda>status reason. ''Agent command failed with status: '' @ nat_str status)
            (\<lambda>s. ''Command to agent failed. Error: '' @ s)
            (\<lambda>s. ''/cli failed for command '' @ cmd @ '' with: '' @ s) w = (Inr r, u)"
    and "(case r of Inl b \<Rightarrow> ret b
        | Inr raw \<Rightarrow> bnd (json_loads raw) (\<lambda>j. case j of
              None \<Rightarrow> ret (error_body ''POST //cli getresponse returned null body'')
            | Some b \<Rightarrow> ret b)) u = (Inr b, t)"
    unfolding send_cleanup_def by (rule bnd_returnsE)
  then have "t = u" by (auto simp: json_loads_def bnd_def split: sum.splits raw.splits option.splits)
  with checked_exchange_sent [OF r] show ?thesis by simp
qed


text \<open>A run for the witnesses: running, then finished with output, then cleaned up.\<close>

definition pinfo_done :: body where
  "pinfo_done = [''run-status'' \<mapsto> JStr ''finished'', ''exit-status'' \<mapsto> JInt 0, ''stdout'' \<mapsto> JStr ''ok'']"

definition pinfo_net :: "(nat \<times> netres) list" where
  "pinfo_net =
    [(1, Resp 200 ''OK'' (JsonBody [''xid'' \<mapsto> JInt 1, ''run-status'' \<mapsto> JStr ''running''])),
     (1, Resp 200 ''OK'' (JsonBody pinfo_done)),
     (1, Resp 200 ''OK'' (JsonBody Map.empty))]"

lemma pinfo_run:
  "\<exists>w'. cli_cmd ''pinfo'' agent0 Map.empty False 60 (world1\<lparr>w_net := pinfo_net\<rparr>) = (Inr pinfo_done, w')"
proof -
  obtain n where f: "status_fuel 60 10 = Suc n" by (simp add: status_fuel_def)
  show ?thesis
    by (simp add: cli_cmd_def send_cli_def post_start_def checked_exchange_def exchange_def next_xid_def
        poll_def send_cleanup_def json_loads_def bnd_def sq_def check_started_def failed_def has_key_def
        world1_def world0_def conf0_def agent0_def pinfo_net_def pinfo_done_def f agent_connected_def finished_status_def)
qed


text \<open>
  A command the agent answers as finished at once is taken as it is: whatever exit
  status it reports, the result counts as a success, and no cleanup is sent.
\<close>

theorem finished_at_once_succeeds:
  assumes "w_net w = (d, Resp 200 reason (JsonBody b)) # rest"
    and "b ''xid'' = Some (JInt (int (w_next_xid w)))" and "b ''run-status'' = Some (JStr ''finished'')"
    and "b ''error'' = None"
  shows "\<exists>w'. cli_cmd cmd a env immediate timeout w = (Inr b, w') \<and> success b \<and>
    w_sent w' = w_sent w @ [start_request a (w_next_xid w) cmd env immediate]"
  using assms
  by (simp add: cli_cmd_def send_cli_def post_start_def checked_exchange_def exchange_def next_xid_def
      json_loads_def bnd_def sq_def check_started_def failed_def)

definition stop_failed :: body where
  "stop_failed = [''xid'' \<mapsto> JInt 1, ''run-status'' \<mapsto> JStr ''finished'', ''exit-status'' \<mapsto> JInt 1]"

theorem finished_at_once_succeeds_witness:
  "\<exists>w'. cli_cmd ''tabadmin stop'' agent0 Map.empty False 60
      (world1\<lparr>w_net := [(0, Resp 200 ''OK'' (JsonBody stop_failed))]\<rparr>) = (Inr stop_failed, w') \<and> success stop_failed \<and>
     w_sent w' = [start_request agent0 1 ''tabadmin stop'' Map.empty False]"
  using finished_at_once_succeeds [of "world1\<lparr>w_net := [(0, Resp 200 ''OK'' (JsonBody stop_failed))]\<rparr>" 0 "''OK''"
      stop_failed "[]" "''tabadmin stop''" agent0 Map.empty False 60]
  by (simp add: world1_def world0_def stop_failed_def)

end
