(* ===== verification/Maint.thy ===== *)
theory Maint
  imports CliCmd
begin

text \<open>
  \<open>controller.py\<close>: the maintenance web server on the gateway hosts and the archive server
  on every agent, started and stopped by one request to each; the flag \<open>maint_started\<close>;
  and \<open>odbc_ok\<close>, the test whether the Tableau database can be asked.
\<close>

section \<open>The maintenance web server\<close>

text \<open>\<open>"%s" % value\<close> on what an agent put into its answer.\<close>

fun jshow :: "jval \<Rightarrow> string" where
  "jshow (JStr s) = s"
| "jshow (JInt i) = int_str i"
| "jshow (JBool b) = (if b then ''True'' else ''False'')"
| "jshow _ = ''None''"

definition yml_get :: "(string \<Rightarrow> string option) \<Rightarrow> string \<Rightarrow> string option" where
  "yml_get yml k = (case yml k of Some [] \<Rightarrow> None | v \<Rightarrow> v)"

definition opt_key :: "string \<Rightarrow> jval option \<Rightarrow> body \<Rightarrow> body" where
  "opt_key k v b = (case v of None \<Rightarrow> b | Some x \<Rightarrow> b(k \<mapsto> x))"

definition set_maint_body :: "(string \<Rightarrow> string option) \<Rightarrow> string \<Rightarrow> body" where
  "set_maint_body yml action =
     (let b = [''action'' \<mapsto> JStr action];
          b1 = opt_key ''listen-port''
                 (case yml_get yml ''gateway.ports'' of
                    None \<Rightarrow> None
                  | Some ports \<Rightarrow> map_option JInt (parse_int (hd (split_on CHR '';'' ports)))) b
      in if yml ''ssl.enabled'' \<noteq> Some ''true'' then b1
         else
           opt_key ''ssl-cert-chain-file'' (map_option JStr (yml_get yml ''ssl.chain.file''))
           (opt_key ''ssl-cert-key-file'' (map_option JStr (yml_get yml ''ssl.key.file''))
           (opt_key ''ssl-cert-file'' (map_option JStr (yml_get yml ''ssl.cert.file''))
           (opt_key ''ssl-listen-port''
              (case yml_get yml ''ssl.port'' of
                 None \<Rightarrow> None
               | Some p \<Rightarrow> map_option JInt (parse_int p)) b1))))"

definition update_maint_status :: "string \<Rightarrow> body \<Rightarrow> unit io" where
  "update_maint_status action b =
     (if action = ''start'' then modify (\<lambda>w. w\<lparr>w_maint_started := \<not> failed b\<rparr>)
      else if action = ''stop'' then modify (\<lambda>w. w\<lparr>w_maint_started := failed b\<rparr>)
      else ret ())"

definition send_maint :: "string \<Rightarrow> agent \<Rightarrow> body \<Rightarrow> body io" where
  "send_maint action a send_body = send_immediate a ''POST'' ''/maint'' send_body"

definition send_maint_event :: "string \<Rightarrow> agent \<Rightarrow> body \<Rightarrow> unit io" where
  "send_maint_event action a b =
     (if failed b then
        (if action = ''start'' then gen EV_MAINT_START_FAILED (dict_add b (agent_todict a)) None
         else gen EV_MAINT_STOP_FAILED (dict_add b (agent_todict a)) None)
      else if action = ''start'' then gen EV_MAINT_ONLINE (agent_todict a) None
      else gen EV_MAINT_OFFLINE (agent_todict a) None)"

text \<open>The answers of all hosts put together; \<open>None\<close> while no agent has been reached.\<close>

record combined =
  cb_agent :: "agent option"
  cb_stdout :: string
  cb_stderr :: string
  cb_error :: string
  cb_success :: bool

definition display :: "agent \<Rightarrow> string" where
  "display a = (case ag_displayname a of Some d \<Rightarrow> d | None \<Rightarrow> ''None'')"

definition line_of :: "agent \<Rightarrow> jval \<Rightarrow> string" where
  "line_of a v = display a @ '': '' @ jshow v @ [CHR 0x0A]"

definition combine :: "agent \<Rightarrow> body \<Rightarrow> combined \<Rightarrow> combined" where
  "combine a b c =
     (let c0 = (if cb_agent c = None then c\<lparr>cb_agent := Some a\<rparr> else c);
          c1 = (case b ''stdout'' of None \<Rightarrow> c0 | Some v \<Rightarrow> c0\<lparr>cb_stdout := cb_stdout c0 @ line_of a v\<rparr>);
          c2 = (case b ''stderr'' of None \<Rightarrow> c1 | Some v \<Rightarrow> c1\<lparr>cb_stderr := cb_stderr c1 @ line_of a v\<rparr>)
      in (case b ''error'' of None \<Rightarrow> c2
          | Some v \<Rightarrow> c2\<lparr>cb_error := cb_error c2 @ line_of a v, cb_success := False\<rparr>))"

text \<open>The connected agent of a gateway host, if any.\<close>

definition gateway_agent :: "string \<Rightarrow> agent option io" where
  "gateway_agent host =
     (if host = ''localhost'' \<or> host = ''127.0.0.1'' then agent_by_type PRIMARY
      else bnd (gets w_db) (\<lambda>db.
        case get_agentid_from_host db host of
          None \<Rightarrow> ret None
        | Some i \<Rightarrow> if i = 0 then ret None else agent_by_id i))"

fun maint_hosts :: "string \<Rightarrow> body \<Rightarrow> string list \<Rightarrow> combined \<Rightarrow> combined io" where
  "maint_hosts action send_body [] c = ret c"
| "maint_hosts action send_body (host # hosts) c =
     bnd (gateway_agent host) (\<lambda>ag. case ag of
       None \<Rightarrow> maint_hosts action send_body hosts c
     | Some a \<Rightarrow> bnd (send_maint action a send_body) (\<lambda>b.
         maint_hosts action send_body hosts (combine a b c)))"

definition combined0 :: combined where
  "combined0 = \<lparr>cb_agent = None, cb_stdout = [], cb_stderr = [], cb_error = [], cb_success = True\<rparr>"

definition combined_body :: "combined \<Rightarrow> body" where
  "combined_body c =
     (let b = [''stdout'' \<mapsto> JStr (cb_stdout c), ''stderr'' \<mapsto> JStr (cb_stderr c)]
      in if cb_agent c = None then b(''error'' \<mapsto> JStr ''No agents are connected.'')
         else if cb_success c then b else b(''error'' \<mapsto> JStr (cb_error c)))"

definition maint :: "string \<Rightarrow> agent option \<Rightarrow> bool \<Rightarrow> body io" where
  "maint action agent send_alert =
     (if action \<noteq> ''start'' \<and> action \<noteq> ''stop'' then ret (error_body (''Bad maint action: '' @ action))
      else bnd (gets w_yml) (\<lambda>yml. case get_yml_list yml ''gateway.hosts'' of
        None \<Rightarrow> ret (error_body (''maint '' @ action @ '': No yml entry for 'gateway.hosts'.''))
      | Some gateway_hosts \<Rightarrow>
          (case agent of
             Some a \<Rightarrow> bnd (send_maint action a (set_maint_body yml action)) (\<lambda>b.
               sq (update_maint_status action b)
                 (sq (when_m send_alert (send_maint_event action a b)) (ret b)))
           | None \<Rightarrow> bnd (maint_hosts action (set_maint_body yml action) gateway_hosts combined0) (\<lambda>c.
               case cb_agent c of
                 None \<Rightarrow> ret (combined_body c)
               | Some connected \<Rightarrow>
                   sq (update_maint_status action (combined_body c))
                     (sq (when_m send_alert (send_maint_event action connected (combined_body c)))
                        (ret (combined_body c)))))))"

section \<open>The archive servers\<close>

text \<open>
  One round of the loop of \<open>archive\<close>: only an answer with \<open>stdout\<close> is looked at, and its
  other two keys are taken to be there.
\<close>

definition archive_round :: "agent \<Rightarrow> body \<Rightarrow> combined \<Rightarrow> combined io" where
  "archive_round a b c =
     (case b ''stdout'' of
        None \<Rightarrow> ret c
      | Some out \<Rightarrow>
          (case b ''stderr'' of
             None \<Rightarrow> raise (KeyError ''stderr'')
           | Some err \<Rightarrow>
               (case b ''error'' of
                  None \<Rightarrow> raise (KeyError ''error'')
                | Some e \<Rightarrow>
                    ret (c\<lparr>cb_stdout := cb_stdout c @ line_of a out, cb_stderr := cb_stderr c @ line_of a err,
                           cb_error := cb_error c @ line_of a e, cb_success := False\<rparr>))))"

definition archive_body :: "string \<Rightarrow> int \<Rightarrow> body" where
  "archive_body action port =
     (if port > 0 then [''action'' \<mapsto> JStr action, ''port'' \<mapsto> JInt port] else [''action'' \<mapsto> JStr action])"

fun archive_all :: "body \<Rightarrow> (nat \<times> agent) list \<Rightarrow> combined \<Rightarrow> combined io" where
  "archive_all send_body [] c = ret c"
| "archive_all send_body ((k, a) # rest) c =
     bnd (send_immediate a ''POST'' ''/archive'' send_body) (\<lambda>b.
       bnd (archive_round a b c) (archive_all send_body rest))"

definition archive :: "string \<Rightarrow> agent option \<Rightarrow> int \<Rightarrow> body io" where
  "archive action agent port =
     (case agent of
        Some a \<Rightarrow> send_immediate a ''POST'' ''/archive'' (archive_body action port)
      | None \<Rightarrow> bnd all_agents (\<lambda>agents.
          bnd (archive_all (archive_body action port) agents combined0) (\<lambda>c.
            ret (if cb_success c then [''stdout'' \<mapsto> JStr (cb_stdout c), ''stderr'' \<mapsto> JStr (cb_stderr c)]
                 else [''stdout'' \<mapsto> JStr (cb_stdout c), ''stderr'' \<mapsto> JStr (cb_stderr c),
                       ''error'' \<mapsto> JStr (cb_error c)]))))"

section \<open>Is the database there?\<close>

definition odbc_ok :: "bool io" where
  "odbc_ok =
     bnd get_state (\<lambda>main_state.
       ret (main_state \<notin> {STATE_DISCONNECTED, STATE_PENDING, STATE_STOPPING, STATE_STOPPING_RESTORE,
              STATE_STOPPED, STATE_STOPPED_UNEXPECTED, STATE_STOPPED_RESTORE, STATE_STARTING,
              STATE_STARTING_RESTORE, STATE_RESTARTING, STATE_UPGRADING}))"

section \<open>What these operations leave alone\<close>

lemma moves_maint:
  assumes s: "\<And>a m u b. moves f V (send_immediate a m u b)"
    and m: "\<And>w x. f (w\<lparr>w_maint_started := x\<rparr>) = f w" and e: "\<And>w x. f (w\<lparr>w_events := x\<rparr>) = f w"
  shows "moves f V (maint action a alert)"
proof -
  have g: "moves f V (gateway_agent h)" for h unfolding gateway_agent_def by (rule keeps_moves, (rule frame)+)
  have h: "moves f V (maint_hosts action b hosts c)" for b hosts c
    by (induction hosts arbitrary: c)
      (simp_all only: maint_hosts.simps send_maint_def, (rule drift g s | assumption)+)
  have u: "moves f V (update_maint_status action b)" for b
    unfolding update_maint_status_def by (rule keeps_moves, (rule frame m)+)
  have ev: "moves f V (send_maint_event action a b)" for a b
    unfolding send_maint_event_def by (rule keeps_moves, (rule frame keeps_gen | rule e)+)
  show ?thesis unfolding maint_def send_maint_def by (rule drift s h u ev)+
qed

lemmas keeps_maint = moves_maint [where V = "{}", unfolded moves_none]

lemma moves_state_maint [drift]: "moves cur_state {STATE_DISCONNECTED} (maint action a alert)"
  by (rule moves_maint) (rule drift | simp add: cur_state_def)+

lemma moves_archive:
  assumes s: "\<And>a m u b. moves f V (send_immediate a m u b)"
  shows "moves f V (archive action a port)"
proof -
  have r: "moves f V (archive_round a b c)" for a b c unfolding archive_round_def by (rule drift)+
  have l: "moves f V (archive_all b ags c)" for b ags c
    by (induction b ags c rule: archive_all.induct)
      (simp_all only: archive_all.simps, (rule drift s r | assumption)+)
  have al: "moves f V all_agents" by (rule keeps_moves, rule frame)
  show ?thesis unfolding archive_def by (rule drift s l al)+
qed

lemmas keeps_archive = moves_archive [where V = "{}", unfolded moves_none]

lemma moves_state_archive [drift]: "moves cur_state {STATE_DISCONNECTED} (archive action a port)"
  by (rule moves_archive) (rule drift)

lemma keeps_locks_maint [frame]: "keeps locks (maint action a alert)"
  by (rule keeps_maint) (rule frame | simp add: locks_def)+

lemma keeps_locks_archive [frame]: "keeps locks (archive action a port)"
  by (rule keeps_archive) (rule frame)+

lemma keeps_odbc_ok [frame]: "keeps f odbc_ok"
  unfolding odbc_ok_def by (rule frame)+

section \<open>Properties\<close>

lemma keeps_maint_started_request: "keeps w_maint_started (send_immediate a m u b)"
  by (rule keeps_requests_field; simp)

lemma keeps_maint_started_gen: "keeps w_maint_started (gen k d u)"
  by (rule keeps_gen) simp

lemma maint_hosts_flag:
  assumes "maint_hosts action b hosts c w = (Inr c', w')"
  shows "w_maint_started w' = w_maint_started w"
proof -
  have "keeps w_maint_started (maint_hosts action b hosts c)"
  proof (induction hosts arbitrary: c)
    case Nil
    show ?case unfolding maint_hosts.simps by (rule frame)
  next
    case (Cons h hosts)
    have "keeps w_maint_started (gateway_agent h)" unfolding gateway_agent_def by (rule frame)+
    with Cons show ?case
      unfolding maint_hosts.simps send_maint_def
      by (intro keeps_bnd keeps_option keeps_ret keeps_maint_started_request) auto
  qed
  from keepsD [OF this assms] show ?thesis .
qed

text \<open>
  The flag \<open>maint_started\<close> after a maintenance action: if the gateway hosts are not
  known or none of them is connected the action fails and the flag is as before;
  otherwise it is set exactly if a start succeeded or a stop failed.
\<close>

theorem maint_flag:
  assumes "maint action None alert w = (Inr b, w')"
  shows "(failed b \<and> w_maint_started w' = w_maint_started w) \<or>
    (action = ''start'' \<and> w_maint_started w' = success b) \<or>
    (action = ''stop'' \<and> w_maint_started w' = failed b)"
proof (cases "action \<noteq> ''start'' \<and> action \<noteq> ''stop'' \<or> get_yml_list (w_yml w) ''gateway.hosts'' = None")
  case True
  with assms show ?thesis
    by (auto simp: maint_def bnd_def [of "gets _"] split: if_splits)
next
  case False
  then obtain hosts where h: "get_yml_list (w_yml w) ''gateway.hosts'' = Some hosts" by auto
  from False have a: "action = ''start'' \<or> action = ''stop''" by auto
  from assms False h obtain c t where c: "maint_hosts action (set_maint_body (w_yml w) action) hosts combined0 w = (Inr c, t)"
    and rest: "(case cb_agent c of
                 None \<Rightarrow> ret (combined_body c)
               | Some connected \<Rightarrow>
                   sq (update_maint_status action (combined_body c))
                     (sq (when_m alert (send_maint_event action connected (combined_body c)))
                        (ret (combined_body c)))) t = (Inr b, w')"
    by (auto simp: maint_def bnd_def [of "gets _"] elim!: bnd_returnsE split: if_splits)
  have t: "w_maint_started t = w_maint_started w"
    by (rule maint_hosts_flag [OF c])
  show ?thesis
  proof (cases "cb_agent c")
    case None
    with rest t show ?thesis by (auto simp: combined_body_def failed_def)
  next
    case (Some g)
    with rest obtain u where u: "update_maint_status action (combined_body c) t = (Inr (), u)"
      and v: "sq (when_m alert (send_maint_event action g (combined_body c))) (ret (combined_body c)) u = (Inr b, w')"
      by (auto elim: sq_returnsE)
    have "keeps w_maint_started (when_m alert (send_maint_event action g (combined_body c)))"
      unfolding send_maint_event_def by (rule frame keeps_maint_started_gen)+
    with v have "b = combined_body c" "w_maint_started w' = w_maint_started u"
      by (auto elim!: sq_returnsE dest: keepsD)
    with u a show ?thesis by (auto simp: update_maint_status_def)
  qed
qed

definition world_gw :: world where
  "world_gw = world1\<lparr>w_yml := [''gateway.hosts'' \<mapsto> ''localhost''],
     w_net := [(1, Resp 200 ''OK'' (JsonBody [''stdout'' \<mapsto> JStr ''started'']))]\<rparr>"

definition maint_reply :: body where
  "maint_reply = [''stdout'' \<mapsto> JStr (''Tableau Primary: started'' @ [CHR 0x0A]), ''stderr'' \<mapsto> JStr []]"

lemma maint_run: "\<exists>w'. maint ''start'' None True world_gw = (Inr maint_reply, w')"
proof -
  have "get_yml_list (w_yml world_gw) ''gateway.hosts'' = Some [''localhost'']"
    by (simp add: world_gw_def get_yml_list_def strip_def lstrip_def is_space_def)
  then show ?thesis
    by (simp add: maint_def bnd_def sq_def gateway_agent_def agent_by_type_def all_agents_run world_gw_def
        world1_def row_enabled_def get_by_uuid_def agent0_def send_maint_def send_immediate_def
        checked_exchange_def exchange_def json_loads_def combine_def combined0_def line_of_def display_def
        combined_body_def update_maint_status_def send_maint_event_def gen_def failed_def world0_def conf0_def
        agent_todict_def maint_reply_def)
qed

theorem maint_flag_witness:
  "\<exists>w'. maint ''start'' None True world_gw = (Inr maint_reply, w') \<and> w_maint_started w'"
proof -
  obtain w' where "maint ''start'' None True world_gw = (Inr maint_reply, w')"
    using maint_run by blast
  with maint_flag [OF this] show ?thesis by (auto simp: maint_reply_def failed_def)
qed

text \<open>
  When no agent answers any more, every request comes back as an error dictionary.  \<open>rows_known\<close>
  says that every connected agent has a row.
\<close>

definition rows_known :: "world \<Rightarrow> bool" where
  "rows_known w \<longleftrightarrow> (\<forall>(k, a) \<in> set (w_agents w). get_by_uuid (w_db w) (ag_uuid a) \<noteq> None)"

lemma lose_agent_quiet:
  assumes "rows_known w" and "get_by_id (w_db w) (ag_agentid a) \<noteq> None"
  shows "wp (lose_agent a r) (\<lambda>x w'. x = Inr () \<and> w_net w' = w_net w \<and> w_db w' = w_db w \<and> rows_known w') w"
proof -
  from assms(2) obtain row where row: "get_by_id (w_db w) (ag_agentid a) = Some row" by auto
  have "rows_known v" if "w_agents v = AList.delete c (w_agents w)" "w_db v = w_db w" for v c
    using assms(1) that by (auto simp: rows_known_def delete_filter)
  with assms(1) have one: "wp (remove_agent a r)
      (\<lambda>x w'. x = Inr () \<and> w_net w' = w_net w \<and> w_db w' = w_db w \<and> rows_known w') w"
    by (auto simp: remove_agent_def agent_connected_def forget_def update_state_def Let_def wp_simps row
        simp del: seqs.simps)
  have look: "agent_by_type ty v = (Inr (first_agent (\<lambda>a. ag_agent_type a = Some ty)
      (filter (\<lambda>(k, a). row_enabled (w_db v) a) (w_agents v))), v)" if "rows_known v" for ty v
    using that by (auto simp: agent_by_type_def bnd_def all_agents_run rows_known_def)
  show ?thesis
    unfolding lose_agent_def
    by (rule wp_sqI, rule one [THEN wp_mono])
      (auto simp: wp_def bnd_def look, auto simp: rows_known_def)
qed

lemma checked_exchange_unanswered:
  assumes "w_net w = []" and "rows_known w" and "get_by_id (w_db w) (ag_agentid a) \<noteq> None"
  shows "wp (checked_exchange a rq bad gone err)
    (\<lambda>r w'. r = Inr (Inl (error_body (err ''no answer''))) \<and> w_net w' = [] \<and> w_db w' = w_db w \<and> rows_known w') w"
proof -
  let ?v = "w\<lparr>w_sent := w_sent w @ [rq]\<rparr>"
  have "exchange rq w = (Inr (NetIOError ''no answer''), ?v)"
    using assms(1) by (simp add: exchange_def bnd_def sq_def)
  moreover have "rows_known ?v" using assms(2) by (simp add: rows_known_def)
  ultimately show ?thesis
    using lose_agent_quiet [of ?v a "gone ''no answer''"] assms
    by (auto simp: checked_exchange_def wp_def bnd_def sq_def split: prod.splits)
qed

lemma send_immediate_unanswered:
  assumes "w_net w = []" and "rows_known w" and "get_by_id (w_db w) (ag_agentid a) \<noteq> None"
  shows "wp (send_immediate a m u b)
    (\<lambda>r w'. \<exists>e. r = Inr (error_body e) \<and> w_net w' = [] \<and> w_db w' = w_db w \<and> rows_known w') w"
  unfolding send_immediate_def wp_bnd
  by (rule wp_mono [OF checked_exchange_unanswered [OF assms]]) (auto simp: wp_simps)

lemma archive_all_unanswered:
  assumes "w_net w = []" and "rows_known w" and "list_all (\<lambda>(k, a). get_by_id (w_db w) (ag_agentid a) \<noteq> None) ags"
  shows "wp (archive_all b ags c) (\<lambda>r w'. r = Inr c) w"
  using assms
proof (induction b ags c arbitrary: w rule: archive_all.induct)
  case (1 b c)
  show ?case by (simp add: wp_simps)
next
  case (2 b k a rest c)
  then have "get_by_id (w_db w) (ag_agentid a) \<noteq> None"
    and rest: "list_all (\<lambda>(k, a). get_by_id (w_db w) (ag_agentid a) \<noteq> None) rest" by auto
  from wp_mono [OF send_immediate_unanswered [OF 2(2,3) this(1)]]
  have "wp (send_immediate a ''POST'' ''/archive'' b) (\<lambda>r w'. case r of Inl e \<Rightarrow> False
      | Inr x \<Rightarrow> wp (bnd (archive_round a x c) (archive_all b rest)) (\<lambda>r w'. r = Inr c) w') w"
  proof (rule wp_mono)
    fix r :: "pyexn + body" and w' :: world
    assume "\<exists>e. r = Inr (error_body e) \<and> w_net w' = [] \<and> w_db w' = w_db w \<and> rows_known w'"
    then obtain e where e: "r = Inr (error_body e)" "w_net w' = []" "w_db w' = w_db w" "rows_known w'" by auto
    have "wp (archive_all b rest c) (\<lambda>r w'. r = Inr c) w'"
      by (intro 2(1)) (use e rest in simp_all)
    with e show "case r of Inl e \<Rightarrow> False
      | Inr x \<Rightarrow> wp (bnd (archive_round a x c) (archive_all b rest)) (\<lambda>r w'. r = Inr c) w'"
      by (simp add: archive_round_def error_body_def wp_simps)
  qed
  then show ?case by (simp add: wp_bnd) (erule wp_mono, simp split: sum.splits)
qed

text \<open>
  The archive servers of agents none of which answers are reported as started: the
  error dictionaries of the failed requests carry no \<open>stdout\<close>, and only answers with
  \<open>stdout\<close> are looked at.
\<close>

theorem archive_unanswered_succeeds:
  assumes "w_net w = []" and "rows_known w"
    and "list_all (\<lambda>(k, a). get_by_id (w_db w) (ag_agentid a) \<noteq> None) (w_agents w)"
  shows "\<exists>b w'. archive action None port w = (Inr b, w') \<and> success b"
proof -
  let ?ags = "filter (\<lambda>(k, a). row_enabled (w_db w) a) (w_agents w)"
  have "\<not> (\<exists>(k, a) \<in> set (w_agents w). get_by_uuid (w_db w) (ag_uuid a) = None)"
    using assms(2) by (auto simp: rows_known_def)
  moreover have "list_all (\<lambda>(k, a). get_by_id (w_db w) (ag_agentid a) \<noteq> None) ?ags"
    using assms(3) by (auto simp: list_all_iff)
  note archive_all_unanswered [OF assms(1,2) this, of "archive_body action port" combined0]
  ultimately show ?thesis
    by (auto simp: archive_def wp_def bnd_def all_agents_run combined0_def failed_def split: prod.splits)
qed

theorem archive_unanswered_succeeds_witness:
  "\<exists>b w'. archive ''start'' None (-1) world1 = (Inr b, w') \<and> success b"
  by (rule archive_unanswered_succeeds)
    (simp_all add: world1_def world0_def agent0_def get_by_uuid_def get_by_id_def rows_known_def)

text \<open>
  The states in which the Tableau database may be asked.  They are those in which
  Tableau runs, but also the states of a backup, a file deletion, a ziplogs or a cleanup
  made while Tableau is stopped.
\<close>

theorem odbc_ok_spec:
  "odbc_ok w = (Inr (cur_state w \<in>
     {STATE_STOPPED_BACKUP, STATE_STOPPED_BACKUP_RESTORE, STATE_STOPPED_FILEDEL, STATE_STOPPED_ZIPLOGS,
      STATE_STARTED, STATE_STARTED_BACKUP, STATE_STARTED_BACKUP_RESTORE, STATE_STARTED_BACKUP_STOP,
      STATE_STARTED_BACKUP_RESTART, STATE_STARTED_FILEDEL, STATE_STARTED_ZIPLOGS, STATE_STARTED_CLEANUP,
      STATE_STOPPED_CLEANUP, STATE_DEGRADED, STATE_PRIMARY_NOT_ENABLED}), w)"
  by (cases "cur_state w") (simp_all add: odbc_ok_def get_state_def bnd_def)

end
