(* ===== verification/StatusMonitor.thy ===== *)
theory StatusMonitor
  imports Maint
begin

text \<open>
  \<open>tableau.py\<close>: the status monitor.  It asks the primary agent for the status of Tableau,
  through the systeminfo page or \<open>tabadmin status -v\<close>, rebuilds the table of processes,
  and moves the main state along the transition table, with the events of the move.
\<close>

section \<open>The process table\<close>

definition remove_all_status :: "unit io" where
  "remove_all_status = modify (\<lambda>w. w\<lparr>w_procs := []\<rparr>)"

definition add_status :: "nat \<Rightarrow> string \<Rightarrow> int \<Rightarrow> string \<Rightarrow> unit io" where
  "add_status i name pid status =
     modify (\<lambda>w. w\<lparr>w_procs := w_procs w @
       [\<lparr>pr_agentid = i, pr_name = name, pr_pid = pid, pr_status = status\<rparr>]\<rparr>)"

definition commit :: "unit io" where
  "commit = modify (\<lambda>w. w\<lparr>w_procs_db := w_procs w\<rparr>)"

definition rollback :: "unit io" where
  "rollback = modify (\<lambda>w. w\<lparr>w_procs := w_procs_db w\<rparr>)"

definition is_primary_row :: "agent list \<Rightarrow> nat \<Rightarrow> bool" where
  "is_primary_row db i \<longleftrightarrow> list_ex (\<lambda>r. ag_agentid r = i \<and> ag_agent_type r = Some PRIMARY) db"

definition status_rows :: "world \<Rightarrow> process list" where
  "status_rows w = filter (\<lambda>p. pr_name p = ''Status'' \<and> is_primary_row (w_db w) (pr_agentid p)) (w_procs w)"

definition get_tableau_status :: "string io" where
  "get_tableau_status =
     bnd (gets status_rows) (\<lambda>rows. case rows of
       [] \<Rightarrow> ret STATUS_UNKNOWN
     | p # ps \<Rightarrow> if ps = [] then ret (pr_status p) else raise (DBError ''MultipleResultsFound''))"

section \<open>Events of a change of state\<close>

definition data_with :: "body option \<Rightarrow> agent \<Rightarrow> body" where
  "data_with b a = dict_add (case b of None \<Rightarrow> Map.empty | Some x \<Rightarrow> x) (agent_todict a)"

definition degraded_min :: "conf \<Rightarrow> nat" where
  "degraded_min c = (case cf_event_degraded_min c of Some n \<Rightarrow> n | None \<Rightarrow> 120)"

text \<open>
  One round of the loop of \<open>_send_events\<close>; the accumulator is \<open>new_degraded_event\<close>.  A
  \<open>first_degraded_time\<close> of zero counts as not set.
\<close>

definition send_event :: "agent \<Rightarrow> body option \<Rightarrow> ekey \<Rightarrow> bool \<Rightarrow> bool io" where
  "send_event a b e new_degraded =
     bnd (gets (\<lambda>w. (w_first_degraded w, w_sent_degraded w, w_now w, w_conf w))) (\<lambda>(first, sent, now, conf).
       if e = EV_STATE_STARTED_AFTER_DEGRADED \<and> \<not> sent then ret new_degraded
       else if e \<noteq> EV_STATE_DEGRADED then
         sq (gen e (agent_todict a) None)
           (sq (when_m (e = EV_INIT_STATE_DEGRADED) (modify (\<lambda>w. w\<lparr>w_sent_degraded := False\<rparr>)))
              (ret new_degraded))
       else if first = None \<or> first = Some 0 then
         sq (modify (\<lambda>w. w\<lparr>w_first_degraded := Some now\<rparr>)) (ret True)
       else if sent then ret True
       else if degraded_min conf \<le> now - the first then
         sq (gen e (data_with b a) None) (sq (modify (\<lambda>w. w\<lparr>w_sent_degraded := True\<rparr>)) (ret True))
       else ret True)"

definition send_events :: "ekey list \<Rightarrow> agent \<Rightarrow> body option \<Rightarrow> unit io" where
  "send_events events a b =
     bnd (fold_m (send_event a b) events False) (\<lambda>new_degraded.
       when_m (\<not> new_degraded) (modify (\<lambda>w. w\<lparr>w_first_degraded := None, w_sent_degraded := False\<rparr>)))"

section \<open>The main state\<close>

definition before_8_2 :: "(string \<Rightarrow> string option) \<Rightarrow> bool" where
  "before_8_2 yml \<longleftrightarrow>
     (let v = (case yml ''version.external'' of Some v \<Rightarrow> v | None \<Rightarrow> ''8'') in
      take 1 v = ''8'' \<and> (take 3 (drop 1 v) = ''.0.'' \<or> take 3 (drop 1 v) = ''.1.''))"

text \<open>\<open>new_state_info\<close>\<close>

definition state_info :: "(string \<Rightarrow> string option) \<Rightarrow> mstate \<Rightarrow> string \<Rightarrow> ddict option" where
  "state_info yml prev status =
     (case transition prev status of
        None \<Rightarrow> None
      | Some info \<Rightarrow>
          Some (if prev = STATE_STARTING_RESTORE \<and> before_8_2 yml then START_DICT else info))"

definition maint_for :: "ddict \<Rightarrow> unit io" where
  "maint_for info =
     bnd (gets w_maint_started) (\<lambda>started.
       if map_of info ''maint-stop'' \<noteq> None \<and> \<not> started then ret ()
       else sq (when_m (map_of info ''maint-stop'' \<noteq> None) (sq (maint ''stop'' None True) (ret ())))
         (bnd (gets w_maint_started) (\<lambda>started'.
            when_m (map_of info ''maint-start'' \<noteq> None \<and> \<not> started')
              (sq (maint ''start'' None True) (ret ())))))"

definition set_main_state :: "string \<Rightarrow> agent \<Rightarrow> body option \<Rightarrow> unit io" where
  "set_main_state tableau_status a b =
     bnd get_state (\<lambda>prev.
       if \<not> known_status tableau_status then ret ()
       else if map_of TRANSITIONS prev = None then ret ()
       else bnd (gets w_yml) (\<lambda>yml. case state_info yml prev tableau_status of
           None \<Rightarrow> raise (KeyError tableau_status)
         | Some info \<Rightarrow> seqs [
             (case info_state info of
                None \<Rightarrow> ret ()
              | Some s \<Rightarrow> when_m (s \<noteq> prev) (update_state s)),
             send_events (info_events info) a b,
             maint_for info]))"

definition finish_status :: "agent \<Rightarrow> string \<Rightarrow> body option \<Rightarrow> unit io" where
  "finish_status a tableau_status b =
     bnd (user_action_lock False a) (\<lambda>acquired.
       if \<not> acquired then rollback
       else seqs [set_main_state tableau_status a b, commit, user_action_unlock a])"

section \<open>Systeminfo\<close>

definition working_status :: "string \<Rightarrow> bool" where
  "working_status s \<longleftrightarrow> s \<in> {''Active'', ''Passive'', ''Busy'', ''ReadOnly'', ''ActiveSyncing''}"

definition failed_line :: "string \<Rightarrow> string \<Rightarrow> string \<Rightarrow> string" where
  "failed_line machine service status =
     ''Machine '' @ machine @ '': Process '' @ service @ '' is '' @ status @ [CHR 0x0A]"

definition parse_failure :: "string \<Rightarrow> 'a io" where
  "parse_failure msg = raise (SysteminfoException PARSE_FAILURE msg)"

text \<open>The display name of an agent row; \<open>Unknown\<close> for no row.\<close>

definition machine_displayname :: "agent option \<Rightarrow> string" where
  "machine_displayname r = (case r of None \<Rightarrow> ''Unknown'' | Some a \<Rightarrow> display a)"

text \<open>
  The two variables that live across the loops: \<open>port\<close>, unbound at first and keeping its
  value from one process to the next, and \<open>failed_proc_str\<close>.
\<close>

type_synonym parse_vars = "int option \<times> string"

definition parse_info :: "nat \<Rightarrow> string \<Rightarrow> xelem \<Rightarrow> parse_vars \<Rightarrow> parse_vars io" where
  "parse_info i machine info vars =
     (case (info, vars) of (Elem service_name attrs _, (port, failed_str)) \<Rightarrow>
       (case map_of attrs ''status'' of
          None \<Rightarrow> parse_failure ''missing 'status' in machine attrib''
        | Some status \<Rightarrow>
            bnd (case map_of attrs ''worker'' of
                   None \<Rightarrow> ret port
                 | Some worker \<Rightarrow>
                     (let parts = split_on CHR '':'' worker in
                      if length parts = 1 \<or> \<not> isdigit (parts ! 1)
                      then parse_failure ''Missing ':' or not an integer in machine for worker''
                      else ret (Some (int (digits_value 0 (parts ! 1)))))) (\<lambda>port'.
              (case port' of
                 None \<Rightarrow> raise (UnboundLocalError ''port'')
               | Some p \<Rightarrow>
                   sq (add_status i service_name p status)
                     (ret (port', if working_status status then failed_str
                                  else failed_str @ failed_line machine service_name status))))))"

definition parse_machine :: "xelem \<Rightarrow> parse_vars \<Rightarrow> parse_vars io" where
  "parse_machine machine vars =
     (case machine of Elem tag attrs infos \<Rightarrow>
       (case map_of attrs ''name'' of
          None \<Rightarrow> parse_failure ''missing 'name' in machine attribute''
        | Some host \<Rightarrow>
            bnd (gets w_db) (\<lambda>db. case get_agentid_from_host db host of
              None \<Rightarrow> ret vars
            | Some i \<Rightarrow>
                if i = 0 then ret vars
                else fold_m (parse_info i (machine_displayname (get_by_id db i))) infos vars)))"

definition service_status :: "string \<Rightarrow> string" where
  "service_status s =
     (if s \<in> {''Down'', ''DecommisionedReadOnly'', ''DecomisioningReadOnly'', ''DecommissionFailedReadOnly''}
      then STATUS_DEGRADED
      else if working_status s then STATUS_RUNNING
      else STATUS_UNKNOWN)"

definition parse_child ::
    "agent \<Rightarrow> xelem \<Rightarrow> parse_vars \<times> string option \<Rightarrow> (parse_vars \<times> string option) io" where
  "parse_child a child acc =
     (case (child, acc) of (Elem tag attrs children, (vars, tableau_status)) \<Rightarrow>
       if tag = ''machines'' then
         bnd (fold_m parse_machine children vars) (\<lambda>vars'. ret (vars', tableau_status))
       else if tag = ''service'' then
         (case map_of attrs ''status'' of
            None \<Rightarrow> parse_failure ''Missing 'status' ''
          | Some s \<Rightarrow> sq (add_status (ag_agentid a) ''Status'' 0 (service_status s))
                        (ret (vars, Some (service_status s))))
       else ret (vars, tableau_status))"

definition systeminfo_parse :: "agent \<Rightarrow> raw \<Rightarrow> unit io" where
  "systeminfo_parse a systeminfo_xml =
     (case systeminfo_xml of
        XmlBody (Elem tag attrs children) \<Rightarrow>
          if tag \<noteq> ''systeminfo'' then parse_failure (''wrong root tag: '' @ tag)
          else bnd get_tableau_status (\<lambda>prev_tableau_status.
            sq remove_all_status
              (bnd (fold_m (parse_child a) children ((None, []), None)) (\<lambda>((port, failed_str), tableau_status).
                case tableau_status of
                  None \<Rightarrow> sq rollback (parse_failure ''Tableau status not valid'')
                | Some s \<Rightarrow> finish_status a s
                    (if failed_str = [] then None else Some [''info'' \<mapsto> JStr failed_str]))))
      | _ \<Rightarrow> parse_failure ''xml parse error'')"

text \<open>\<open>urlparse(url).scheme\<close> and \<open>.port\<close>\<close>

definition url_scheme :: "string \<Rightarrow> string" where
  "url_scheme url =
     (if CHR '':'' \<in> set url then
        (let s = takeWhile (\<lambda>c. c \<noteq> CHR '':'') url in
         if s \<noteq> [] \<and> CHR ''/'' \<notin> set s then lower s else [])
      else [])"

definition url_port :: "string \<Rightarrow> int option" where
  "url_port url =
     (let rest = drop 1 (dropWhile (\<lambda>c. c \<noteq> CHR '':'') url) in
      if take 2 rest \<noteq> ''//'' then None
      else (let netloc = takeWhile (\<lambda>c. c \<noteq> CHR ''/'' \<and> c \<noteq> CHR ''?'' \<and> c \<noteq> CHR ''#'') (drop 2 rest) in
            case split_on CHR '':'' netloc of
              host # p # rest' \<Rightarrow> parse_int p
            | _ \<Rightarrow> None))"

definition truthy_str :: "string option \<Rightarrow> string option" where
  "truthy_str s = (case s of Some [] \<Rightarrow> None | _ \<Rightarrow> s)"

definition systeminfo_url :: "conf \<Rightarrow> string option" where
  "systeminfo_url c =
     (case (case truthy_str (cf_tableau_internal_server_url c) of
              None \<Rightarrow> truthy_str (cf_tableau_server_url c) | u \<Rightarrow> u) of
        None \<Rightarrow> None
      | Some url \<Rightarrow>
          if url_scheme url = [] then None
          else (case url_port url of
              Some p \<Rightarrow> if p \<noteq> 0 then Some (url_scheme url @ ''://127.0.0.1:'' @ int_str p @ ''/admin/systeminfo.xml'')
                        else Some (url_scheme url @ ''://127.0.0.1/admin/systeminfo.xml'')
            | None \<Rightarrow> Some (url_scheme url @ ''://127.0.0.1/admin/systeminfo.xml'')))"

definition sysinfo_raise :: "sysinfo_error \<Rightarrow> string \<Rightarrow> 'a io" where
  "sysinfo_raise n msg = raise (SysteminfoException n msg)"

text \<open>The agent's own answer, JSON, to a page it could not fetch.\<close>

definition systeminfo_failed :: "body \<Rightarrow> raw io" where
  "systeminfo_failed data =
     (if failed data \<and> contains ''Unable to connect to the remote server'' (jstr (data ''error''))
      then sysinfo_raise CONNECT_FAILURE ''HTTP GET reported failed''
      else if failed data \<and> contains ''The operation has timed out'' (jstr (data ''error''))
      then sysinfo_raise COMM_TIMEDOUT ''HTTP GET Timed out''
      else if failed data \<and> data ''status-code'' = Some (JInt 404)
      then sysinfo_raise NOT_FOUND ''Page not found''
      else sysinfo_raise UNEXPECTED_RESPONSE ''Unexpected response error'')"

definition systeminfo_get :: "agent \<Rightarrow> raw io" where
  "systeminfo_get a =
     bnd (gets w_conf) (\<lambda>c.
     bnd (exchange (Request (ag_conn_id a) ''GET'' ''/proxy''
            [''URL'' \<mapsto> (case systeminfo_url c of None \<Rightarrow> JNull | Some u \<Rightarrow> JStr u),
             ''timeout'' \<mapsto> JInt (int (cf_status_systeminfo_timeout_ms c))])) (\<lambda>res. case res of
         NetIOError s \<Rightarrow> sysinfo_raise COMM_FAILURE s
       | NetHTTPError s \<Rightarrow> sysinfo_raise COMM_FAILURE s
       | Resp status reason raw \<Rightarrow>
           if status < 200 \<or> 300 \<le> status then sysinfo_raise COMM_FAILURE reason
           else (case raw of
               BadJson s \<Rightarrow> sysinfo_raise JSON_PARSE_FAILURE ''Invalid json returned''
             | NullBody \<Rightarrow> raise (TypeError ''argument of type 'NoneType' is not iterable'')
             | JsonBody data \<Rightarrow> systeminfo_failed data
             | _ \<Rightarrow> ret raw)))"

definition set_status :: "agent \<Rightarrow> string \<Rightarrow> body option \<Rightarrow> unit io" where
  "set_status a status b =
     bnd get_tableau_status (\<lambda>prev. seqs [
       remove_all_status, add_status (ag_agentid a) ''Status'' 0 status, finish_status a status b])"

definition set_status_stopped :: "agent \<Rightarrow> unit io" where
  "set_status_stopped a = set_status a STATUS_STOPPED
     (Some [''stdout'' \<mapsto> JStr ''systeminfo failed.  Assuming Tableau is stopped.''])"

definition set_status_unknown :: "agent \<Rightarrow> unit io" where
  "set_status_unknown a = set_status a STATUS_UNKNOWN None"

section \<open>Notifications\<close>

text \<open>
  \<open>NotificationManager.get\<close>: the row of that name, and of that agent when one is given;
  a new row is added if there is none.
\<close>

definition nt_matches :: "string \<Rightarrow> nat option \<Rightarrow> notification \<Rightarrow> bool" where
  "nt_matches name i n \<longleftrightarrow> nt_name n = name \<and> (i = None \<or> nt_agentid n = i)"

definition new_notification :: "string \<Rightarrow> nat option \<Rightarrow> notification" where
  "new_notification name i =
     \<lparr>nt_name = name, nt_agentid = i, nt_color = None, nt_notified_color = None, nt_description = None\<rparr>"

definition get_notification :: "string \<Rightarrow> nat option \<Rightarrow> notification io" where
  "get_notification name i =
     bnd (gets (\<lambda>w. filter (nt_matches name i) (w_notifications w))) (\<lambda>ns. case ns of
       [] \<Rightarrow> sq (modify (\<lambda>w. w\<lparr>w_notifications := w_notifications w @ [new_notification name i]\<rparr>))
               (ret (new_notification name i))
     | n # rest \<Rightarrow> if rest = [] then ret n else raise (DBError ''MultipleResultsFound''))"

text \<open>Assignments to the columns of a row.\<close>

definition set_notification ::
    "string \<Rightarrow> nat option \<Rightarrow> (notification \<Rightarrow> notification) \<Rightarrow> unit io" where
  "set_notification name i f =
     modify (\<lambda>w. w\<lparr>w_notifications := map (\<lambda>n. if nt_matches name i n then f n else n) (w_notifications w)\<rparr>)"

definition systeminfo_eventit :: "agent \<Rightarrow> body \<Rightarrow> string \<Rightarrow> unit io" where
  "systeminfo_eventit a data url =
     bnd (get_notification ''systeminfo'' None) (\<lambda>n.
     bnd (gets w_conf) (\<lambda>c.
       if success data then
         when_m (nt_color n = Some ''red'') (seqs [
           when_m (cf_status_systeminfo_send_alerts c)
             (gen EV_SYSTEMINFO_OKAY
               (case data ''info'' of Some v \<Rightarrow> (agent_todict a)(''info'' \<mapsto> v) | None \<Rightarrow> agent_todict a) None),
           set_notification ''systeminfo'' None
             (\<lambda>n. n\<lparr>nt_color := Some ''green'', nt_description := Some url\<rparr>),
           commit])
       else
         when_m (nt_color n \<noteq> Some ''red'' \<or> nt_description n \<noteq> Some url) (seqs [
           when_m (cf_status_systeminfo_send_alerts c)
             (gen EV_SYSTEMINFO_FAILED
               ((agent_todict a)(''error'' := data ''error'')) None),
           set_notification ''systeminfo'' None
             (\<lambda>n. n\<lparr>nt_color := Some ''red'', nt_description := Some url\<rparr>),
           commit])))"

section \<open>tabadmin status\<close>

text \<open>
  The regular expression for a process line.  After the quote that ends the service
  name: a blank, an optional pid in parentheses, an optional \<open>status\<close>, an optional blank,
  \<open>is\<close>, a blank, and the status up to the last full stop.  Each optional part is tried
  present first; the service name is as long as possible.
\<close>

definition last_dot :: "string \<Rightarrow> string option" where
  "last_dot s =
     (if CHR ''.'' \<in> set s
      then Some (rev (drop 1 (dropWhile (\<lambda>c. c \<noteq> CHR ''.'') (rev s)))) else None)"

definition match_is :: "string \<Rightarrow> string option" where
  "match_is s =
     (if starts_with ''is'' s \<and> drop 2 s \<noteq> [] \<and> is_space (hd (drop 2 s)) then last_dot (drop 3 s) else None)"

fun first_some :: "'a option list \<Rightarrow> 'a option" where
  "first_some [] = None"
| "first_some (None # xs) = first_some xs"
| "first_some (Some x # xs) = Some x"

definition match_blank_is :: "string \<Rightarrow> string option" where
  "match_blank_is s =
     first_some [if s \<noteq> [] \<and> is_space (hd s) then match_is (tl s) else None, match_is s]"

definition match_status_is :: "string \<Rightarrow> string option" where
  "match_status_is s =
     first_some [if starts_with ''status'' s then match_blank_is (drop 6 s) else None, match_blank_is s]"

definition match_pid :: "string \<Rightarrow> (string \<times> string) option" where
  "match_pid s =
     (let ds = takeWhile is_digit (drop 1 s); r = dropWhile is_digit (drop 1 s) in
      first_some
        [if starts_with ''('' s \<and> starts_with '')'' r
           then map_option (\<lambda>st. (ds, st)) (match_status_is (drop 1 r)) else None,
         map_option (\<lambda>st. ([], st)) (match_status_is s)])"

fun match_service :: "string \<Rightarrow> string \<Rightarrow> (string \<times> string \<times> string) option" where
  "match_service service [] = None"
| "match_service service (c # cs) =
     (case match_service (service @ [c]) cs of
        Some m \<Rightarrow> Some m
      | None \<Rightarrow>
          if c = CHR 0x27 \<and> cs \<noteq> [] \<and> is_space (hd cs)
          then map_option (\<lambda>(pid, st). (service, pid, st)) (match_pid (tl cs)) else None)"

text \<open>\<open>re.search\<close>: the service, the pid (empty if missing) and the status.\<close>

fun match_process :: "string \<Rightarrow> (string \<times> string \<times> string) option" where
  "match_process [] = None"
| "match_process (c # cs) =
     (case (if starts_with (CHR 0x27 # ''Tableau Server '') (c # cs)
            then match_service [] (drop 16 (c # cs)) else None) of
        Some m \<Rightarrow> Some m
      | None \<Rightarrow> match_process cs)"

text \<open>The variables of the loop over the lines.\<close>

record tabadmin_vars =
  tv_agentid :: "nat option"
  tv_display :: string
  tv_failed :: string
  tv_status :: "string option"

definition known_agentid :: "nat option \<Rightarrow> nat option" where
  "known_agentid i = (if i = Some 0 then None else i)"

definition tabadmin_process :: "string \<Rightarrow> tabadmin_vars \<Rightarrow> tabadmin_vars io" where
  "tabadmin_process line v =
     (case known_agentid (tv_agentid v) of
        None \<Rightarrow> ret v
      | Some i \<Rightarrow>
          (case match_process line of
             None \<Rightarrow> ret v
           | Some (service, pid_str, status) \<Rightarrow>
               sq (add_status i service (if pid_str = [] then -2 else int (digits_value 0 pid_str)) status)
                 (ret (if contains ''running'' status then v
                       else v\<lparr>tv_failed := tv_failed v @ failed_line (tv_display v) service status\<rparr>))))"

definition tabadmin_status :: "string \<Rightarrow> tabadmin_vars \<Rightarrow> tabadmin_vars io" where
  "tabadmin_status server_status v =
     (case known_agentid (tv_agentid v) of
        None \<Rightarrow> ret v
      | Some i \<Rightarrow>
          sq (add_status i ''Status'' 0 server_status)
            (ret (if tv_status v = None \<or> server_status = STATUS_DEGRADED
                  then v\<lparr>tv_status := Some server_status\<rparr> else v)))"

definition tabadmin_other :: "string \<Rightarrow> string \<Rightarrow> tabadmin_vars \<Rightarrow> tabadmin_vars io" where
  "tabadmin_other line part0 v =
     (if line \<noteq> [] \<and> last line = CHR '':'' then
        bnd (gets w_db) (\<lambda>db.
          let i = get_agentid_from_host db (filter (\<lambda>c. c \<noteq> CHR '':'') (strip part0)) in
          ret (v\<lparr>tv_agentid := i,
                 tv_display := machine_displayname (case i of None \<Rightarrow> None | Some n \<Rightarrow> get_by_id db n)\<rparr>))
      else
        (case known_agentid (tv_agentid v) of
           None \<Rightarrow> ret v
         | Some i \<Rightarrow> sq (add_status i line (-1) ''error'') (ret v)))"

definition tabadmin_line :: "string \<Rightarrow> tabadmin_vars \<Rightarrow> tabadmin_vars io" where
  "tabadmin_line raw_line v =
     (let line = strip raw_line; parts = split_on CHR '' '' line in
      if hd parts = CHR 0x27 # ''Tableau'' then
        (if length parts < 2 then raise (IndexError ''list index out of range'')
         else if parts ! 1 = ''Server'' then tabadmin_process line v
         else tabadmin_other line (hd parts) v)
      else if hd parts = ''Status:'' then
        (if length parts < 2 then raise (IndexError ''list index out of range'')
         else tabadmin_status (strip (parts ! 1)) v)
      else tabadmin_other line (hd parts) v)"

definition tabadmin_parse :: "agent \<Rightarrow> body \<Rightarrow> string \<Rightarrow> unit io" where
  "tabadmin_parse a b stdout =
     bnd get_tableau_status (\<lambda>prev_tableau_status.
     sq remove_all_status
       (bnd (gets w_db) (\<lambda>db.
        bnd (fold_m tabadmin_line (split_on (CHR 0x0A) stdout)
               \<lparr>tv_agentid = Some (ag_agentid a),
                tv_display = machine_displayname (get_by_id db (ag_agentid a)),
                tv_failed = [], tv_status = None\<rparr>) (\<lambda>v.
          case tv_status v of
            None \<Rightarrow> rollback
          | Some s \<Rightarrow> finish_status a s
              (Some (if tv_failed v = [] then b else b(''info'' \<mapsto> JStr (tv_failed v))))))))"

definition get_status_tabadmin :: "agent \<Rightarrow> unit io" where
  "get_status_tabadmin a =
     bnd (cli_cmd ''tabadmin status -v'' a Map.empty False (60 * 5)) (\<lambda>b.
       if failed b then ret ()
       else (case b ''exit-status'' of
           None \<Rightarrow> ret ()
         | Some ex \<Rightarrow>
             if truthy ex then ret ()
             else (case b ''stdout'' of
                 None \<Rightarrow> ret ()
               | Some (JStr out) \<Rightarrow> tabadmin_parse a b out
               | Some _ \<Rightarrow> raise (AttributeError ''split''))))"

section \<open>Checking the status\<close>

definition tableau_systeminfo_enabled :: "(string \<Rightarrow> string option) \<Rightarrow> bool" where
  "tableau_systeminfo_enabled yml =
     (let v = (case yml ''wgserver.systeminfo.allow_referrer_ips'' of Some v \<Rightarrow> v | None \<Rightarrow> []) in
      contains ''127.0.0.1'' v \<or> contains ''localhost'' v)"

definition is_systeminfo_api_capable :: "(string \<Rightarrow> string option) \<Rightarrow> bool" where
  "is_systeminfo_api_capable yml =
     (let v = (case yml ''version.external'' of Some v \<Rightarrow> v | None \<Rightarrow> ''8'') in
      case parse_int (hd (split_on CHR ''.'' v)) of None \<Rightarrow> False | Some n \<Rightarrow> 9 \<le> n)"

text \<open>
  The \<open>except SysteminfoException\<close> clause: whether the check is over.  The error text of a
  parse failure leaves out the copy of the page that the code appends to it.
\<close>

definition systeminfo_except :: "agent \<Rightarrow> string \<Rightarrow> sysinfo_error \<Rightarrow> string \<Rightarrow> bool io" where
  "systeminfo_except a url errnum msg =
     bnd get_state (\<lambda>prev_state.
     bnd (gets (\<lambda>w. (w_url_worked w, w_conf w))) (\<lambda>(worked, c).
       if errnum = NOT_FOUND \<and> worked = Some url \<and> prev_state \<in> {STATE_STOPPED, STATE_STOPPING} then
         sq (set_status_stopped a) (ret True)
       else if errnum = CONNECT_FAILURE \<and> worked = Some url then
         sq (set_status_stopped a)
           (sq (systeminfo_eventit a
                 [''info'' \<mapsto> JStr ''Systeminfo failed to connect, but connect previously worked.  Assuming Tableau is stopped.''] url)
              (ret True))
       else
         sq (systeminfo_eventit a (error_body msg) url)
           (if cf_status_systeminfo_only c then sq (set_status_unknown a) (ret True) else ret False)))"

fun is_sysinfo :: "pyexn \<Rightarrow> bool" where
  "is_sysinfo (SysteminfoException n msg) = True"
| "is_sysinfo e = False"

definition systeminfo_try :: "agent \<Rightarrow> string \<Rightarrow> bool io" where
  "systeminfo_try a url =
     catch
       (bnd (systeminfo_get a) (\<lambda>xml.
          sq (seqs [
                modify (\<lambda>w. w\<lparr>w_url_worked := Some url\<rparr>),
                systeminfo_parse a xml,
                systeminfo_eventit a Map.empty url])
             (ret True)))
       is_sysinfo
       (\<lambda>e. case e of SysteminfoException n msg \<Rightarrow> systeminfo_except a url n msg | _ \<Rightarrow> raise e)"

definition check_status_with_connection :: "agent \<Rightarrow> unit io" where
  "check_status_with_connection a =
     bnd (gets (\<lambda>w. (w_conf w, w_yml w))) (\<lambda>(c, yml).
     bnd (case systeminfo_url c of
            None \<Rightarrow> ret False
          | Some url \<Rightarrow>
              if is_systeminfo_api_capable yml \<and> cf_status_systeminfo c \<and> tableau_systeminfo_enabled yml
              then systeminfo_try a url else ret False) (\<lambda>finished.
       if finished then ret () else get_status_tabadmin a))"

definition check_status :: "unit io" where
  "check_status =
     bnd (agent_by_type PRIMARY) (\<lambda>ag. case ag of
       None \<Rightarrow> ret ()
     | Some a \<Rightarrow>
         bnd (user_action_lock False a) (\<lambda>acquired.
           if \<not> acquired then ret ()
           else sq (user_action_unlock a) (check_status_with_connection a)))"

text \<open>One round of \<open>tableau_status_loop\<close> after the wait.\<close>

definition status_round :: "unit io" where
  "status_round =
     bnd (rw_call (read_acquire False)) (\<lambda>acquired.
       if \<not> acquired then rollback
       else (\<lambda>w. case check_status w of
           (r, w') \<Rightarrow> (case rw_call read_release w' of
               (Inl e, w'') \<Rightarrow> (Inl e, w'')
             | (Inr _, w'') \<Rightarrow> (r, snd (rollback w'')))))"

section \<open>What a check leaves alone\<close>

lemma keeps_locks_table [frame]:
  "keeps locks remove_all_status" "keeps locks (add_status i n p st)" "keeps locks commit"
  "keeps locks rollback" "keeps locks get_tableau_status"
  unfolding remove_all_status_def add_status_def commit_def rollback_def get_tableau_status_def
  by (rule frame | simp add: locks_def)+

lemma keeps_locks_send_events [frame]: "keeps locks (send_events es a b)"
  unfolding send_events_def send_event_def by (rule frame | simp add: locks_def)+

lemma keeps_locks_set_main_state [frame]: "keeps locks (set_main_state st a b)"
  unfolding set_main_state_def maint_for_def by (rule frame)+

lemma acts_finish_status: "acts locks id (finish_status a st b)"
  unfolding finish_status_def by (rule locked | rule frame)+

lemma keeps_locks_notification [frame]:
  "keeps locks (get_notification n i)" "keeps locks (set_notification n i g)"
  unfolding get_notification_def set_notification_def by (rule frame | simp add: locks_def)+

lemma keeps_locks_systeminfo [frame]:
  "keeps locks (systeminfo_eventit a d u)" "keeps locks (systeminfo_get a)"
proof -
  have "keeps locks (case r of BadJson s \<Rightarrow> sysinfo_raise n m | NullBody \<Rightarrow> raise e
      | JsonBody d \<Rightarrow> systeminfo_failed d | _ \<Rightarrow> ret r)" for r n m e
    by (cases r) (simp_all add: systeminfo_failed_def sysinfo_raise_def keeps_ret keeps_raise)
  then show "keeps locks (systeminfo_get a)"
    unfolding systeminfo_get_def
    by (intro keeps_bnd keeps_gets keeps_locks_small(7))
      (auto simp: sysinfo_raise_def keeps_raise split: netres.split)
  show "keeps locks (systeminfo_eventit a d u)"
    unfolding systeminfo_eventit_def by (rule frame)+
qed

lemma keeps_locks_parse [frame]: "keeps locks (parse_child a c acc)"
  unfolding parse_child_def parse_machine_def parse_info_def parse_failure_def
  by (auto split: xelem.split intro!: frame)

lemma keeps_locks_tabadmin_line [frame]: "keeps locks (tabadmin_line l v)"
  unfolding tabadmin_line_def tabadmin_process_def tabadmin_status_def tabadmin_other_def Let_def
  by (rule frame)+

lemma avoids_maint [total]: "calm e \<Longrightarrow> avoids e (maint action a alert)"
proof -
  assume e: "calm e"
  have al: "avoids e all_agents"
    using e by (auto simp: avoids_def all_agents_def bnd_def lift_sum_def enabled_agents_eq)
  have l: "avoids e (agent_by_type t)" "avoids e (agent_by_id i)" for t i
    unfolding agent_by_type_def agent_by_id_def by (rule total al)+
  have g: "avoids e (gateway_agent h)" for h
    unfolding gateway_agent_def by (rule total l)+
  have h: "avoids e (maint_hosts action b hosts c)" for b hosts c
    by (induction hosts arbitrary: c)
      (simp_all only: maint_hosts.simps send_maint_def, (rule total g e | assumption)+)
  show ?thesis
    unfolding maint_def send_maint_def update_maint_status_def send_maint_event_def gen_def
    by (rule total h e)+
qed


lemma avoids_set_main_state [total]:
  assumes "calm e"
  shows "avoids e (set_main_state st a b)"
proof -
  have "avoids e (send_events es a b)" for es
    unfolding send_events_def
    unfolding send_event_def gen_def by (rule total avoids_fold_m)+
  with assms show ?thesis
    unfolding set_main_state_def maint_for_def update_state_def get_state_def
    by (auto intro!: total split: option.split simp del: seqs.simps)
qed

lemma avoids_finish_status: "is_sysinfo e \<Longrightarrow> avoids e (finish_status a st b)"
  unfolding finish_status_def user_action_lock_def user_action_unlock_def commit_def rollback_def
  by (cases e) (auto intro!: total)

lemma keeps_for_finish: "keeps_for is_sysinfo locks (finish_status a st b)"
  by (rule acts_keeps_for [OF acts_finish_status avoids_finish_status])

lemma keeps_for_set_status:
  "keeps_for is_sysinfo locks (set_status a st b)"
  unfolding set_status_def
  by (intro keeps_for_bnd keeps_for_seqs keeps_for_finish keeps_keeps_for frame)

lemma keeps_for_parse: "keeps_for is_sysinfo locks (systeminfo_parse a xml)"
proof -
  have "keeps_for is_sysinfo locks (case st of None \<Rightarrow> sq rollback (raise e) | Some s \<Rightarrow> finish_status a s b)"
    for st e b
    by (cases st) (auto intro!: keeps_keeps_for frame keeps_for_finish)
  then have "keeps_for is_sysinfo locks (systeminfo_parse a (XmlBody (Elem tag attrs children)))" for tag attrs children
    unfolding systeminfo_parse_def
    by (auto intro!: keeps_for_bnd keeps_for_sq keeps_keeps_for [OF keeps_locks_table(1)]
        keeps_keeps_for [OF keeps_locks_table(5)] keeps_keeps_for [OF keeps_fold_m] keeps_locks_parse
        keeps_keeps_for [OF keeps_raise] simp: parse_failure_def split: prod.split)
  then show ?thesis
    by (cases xml) (auto simp: systeminfo_parse_def parse_failure_def intro!: keeps_keeps_for keeps_raise split: xelem.split)
qed

lemma acts_set_status: "acts locks id (set_status a st b)"
  unfolding set_status_def
  by (intro acts_bnd_keeps acts_seqs_keeps acts_seqs_id acts_finish_status acts_seqs_Nil frame)

lemma acts_systeminfo_except: "acts locks id (systeminfo_except a url n msg)"
  unfolding systeminfo_except_def set_status_stopped_def set_status_unknown_def
  by (auto intro!: acts_bnd_keeps [OF keeps_get_state] acts_bnd_keeps [OF keeps_gets] acts_sq_id acts_set_status
      acts_ret_id keeps_acts [OF keeps_locks_systeminfo(1)] split: prod.split)

lemma acts_systeminfo_try: "acts locks id (systeminfo_try a url)"
proof -
  have h: "acts locks id (case e of SysteminfoException n msg \<Rightarrow> systeminfo_except a url n msg | _ \<Rightarrow> raise e)" for e
    by (cases e) (simp_all add: acts_raise acts_systeminfo_except)
  show ?thesis
    unfolding systeminfo_try_def
    by (intro acts_catch h keeps_for_bnd keeps_for_sq keeps_for_seqs keeps_for_parse keeps_keeps_for frame)
      (simp add: locks_def)
qed


lemma acts_get_status_tabadmin: "acts locks id (get_status_tabadmin a)"
proof -
  have p: "acts locks id (tabadmin_parse a b out)" for b out
    unfolding tabadmin_parse_def
    by (auto intro!: acts_bnd_keeps acts_sq_keeps acts_finish_status frame keeps_acts [OF keeps_locks_table(4)]
        split: option.split)
  show ?thesis
    unfolding get_status_tabadmin_def
    by (auto intro!: acts_bnd_keeps frame acts_ret_id acts_raise p split: option.split jval.split)
qed

lemma acts_check_status_with_connection: "acts locks id (check_status_with_connection a)"
  unfolding check_status_with_connection_def
  by (auto intro!: acts_bnd_keeps [OF keeps_gets] acts_bnd_id acts_systeminfo_try acts_ret_id
      acts_get_status_tabadmin split: option.split)


lemma acts_check_status: "acts locks id check_status"
proof -
  have u: "acts locks (unlock_by a) (sq (user_action_unlock a) (check_status_with_connection a))" for a
    unfolding sq_def using acts_comp [OF acts_unlock acts_check_status_with_connection] by simp
  show ?thesis
    unfolding check_status_def
    by (intro acts_bnd_keeps keeps_lookups acts_option acts_ret_id user_lock.guarded u keeps_ret)
qed

section \<open>Properties\<close>

text \<open>
  One round of the status monitor that comes back leaves the user action lock of
  every agent and the upgrade lock as they were, whatever the agents answer and whichever
  way the round ends.
\<close>

theorem status_round_locks:
  assumes "status_round w = (Inr (), w')"
  shows "w_ulock w' = w_ulock w \<and> w_rw w' = w_rw w"
proof -
  have rb: "locks (snd (rollback v)) = locks v" for v by (rule keeps_snd [OF keeps_locks_table(4)])
  obtain acq w1 where a: "rw_call (read_acquire False) w = (Inr acq, w1)"
    and r: "(if \<not> acq then rollback
       else (\<lambda>w. case check_status w of
           (r, w') \<Rightarrow> (case rw_call read_release w' of
               (Inl e, w'') \<Rightarrow> (Inl e, w'')
             | (Inr _, w'') \<Rightarrow> (r, snd (rollback w''))))) w1 = (Inr (), w')"
    using assms unfolding status_round_def by (rule bnd_returnsE)
  have "locks w' = locks w"
  proof (cases acq)
    case False
    with a have "locks w1 = locks w"
      by (auto simp: rw_call_def bnd_def sq_def locks_def read_acquire_def split: outcome.splits if_splits)
    with r False rb [of w1] show ?thesis by simp
  next
    case True
    with a have l: "\<not> monitor (w_rw w)" "0 \<le> rwlock (w_rw w)"
      "w1 = w\<lparr>w_rw := (w_rw w)\<lparr>rwlock := rwlock (w_rw w) + 1\<rparr>\<rparr>"
      by (auto simp: rw_call_def bnd_def sq_def read_acquire_def split: outcome.splits if_splits)
    obtain q t where q: "check_status w1 = (q, t)" by fastforce
    with r True obtain v t' where t': "rw_call read_release t = (Inr v, t')" and w': "w' = snd (rollback t')"
      and qv: "q = Inr ()"
      by (auto split: prod.splits sum.splits)
    from actsD [OF acts_check_status] q qv have "locks t = locks w1" by simp
    with l t' have "locks t' = locks w"
      by (auto simp: rw_call_def sq_def bnd_def locks_def read_release_def finish_release_def Let_def
          split: outcome.splits prod.splits sum.splits if_splits)
    with rb w' show ?thesis by simp
  qed
  then show ?thesis by (simp add: locks_def)
qed

lemma status_round_run: "\<exists>w'. status_round world1 = (Inr (), w')"
  by (simp add: status_round_def rw_call_def read_acquire_def world1_def world0_def rw_init_def
      check_status_def agent_by_type_def all_agents_def lift_sum_def get_by_uuid_def
      user_action_lock_def user_action_unlock_def check_status_with_connection_def
      systeminfo_url_def conf0_def truthy_str_def get_status_tabadmin_def bnd_def sq_def agent0_def
      cli_cmd_def send_cli_def post_start_def checked_exchange_def exchange_def next_xid_def
      lose_agent_def remove_agent_def agent_connected_def forget_def get_by_id_def gen_def update_state_def
      ulock_free_for_def read_release_def finish_release_def Let_def rollback_def failed_def
      error_body_def agent_todict_def)

theorem status_round_locks_witness:
  "\<exists>w'. status_round world1 = (Inr (), w') \<and> w_ulock w' = w_ulock world1 \<and> w_rw w' = w_rw world1"
  using status_round_run status_round_locks by blast


text \<open>
  C4: a user action wins over the status monitor.  While another thread holds the primary
  agent's user action lock, a check does nothing at all; and one that had already begun
  drops what it has read: neither the main state nor the events nor the committed table
  of processes change.
\<close>

theorem user_action_wins:
  assumes "agent_by_type PRIMARY w = (Inr (Some a), w)"
    and "w_ulock w (ag_conn_id a) = Some (u, n)" and "u \<noteq> w_thread w"
  shows "check_status w = (Inr (), w) \<and>
    finish_status a status b w = (Inr (), w\<lparr>w_procs := w_procs_db w\<rparr>)"
  using assms
  by (simp add: check_status_def finish_status_def rollback_def user_action_lock_def bnd_def ulock_free_for_def)

definition world_busy :: world where
  "world_busy = world1\<lparr>w_thread := 2, w_ulock := [1 \<mapsto> (7, 0)],
     w_procs := [\<lparr>pr_agentid = 1, pr_name = ''Status'', pr_pid = 0, pr_status = STATUS_STOPPED\<rparr>]\<rparr>"

theorem user_action_wins_witness:
  "check_status world_busy = (Inr (), world_busy) \<and>
   finish_status agent0 STATUS_STOPPED None world_busy = (Inr (), world_busy\<lparr>w_procs := w_procs_db world_busy\<rparr>)"
  by (rule user_action_wins [where u = 7 and n = 0])
    (simp_all add: world_busy_def world1_def world0_def agent0_def agent_by_type_def all_agents_def
      lift_sum_def get_by_uuid_def bnd_def)

text \<open>
  What a reported status makes of the main state, said once for the whole table: running
  and degraded are what they are; a stop was expected if the state was one in which
  Tableau is, or is being, stopped.
\<close>

definition settled :: "mstate \<Rightarrow> string \<Rightarrow> mstate" where
  "settled prev status =
     (if status = STATUS_RUNNING then STATE_STARTED
      else if status = STATUS_DEGRADED then STATE_DEGRADED
      else if prev \<in> {STATE_PENDING, STATE_STOPPED, STATE_STOPPING, STATE_STOPPING_RESTORE, STATE_STARTING_RESTORE}
      then STATE_STOPPED
      else STATE_STOPPED_UNEXPECTED)"

lemma transition_settled:
  assumes "transition prev status = Some info" and "known_status status"
  shows "(case info_state info of None \<Rightarrow> prev | Some s \<Rightarrow> s) = settled prev status"
    and "status = STATUS_STOPPED \<Longrightarrow> map_of info ''maint-stop'' = None"
    and "map_of info ''maint-start'' = None"
proof -
  have r: "case transition prev STATUS_RUNNING of None \<Rightarrow> True
    | Some info \<Rightarrow> (case info_state info of None \<Rightarrow> prev | Some s \<Rightarrow> s) = STATE_STARTED \<and> map_of info ''maint-start'' = None"
    by (cases prev) (simp_all add: transition_def table_defs info_state_def)
  have d: "case transition prev STATUS_DEGRADED of None \<Rightarrow> True
    | Some info \<Rightarrow> (case info_state info of None \<Rightarrow> prev | Some s \<Rightarrow> s) = STATE_DEGRADED \<and> map_of info ''maint-start'' = None"
    by (cases prev) (simp_all add: transition_def table_defs info_state_def)
  have t: "case transition prev STATUS_STOPPED of None \<Rightarrow> True
    | Some info \<Rightarrow> (case info_state info of None \<Rightarrow> prev | Some s \<Rightarrow> s) = settled prev STATUS_STOPPED \<and>
        map_of info ''maint-start'' = None \<and> map_of info ''maint-stop'' = None"
    by (cases prev) (simp_all add: transition_def table_defs info_state_def settled_def)
  from assms(2) show "(case info_state info of None \<Rightarrow> prev | Some s \<Rightarrow> s) = settled prev status"
    by (cases rule: known_status_cases; use assms(1) r d t in \<open>simp add: settled_def\<close>)
  from assms t show "status = STATUS_STOPPED \<Longrightarrow> map_of info ''maint-stop'' = None" by simp
  from assms(2) show "map_of info ''maint-start'' = None"
    by (cases rule: known_status_cases; use assms(1) r d t in simp)
qed

lemma keeps_send_events:
  assumes "\<And>w x. f (w\<lparr>w_events := x\<rparr>) = f w" and "\<And>w x. f (w\<lparr>w_first_degraded := x\<rparr>) = f w"
    and "\<And>w x. f (w\<lparr>w_sent_degraded := x\<rparr>) = f w"
  shows "keeps f (send_events es a b)"
  unfolding send_events_def send_event_def by (rule frame keeps_gen | simp add: assms)+

lemma moves_maint_for: "moves cur_state {STATE_DISCONNECTED} (maint_for info)"
  unfolding maint_for_def by (rule drift)+

text \<open>
  C13: a status that comes in while the main state is one the table knows settles it: the
  state becomes what \<open>settled\<close> says, unless the maintenance server had to be stopped
  because Tableau runs and the primary was lost on that request.
\<close>

theorem status_settles:
  assumes "set_main_state status a b w = (Inr (), w')"
    and "known_status status" and "map_of TRANSITIONS (cur_state w) \<noteq> None"
    and "\<not> (cur_state w = STATE_STARTING_RESTORE \<and> before_8_2 (w_yml w))"
  shows "cur_state w' = settled (cur_state w) status \<or>
    (cur_state w' = STATE_DISCONNECTED \<and> w_maint_started w \<and> status \<noteq> STATUS_STOPPED)"
proof -
  from transition_total [OF assms(3,2)] obtain info where info: "transition (cur_state w) status = Some info" by auto
  note tab = transition_settled [OF info assms(2)]
  let ?upd = "case info_state info of None \<Rightarrow> ret () | Some s \<Rightarrow> when_m (s \<noteq> cur_state w) (update_state s)"
  have "seqs [?upd, send_events (info_events info) a b, maint_for info] w = (Inr (), w')"
    using assms info by (simp add: set_main_state_def get_state_def bnd_def state_info_def split: if_splits)
  then obtain w1 w2 w3 where u: "?upd w = (Inr (), w1)" and e: "send_events (info_events info) a b w1 = (Inr (), w2)"
    and m: "maint_for info w2 = (Inr (), w3)" and w3: "w' = w3"
    by (auto elim!: sq_returnsE)
  from u tab(1) have w1: "cur_state w1 = settled (cur_state w) status" "w_maint_started w1 = w_maint_started w"
    by (auto simp: update_state_def split: option.splits if_splits)
  have "keeps cur_state (send_events (info_events info) a b)" "keeps w_maint_started (send_events (info_events info) a b)"
    by (rule keeps_send_events; simp add: cur_state_def)+
  with e w1 have w2: "cur_state w2 = settled (cur_state w) status" "w_maint_started w2 = w_maint_started w"
    by (auto dest: keepsD)
  show ?thesis
  proof (cases "map_of info ''maint-stop'' \<noteq> None \<and> w_maint_started w")
    case True
    with movesD [OF moves_maint_for m] w2 w3 tab(2) show ?thesis by auto
  next
    case False
    with m w2 tab(3) have "w3 = w2" by (auto simp: maint_for_def bnd_def sq_def split: if_splits)
    with w2 w3 show ?thesis by simp
  qed
qed

lemma stop_reported:
  "set_main_state STATUS_STOPPED agent0 None world1 =
    (Inr (), world1\<lparr>w_state := Some STATE_STOPPED_UNEXPECTED,
       w_events := [Event EV_STATE_UNEXPECTED_STATE_STOPPED (agent_todict agent0) None]\<rparr>)"
  by (simp add: set_main_state_def get_state_def bnd_def sq_def world1_def world0_def cur_state_def known_status_def
      state_info_def transition_def table_defs info_state_def info_events_def update_state_def send_events_def
      send_event_def gen_def agent_todict_def agent0_def conf0_def maint_for_def)

theorem status_settles_witness:
  "set_main_state STATUS_STOPPED agent0 None world1 =
    (Inr (), world1\<lparr>w_state := Some STATE_STOPPED_UNEXPECTED,
       w_events := [Event EV_STATE_UNEXPECTED_STATE_STOPPED (agent_todict agent0) None]\<rparr>) \<and>
   settled STATE_STARTED STATUS_STOPPED = STATE_STOPPED_UNEXPECTED"
  using status_settles [OF stop_reported] stop_reported
  by (simp add: known_status_def world1_def world0_def cur_state_def TRANSITIONS_def)


text \<open>What the reported status says the main state is already.\<close>

definition steady :: "mstate \<Rightarrow> string \<Rightarrow> bool" where
  "steady s status \<longleftrightarrow>
     (s, status) \<in> {(STATE_STARTED, STATUS_RUNNING), (STATE_STOPPED, STATUS_STOPPED),
                      (STATE_STOPPED_UNEXPECTED, STATUS_STOPPED)}"

text \<open>
  A settled state is steady: a check that reports again what the state already says
  sends no event, starts or stops nothing and leaves the state, apart from forgetting
  that Tableau was degraded.
\<close>

theorem status_steady:
  assumes "steady (cur_state w) status"
  shows "set_main_state status a b w = (Inr (), w\<lparr>w_first_degraded := None, w_sent_degraded := False\<rparr>)"
  using assms unfolding steady_def
  by (elim insertE; simp add: set_main_state_def get_state_def bnd_def sq_def known_status_def
      state_info_def transition_def table_defs info_state_def info_events_def send_events_def maint_for_def)

theorem status_steady_witness:
  "set_main_state STATUS_RUNNING agent0 None world1 =
     (Inr (), world1\<lparr>w_first_degraded := None, w_sent_degraded := False\<rparr>)"
  by (rule status_steady) (simp add: steady_def world1_def world0_def cur_state_def)

text \<open>Whatever was reported, reporting it again finds a steady or degraded state.\<close>

lemma settled_steady:
  "known_status status \<Longrightarrow> steady (settled s status) status \<or> settled s status = STATE_DEGRADED"
  by (auto simp: settled_def steady_def known_status_def)


text \<open>
  Tableau stays degraded: checks that report it, \<open>d\<close> seconds after one another for the \<open>d\<close>
  of a list.
\<close>

definition degraded_checks :: "agent \<Rightarrow> body option \<Rightarrow> nat list \<Rightarrow> unit io" where
  "degraded_checks a b ds = for_each ds (\<lambda>d. sq (sleep d) (set_main_state STATUS_DEGRADED a b))"

lemma degraded_check:
  assumes "cur_state w = STATE_DEGRADED" and "ag_enabled a" and "cf_event_known (w_conf w) EV_STATE_DEGRADED"
  shows "set_main_state STATUS_DEGRADED a b w = (Inr (),
    (case w_first_degraded w of
       None \<Rightarrow> w\<lparr>w_first_degraded := Some (w_now w)\<rparr>
     | Some f \<Rightarrow>
         if f = 0 then w\<lparr>w_first_degraded := Some (w_now w)\<rparr>
         else if w_sent_degraded w \<or> w_now w - f < degraded_min (w_conf w) then w
         else w\<lparr>w_sent_degraded := True, w_events := w_events w @ [Event EV_STATE_DEGRADED (data_with b a) None]\<rparr>))"
proof -
  have "set_main_state STATUS_DEGRADED a b w = send_events [EV_STATE_DEGRADED] a b w"
    using assms(1) by (simp add: set_main_state_def get_state_def bnd_def sq_def known_status_def state_info_def
        transition_def table_defs info_state_def info_events_def maint_for_def split: prod.split sum.split)
  also have "\<dots> = (Inr (), (case w_first_degraded w of
       None \<Rightarrow> w\<lparr>w_first_degraded := Some (w_now w)\<rparr>
     | Some f \<Rightarrow>
         if f = 0 then w\<lparr>w_first_degraded := Some (w_now w)\<rparr>
         else if w_sent_degraded w \<or> w_now w - f < degraded_min (w_conf w) then w
         else w\<lparr>w_sent_degraded := True, w_events := w_events w @ [Event EV_STATE_DEGRADED (data_with b a) None]\<rparr>))"
    using assms(2,3) by (simp add: send_events_def send_event_def bnd_def sq_def gen_def data_with_def dict_add_def
        agent_todict_def not_le split: option.split)
  finally show ?thesis .
qed

lemma degraded_checks_after_first:
  assumes "cur_state w = STATE_DEGRADED" and "ag_enabled a" and "cf_event_known (w_conf w) EV_STATE_DEGRADED"
    and "w_first_degraded w = Some f" and "0 < f"
  shows "\<exists>w'. degraded_checks a b ds w = (Inr (), w') \<and> cur_state w' = STATE_DEGRADED \<and>
    w_events w' = w_events w @
      (if ds \<noteq> [] \<and> \<not> w_sent_degraded w \<and> degraded_min (w_conf w) \<le> w_now w + sum_list ds - f
       then [Event EV_STATE_DEGRADED (data_with b a) None] else [])"
  using assms
proof (induction ds arbitrary: w)
  case Nil
  then show ?case by (simp add: degraded_checks_def)
next
  case (Cons d ds)
  let ?u = "w\<lparr>w_now := w_now w + d\<rparr>"
  have step: "degraded_checks a b (d # ds) w = sq (set_main_state STATUS_DEGRADED a b) (degraded_checks a b ds) ?u"
    by (simp add: degraded_checks_def sleep_def sq_def bnd_def)
  note c = degraded_check [of ?u a b]
  show ?case
  proof (cases "w_sent_degraded w \<or> w_now w + d - f < degraded_min (w_conf w)")
    case True
    with Cons.prems c step have "degraded_checks a b (d # ds) w = degraded_checks a b ds ?u"
      by (simp add: cur_state_def sq_def bnd_def)
    moreover have "(ds \<noteq> [] \<and> \<not> w_sent_degraded w \<and> degraded_min (w_conf w) \<le> w_now w + d + sum_list ds - f) =
        (\<not> w_sent_degraded w \<and> degraded_min (w_conf w) \<le> w_now w + (d + sum_list ds) - f)"
      using True by (cases ds) (auto simp: add.assoc)
    ultimately show ?thesis using Cons.IH [of ?u] Cons.prems by (simp add: cur_state_def)
  next
    case False
    let ?v = "?u\<lparr>w_sent_degraded := True, w_events := w_events w @ [Event EV_STATE_DEGRADED (data_with b a) None]\<rparr>"
    from False Cons.prems c step have "degraded_checks a b (d # ds) w = degraded_checks a b ds ?v"
      by (simp add: cur_state_def sq_def bnd_def)
    moreover have "degraded_min (w_conf w) \<le> w_now w + (d + sum_list ds) - f" using False by auto
    ultimately show ?thesis using Cons.IH [of ?v] Cons.prems False by (simp add: cur_state_def)
  qed
qed

text \<open>
  C17: however often a degraded Tableau is reported, the degraded event is sent at most
  once, and only when the configured time has passed since the first report.
\<close>

theorem degraded_once:
  assumes "cur_state w = STATE_DEGRADED" and "ag_enabled a" and "cf_event_known (w_conf w) EV_STATE_DEGRADED"
    and "w_first_degraded w = None" and "\<not> w_sent_degraded w" and "0 < w_now w"
  shows "\<exists>w'. degraded_checks a b (d # ds) w = (Inr (), w') \<and> cur_state w' = STATE_DEGRADED \<and>
    w_events w' = w_events w @
      (if ds \<noteq> [] \<and> degraded_min (w_conf w) \<le> sum_list ds
       then [Event EV_STATE_DEGRADED (data_with b a) None] else [])"
proof -
  let ?u = "w\<lparr>w_now := w_now w + d, w_first_degraded := Some (w_now w + d)\<rparr>"
  have "degraded_checks a b (d # ds) w = degraded_checks a b ds ?u"
    using degraded_check [of "w\<lparr>w_now := w_now w + d\<rparr>" a b] assms
    by (simp add: degraded_checks_def sleep_def sq_def bnd_def cur_state_def)
  with degraded_checks_after_first [of ?u a "w_now w + d" b ds] assms show ?thesis
    by (simp add: cur_state_def)
qed

definition world_degraded :: world where
  "world_degraded = world1\<lparr>w_state := Some STATE_DEGRADED, w_now := 100\<rparr>"

lemma world_degraded_simps:
  "cur_state world_degraded = STATE_DEGRADED" "cf_event_known (w_conf world_degraded) k"
  "w_first_degraded world_degraded = None" "\<not> w_sent_degraded world_degraded" "0 < w_now world_degraded"
  "w_events world_degraded = []" "degraded_min (w_conf world_degraded) = 30" "ag_enabled agent0"
  by (simp_all add: world_degraded_def world1_def world0_def conf0_def degraded_min_def cur_state_def agent0_def)

theorem degraded_once_witness:
  "\<exists>w'. degraded_checks agent0 None [10, 10, 30, 30] world_degraded = (Inr (), w') \<and>
    cur_state w' = STATE_DEGRADED \<and> w_events w' = [Event EV_STATE_DEGRADED (data_with None agent0) None]"
  using degraded_once [OF world_degraded_simps(1,8,2-5), of None 10 "[10, 30, 30]"]
  by (simp add: world_degraded_simps)

text \<open>
  With a Tableau before 8.2 the state in which a restored server is started is never
  left: the table entry the monitor looks at is the whole dictionary of the start states,
  which has no \<open>state\<close> and no \<open>events\<close>, so whatever is reported changes nothing.
\<close>

theorem restore_before_8_2_stuck:
  assumes "cur_state w = STATE_STARTING_RESTORE" and "before_8_2 (w_yml w)" and "known_status status"
  shows "set_main_state status a b w = (Inr (), w\<lparr>w_first_degraded := None, w_sent_degraded := False\<rparr>)"
proof -
  obtain info where "transition STATE_STARTING_RESTORE status = Some info"
    using transition_total [OF _ assms(3), of STATE_STARTING_RESTORE] by (auto simp: TRANSITIONS_def)
  moreover have "map_of TRANSITIONS STATE_STARTING_RESTORE = Some STOP_DICT" by (simp add: TRANSITIONS_def)
  ultimately show ?thesis
    using assms by (simp add: set_main_state_def get_state_def bnd_def sq_def state_info_def info_state_def
        info_events_def send_events_def maint_for_def START_DICT_def status_defs)
qed

theorem restore_before_8_2_stuck_witness:
  "let w = world1\<lparr>w_state := Some STATE_STARTING_RESTORE, w_yml := [''version.external'' \<mapsto> ''8.1.5'']\<rparr>
   in set_main_state STATUS_RUNNING agent0 None w = (Inr (), w\<lparr>w_first_degraded := None, w_sent_degraded := False\<rparr>)"
  unfolding Let_def
  by (rule restore_before_8_2_stuck) (simp_all add: before_8_2_def known_status_def cur_state_def)


text \<open>
  A status page that cannot be used empties the committed process table.  The rows
  are deleted before the page is read; when it turns out to be malformed the deletion is
  not rolled back, and the commit that records the first failure of systeminfo makes it
  permanent, so the status of Tableau is then unknown.
\<close>

theorem bad_page_empties_table:
  assumes "w_net w = (d, Resp 200 reason (XmlBody (Elem ''systeminfo'' xs (Elem ''machines'' ys [Elem tag attrs infos] # rest)))) # net"
    and "map_of attrs ''name'' = None"
    and "length (status_rows w) \<le> 1" and "w_notifications w = []" and "\<not> cf_status_systeminfo_only (w_conf w)"
  shows "\<exists>w'. systeminfo_try a url w = (Inr False, w') \<and> w_procs_db w' = [] \<and>
    get_tableau_status w' = (Inr STATUS_UNKNOWN, w')"
proof -
  let ?u = "w\<lparr>w_sent := w_sent w @ [Request (ag_conn_id a) ''GET'' ''/proxy''
            [''URL'' \<mapsto> (case systeminfo_url (w_conf w) of None \<Rightarrow> JNull | Some u \<Rightarrow> JStr u),
             ''timeout'' \<mapsto> JInt (int (cf_status_systeminfo_timeout_ms (w_conf w)))]], w_net := net, w_now := w_now w + d,
             w_url_worked := Some url\<rparr>"
  have st: "\<exists>s. get_tableau_status ?u = (Inr s, ?u)"
    using assms(3) by (cases "status_rows w") (auto simp: get_tableau_status_def bnd_def status_rows_def)
  have parse: "systeminfo_parse a (XmlBody (Elem ''systeminfo'' xs (Elem ''machines'' ys [Elem tag attrs infos] # rest))) ?u =
      (Inl (SysteminfoException PARSE_FAILURE ''missing 'name' in machine attribute''), ?u\<lparr>w_procs := []\<rparr>)"
    using st assms(2)
    by (auto simp: systeminfo_parse_def bnd_def sq_def remove_all_status_def parse_child_def parse_machine_def
        parse_failure_def)
  let ?v = "?u\<lparr>w_procs := []\<rparr>"
  have try_part: "bnd (systeminfo_get a) (\<lambda>xml. sq (seqs [
                modify (\<lambda>w. w\<lparr>w_url_worked := Some url\<rparr>), systeminfo_parse a xml,
                systeminfo_eventit a Map.empty url]) (ret True)) w =
      (Inl (SysteminfoException PARSE_FAILURE ''missing 'name' in machine attribute''), ?v)"
    using assms(1) parse by (simp add: systeminfo_get_def exchange_def bnd_def sq_def)
  have "\<exists>w'. systeminfo_except a url PARSE_FAILURE m ?v = (Inr False, w') \<and> w_procs w' = [] \<and> w_procs_db w' = []" for m
    using assms(4,5)
    by (simp add: systeminfo_except_def get_state_def bnd_def sq_def systeminfo_eventit_def get_notification_def
        failed_def error_body_def gen_def agent_todict_def set_notification_def commit_def new_notification_def)
  then obtain w' where w': "systeminfo_except a url PARSE_FAILURE ''missing 'name' in machine attribute'' ?v = (Inr False, w')"
    "w_procs w' = []" "w_procs_db w' = []" by blast
  with try_part have "systeminfo_try a url w = (Inr False, w')"
    by (simp add: systeminfo_try_def catch_def)
  with w' show ?thesis
    by (auto simp: get_tableau_status_def bnd_def status_rows_def)
qed

definition bad_page :: xelem where
  "bad_page = Elem ''systeminfo'' [] [Elem ''machines'' [] [Elem ''machine'' [] []]]"

definition world_bad_page :: world where
  "world_bad_page = world1\<lparr>w_net := [(1, Resp 200 ''OK'' (XmlBody bad_page))],
     w_procs := [\<lparr>pr_agentid = 1, pr_name = ''Status'', pr_pid = 0, pr_status = STATUS_RUNNING\<rparr>],
     w_procs_db := [\<lparr>pr_agentid = 1, pr_name = ''Status'', pr_pid = 0, pr_status = STATUS_RUNNING\<rparr>]\<rparr>"

theorem bad_page_empties_table_witness:
  "get_tableau_status world_bad_page = (Inr STATUS_RUNNING, world_bad_page) \<and>
   (\<exists>w'. systeminfo_try agent0 ''http://tableau'' world_bad_page = (Inr False, w') \<and> w_procs_db w' = [] \<and>
     get_tableau_status w' = (Inr STATUS_UNKNOWN, w'))"
proof
  show "get_tableau_status world_bad_page = (Inr STATUS_RUNNING, world_bad_page)"
    by (simp add: get_tableau_status_def bnd_def status_rows_def is_primary_row_def world_bad_page_def world1_def agent0_def)
  show "\<exists>w'. systeminfo_try agent0 ''http://tableau'' world_bad_page = (Inr False, w') \<and> w_procs_db w' = [] \<and>
     get_tableau_status w' = (Inr STATUS_UNKNOWN, w')"
    by (rule bad_page_empties_table)
      (auto simp: world_bad_page_def bad_page_def status_rows_def world1_def world0_def conf0_def)
qed

end
