(* ===== verification/Files.thy ===== *)
theory Files
  imports Maint
begin

text \<open>
  Files, where they are kept and how they are moved: path names (\<open>ntpath\<close>, \<open>posixpath\<close> as
  \<open>agent.path\<close> uses them), the file operations of an agent (\<open>filemanager.py\<close>), the
  \<open>files\<close> table (\<open>files.py\<close>), the volumes of an agent (\<open>agent.py\<close>), cloud storage
  (\<open>cloud.py\<close>) and copying from one agent to another (\<open>controller.copy_cmd\<close>).
\<close>

section \<open>Path names\<close>

definition is_sep :: "bool \<Rightarrow> char \<Rightarrow> bool" where
  "is_sep win c \<longleftrightarrow> c = CHR ''/'' \<or> (win \<and> c = CHR 0x5C)"

definition split_drive :: "bool \<Rightarrow> string \<Rightarrow> string \<times> string" where
  "split_drive win p =
     (if win \<and> 2 \<le> length p \<and> p ! 1 = CHR '':'' then (take 2 p, drop 2 p) else ([], p))"

text \<open>\<open>path.join(d, name)\<close> for a name without drive and leading separator.\<close>

definition path_join :: "bool \<Rightarrow> string \<Rightarrow> string \<Rightarrow> string" where
  "path_join win d name =
     (let p = snd (split_drive win d) in
      if p = [] \<or> is_sep win (last p) then d @ name
      else d @ (if win then CHR 0x5C else CHR ''/'') # name)"

definition path_basename :: "bool \<Rightarrow> string \<Rightarrow> string" where
  "path_basename win p = rev (takeWhile (\<lambda>c. \<not> is_sep win c) (rev (snd (split_drive win p))))"

text \<open>The head loses its trailing separators unless it is nothing else.\<close>

definition path_dirname :: "bool \<Rightarrow> string \<Rightarrow> string" where
  "path_dirname win p =
     (let (drive, rest) = split_drive win p;
          h = rev (dropWhile (\<lambda>c. \<not> is_sep win c) (rev rest));
          h' = rev (dropWhile (is_sep win) (rev h))
      in drive @ (if h' = [] then h else h'))"

fun common_prefix :: "string \<Rightarrow> string \<Rightarrow> string" where
  "common_prefix (x # xs) (y # ys) = (if x = y then x # common_prefix xs ys else [])"
| "common_prefix _ _ = []"

text \<open>The controller's own \<open>os.path.join\<close>.\<close>

definition os_join :: "string \<Rightarrow> string \<Rightarrow> string" where
  "os_join d name = (if starts_with ''/'' name then name else path_join False d name)"

definition drop_prefix :: "string \<Rightarrow> string \<Rightarrow> string" where
  "drop_prefix p s = drop (length (common_prefix s p)) s"

lemma common_prefix_is_prefix: "take (length (common_prefix s p)) s = common_prefix s p"
  by (induction s p rule: common_prefix.induct) auto

lemma common_prefix_append [simp]: "common_prefix (p @ s) p = p"
  by (induction p) auto

lemma drop_prefix_append [simp]: "drop_prefix p (p @ s) = s"
  by (simp add: drop_prefix_def)

text \<open>\<open>urllib.quote_plus\<close>\<close>

definition hex_digit :: "nat \<Rightarrow> char" where
  "hex_digit n = char_of (if n < 10 then 48 + n else 55 + n)"

definition quote_char :: "char \<Rightarrow> string" where
  "quote_char c =
     (let n = (of_char c :: nat) in
      if c = CHR '' '' then ''+''
      else if (48 \<le> n \<and> n \<le> 57) \<or> (65 \<le> n \<and> n \<le> 90) \<or> (97 \<le> n \<and> n \<le> 122) \<or> c \<in> {CHR ''_'', CHR ''.'', CHR ''-''}
      then [c]
      else [CHR ''%'', hex_digit (n div 16), hex_digit (n mod 16)])"

definition quote_plus :: "string \<Rightarrow> string" where
  "quote_plus s = concat (map quote_char s)"

section \<open>File operations of an agent\<close>

definition GONE :: nat where "GONE = 410"

definition http_send :: "agent \<Rightarrow> string \<Rightarrow> string \<Rightarrow> body \<Rightarrow> raw io" where
  "http_send a meth uri b =
     bnd (exchange (Request (ag_conn_id a) meth uri b)) (\<lambda>res. case res of
       NetIOError s \<Rightarrow> raise (IOError s)
     | NetHTTPError s \<Rightarrow> raise (HTTPException s)
     | Resp status reason raw \<Rightarrow>
         if status \<noteq> 200 \<and> status \<noteq> GONE then raise (HTTPException (nat_str status @ '' '' @ reason))
         else ret raw)"

fun exn_str :: "pyexn \<Rightarrow> string" where
  "exn_str (IOError s) = s"
| "exn_str (HTTPException s) = s"
| "exn_str (ValueError s) = s"
| "exn_str (DiskException s) = s"
| "exn_str _ = []"

fun is_io :: "pyexn \<Rightarrow> bool" where
  "is_io (IOError s) = True"
| "is_io _ = False"

fun is_io_or_value :: "pyexn \<Rightarrow> bool" where
  "is_io_or_value (IOError s) = True"
| "is_io_or_value (ValueError s) = True"
| "is_io_or_value _ = False"

fun is_transport :: "pyexn \<Rightarrow> bool" where
  "is_transport (IOError s) = True"
| "is_transport (HTTPException s) = True"
| "is_transport _ = False"

text \<open>
  \<open>mkdirs\<close> and \<open>filesize\<close>: a JSON request to \<open>/file\<close>; every failure, a bad answer included,
  becomes an \<open>IOError\<close>.  An answer that is JSON null is \<open>None\<close>.
\<close>

definition file_action :: "string \<Rightarrow> string \<Rightarrow> agent \<Rightarrow> string \<Rightarrow> body option io" where
  "file_action act name a path =
     catch (bnd (http_send a ''POST'' ''/file'' [''action'' \<mapsto> JStr act, ''path'' \<mapsto> JStr path]) json_loads)
       (\<lambda>e. is_transport e \<or> is_io_or_value e)
       (\<lambda>e. raise (IOError (''filemanager.'' @ name @ '' failed: '' @ exn_str e)))"

definition fm_mkdirs :: "agent \<Rightarrow> string \<Rightarrow> body option io" where
  "fm_mkdirs = file_action ''MKDIRS'' ''mkdirs''"

definition fm_filesize :: "agent \<Rightarrow> string \<Rightarrow> body option io" where
  "fm_filesize = file_action ''FILESIZE'' ''filesize''"

text \<open>\<open>delete\<close>: a path that names a directory is refused; an answer that is no JSON is not caught.\<close>

definition fm_delete :: "agent \<Rightarrow> string \<Rightarrow> body option io" where
  "fm_delete a path =
     (if path \<noteq> [] \<and> last path \<in> {CHR ''/'', CHR 0x5C}
      then raise (IOError ('''path' may not refer to a directory''))
      else catch (bnd (http_send a ''DELETE'' (''/file?path='' @ quote_plus path) Map.empty) json_loads)
             is_transport
             (\<lambda>e. raise (IOError (''filemanager.delete failed: '' @ exn_str e))))"

definition firewall_enable :: "agent \<Rightarrow> nat list \<Rightarrow> body io" where
  "firewall_enable a ports =
     send_immediate a ''POST'' ''/firewall''
       [''ports'' \<mapsto> JList (map (\<lambda>p. JDict [''action'' \<mapsto> JStr ''enable'', ''num'' \<mapsto> JInt (int p)]) ports)]"

text \<open>\<open>try: m / except p as ex: str(ex)\<close>\<close>

definition attempt :: "(pyexn \<Rightarrow> bool) \<Rightarrow> 'a io \<Rightarrow> (string + 'a) io" where
  "attempt p m = catch (bnd m (\<lambda>x. ret (Inr x))) p (\<lambda>e. ret (Inl (exn_str e)))"

text \<open>\<open>'error' in body\<close> where the body is \<open>None\<close>\<close>

definition need_body :: "body option \<Rightarrow> body io" where
  "need_body b = (case b of None \<Rightarrow> raise (TypeError ''argument of type 'NoneType' is not iterable'') | Some x \<Rightarrow> ret x)"

section \<open>Volumes\<close>

definition get_vol_entry_by_volid :: "volume list \<Rightarrow> nat \<Rightarrow> volume option" where
  "get_vol_entry_by_volid vols i = find (\<lambda>v. vol_volid v = i) vols"

definition get_vol_entry_by_agentid_vol_name :: "volume list \<Rightarrow> nat \<Rightarrow> string \<Rightarrow> volume option" where
  "get_vol_entry_by_agentid_vol_name vols i name = find (\<lambda>v. vol_agentid v = i \<and> vol_name v = name) vols"

definition has_room :: "int \<Rightarrow> volume \<Rightarrow> bool" where
  "has_room min_needed v \<longleftrightarrow>
     min_needed \<le> vol_available_space v \<and>
     vol_size v - vol_available_space v + min_needed < vol_archive_limit v"

definition has_available_space :: "volume list \<Rightarrow> nat \<Rightarrow> int \<Rightarrow> volume option" where
  "has_available_space vols i min_needed =
     (case sort_key (\<lambda>v. - vol_priority v)
         (filter (\<lambda>v. vol_agentid v = i \<and> vol_type v = ''Fixed'' \<and> vol_archive v \<and> vol_active v \<and>
            has_room min_needed v) vols) of
        [] \<Rightarrow> None
      | v # _ \<Rightarrow> Some v)"

text \<open>\<open>name + ":" + path + "\\" + parent_dir\<close>\<close>

definition vol_dir :: "volume \<Rightarrow> string \<Rightarrow> string" where
  "vol_dir v parent_dir = vol_name v @ '':'' @ vol_path v @ CHR 0x5C # parent_dir"

section \<open>Cloud storage\<close>

definition CLOUD_TYPE_S3 :: string where "CLOUD_TYPE_S3 = ''s3''"
definition CLOUD_TYPE_GCS :: string where "CLOUD_TYPE_GCS = ''gcs''"

definition get_by_cloudid :: "cloud list \<Rightarrow> nat \<Rightarrow> cloud option" where
  "get_by_cloudid cs i = find (\<lambda>c. cl_cloudid c = i) cs"

record cloud_info =
  ci_type :: string
  ci_path :: string
  ci_bucket :: string
  ci_access_key :: string
  ci_secret_key :: string

definition from_cloud_entry :: "cloud \<Rightarrow> string \<Rightarrow> cloud_info" where
  "from_cloud_entry c path =
     \<lparr>ci_type = cl_type c, ci_path = path, ci_bucket = cl_bucket c,
      ci_access_key = cl_access_key c, ci_secret_key = cl_secret_key c\<rparr>"

definition cloud_pwd :: "agent \<Rightarrow> string option \<Rightarrow> string" where
  "cloud_pwd a pwd =
     (case pwd of
        Some (c # cs) \<Rightarrow> c # cs
      | _ \<Rightarrow> if ag_data_dir a \<noteq> [] then ag_data_dir a else ag_install_dir a)"

definition opt_entry :: "string \<Rightarrow> string \<Rightarrow> body" where
  "opt_entry k v = (if v = [] then Map.empty else [k \<mapsto> JStr v])"

definition cloud_command_environment :: "agent \<Rightarrow> cloud_info \<Rightarrow> string option \<Rightarrow> body" where
  "cloud_command_environment a c pwd =
     opt_entry ''ACCESS_KEY'' (ci_access_key c) ++ opt_entry ''SECRET_KEY'' (ci_secret_key c) ++
     opt_entry ''PWD'' (cloud_pwd a pwd)"

definition quoted :: "string \<Rightarrow> string" where
  "quoted s = CHR 0x22 # s @ [CHR 0x22]"

definition cloud_exe :: "string \<Rightarrow> string" where
  "cloud_exe cloud_type = (if cloud_type = CLOUD_TYPE_S3 then ''ps3'' else ''pgcs'')"

definition put_command :: "string \<Rightarrow> cloud_info \<Rightarrow> string \<Rightarrow> string" where
  "put_command exe c filepath =
     (let sub = path_dirname False (ci_path c);
          arg1 = (if sub = [] \<or> sub = ''/'' then ci_bucket c else os_join (ci_bucket c) sub)
      in exe @ '' PUT '' @ arg1 @ '' '' @ quoted filepath)"

definition get_command :: "string \<Rightarrow> cloud_info \<Rightarrow> string" where
  "get_command exe c =
     exe @ '' GET '' @ ci_bucket c @ '' '' @
       quoted (if starts_with ''/'' (ci_path c) then tl (ci_path c) else ci_path c)"

definition send_put :: "string \<Rightarrow> agent \<Rightarrow> cloud_info \<Rightarrow> string \<Rightarrow> body io" where
  "send_put exe a c filepath =
     cli_cmd (put_command exe c filepath) a (cloud_command_environment a c None) False (60 * 60 * 2)"

definition send_get :: "string \<Rightarrow> agent \<Rightarrow> cloud_info \<Rightarrow> string option \<Rightarrow> body io" where
  "send_get exe a c pwd =
     bnd (cli_cmd (get_command exe c) a (cloud_command_environment a c pwd) False (60 * 60 * 2)) (\<lambda>b.
       if failed b \<or> has_key b ''path'' then ret b
       else let name = path_basename False (ci_path c) in
         ret (b(''path'' \<mapsto> JStr (if cloud_pwd a pwd = [] then name
                                   else path_join (ag_iswin a) (cloud_pwd a pwd) name))))"

definition cloud_put :: "string \<Rightarrow> agent \<Rightarrow> cloud \<Rightarrow> string \<Rightarrow> string \<Rightarrow> body io" where
  "cloud_put exe a c filepath bucket_subdir =
     (let name = path_basename (ag_iswin a) filepath;
          cloud_path = (if bucket_subdir = [] then name else os_join bucket_subdir name)
      in send_put exe a (from_cloud_entry c cloud_path) filepath)"

definition cloud_get :: "string \<Rightarrow> agent \<Rightarrow> cloud \<Rightarrow> string \<Rightarrow> string \<Rightarrow> body io" where
  "cloud_get exe a c path pwd = send_get exe a (from_cloud_entry c path) (Some pwd)"

text \<open>One call of the cloud libraries that deletes an object.\<close>

definition boto_delete :: "unit io" where
  "boto_delete =
     bnd (gets w_boto) (\<lambda>answers. case answers of
       [] \<Rightarrow> raise (IOError ''no answer'')
     | x # rest \<Rightarrow> sq (modify (\<lambda>w. w\<lparr>w_boto := rest\<rparr>))
         (case x of None \<Rightarrow> ret () | Some msg \<Rightarrow> raise (IOError msg)))"

definition delete_cloud_file_by_file_entry :: "file_entry \<Rightarrow> unit io" where
  "delete_cloud_file_by_file_entry f =
     bnd (gets w_clouds) (\<lambda>cs. case get_by_cloudid cs (fe_storageid f) of
       None \<Rightarrow> raise (IOError (''No such cloudid: '' @ nat_str (fe_storageid f) @ '' for file '' @ fe_name f))
     | Some c \<Rightarrow>
         if cl_type c = CLOUD_TYPE_S3 \<or> cl_type c = CLOUD_TYPE_GCS then boto_delete
         else raise (IOError (''delete_cloud_file: Unknown cloud_type '' @ cl_type c @ '' for file: '' @ fe_name f)))"

section \<open>The table of files\<close>

definition FILE_TYPE_BACKUP :: string where "FILE_TYPE_BACKUP = ''backup''"
definition FILE_TYPE_ZIPLOG :: string where "FILE_TYPE_ZIPLOG = ''ziplog''"

definition files_add :: "string \<Rightarrow> string \<Rightarrow> storage_type \<Rightarrow> nat \<Rightarrow> int \<Rightarrow> bool \<Rightarrow> file_entry io" where
  "files_add name file_type storage_type storageid sz auto =
     bnd (gets w_next_fileid) (\<lambda>i.
       let f = \<lparr>fe_fileid = i, fe_name = name, fe_file_type = file_type, fe_storage_type = storage_type,
                fe_storageid = storageid, fe_size = sz, fe_auto = auto, fe_encrypted = False\<rparr>
       in sq (modify (\<lambda>w. w\<lparr>w_files := w_files w @ [f], w_next_fileid := i + 1\<rparr>)) (ret f))"

definition files_remove :: "nat \<Rightarrow> unit io" where
  "files_remove i = modify (\<lambda>w. w\<lparr>w_files := filter (\<lambda>f. fe_fileid f \<noteq> i) (w_files w)\<rparr>)"

definition find_by_name :: "string \<Rightarrow> file_entry option io" where
  "find_by_name name =
     bnd (gets (\<lambda>w. filter (\<lambda>f. fe_name f = name) (w_files w))) (\<lambda>fs. case fs of
       [] \<Rightarrow> ret None
     | f # rest \<Rightarrow> if rest = [] then ret (Some f) else raise (DBError ''MultipleResultsFound''))"

definition find_by_id :: "nat \<Rightarrow> file_entry option io" where
  "find_by_id i = gets (\<lambda>w. find (\<lambda>f. fe_fileid f = i) (w_files w))"

text \<open>Oldest first: the order in which the rows were added.\<close>

definition find_by_auto_envid :: "string \<Rightarrow> file_entry list \<Rightarrow> file_entry list" where
  "find_by_auto_envid file_type = filter (\<lambda>f. fe_file_type f = file_type \<and> fe_auto f)"

definition find_by_non_auto_envid :: "string \<Rightarrow> file_entry list \<Rightarrow> file_entry list" where
  "find_by_non_auto_envid file_type = filter (\<lambda>f. fe_file_type f = file_type \<and> \<not> fe_auto f)"

definition delete_vol_file :: "agent \<Rightarrow> string \<Rightarrow> body option io" where
  "delete_vol_file a path =
     bnd (attempt is_io (fm_filesize a path)) (\<lambda>r. case r of
       Inl msg \<Rightarrow> ret (Some (error_body msg))
     | Inr found \<Rightarrow> bnd (need_body found) (\<lambda>exists_body.
         if failed exists_body then ret (Some exists_body)
         else bnd (attempt is_io (fm_delete a path)) (\<lambda>r. case r of
             Inl msg \<Rightarrow> ret (Some (error_body msg))
           | Inr b \<Rightarrow> ret b)))"

definition delfile_by_entry :: "file_entry \<Rightarrow> body option io" where
  "delfile_by_entry f =
     (if fe_storage_type f = STORAGE_TYPE_CLOUD then
        bnd (attempt is_io (delete_cloud_file_by_file_entry f)) (\<lambda>r. case r of
          Inl msg \<Rightarrow> ret (Some (error_body msg))
        | Inr _ \<Rightarrow> sq (files_remove (fe_fileid f)) (ret (Some Map.empty)))
      else
        bnd (gets w_vols) (\<lambda>vols. case get_vol_entry_by_volid vols (fe_storageid f) of
          None \<Rightarrow> ret (Some (error_body (''volid not found: '' @ nat_str (fe_storageid f))))
        | Some v \<Rightarrow> bnd all_agents (\<lambda>agents. case first_agent (\<lambda>a. ag_agentid a = vol_agentid v) agents of
            None \<Rightarrow> ret (Some (error_body (''Agentid '' @ nat_str (vol_agentid v) @ '' not connected.'')))
          | Some a \<Rightarrow> bnd (delete_vol_file a (fe_name f)) (\<lambda>b.
              sq (files_remove (fe_fileid f)) (ret b)))))"

definition remove_file_by_id :: "nat \<Rightarrow> unit io" where
  "remove_file_by_id i =
     bnd (find_by_id i) (\<lambda>f. case f of
       None \<Rightarrow> ret ()
     | Some f \<Rightarrow> bnd (delfile_by_entry f) (\<lambda>b. bnd (need_body b) (\<lambda>_. ret ())))"

section \<open>Copying from agent to agent\<close>

text \<open>The last agent of the loop with that id.\<close>

definition last_with_id :: "nat \<Rightarrow> (nat \<times> agent) list \<Rightarrow> agent option" where
  "last_with_id i agents = first_agent (\<lambda>a. ag_agentid a = i) (rev agents)"

definition copy_command :: "agent \<Rightarrow> string \<Rightarrow> string \<Rightarrow> string" where
  "copy_command src source_path target_dir =
     ''phttp GET '' @ quoted (''https://'' @ ag_ip_address src @ '':'' @ nat_str (ag_listen_port src) @
        (if ag_iswin src then ''/'' else []) @ source_path) @ '' '' @ quoted target_dir"

definition missing_agents :: "agent option \<Rightarrow> nat \<Rightarrow> agent option \<Rightarrow> nat \<Rightarrow> string" where
  "missing_agents src i dst j =
     (if src = None then ''No connected source agent with agentid: '' @ nat_str i @ ''.'' else []) @
     (if dst = None then ''No connected target agent with agentid: '' @ nat_str j @ ''.'' else [])"

text \<open>The event names the agent the loop variable was left with.\<close>

definition firewall_failed :: "agent \<Rightarrow> agent \<Rightarrow> body \<Rightarrow> unit io" where
  "firewall_failed loop_agent src fw_body =
     gen EV_FIREWALL_OPEN_FAILED
       ((agent_todict loop_agent)(''error'' := fw_body ''error'', ''info'' \<mapsto> JStr (''Port '' @ nat_str (ag_listen_port src)))) None"

definition copy_transfer :: "agent \<Rightarrow> string \<Rightarrow> agent \<Rightarrow> string \<Rightarrow> body io" where
  "copy_transfer src source_path dst target_dir =
     bnd (attempt is_io_or_value (fm_mkdirs dst target_dir)) (\<lambda>r. case r of
       Inl msg \<Rightarrow> ret (error_body (''Could not create '' @ target_dir @ '' on target agent '' @ display dst @ '': '' @ msg))
     | Inr _ \<Rightarrow> bnd (gets w_db) (\<lambda>db. case get_by_id db (ag_agentid src) of
         None \<Rightarrow> ret (error_body (''Source agent not found: '' @ nat_str (ag_agentid src) @ '' ''))
       | Some e \<Rightarrow>
           bnd (cli_cmd (copy_command src source_path target_dir) dst
                  [''BASIC_USERNAME'' \<mapsto> JStr (ag_username e), ''BASIC_PASSWORD'' \<mapsto> JStr (ag_password e)] False (60 * 60 * 2)) (\<lambda>b.
             ret (if success b
                  then b(''path'' \<mapsto> JStr (path_join (ag_iswin dst) target_dir (path_basename (ag_iswin src) source_path)))
                  else b))))"

definition copy_cmd :: "nat \<Rightarrow> string \<Rightarrow> nat \<Rightarrow> string \<Rightarrow> body io" where
  "copy_cmd source_agentid source_path target_agentid target_dir =
     (if source_path = [] then ret (error_body ''[ERROR] Invalid source path with no length.'')
      else bnd all_agents (\<lambda>agents.
        case (last_with_id source_agentid agents, last_with_id target_agentid agents) of
          (Some src, Some dst) \<Rightarrow>
            if ag_iswin src then
              bnd (firewall_enable src [ag_listen_port src]) (\<lambda>fw_body.
                if failed fw_body then
                  sq (firewall_failed (snd (last agents)) src fw_body) (ret fw_body)
                else copy_transfer src source_path dst target_dir)
            else copy_transfer src source_path dst target_dir
        | (src, dst) \<Rightarrow> ret (error_body (missing_agents src source_agentid dst target_agentid))))"

section \<open>What traffic with agents leaves alone\<close>

text \<open>
  A component \<open>f\<close> of the state that requests to agents and the tables of files, events and
  notifications do not touch, except that losing the primary may take it to a value in
  \<open>V\<close>.  Everything the controller does with agents then leaves \<open>f\<close> alone, or takes it to
  \<open>V\<close>; the components built on this one add their operations below.
\<close>

locale traffic =
  fixes f :: "world \<Rightarrow> 'b" and V :: "'b set"
  assumes sent: "f (w\<lparr>w_sent := rs\<rparr>) = f w"
    and answered: "f (w\<lparr>w_net := net, w_now := t\<rparr>) = f w"
    and waited: "f (w\<lparr>w_now := t\<rparr>) = f w"
    and numbered: "f (w\<lparr>w_next_xid := x\<rparr>) = f w"
    and noted: "f (w\<lparr>w_events := es\<rparr>) = f w"
    and told: "f (w\<lparr>w_disconnect_sent := ns\<rparr>) = f w"
    and dropped: "f (w\<lparr>w_agents := ags\<rparr>) = f w"
    and lost: "f (w\<lparr>w_state := Some STATE_DISCONNECTED\<rparr>) \<in> insert (f w) V"
    and maintained: "f (w\<lparr>w_maint_started := b\<rparr>) = f w"
    and filed: "f (w\<lparr>w_files := fs\<rparr>) = f w" "f (w\<lparr>w_files := fs, w_next_fileid := x\<rparr>) = f w"
    and in_cloud: "f (w\<lparr>w_boto := bs\<rparr>) = f w"
    and in_table: "f (w\<lparr>w_procs := ps\<rparr>) = f w" "f (w\<lparr>w_procs_db := ps\<rparr>) = f w"
    and degraded: "f (w\<lparr>w_first_degraded := t'\<rparr>) = f w" "f (w\<lparr>w_sent_degraded := b\<rparr>) = f w"
    and url_worked: "f (w\<lparr>w_url_worked := u\<rparr>) = f w"
    and notified: "f (w\<lparr>w_notifications := nts\<rparr>) = f w"
    and licensed: "f (w\<lparr>w_licenses := ls\<rparr>) = f w"
    and ported: "f (w\<lparr>w_ports := pts\<rparr>) = f w"
    and triggered: "f (w\<lparr>w_check_event := b\<rparr>) = f w"
begin

lemma moves_modify: "(\<And>w. f (g w) = f w) \<Longrightarrow> moves f V (modify g)"
  by (simp add: moves_def)

lemma moves_gen [drift]: "moves f V (gen k d u)"
  by (rule keeps_moves, rule keeps_gen, rule noted)

lemma moves_exchange [drift]: "moves f V (exchange rq)"
  by (rule keeps_moves, rule keeps_exchange) (rule sent answered)+

lemma moves_remove_agent [drift]: "moves f V (remove_agent a r)" "moves f V (lose_agent a r)"
proof -
  have u: "moves f V (update_state STATE_DISCONNECTED)"
    using lost by (simp add: moves_def update_state_def)
  have m: "moves f V (modify (\<lambda>w. w\<lparr>w_disconnect_sent := c # w_disconnect_sent w\<rparr>))"
    "moves f V (modify (\<lambda>w. w\<lparr>w_agents := AList.delete c (w_agents w)\<rparr>))" for c
    by (rule moves_modify, rule told) (rule moves_modify, rule dropped)
  have g: "moves f V (forget a)" by (rule keeps_moves, rule frame)
  show r: "moves f V (remove_agent a r)" unfolding remove_agent_def by (rule drift u m g)+
  have p: "moves f V (modify (\<lambda>w. w\<lparr>w_procs := [], w_procs_db := []\<rparr>))"
    by (rule moves_modify) (simp only: in_table)
  show "moves f V (lose_agent a r)"
    unfolding lose_agent_def by (rule drift r p keeps_moves [OF keeps_lookups(2)])+
qed

lemma moves_sleep: "moves f V (sleep n)"
  unfolding sleep_def by (rule moves_modify, rule waited)

lemma moves_next_xid: "moves f V next_xid"
proof -
  have m: "moves f V (modify (\<lambda>w. w\<lparr>w_next_xid := x\<rparr>))" for x by (rule moves_modify, rule numbered)
  show ?thesis unfolding next_xid_def by (rule drift m)+
qed

lemmas moves_to_agents [drift] =
  moves_requests [where f = f and V = V, OF moves_exchange moves_remove_agent(2) moves_next_xid moves_sleep]

lemma moves_maint_action [drift]: "moves f V (maint action ag alert)"
  by (rule Maint.moves_maint) (rule drift maintained noted)+

lemma moves_archive_action [drift]: "moves f V (archive action ag p)"
  by (rule Maint.moves_archive) (rule drift)

lemma moves_lookups [drift]:
  "moves f V all_agents" "moves f V (agent_by_type ty)" "moves f V (agent_by_uuid u)"
  "moves f V (agent_by_id i)" "moves f V (agent_by_agentid i)" "moves f V odbc_ok" "moves f V get_state"
  by (rule keeps_moves, rule frame)+

lemma moves_http_send [drift]: "moves f V (http_send a m u b)"
proof -
  have "moves f V (case r of NetIOError s \<Rightarrow> raise (IOError s) | NetHTTPError s \<Rightarrow> raise (HTTPException s)
     | Resp status reason raw \<Rightarrow> if P status then raise (E status reason) else ret raw)" for r P E
    by (cases r) (simp_all add: moves_pure)
  then show ?thesis unfolding http_send_def by (intro moves_bnd moves_exchange)
qed

lemma moves_file_ops [drift]:
  "moves f V (fm_mkdirs a p)" "moves f V (fm_filesize a p)" "moves f V (fm_delete a p)"
  "moves f V (firewall_enable a ns)"
  unfolding fm_mkdirs_def fm_filesize_def file_action_def fm_delete_def firewall_enable_def by (rule drift)+

lemma moves_attempt [drift]: "moves f V m \<Longrightarrow> moves f V (attempt p m)"
  unfolding attempt_def by (rule drift | assumption)+

lemma moves_need_body [drift]: "moves f V (need_body b)"
  unfolding need_body_def by (rule drift)+

lemma moves_cloud [drift]:
  "moves f V (send_put exe a c p)" "moves f V (send_get exe a c pwd)"
  "moves f V (cloud_put exe a cl p sub)" "moves f V (cloud_get exe a cl p q)"
  "moves f V (delete_cloud_file_by_file_entry fe)"
proof -
  show p: "moves f V (send_put exe a c p)" for c unfolding send_put_def by (rule drift)
  show g: "moves f V (send_get exe a c pwd)" for c pwd unfolding send_get_def by (rule drift)+
  show "moves f V (cloud_put exe a cl p sub)" "moves f V (cloud_get exe a cl p q)"
    unfolding cloud_put_def cloud_get_def by (rule drift p g)+
  have m: "moves f V (modify (\<lambda>w. w\<lparr>w_boto := x\<rparr>))" for x by (rule moves_modify, rule in_cloud)
  show "moves f V (delete_cloud_file_by_file_entry fe)"
    unfolding delete_cloud_file_by_file_entry_def boto_delete_def by (rule drift m)+
qed

lemma moves_files_table [drift]:
  "moves f V (files_add n ty st i sz au)" "moves f V (files_remove j)"
  "moves f V (find_by_name n)" "moves f V (find_by_id j)"
proof -
  have m: "moves f V (modify (\<lambda>w. w\<lparr>w_files := g w, w_next_fileid := h w\<rparr>))"
    "moves f V (modify (\<lambda>w. w\<lparr>w_files := g w\<rparr>))" for g h
    by (rule moves_modify, rule filed)+
  show "moves f V (files_add n ty st i sz au)" "moves f V (files_remove j)"
    "moves f V (find_by_name n)" "moves f V (find_by_id j)"
    unfolding files_add_def files_remove_def find_by_name_def find_by_id_def by (rule drift m)+
qed

lemma moves_delete [drift]:
  "moves f V (delete_vol_file a p)" "moves f V (delfile_by_entry fe)" "moves f V (remove_file_by_id i)"
proof -
  show v: "moves f V (delete_vol_file a p)" for a p unfolding delete_vol_file_def by (rule drift)+
  show d: "moves f V (delfile_by_entry fe)" for fe unfolding delfile_by_entry_def by (rule drift v)+
  show "moves f V (remove_file_by_id i)" unfolding remove_file_by_id_def by (rule drift d)+
qed

lemma moves_copy_cmd [drift]: "moves f V (copy_cmd i p j d)"
proof -
  have t: "moves f V (copy_transfer s p t d)" for s t unfolding copy_transfer_def by (rule drift)+
  have w: "moves f V (firewall_failed a s b)" for a s b unfolding firewall_failed_def by (rule drift)
  show ?thesis unfolding copy_cmd_def by (rule drift t w)+
qed

end

interpretation quiet_locks: traffic locks "{}"
  by unfold_locales (simp_all add: locks_def)

interpretation quiet_state: traffic cur_state "{STATE_DISCONNECTED}"
  by unfold_locales (simp_all add: cur_state_def)

end
