(* ===== verification/Storage.thy ===== *)
theory Storage
  imports Files
begin

text \<open>
  Where a backup or a ziplog goes (\<open>diskcheck.py\<close>), how it gets there (\<open>place_file.py\<close>) and
  how it is fetched back for a restore (\<open>get_file.py\<close>).
\<close>

section \<open>Sizes in messages\<close>

text \<open>\<open>"%.1f"\<close> of a quotient, in tenths: to the nearest, a tie to the even one.\<close>

definition div_half_even :: "nat \<Rightarrow> nat \<Rightarrow> nat" where
  "div_half_even a b =
     (let q = a div b; r = a mod b in
      if 2 * r < b then q else if b < 2 * r then q + 1 else if even q then q else q + 1)"

definition tenths :: "nat \<Rightarrow> string" where
  "tenths t = nat_str (t div 10) @ ''.'' @ nat_str (t mod 10)"

definition SYMBOLS :: "(nat \<times> string) list" where
  "SYMBOLS = [(8, ''YB''), (7, ''ZB''), (6, ''EB''), (5, ''PB''), (4, ''TB''), (3, ''GB''), (2, ''MB''), (1, ''KB'')]"

fun scaled :: "(nat \<times> string) list \<Rightarrow> nat \<Rightarrow> string" where
  "scaled [] n = tenths (10 * n) @ ''B''"
| "scaled ((k, symbol) # rest) n =
     (if 2 ^ (10 * k) \<le> n then tenths (div_half_even (10 * n) (2 ^ (10 * k))) @ symbol else scaled rest n)"

definition sizestr :: "int \<Rightarrow> string io" where
  "sizestr n = (if n < 0 then raise (ValueError ''n < 0'') else ret (scaled SYMBOLS (nat n)))"

section \<open>The check before a file is made\<close>

record dcheck =
  dc_parent_dir :: string
  dc_file_type :: string
  dc_target_type :: storage_type
  dc_target_vol :: "volume option"
  dc_target_cloud :: "cloud option"
  dc_target_agent :: "agent option"
  dc_target_dir :: string
  dc_primary_dir :: string
  dc_primary_entry :: volume
  dc_primary_final_dest :: bool

definition get_primary_loc :: "agent \<Rightarrow> string \<Rightarrow> int \<Rightarrow> (string \<times> volume) io" where
  "get_primary_loc a parent_dir min_disk_needed =
     bnd (gets w_vols) (\<lambda>vols. case has_available_space vols (ag_agentid a) min_disk_needed of
       Some v \<Rightarrow> ret (vol_dir v parent_dir, v)
     | None \<Rightarrow> raise (DiskException (''There is not enough disk space on any volumes on the Tableau Primary '' @
         ''to temporarily hold the file for this operation.'')))"

text \<open>\<open>raise DiskException("... not found: %d" % backup_dest_id)\<close>: with no destination
  configured, \<open>backup_dest_id\<close> is \<open>None\<close> and the format itself raises.\<close>

definition dest_not_found :: "string \<Rightarrow> nat option \<Rightarrow> 'a io" where
  "dest_not_found what dest_id =
     (case dest_id of
        None \<Rightarrow> raise (TypeError ''%d format: a number is required, not NoneType'')
      | Some i \<Rightarrow> raise (DiskException (what @ '' not found: '' @ nat_str i)))"

definition not_enough :: "agent \<Rightarrow> volume \<Rightarrow> int \<Rightarrow> 'a io" where
  "not_enough target v min_needed =
     bnd (sizestr (vol_available_space v)) (\<lambda>have. bnd (sizestr min_needed) (\<lambda>need.
       raise (DiskException (''Not enough available space on '' @ display target @ '' volume '' @ vol_name v @
         '' volid '' @ nat_str (vol_volid v) @ '': Available space: '' @ have @ '', needed: '' @ need))))"

definition over_limit :: "volume \<Rightarrow> int \<Rightarrow> 'a io" where
  "over_limit v min_needed =
     bnd (sizestr min_needed) (\<lambda>need. bnd (sizestr (vol_size v)) (\<lambda>sz.
     bnd (sizestr (vol_size v - vol_available_space v + min_needed)) (\<lambda>would.
     bnd (sizestr (vol_archive_limit v)) (\<lambda>allowed. bnd (sizestr (vol_available_space v)) (\<lambda>have.
       raise (DiskException (''Minimum space needed greater than archive limit.volid: '' @ nat_str (vol_volid v) @
         ''. Need: '' @ need @ ''. Size: '' @ sz @ ''. With vol would have: '' @ would @
         ''. Allowed/archive limit: '' @ allowed @ ''. Volume name: '' @ vol_name v @
         ''. Volume available: '' @ have)))))))"

definition config_vol_target :: "agent \<Rightarrow> string \<Rightarrow> string \<Rightarrow> int \<Rightarrow> dcheck io" where
  "config_vol_target a parent_dir file_type min_needed =
     bnd (gets (\<lambda>w. (cf_backup_dest_id (w_conf w), w_vols w, w_db w))) (\<lambda>(dest_id, vols, db).
       case Option.bind dest_id (get_vol_entry_by_volid vols) of
         None \<Rightarrow> dest_not_found ''volid'' dest_id
       | Some v \<Rightarrow>
           (case get_by_id db (vol_agentid v) of
              None \<Rightarrow> raise (DiskException (''No such agentid '' @ nat_str (vol_agentid v) @ '' referenced by volid '' @
                        nat_str (vol_volid v) @ '' in backupid '' @ nat_str (vol_volid v)))
            | Some target \<Rightarrow>
                if \<not> ag_enabled target then
                  raise (DiskException (''Cannot save to Storage Location on agent '' @ display target @ '': agent is disabled.''))
                else if vol_available_space v < min_needed then not_enough target v min_needed
                else if vol_archive_limit v < vol_size v - vol_available_space v + min_needed then over_limit v min_needed
                else
                  bnd (if ag_agentid target = ag_agentid a then ret (vol_dir v parent_dir, v)
                       else get_primary_loc a parent_dir min_needed) (\<lambda>(primary_dir, primary_entry).
                    ret \<lparr>dc_parent_dir = parent_dir, dc_file_type = file_type,
                         dc_target_type = STORAGE_TYPE_VOL, dc_target_vol = Some v, dc_target_cloud = None,
                         dc_target_agent = Some target, dc_target_dir = vol_dir v parent_dir,
                         dc_primary_dir = primary_dir, dc_primary_entry = primary_entry,
                         dc_primary_final_dest = (ag_agentid target = ag_agentid a)\<rparr>)))"

definition config_cloud_target :: "agent \<Rightarrow> string \<Rightarrow> string \<Rightarrow> int \<Rightarrow> dcheck io" where
  "config_cloud_target a parent_dir file_type min_needed =
     bnd (gets (\<lambda>w. (cf_backup_dest_id (w_conf w), w_clouds w))) (\<lambda>(dest_id, clouds).
       case Option.bind dest_id (get_by_cloudid clouds) of
         None \<Rightarrow> dest_not_found ''cloudid'' dest_id
       | Some c \<Rightarrow> bnd (get_primary_loc a parent_dir min_needed) (\<lambda>(primary_dir, primary_entry).
           ret \<lparr>dc_parent_dir = parent_dir, dc_file_type = file_type,
                dc_target_type = STORAGE_TYPE_CLOUD, dc_target_vol = None, dc_target_cloud = Some c,
                dc_target_agent = None, dc_target_dir = parent_dir,
                dc_primary_dir = primary_dir, dc_primary_entry = primary_entry,
                dc_primary_final_dest = False\<rparr>))"

text \<open>
  \<open>_mkdirs\<close>.  The target's directory is made only if the target agent is the same object
  as the primary agent; it is a row just read from the database and the other the copy
  kept for the connection, so it never is.
\<close>

definition disk_mkdirs :: "agent \<Rightarrow> dcheck \<Rightarrow> unit io" where
  "disk_mkdirs a d =
     bnd (attempt is_io_or_value (fm_mkdirs a (dc_primary_dir d))) (\<lambda>r. case r of
       Inl msg \<Rightarrow> raise (DiskException (''Could not create directory '' @ dc_primary_dir d @ '': '' @ msg))
     | Inr _ \<Rightarrow> ret ())"

definition disk_check :: "agent \<Rightarrow> string \<Rightarrow> string \<Rightarrow> int \<Rightarrow> dcheck io" where
  "disk_check a parent_dir file_type min_needed =
     bnd (gets w_conf) (\<lambda>c.
     bnd (case cf_backup_dest_type c of
            STORAGE_TYPE_VOL \<Rightarrow> config_vol_target a parent_dir file_type min_needed
          | STORAGE_TYPE_CLOUD \<Rightarrow> config_cloud_target a parent_dir file_type min_needed) (\<lambda>d.
       sq (disk_mkdirs a d) (ret d)))"

section \<open>Placing the file\<close>

record placed =
  pf_info :: string
  pf_copied :: bool
  pf_copy_failed :: bool
  pf_delete_local :: bool
  pf_entry :: "file_entry option"
  pf_elapsed :: nat

definition placed0 :: placed where
  "placed0 = \<lparr>pf_info = [], pf_copied = False, pf_copy_failed = False, pf_delete_local = False,
     pf_entry = None, pf_elapsed = 0\<rparr>"

text \<open>After a failed copy: the file stays, and is recorded, where it was made.\<close>

definition stays_on_primary :: "dcheck \<Rightarrow> string \<Rightarrow> int \<Rightarrow> bool \<Rightarrow> string \<Rightarrow> placed io" where
  "stays_on_primary d full_path sz auto info =
     bnd (files_add full_path (dc_file_type d) STORAGE_TYPE_VOL (vol_volid (dc_primary_entry d)) sz auto) (\<lambda>f.
       ret (placed0\<lparr>pf_info := info, pf_copy_failed := True, pf_entry := Some f\<rparr>))"

definition copy_to_cloud :: "agent \<Rightarrow> dcheck \<Rightarrow> cloud \<Rightarrow> string \<Rightarrow> int \<Rightarrow> bool \<Rightarrow> placed io" where
  "copy_to_cloud a d c full_path sz auto =
     (if cl_type c \<noteq> CLOUD_TYPE_S3 \<and> cl_type c \<noteq> CLOUD_TYPE_GCS
      then raise (UnboundLocalError ''cloud_instance'')
      else bnd (gets w_now) (\<lambda>start.
        bnd (cloud_put (cloud_exe (cl_type c)) a c full_path (dc_parent_dir d)) (\<lambda>b.
          case b ''error'' of
            Some e \<Rightarrow> stays_on_primary d full_path sz auto
              (''Copy to '' @ cl_type c @ '' bucket '' @ cl_bucket c @ '' filename '' @ full_path @ '' failed: '' @ jshow e @
               ''.'' @ CHR 0x0A # ''Backup will remain on the primary agent.'')
          | None \<Rightarrow>
              (let name = os_join (dc_parent_dir d) (path_basename (ag_iswin a) full_path) in
               bnd (gets w_now) (\<lambda>now.
               bnd (files_add name (dc_file_type d) STORAGE_TYPE_CLOUD (cl_cloudid c) sz auto) (\<lambda>f.
                 ret \<lparr>pf_info = ''File was copied to '' @ cl_type c @ '' cloud bucket '' @ cl_bucket c @
                        '' filename '' @ name @ ''.'',
                      pf_copied = True, pf_copy_failed = False, pf_delete_local = True, pf_entry = Some f,
                      pf_elapsed = now - start\<rparr>))))))"

text \<open>\<open>full_path.split(':', 1)\<close> into two parts, or the ValueError.\<close>

definition split_colon :: "string \<Rightarrow> (string \<times> string) option" where
  "split_colon s =
     (if CHR '':'' \<in> set s
      then Some (takeWhile (\<lambda>c. c \<noteq> CHR '':'') s, tl (dropWhile (\<lambda>c. c \<noteq> CHR '':'') s)) else None)"

text \<open>The error of a missing volume is returned, and dropped by the caller.\<close>

definition copy_to_agent :: "agent \<Rightarrow> dcheck \<Rightarrow> agent \<Rightarrow> string \<Rightarrow> int \<Rightarrow> bool \<Rightarrow> placed io" where
  "copy_to_agent a d target full_path sz auto =
     (case split_colon full_path of
        None \<Rightarrow> raise (ValueError ''need more than 1 value to unpack'')
      | Some (backup_vol, backup_path) \<Rightarrow> bnd (gets w_vols) (\<lambda>vols.
          case get_vol_entry_by_agentid_vol_name vols (ag_agentid a) backup_vol of
            None \<Rightarrow> ret placed0
          | Some v \<Rightarrow> bnd (gets w_now) (\<lambda>start.
              bnd (copy_cmd (ag_agentid a) (backup_vol @ drop_prefix (vol_path v) backup_path)
                     (ag_agentid target) (dc_target_dir d)) (\<lambda>b.
                case b ''error'' of
                  Some e \<Rightarrow> stays_on_primary d full_path sz auto
                    (''Copy of file '' @ full_path @ '' to agent '' @ display target @ '':'' @ dc_target_dir d @
                     '' failed. Will leave the backup file on the primary agent. Error was: '' @ jshow e)
                | None \<Rightarrow> bnd (gets w_now) (\<lambda>now.
                    bnd (files_add (path_join (ag_iswin target) (dc_target_dir d) (path_basename (ag_iswin a) full_path))
                           (dc_file_type d) STORAGE_TYPE_VOL
                           (case dc_target_vol d of Some t \<Rightarrow> vol_volid t | None \<Rightarrow> 0) sz auto) (\<lambda>f.
                      ret \<lparr>pf_info = ''File copied to agent '' @ display target @ '', directory: '' @ dc_target_dir d @ ''.'',
                           pf_copied = True, pf_copy_failed = False, pf_delete_local = True, pf_entry = Some f,
                           pf_elapsed = now - start\<rparr>))))))"

definition delete_local :: "agent \<Rightarrow> string \<Rightarrow> placed \<Rightarrow> placed io" where
  "delete_local a full_path p =
     (if pf_delete_local p then
        bnd (delete_vol_file a full_path) (\<lambda>b. bnd (need_body b) (\<lambda>remove_body.
          case remove_body ''error'' of
            None \<Rightarrow> ret p
          | Some e \<Rightarrow> ret (p\<lparr>pf_info := pf_info p @ CHR 0x0A # ''Deletion of file failed after copy. File: '' @ full_path @
                ''. Error was: '' @ jshow e\<rparr>)))
      else ret p)"

definition place_file :: "agent \<Rightarrow> dcheck \<Rightarrow> string \<Rightarrow> int \<Rightarrow> bool \<Rightarrow> placed io" where
  "place_file a d full_path sz auto =
     (case (dc_target_type d, dc_target_cloud d, dc_target_agent d) of
        (STORAGE_TYPE_CLOUD, Some c, _) \<Rightarrow>
          bnd (copy_to_cloud a d c full_path sz auto) (delete_local a full_path)
      | (STORAGE_TYPE_VOL, _, Some target) \<Rightarrow>
          if ag_agentid target \<noteq> ag_agentid a then
            bnd (copy_to_agent a d target full_path sz auto) (delete_local a full_path)
          else
            bnd (files_add full_path (dc_file_type d) STORAGE_TYPE_VOL
                   (case dc_target_vol d of Some v \<Rightarrow> vol_volid v | None \<Rightarrow> 0) sz auto) (\<lambda>f.
              ret (placed0\<lparr>pf_info := ''File is configured to stay on the Tableau primary agent, directory: '' @ dc_target_dir d,
                     pf_copied := True, pf_entry := Some f\<rparr>))
      | _ \<Rightarrow> raise (AttributeError ''agentid''))"

section \<open>Fetching a file\<close>

record got =
  gf_primary_full_path :: string
  gf_copied :: bool

datatype source = CloudSource cloud | VolSource volume agent

definition set_source :: "file_entry \<Rightarrow> source io" where
  "set_source f =
     bnd (gets (\<lambda>w. (w_vols w, w_clouds w, w_db w))) (\<lambda>(vols, clouds, db).
       case fe_storage_type f of
         STORAGE_TYPE_CLOUD \<Rightarrow>
           (case get_by_cloudid clouds (fe_storageid f) of
              None \<Rightarrow> raise (IOError (''get_file: cloud entry not found for cloudid '' @ nat_str (fe_storageid f)))
            | Some c \<Rightarrow> ret (CloudSource c))
       | STORAGE_TYPE_VOL \<Rightarrow>
           (case get_vol_entry_by_volid vols (fe_storageid f) of
              None \<Rightarrow> raise (IOError (''get_file: vol entry not found for volid '' @ nat_str (fe_storageid f)))
            | Some v \<Rightarrow>
                (case get_by_id db (vol_agentid v) of
                   None \<Rightarrow> raise (IOError (''_get_file: No such agentid '' @ nat_str (vol_agentid v) @ '' referenced by files entry '' @
                             nat_str (fe_storageid f) @ '' and name '' @ fe_name f))
                 | Some s \<Rightarrow>
                     if \<not> ag_enabled s
                     then raise (IOError (''Cannot retrieve file '' @ fe_name f @ '' from agent '' @ display s @ '': agent is disabled.''))
                     else ret (VolSource v s))))"

definition is_remote :: "agent \<Rightarrow> source \<Rightarrow> bool" where
  "is_remote a s = (case s of CloudSource _ \<Rightarrow> True | VolSource _ b \<Rightarrow> ag_agentid b \<noteq> ag_agentid a)"

definition STAGING_DIR :: string where "STAGING_DIR = ''staging''"

definition is_disk :: "pyexn \<Rightarrow> bool" where
  "is_disk e = (case e of DiskException _ \<Rightarrow> True | _ \<Rightarrow> False)"

definition set_primary :: "agent \<Rightarrow> source \<Rightarrow> file_entry \<Rightarrow> string \<Rightarrow> string io" where
  "set_primary a s f full_path =
     (if is_remote a s then
        bnd (attempt is_disk (get_primary_loc a STAGING_DIR (fe_size f))) (\<lambda>r. case r of
          Inl msg \<Rightarrow> raise (IOError (''get_file: '' @ msg))
        | Inr (dir, v) \<Rightarrow> ret dir)
      else ret (path_dirname (ag_iswin a) full_path))"

definition get_mkdir :: "agent \<Rightarrow> string \<Rightarrow> unit io" where
  "get_mkdir a dir =
     bnd (attempt is_io_or_value (fm_mkdirs a dir)) (\<lambda>r. case r of
       Inl msg \<Rightarrow> raise (IOError (''Could not create directory '' @ dir @ '': '' @ msg))
     | Inr _ \<Rightarrow> ret ())"

definition get_cloud_file :: "agent \<Rightarrow> cloud \<Rightarrow> file_entry \<Rightarrow> string \<Rightarrow> string \<Rightarrow> got io" where
  "get_cloud_file a c f primary_dir full_path =
     (let path = path_join (ag_iswin a) primary_dir (path_basename (ag_iswin a) full_path) in
      if cl_type c \<noteq> CLOUD_TYPE_S3 \<and> cl_type c \<noteq> CLOUD_TYPE_GCS
      then raise (UnboundLocalError ''cloud_instance'')
      else bnd (cloud_get (cloud_exe (cl_type c)) a c (fe_name f) (path_dirname (ag_iswin a) path)) (\<lambda>b.
        case b ''error'' of
          Some e \<Rightarrow> raise (IOError (''_get_cloud_file: cloud named '' @ cl_name c @ '' GET file '' @ full_path @
                      '' failed.  Error: '' @ jshow e))
        | None \<Rightarrow> ret \<lparr>gf_primary_full_path = path, gf_copied = True\<rparr>))"

definition get_agent_file :: "agent \<Rightarrow> volume \<Rightarrow> agent \<Rightarrow> string \<Rightarrow> string \<Rightarrow> got io" where
  "get_agent_file a v source primary_dir full_path =
     (case split_colon full_path of
        None \<Rightarrow> raise (ValueError ''need more than 1 value to unpack'')
      | Some (_, path_spec) \<Rightarrow>
          (let copy_source = vol_name v @ drop_prefix (vol_path v) path_spec in
           bnd (copy_cmd (vol_agentid v) copy_source (ag_agentid a) primary_dir) (\<lambda>b.
             case b ''error'' of
               Some e \<Rightarrow> raise (IOError (''get_file: copy file specification '' @ copy_source @ '' from agent '' @ display source @
                           '' to target agent '' @ display a @ '' directory '' @ primary_dir @ '' failed.  Error was: '' @ jshow e))
             | None \<Rightarrow> ret \<lparr>gf_primary_full_path = path_join (ag_iswin a) primary_dir (path_basename (ag_iswin a) full_path),
                           gf_copied = True\<rparr>)))"

definition get_file :: "agent \<Rightarrow> string \<Rightarrow> bool \<Rightarrow> got io" where
  "get_file a full_path check_only =
     bnd (find_by_name full_path) (\<lambda>entry. case entry of
       None \<Rightarrow> raise (IOError (''File not found: '' @ full_path))
     | Some f \<Rightarrow> bnd (set_source f) (\<lambda>s.
         if check_only then ret \<lparr>gf_primary_full_path = full_path, gf_copied = False\<rparr>
         else bnd (set_primary a s f full_path) (\<lambda>dir.
           sq (get_mkdir a dir)
             (case s of
                CloudSource c \<Rightarrow> get_cloud_file a c f dir full_path
              | VolSource v b \<Rightarrow>
                  if ag_agentid b \<noteq> ag_agentid a then get_agent_file a v b dir full_path
                  else ret \<lparr>gf_primary_full_path = full_path, gf_copied = False\<rparr>))))"

section \<open>What placing and fetching leave alone\<close>

context traffic
begin

lemma moves_sizestr [drift]: "moves f V (sizestr n)"
  unfolding sizestr_def by (rule drift)+

lemma moves_disk_check [drift]: "moves f V (disk_check a p ty n)"
proof -
  have l: "moves f V (get_primary_loc a p n)" unfolding get_primary_loc_def by (rule drift)+
  have v: "moves f V (config_vol_target a p ty n)"
    unfolding config_vol_target_def not_enough_def over_limit_def dest_not_found_def by (rule drift l)+
  have c: "moves f V (config_cloud_target a p ty n)"
    unfolding config_cloud_target_def dest_not_found_def by (rule drift l)+
  have m: "moves f V (disk_mkdirs a d)" for d unfolding disk_mkdirs_def by (rule drift)+
  have t: "moves f V (case st of STORAGE_TYPE_VOL \<Rightarrow> config_vol_target a p ty n
      | STORAGE_TYPE_CLOUD \<Rightarrow> config_cloud_target a p ty n)" for st
    using v c by (cases st) simp_all
  show ?thesis unfolding disk_check_def by (rule drift m t)+
qed

lemma moves_place_file [drift]: "moves f V (place_file a d p n au)"
proof -
  have s: "moves f V (stays_on_primary d p n au i)" for i unfolding stays_on_primary_def by (rule drift)+
  have c: "moves f V (copy_to_cloud a d c p n au)" for c unfolding copy_to_cloud_def by (rule drift s)+
  have t: "moves f V (copy_to_agent a d t p n au)" for t unfolding copy_to_agent_def by (rule drift s)+
  have l: "moves f V (delete_local a p q)" for q unfolding delete_local_def by (rule drift)+
  have k: "moves f V (bnd (copy_to_cloud a d c p n au) (delete_local a p))"
    "moves f V (bnd (copy_to_agent a d t p n au) (delete_local a p))" for c t
    by (rule drift c t l)+
  show ?thesis
    unfolding place_file_def
    by (cases "dc_target_type d"; cases "dc_target_cloud d"; cases "dc_target_agent d")
      (simp_all add: k moves_pure moves_bnd moves_files_table)
qed

lemma moves_get_file [drift]: "moves f V (get_file a p ck)"
proof -
  have s: "moves f V (set_source e)" for e
    unfolding set_source_def
    by (rule moves_bnd, rule drift, rule moves_cases(5), rule moves_cases(5))
      (auto split: storage_type.split intro!: drift)
  have l: "moves f V (get_primary_loc a d n)" for d n unfolding get_primary_loc_def by (rule drift)+
  have p: "moves f V (set_primary a x e q)" for x e q unfolding set_primary_def by (rule drift l)+
  have m: "moves f V (get_mkdir a d)" for d unfolding get_mkdir_def by (rule drift)+
  have c: "moves f V (get_cloud_file a c e d q)" for c e d q unfolding get_cloud_file_def by (rule drift)+
  have g: "moves f V (get_agent_file a v b d q)" for v b d q unfolding get_agent_file_def by (rule drift)+
  have x: "moves f V (case x of CloudSource c \<Rightarrow> get_cloud_file a c e d q
      | VolSource v b \<Rightarrow> if ag_agentid b \<noteq> ag_agentid a then get_agent_file a v b d q else ret y)" for x e d q y
    by (cases x) (simp_all add: c g moves_pure)
  show ?thesis unfolding get_file_def by (rule drift s p m x)+
qed

end

section \<open>Properties\<close>

lemma set_sort_key_hd: "sort_key k xs = v # vs \<Longrightarrow> v \<in> set xs \<and> (\<forall>u \<in> set xs. k v \<le> k u)"
proof -
  assume s: "sort_key k xs = v # vs"
  from s have m: "set xs = set (v # vs)" by (metis set_sort)
  from s have "sorted (map k (v # vs))" by (metis sorted_sort_key)
  with m show ?thesis by auto
qed

text \<open>What makes a volume fit to take a file for an agent.\<close>

definition fits :: "nat \<Rightarrow> int \<Rightarrow> volume \<Rightarrow> bool" where
  "fits i min_needed v \<longleftrightarrow>
     vol_agentid v = i \<and> vol_type v = ''Fixed'' \<and> vol_archive v \<and> vol_active v \<and> has_room min_needed v"

lemma has_available_space_Some:
  assumes "has_available_space vols i n = Some v"
  shows "v \<in> set vols" "fits i n v" "\<And>u. u \<in> set vols \<Longrightarrow> fits i n u \<Longrightarrow> vol_priority u \<le> vol_priority v"
proof -
  from assms obtain vs where "sort_key (\<lambda>v. - vol_priority v) (filter (fits i n) vols) = v # vs"
    by (auto simp: has_available_space_def fits_def [abs_def] split: list.splits)
  from set_sort_key_hd [OF this]
  show "v \<in> set vols" "fits i n v" "\<And>u. u \<in> set vols \<Longrightarrow> fits i n u \<Longrightarrow> vol_priority u \<le> vol_priority v"
    by auto
qed

lemma has_available_space_None:
  "has_available_space vols i n = None \<longleftrightarrow> list_all (\<lambda>v. \<not> fits i n v) vols"
proof -
  have "has_available_space vols i n = None \<longleftrightarrow> sort_key (\<lambda>v. - vol_priority v) (filter (fits i n) vols) = []"
    by (auto simp: has_available_space_def fits_def [abs_def] split: list.splits)
  also have "\<dots> \<longleftrightarrow> filter (fits i n) vols = []" by (metis set_sort set_empty)
  finally show ?thesis by (simp add: filter_empty_conv list_all_iff)
qed

lemma get_primary_loc_run:
  assumes "get_primary_loc a p n w = (Inr (dir, v), w')"
  shows "w' = w \<and> v \<in> set (w_vols w) \<and> fits (ag_agentid a) n v \<and> dir = vol_dir v p"
  using assms has_available_space_Some [of "w_vols w" "ag_agentid a" n v]
  by (auto simp: get_primary_loc_def bnd_def split: option.splits)

lemma get_by_id_Some: "get_by_id db i = Some a \<Longrightarrow> ag_agentid a = i \<and> a \<in> set db"
  unfolding get_by_id_def by (auto simp: find_Some_iff dest: nth_mem)

lemma get_vol_Some: "get_vol_entry_by_volid vols i = Some v \<Longrightarrow> vol_volid v = i \<and> v \<in> set vols"
  unfolding get_vol_entry_by_volid_def by (auto simp: find_Some_iff dest: nth_mem)

text \<open>
  What a disk check that lets the command go on has made sure of: where the file is made
  there is room, and the volume it goes to belongs to an enabled agent and keeps within
  its archive limit.
\<close>

definition checked :: "agent \<Rightarrow> int \<Rightarrow> world \<Rightarrow> dcheck \<Rightarrow> bool" where
  "checked a n w d \<longleftrightarrow>
     (case dc_target_type d of
        STORAGE_TYPE_VOL \<Rightarrow>
          (case (dc_target_vol d, dc_target_agent d) of
             (Some v, Some t) \<Rightarrow>
               v \<in> set (w_vols w) \<and> t \<in> set (w_db w) \<and> ag_agentid t = vol_agentid v \<and> ag_enabled t \<and>
               n \<le> vol_available_space v \<and> vol_size v - vol_available_space v + n \<le> vol_archive_limit v \<and>
               (if vol_agentid v = ag_agentid a then dc_primary_entry d = v else fits (ag_agentid a) n (dc_primary_entry d))
           | _ \<Rightarrow> False)
      | STORAGE_TYPE_CLOUD \<Rightarrow> dc_target_cloud d \<noteq> None \<and> fits (ag_agentid a) n (dc_primary_entry d))"

lemma not_enough_raises: "not_enough t v n w = (r, w') \<Longrightarrow> \<exists>e. r = Inl e"
  by (auto simp: not_enough_def sizestr_def bnd_def split: if_splits)

lemma over_limit_raises: "over_limit v n w = (r, w') \<Longrightarrow> \<exists>e. r = Inl e"
  by (auto simp: over_limit_def sizestr_def bnd_def split: if_splits)

lemma config_vol_target_run:
  assumes "config_vol_target a p ty n w = (Inr d, w')"
  shows "checked a n w d \<and> w' = w \<and> dc_primary_dir d = vol_dir (dc_primary_entry d) p"
proof -
  obtain v where v: "Option.bind (cf_backup_dest_id (w_conf w)) (get_vol_entry_by_volid (w_vols w)) = Some v"
    using assms by (auto simp: config_vol_target_def dest_not_found_def bnd_def split: option.splits)
  then have vin: "v \<in> set (w_vols w)" by (auto simp: bind_eq_Some_conv dest: get_vol_Some)
  obtain t where t: "get_by_id (w_db w) (vol_agentid v) = Some t"
    using assms v by (auto simp: config_vol_target_def bnd_def [of "gets _"] split: option.splits)
  from assms v t have c: "ag_enabled t" "n \<le> vol_available_space v" "vol_size v - vol_available_space v + n \<le> vol_archive_limit v"
    by (auto simp: config_vol_target_def bnd_def [of "gets _"] not_le split: if_splits dest: not_enough_raises over_limit_raises)
  show ?thesis
  proof (cases "ag_agentid t = ag_agentid a")
    case True
    with assms v t c vin get_by_id_Some [OF t] show ?thesis
      by (auto simp: config_vol_target_def bnd_def [of "gets _"] bnd_def [of "ret _"] not_le checked_def
          split: if_splits dest: not_enough_raises over_limit_raises)
  next
    case False
    with assms v t c obtain dir e w1 where l: "get_primary_loc a p n w = (Inr (dir, e), w1)"
      and d: "(Inr d, w') = (Inr \<lparr>dc_parent_dir = p, dc_file_type = ty, dc_target_type = STORAGE_TYPE_VOL,
         dc_target_vol = Some v, dc_target_cloud = None, dc_target_agent = Some t, dc_target_dir = vol_dir v p,
         dc_primary_dir = dir, dc_primary_entry = e, dc_primary_final_dest = False\<rparr>, w1)"
      by (auto simp: config_vol_target_def bnd_def [of "gets _"] not_less elim!: bnd_returnsE split: if_splits
          dest: not_enough_raises over_limit_raises)
    from get_primary_loc_run [OF l] d False c vin get_by_id_Some [OF t] show ?thesis
      by (auto simp: checked_def)
  qed
qed

lemma config_cloud_target_run:
  assumes "config_cloud_target a p ty n w = (Inr d, w')"
  shows "checked a n w d \<and> w' = w \<and> dc_primary_dir d = vol_dir (dc_primary_entry d) p"
  using assms
  by (auto simp: config_cloud_target_def dest_not_found_def bnd_def [of "gets _"] checked_def elim!: bnd_returnsE
      dest!: get_primary_loc_run split: option.splits)

text \<open>
  C21: a backup or ziplog is started only if the disk check found what it promises:
  there is room where the file is made, on a fixed, active archive volume of the primary
  or on the configured volume itself, and a configured volume belongs to an enabled
  agent and stays within its archive limit; the file is made in the directory of the
  volume that was checked.
\<close>

theorem disk_check_sound:
  assumes "disk_check a parent_dir file_type min_needed w = (Inr d, w')"
  shows "checked a min_needed w d \<and> dc_primary_dir d = vol_dir (dc_primary_entry d) parent_dir"
proof -
  from assms obtain w1 where "(case cf_backup_dest_type (w_conf w) of
            STORAGE_TYPE_VOL \<Rightarrow> config_vol_target a parent_dir file_type min_needed
          | STORAGE_TYPE_CLOUD \<Rightarrow> config_cloud_target a parent_dir file_type min_needed) w = (Inr d, w1)"
    by (auto simp: disk_check_def bnd_def [of "gets _"] elim!: bnd_returnsE sq_returnsE)
  then show ?thesis
    by (cases "cf_backup_dest_type (w_conf w)") (auto dest: config_vol_target_run config_cloud_target_run)
qed

definition volume_c :: volume where
  "volume_c = \<lparr>vol_volid = 7, vol_agentid = 1, vol_name = ''C'', vol_path = ''Palette'', vol_type = ''Fixed'',
     vol_size = 1000, vol_available_space = 600, vol_archive = True, vol_archive_limit = 1000,
     vol_active = True, vol_system = True, vol_priority = 1, vol_color = None\<rparr>"

definition world_disk :: world where
  "world_disk = world1\<lparr>w_conf := conf0\<lparr>cf_backup_dest_id := Some 7\<rparr>, w_vols := [volume_c],
     w_net := [(1, Resp 200 ''OK'' (JsonBody Map.empty)), (1, Resp 200 ''OK'' (JsonBody Map.empty)),
       (1, Resp 200 ''OK'' (JsonBody Map.empty))]\<rparr>"

definition dcheck_c :: dcheck where
  "dcheck_c = \<lparr>dc_parent_dir = ''backups'', dc_file_type = FILE_TYPE_BACKUP, dc_target_type = STORAGE_TYPE_VOL,
     dc_target_vol = Some volume_c, dc_target_cloud = None, dc_target_agent = Some agent0,
     dc_target_dir = vol_dir volume_c ''backups'', dc_primary_dir = vol_dir volume_c ''backups'',
     dc_primary_entry = volume_c, dc_primary_final_dest = True\<rparr>"

lemma disk_check_run: "\<exists>w'. disk_check agent0 ''backups'' FILE_TYPE_BACKUP 500 world_disk = (Inr dcheck_c, w')"
proof -
  have "config_vol_target agent0 ''backups'' FILE_TYPE_BACKUP 500 world_disk = (Inr dcheck_c, world_disk)"
    by (simp add: config_vol_target_def bnd_def world_disk_def world1_def volume_c_def agent0_def dcheck_c_def
        get_vol_entry_by_volid_def get_by_id_def conf0_def)
  then show ?thesis
    by (simp add: disk_check_def bnd_def sq_def disk_mkdirs_def attempt_def catch_def fm_mkdirs_def file_action_def
        http_send_def exchange_def json_loads_def world_disk_def world1_def world0_def conf0_def)
qed

theorem disk_check_sound_witness:
  "\<exists>w'. disk_check agent0 ''backups'' FILE_TYPE_BACKUP 500 world_disk = (Inr dcheck_c, w') \<and>
     checked agent0 500 world_disk dcheck_c \<and> dc_primary_dir dcheck_c = vol_dir (dc_primary_entry dcheck_c) ''backups''"
  using disk_check_run disk_check_sound by blast

text \<open>The deletions a run has asked for, and the table of files.\<close>

fun is_delete :: "request \<Rightarrow> bool" where
  "is_delete (Request c m u b) \<longleftrightarrow> m = ''DELETE''"

definition deletes :: "world \<Rightarrow> request list" where
  "deletes w = filter is_delete (w_sent w)"

definition kept :: "world \<Rightarrow> request list \<times> file_entry list" where
  "kept w = (deletes w, w_files w)"

lemma kept_updates [simp]:
  "kept (w\<lparr>w_events := e\<rparr>) = kept w" "kept (w\<lparr>w_disconnect_sent := d\<rparr>) = kept w"
  "kept (w\<lparr>w_agents := a\<rparr>) = kept w" "kept (w\<lparr>w_state := s\<rparr>) = kept w"
  "kept (w\<lparr>w_next_xid := x\<rparr>) = kept w" "kept (w\<lparr>w_now := t\<rparr>) = kept w"
  "kept (w\<lparr>w_procs := p, w_procs_db := p'\<rparr>) = kept w"
  by (simp_all add: kept_def deletes_def)

lemma keeps_kept_exchange:
  assumes "\<not> is_delete rq"
  shows "keeps kept (exchange rq)"
proof -
  have "keeps kept (modify (\<lambda>w. w\<lparr>w_sent := w_sent w @ [rq]\<rparr>))"
    "keeps kept (modify (\<lambda>w. w\<lparr>w_net := r, w_now := w_now w + d\<rparr>))" for r d
    using assms by (simp_all add: keeps_def kept_def deletes_def)
  note k = this
  show ?thesis unfolding exchange_def by (rule frame k)+
qed

lemma keeps_kept_commands:
  "keeps kept (cli_cmd cmd a env im timeout)" "keeps kept (send_immediate a ''POST'' u b)"
proof -
  have x: "moves kept {} (exchange (Request c ''POST'' u b))" "moves kept {} (exchange (Request c ''GET'' u b))" for c u b
    by (simp_all add: moves_none keeps_kept_exchange)
  have r: "moves kept {} (lose_agent a r)" for a r
    unfolding moves_none by (rule keeps_lose_agent) simp_all
  have n: "moves kept {} next_xid" "moves kept {} (sleep k)" for k
    by (simp_all add: moves_none next_xid_def sleep_def keeps_def bnd_def sq_def)
  show "keeps kept (cli_cmd cmd a env im timeout)" "keeps kept (send_immediate a ''POST'' u b)"
    unfolding moves_none [symmetric] by (rule moves_commands moves_send_immediate x r n)+
qed

lemma keeps_kept_copies:
  "keeps kept (cloud_put exe a c p d)" "keeps kept (copy_cmd i p j d)"
proof -
  note c = keeps_kept_commands
  have g: "keeps kept (gen k d u)" for k d u by (rule keeps_gen) simp
  have "keeps kept (fm_mkdirs a p)" for a p
    unfolding fm_mkdirs_def file_action_def http_send_def
    by (auto intro!: frame keeps_kept_exchange split: netres.split)
  note m = this
  show "keeps kept (cloud_put exe a c p d)" unfolding cloud_put_def send_put_def Let_def by (rule c)
  have "keeps kept (copy_transfer s p t d)" for s p t d
    unfolding copy_transfer_def attempt_def by (rule frame m c)+
  note t = this
  show "keeps kept (copy_cmd i p j d)"
    unfolding copy_cmd_def firewall_enable_def firewall_failed_def by (rule frame t c g)+
qed

text \<open>The two places a file can be in after it was placed.\<close>

definition at_source :: "dcheck \<Rightarrow> string \<Rightarrow> file_entry \<Rightarrow> bool" where
  "at_source d path f \<longleftrightarrow>
     fe_name f = path \<and> fe_storage_type f = STORAGE_TYPE_VOL \<and> fe_storageid f = vol_volid (dc_primary_entry d)"

definition at_target :: "dcheck \<Rightarrow> file_entry \<Rightarrow> bool" where
  "at_target d f \<longleftrightarrow>
     fe_storage_type f = dc_target_type d \<and>
     fe_storageid f =
       (case dc_target_type d of
          STORAGE_TYPE_CLOUD \<Rightarrow> (case dc_target_cloud d of Some c \<Rightarrow> cl_cloudid c | None \<Rightarrow> 0)
        | STORAGE_TYPE_VOL \<Rightarrow> (case dc_target_vol d of Some v \<Rightarrow> vol_volid v | None \<Rightarrow> 0))"

definition copied_ok :: "dcheck \<Rightarrow> string \<Rightarrow> world \<Rightarrow> pyexn + placed \<Rightarrow> world \<Rightarrow> bool" where
  "copied_ok d path w r w' \<longleftrightarrow>
     deletes w' = deletes w \<and>
     (case r of
        Inl _ \<Rightarrow> w_files w' = w_files w
      | Inr p \<Rightarrow>
          (case pf_entry p of
             None \<Rightarrow> w_files w' = w_files w \<and> \<not> pf_delete_local p
           | Some f \<Rightarrow> w_files w' = w_files w @ [f] \<and>
               (if pf_copy_failed p then at_source d path f \<and> \<not> pf_delete_local p else at_target d f)))"

lemma wp_files_add [wp_simps]:
  "wp (files_add n ty st i sz au) Q w =
     (let f = \<lparr>fe_fileid = w_next_fileid w, fe_name = n, fe_file_type = ty, fe_storage_type = st,
                fe_storageid = i, fe_size = sz, fe_auto = au, fe_encrypted = False\<rparr>
      in Q (Inr f) (w\<lparr>w_files := w_files w @ [f], w_next_fileid := w_next_fileid w + 1\<rparr>))"
  by (simp add: files_add_def wp_simps Let_def)

lemma keptD: "kept w' = kept w \<Longrightarrow> deletes w' = deletes w \<and> w_files w' = w_files w"
  by (simp add: kept_def)

lemma deletes_files [simp]: "deletes (w\<lparr>w_files := x, w_next_fileid := n\<rparr>) = deletes w"
  by (simp add: deletes_def)

lemma copied_stays:
  "kept v = kept w \<Longrightarrow> wp (stays_on_primary d path sz au info) (copied_ok d path w) v"
  by (drule keptD) (simp add: stays_on_primary_def wp_simps copied_ok_def at_source_def placed0_def Let_def)

lemma copied_bnd:
  assumes "kept v = kept w" and "keeps kept m"
    and "\<And>x v'. kept v' = kept w \<Longrightarrow> wp (k x) (copied_ok d path w) v'"
  shows "wp (bnd m k) (copied_ok d path w) v"
  unfolding wp_bnd
proof (rule wp_keeps [OF assms(2)])
  fix r v' assume "kept v' = kept v"
  with assms(1,3) show "case r of Inl e \<Rightarrow> copied_ok d path w (Inl e) v' | Inr x \<Rightarrow> wp (k x) (copied_ok d path w) v'"
    by (cases r) (auto simp: copied_ok_def dest!: keptD)
qed

lemma copied_raise: "kept v = kept w \<Longrightarrow> wp (raise e) (copied_ok d path w) v"
  by (drule keptD) (simp add: wp_raise copied_ok_def)

lemma copied_nothing: "kept v = kept w \<Longrightarrow> wp (ret placed0) (copied_ok d path w) v"
  by (drule keptD) (simp add: wp_ret copied_ok_def placed0_def)

lemma copied_added:
  assumes "kept v = kept w" and "\<And>f. fe_storage_type f = st \<Longrightarrow> fe_storageid f = i \<Longrightarrow> at_target d f"
  shows "wp (bnd (files_add n ty st i sz au) (\<lambda>f. ret \<lparr>pf_info = info, pf_copied = True,
      pf_copy_failed = False, pf_delete_local = True, pf_entry = Some f, pf_elapsed = t\<rparr>)) (copied_ok d path w) v"
  using keptD [OF assms(1)] assms(2) by (simp add: wp_simps copied_ok_def Let_def)

lemma copied_option:
  "(x = None \<Longrightarrow> wp m Q w) \<Longrightarrow> (\<And>y. x = Some y \<Longrightarrow> wp (k y) Q w) \<Longrightarrow>
    wp (case x of None \<Rightarrow> m | Some y \<Rightarrow> k y) Q w"
  by (cases x) simp_all

lemma copied_ok_cloud:
  assumes "dc_target_type d = STORAGE_TYPE_CLOUD" and "dc_target_cloud d = Some c"
  shows "wp (copy_to_cloud a d c path sz au) (copied_ok d path w) w"
proof -
  have t: "at_target d f" if "fe_storage_type f = STORAGE_TYPE_CLOUD" "fe_storageid f = cl_cloudid c" for f
    using that assms by (simp add: at_target_def)
  show ?thesis
    unfolding copy_to_cloud_def Let_def wp_if
    by (auto intro!: copied_raise copied_bnd [OF _ keeps_gets] copied_bnd [OF _ keeps_kept_copies(1)]
        copied_option copied_stays copied_added t)
qed

lemma copied_ok_agent:
  assumes "dc_target_type d = STORAGE_TYPE_VOL"
  shows "wp (copy_to_agent a d target path sz au) (copied_ok d path w) w"
proof -
  have t: "at_target d f" if "fe_storage_type f = STORAGE_TYPE_VOL"
      "fe_storageid f = (case dc_target_vol d of Some t \<Rightarrow> vol_volid t | None \<Rightarrow> 0)" for f
    using that assms by (simp add: at_target_def)
  show ?thesis
    unfolding copy_to_agent_def
    by (auto intro!: copied_raise copied_nothing copied_bnd [OF _ keeps_gets] copied_bnd [OF _ keeps_kept_copies(2)]
        copied_option copied_stays copied_added t)
qed

lemma keeps_files_delete: "keeps w_files (delete_vol_file a p)"
proof -
  have x: "keeps w_files (exchange rq)" for rq by (rule keeps_exchange) simp_all
  have h: "keeps w_files (http_send a m u b)" for a m u b
    unfolding http_send_def by (auto intro!: frame x split: netres.split)
  have "keeps w_files (fm_filesize a q)" "keeps w_files (fm_delete a q)" for a q
    unfolding fm_filesize_def file_action_def fm_delete_def by (rule frame h)+
  note d = this
  show ?thesis unfolding delete_vol_file_def attempt_def need_body_def by (rule frame d)+
qed

text \<open>What holds after placing a file, returned or raised.\<close>

definition placed_ok :: "dcheck \<Rightarrow> string \<Rightarrow> world \<Rightarrow> pyexn + placed \<Rightarrow> world \<Rightarrow> bool" where
  "placed_ok d path w r w' \<longleftrightarrow>
     (deletes w' = deletes w \<or> (\<exists>f. w_files w' = w_files w @ [f] \<and> at_target d f)) \<and>
     (case r of
        Inl _ \<Rightarrow> True
      | Inr p \<Rightarrow>
          (case pf_entry p of
             None \<Rightarrow> w_files w' = w_files w
           | Some f \<Rightarrow> w_files w' = w_files w @ [f] \<and>
               (if pf_copy_failed p then at_source d path f \<and> deletes w' = deletes w else at_target d f)))"

lemma placed_ok_deleted:
  assumes "copied_ok d path w (Inr p) w'"
  shows "wp (delete_local a path p) (placed_ok d path w) w'"
proof (cases "pf_delete_local p")
  case False
  with assms show ?thesis
    by (auto simp: delete_local_def wp_simps placed_ok_def copied_ok_def split: option.split if_splits)
next
  case True
  with assms obtain f where f: "pf_entry p = Some f" "w_files w' = w_files w @ [f]" "at_target d f" "\<not> pf_copy_failed p"
    by (auto simp: copied_ok_def split: option.splits if_splits)
  with True show ?thesis
    by (simp add: delete_local_def wp_bnd, intro wp_keeps [OF keeps_files_delete])
      (auto simp: wp_simps placed_ok_def need_body_def split: sum.split option.split)
qed

lemma wp_copied:
  assumes "wp m (copied_ok d path w) w"
  shows "wp (bnd m (delete_local a path)) (placed_ok d path w) w"
  unfolding wp_bnd
  by (rule wp_mono [OF assms]) (auto simp: placed_ok_deleted split: sum.split, auto simp: placed_ok_def copied_ok_def)

lemma wp_place_file: "wp (place_file a d path sz auto) (placed_ok d path w) w"
proof (cases "dc_target_type d")
  case STORAGE_TYPE_CLOUD
  then show ?thesis
    using wp_copied [OF copied_ok_cloud]
    by (cases "dc_target_cloud d"; cases "dc_target_agent d") (simp_all add: place_file_def wp_raise placed_ok_def)
next
  case STORAGE_TYPE_VOL
  then show ?thesis
    using wp_copied [OF copied_ok_agent]
    by (cases "dc_target_agent d")
      (auto simp: place_file_def wp_simps placed_ok_def at_target_def placed0_def Let_def)
qed


text \<open>
  Without a configured destination the disk check does not report an error but fails
  itself: the text of the \<open>DiskException\<close> formats \<open>None\<close> as a number, and the \<open>TypeError\<close>
  is not what the callers catch.
\<close>

theorem disk_check_no_destination:
  assumes "cf_backup_dest_id (w_conf w) = None"
  shows "disk_check a parent_dir file_type min_needed w =
    (Inl (TypeError ''%d format: a number is required, not NoneType''), w)"
  using assms
  by (simp add: disk_check_def bnd_def config_vol_target_def config_cloud_target_def dest_not_found_def
      split: storage_type.split)

theorem disk_check_no_destination_witness:
  "disk_check agent0 ''backups'' FILE_TYPE_BACKUP 500 world1 =
    (Inl (TypeError ''%d format: a number is required, not NoneType''), world1)"
  by (rule disk_check_no_destination) (simp add: world1_def world0_def conf0_def)

end
