(* ===== verification/Server.thy ===== *)
theory Server
  imports StatusMonitor Storage
begin

text \<open>
  The commands of \<open>controller.py\<close> that the handlers are built from: backup, ziplogs, cleanup,
  the three ways to restore, \<open>tabcmd\<close>, and the rotation of old backups and ziplogs.
\<close>

section \<open>Texts\<close>

definition TIMEOUT_BACKUP :: nat where "TIMEOUT_BACKUP = 60 * 60 * 8"
definition BACKUP_DIR :: string where "BACKUP_DIR = ''tableau-backups''"
definition LOG_DIR :: string where "LOG_DIR = ''tableau-logs''"

text \<open>A name in escaped quotes, as it is put on a command line.\<close>

definition escaped :: "string \<Rightarrow> string" where
  "escaped s = CHR 0x5C # CHR 0x22 # s @ [CHR 0x5C, CHR 0x22]"

text \<open>\<open>str(datetime.timedelta(seconds=n))\<close>\<close>

definition seconds_to_str :: "nat \<Rightarrow> string" where
  "seconds_to_str n =
     (let days = n div 86400; s = n mod 86400 in
      (if days = 0 then [] else nat_str days @ (if days = 1 then '' day, '' else '' days, '')) @
      nat_str (s div 3600) @ '':'' @ two_digits (s mod 3600 div 60) @ '':'' @ two_digits (s mod 60))"

definition newline :: char where "newline = CHR 0x0A"

section \<open>Backup\<close>

text \<open>
  The size of a file just made; zero if it cannot be had.  An answer without \<open>size\<close> is a
  KeyError, and a size that is no number one of the errors of \<open>sizestr\<close>.
\<close>

definition size_of_file :: "agent \<Rightarrow> string \<Rightarrow> int io" where
  "size_of_file a path =
     bnd (attempt is_io (fm_filesize a path)) (\<lambda>r. case r of
       Inl msg \<Rightarrow> ret 0
     | Inr found \<Rightarrow> bnd (need_body found) (\<lambda>b.
         if failed b then ret 0
         else (case b ''size'' of
             Some (JInt n) \<Rightarrow> ret n
           | None \<Rightarrow> raise (KeyError ''size'')
           | Some _ \<Rightarrow> raise (TypeError ''size''))))"

text \<open>The text about sizes and times; the shares in per cent are left out.\<close>

definition backup_stats :: "string \<Rightarrow> nat \<Rightarrow> placed \<Rightarrow> string" where
  "backup_stats size_text elapsed p =
     ''Backup size: '' @ size_text @ newline # ''Backup elapsed time: '' @ seconds_to_str elapsed @
     (if pf_copied p then
        newline # ''Backup copy elapsed time: '' @ seconds_to_str (pf_elapsed p) @
        newline # ''Backup total elapsed time: '' @ seconds_to_str (elapsed + pf_elapsed p)
      else [newline])"

definition jopt :: "string option \<Rightarrow> jval" where
  "jopt s = (case s of None \<Rightarrow> JNull | Some x \<Rightarrow> JStr x)"

fun storage_name :: "storage_type \<Rightarrow> string" where
  "storage_name STORAGE_TYPE_VOL = ''vol''"
| "storage_name STORAGE_TYPE_CLOUD = ''cloud''"

text \<open>Where the backup is now, for the web application.\<close>

definition destination :: "agent \<Rightarrow> dcheck \<Rightarrow> string \<Rightarrow> placed \<Rightarrow> file_entry \<Rightarrow> body" where
  "destination a d full_path p f =
     (if fe_storage_type f = STORAGE_TYPE_CLOUD then
        (case dc_target_cloud d of
           None \<Rightarrow> Map.empty
         | Some c \<Rightarrow>
             [''destination_name'' \<mapsto> JStr (cl_type c),
              ''destination_location'' \<mapsto>
                JStr (cl_bucket c @ '' - '' @ os_join (dc_parent_dir d) (path_basename (ag_iswin a) full_path))])
      else if \<not> pf_copy_failed p then
        (case dc_target_agent d of
           None \<Rightarrow> Map.empty
         | Some t \<Rightarrow>
             [''destination_name'' \<mapsto> jopt (ag_displayname t), ''destination_location'' \<mapsto> JStr (dc_target_dir d)])
      else
        [''destination_name'' \<mapsto> jopt (ag_displayname a),
         ''destination_location'' \<mapsto> JStr (path_dirname (ag_iswin a) full_path)])"

definition backup_report :: "agent \<Rightarrow> dcheck \<Rightarrow> string \<Rightarrow> int \<Rightarrow> nat \<Rightarrow> placed \<Rightarrow> body \<Rightarrow> body io" where
  "backup_report a d full_path sz elapsed p b =
     bnd (sizestr sz) (\<lambda>size_text.
       case pf_entry p of
         None \<Rightarrow> raise (AttributeError ''fileid'')
       | Some f \<Rightarrow>
           ret ((if pf_copy_failed p then b(''copy-failed'' \<mapsto> JBool True) else b)
                  (''fileid'' \<mapsto> JInt (int (fe_fileid f)),
                   ''info'' \<mapsto> JStr (pf_info p @ newline # backup_stats size_text elapsed p),
                   ''size'' \<mapsto> JStr size_text,
                   ''destination_type'' \<mapsto> JStr (storage_name (fe_storage_type f)))
                ++ destination a d full_path p f))"

definition backup_failed :: "nat \<Rightarrow> body \<Rightarrow> body" where
  "backup_failed elapsed b =
     b(''info'' \<mapsto> JStr (''Backup command elapsed time before failure: '' @ seconds_to_str elapsed))"

definition backup_command :: "string \<Rightarrow> string" where
  "backup_command path = ''tabadmin backup '' @ escaped path"

definition backup_with :: "agent \<Rightarrow> bool \<Rightarrow> dcheck \<Rightarrow> string \<Rightarrow> body io" where
  "backup_with a auto d full_path =
     bnd (gets w_now) (\<lambda>start.
     bnd (cli_cmd (backup_command full_path) a Map.empty False TIMEOUT_BACKUP) (\<lambda>b.
     bnd (gets w_now) (\<lambda>now.
       if failed b then ret (backup_failed (now - start) b)
       else bnd (size_of_file a full_path) (\<lambda>sz.
         bnd (place_file a d full_path sz auto) (\<lambda>p.
           backup_report a d full_path sz (now - start) p b)))))"

definition backup_path :: "agent \<Rightarrow> dcheck \<Rightarrow> string \<Rightarrow> string" where
  "backup_path a d name = path_join (ag_iswin a) (dc_primary_dir d) name"

definition backup_cmd :: "agent \<Rightarrow> int option \<Rightarrow> body io" where
  "backup_cmd a userid =
     bnd (attempt is_disk (disk_check a BACKUP_DIR FILE_TYPE_BACKUP (1024 * 1024))) (\<lambda>r. case r of
       Inl msg \<Rightarrow> ret (error_body msg)
     | Inr d \<Rightarrow> bnd (gets (\<lambda>w. w_stamp w (w_now w))) (\<lambda>stamp.
         backup_with a (userid = None) d (backup_path a d (stamp @ ''.tsbak''))))"

section \<open>Rotation\<close>

definition rotate_one :: "file_entry \<Rightarrow> string \<Rightarrow> string io" where
  "rotate_one f info =
     bnd (delfile_by_entry f) (\<lambda>b0. bnd (need_body b0) (\<lambda>b.
       case b ''error'' of
         Some e \<Rightarrow> ret (info @ newline # jshow e)
       | None \<Rightarrow>
           if (case b ''stderr'' of Some e \<Rightarrow> truthy e | None \<Rightarrow> False)
           then ret (info @ newline # jshow (the (b ''stderr'')))
           else if fe_storage_type f = STORAGE_TYPE_VOL then ret (info @ newline # ''Removed '' @ fe_name f)
           else bnd (gets w_clouds) (\<lambda>cs. case get_by_cloudid cs (fe_storageid f) of
               None \<Rightarrow> ret (info @ newline # ''file_rotate: cloudid not found: '' @ nat_str (fe_storageid f))
             | Some c \<Rightarrow> ret (info @ newline # ''Removed from '' @ cl_type c @ '' bucket '' @ cl_bucket c @ '': '' @ fe_name f))))"

definition rotate_text :: "nat \<Rightarrow> int \<Rightarrow> string \<Rightarrow> string \<Rightarrow> string" where
  "rotate_text n retain find_name file_type =
     newline # ''There are '' @ nat_str n @ '' '' @ find_name @ '' '' @ file_type @ '' files.  '' @
     (if retain = -1 then ''The configuration is to retain all '' @ find_name @ '' '' @ file_type @ '' files.''
      else ''Retaining '' @ int_str retain @ ''.  Will remove '' @ int_str (int n - retain) @ ''.'')"

definition file_rotate :: "int \<Rightarrow> (file_entry list \<Rightarrow> file_entry list) \<Rightarrow> string \<Rightarrow> string \<Rightarrow> string io" where
  "file_rotate retain find_method find_name file_type =
     bnd (gets (\<lambda>w. find_method (w_files w))) (\<lambda>rows.
       if retain = -1 then ret (rotate_text (length rows) retain find_name file_type)
       else if int (length rows) - retain \<le> 0 then ret []
       else fold_m rotate_one (take (nat (int (length rows) - retain)) rows)
              (rotate_text (length rows) retain find_name file_type))"

definition rotate :: "string \<Rightarrow> int \<Rightarrow> int \<Rightarrow> string io" where
  "rotate file_type auto_retain user_retain =
     bnd (file_rotate auto_retain (find_by_auto_envid file_type) ''scheduled'' file_type) (\<lambda>i1.
     bnd (file_rotate user_retain (find_by_non_auto_envid file_type) ''user generated'' file_type) (\<lambda>i2.
       ret (i1 @ i2)))"

definition rotate_backups :: "string io" where
  "rotate_backups =
     bnd (gets w_conf) (\<lambda>c. rotate FILE_TYPE_BACKUP (cf_backup_auto_retain c) (cf_backup_user_retain c))"

definition rotate_ziplogs :: "string io" where
  "rotate_ziplogs =
     bnd (gets w_conf) (\<lambda>c. rotate FILE_TYPE_ZIPLOG (cf_ziplog_auto_retain c) (cf_ziplog_user_retain c))"

section \<open>Ziplogs and cleanup\<close>

definition gen_result :: "ekey \<Rightarrow> ekey \<Rightarrow> body \<Rightarrow> body \<Rightarrow> int option \<Rightarrow> unit io" where
  "gen_result bad good b data userid =
     (if failed b then gen bad (dict_add b data) userid else gen good (dict_add b data) userid)"

definition ziplogs_command :: "string \<Rightarrow> string" where
  "ziplogs_command path = ''tabadmin ziplogs -f -l -n -a '' @ escaped path"

definition ziplogs_finish :: "agent \<Rightarrow> dcheck \<Rightarrow> string \<Rightarrow> bool \<Rightarrow> body \<Rightarrow> body io" where
  "ziplogs_finish a d path auto b =
     bnd (size_of_file a path) (\<lambda>sz.
     bnd (place_file a d path sz auto) (\<lambda>p.
     bnd rotate_ziplogs (\<lambda>rotate_info.
       ret (b(''info'' \<mapsto> JStr (jstr (b ''info'') @ newline # pf_info p @ rotate_info))))))"

definition ziplogs_cmd :: "agent \<Rightarrow> int option \<Rightarrow> body io" where
  "ziplogs_cmd a userid =
     bnd (attempt is_disk (disk_check a LOG_DIR FILE_TYPE_ZIPLOG (1024 * 1024))) (\<lambda>r. case r of
       Inl msg \<Rightarrow>
         sq (gen EV_ZIPLOGS_FAILED ((agent_todict a)(''error'' \<mapsto> JStr msg)) userid)
            (ret (error_body (''ziplogs_cmd: '' @ msg)))
     | Inr d \<Rightarrow>
         sq (gen EV_ZIPLOGS_STARTED (agent_todict a) userid)
          (bnd (gets (\<lambda>w. w_stamp w (w_now w))) (\<lambda>stamp.
           let path = backup_path a d (stamp @ ''.logs.zip''); cmd = ziplogs_command path in
           bnd (cli_cmd cmd a Map.empty False (60 * 60 * 3)) (\<lambda>b.
           bnd (if failed b then ret (b(''info'' \<mapsto> JStr cmd))
                else ziplogs_finish a d path (userid = None) (b(''info'' \<mapsto> JStr cmd))) (\<lambda>b'.
             sq (gen_result EV_ZIPLOGS_FAILED EV_ZIPLOGS_FINISHED b' (agent_todict a) userid) (ret b'))))))"

definition cleanup_cmd :: "agent \<Rightarrow> int option \<Rightarrow> body io" where
  "cleanup_cmd a userid =
     sq (gen EV_CLEANUP_STARTED (agent_todict a) userid)
       (bnd (cli_cmd ''tabadmin cleanup'' a Map.empty False (60 * 60)) (\<lambda>b.
          sq (gen_result EV_CLEANUP_FAILED EV_CLEANUP_FINISHED b (agent_todict a) userid) (ret b)))"

section \<open>Restore\<close>

definition restore_command :: "string \<Rightarrow> bool \<Rightarrow> string option \<Rightarrow> string" where
  "restore_command path data_only password =
     ''tabadmin restore '' @ escaped path @
     (case password of None \<Rightarrow> [] | Some [] \<Rightarrow> [] | Some p \<Rightarrow> '' --password '' @ escaped p) @
     (if data_only then '' --no-config'' else [])"

definition restore_data :: "agent \<Rightarrow> bool \<Rightarrow> body" where
  "restore_data a data_only =
     (agent_todict a)(''restore_type'' \<mapsto> JStr (if data_only then ''Data only'' else ''Data and Configuration''))"

fun is_http :: "pyexn \<Rightarrow> bool" where
  "is_http (HTTPException s) = True"
| "is_http _ = False"

definition restore_run :: "agent \<Rightarrow> string \<Rightarrow> bool \<Rightarrow> string option \<Rightarrow> body io" where
  "restore_run a path data_only password =
     sq (update_state STATE_STARTING_RESTORE)
       (catch (cli_cmd (restore_command path data_only password) a [''PWD'' \<mapsto> JStr (ag_data_dir a)] False TIMEOUT_BACKUP)
          is_http (\<lambda>e. ret (error_body (''HTTP Exception: '' @ exn_str e))))"

definition restore_local :: "agent \<Rightarrow> string \<Rightarrow> int option \<Rightarrow> bool \<Rightarrow> string option \<Rightarrow> body io" where
  "restore_local a path userid data_only password =
     sq (gen EV_RESTORE_STARTED (restore_data a data_only) userid)
       (bnd get_tableau_status (\<lambda>reported_status.
          if reported_status = STATUS_RUNNING then
            sq (update_state STATE_STOPPING_RESTORE)
              (bnd (cli_cmd ''tabadmin stop'' a Map.empty False (60 * 60)) (\<lambda>stop_body.
                 if failed stop_body then ret stop_body
                 else sq (gen EV_STATE_STOPPED (restore_data a data_only) userid)
                        (restore_run a path data_only password)))
          else restore_run a path data_only password))"

definition restore_cleanup :: "agent \<Rightarrow> got \<Rightarrow> body \<Rightarrow> body io" where
  "restore_cleanup a g b =
     (if gf_copied g then
        bnd (delete_vol_file a (gf_primary_full_path g)) (\<lambda>d0. bnd (need_body d0) (\<lambda>d.
          ret (case d ''error'' of
                 None \<Rightarrow> b
               | Some e \<Rightarrow> b(''info'' \<mapsto> JStr (strip (newline # jshow e))))))
      else ret b)"

definition restore_cmd :: "agent \<Rightarrow> string \<Rightarrow> mstate \<Rightarrow> bool \<Rightarrow> int option \<Rightarrow> string option \<Rightarrow> body io" where
  "restore_cmd a backup_full_path orig_state no_config userid password =
     bnd (attempt is_io (get_file a backup_full_path False)) (\<lambda>r. case r of
       Inl msg \<Rightarrow> sq (update_state orig_state) (ret (error_body (''restore_cmd failure: '' @ msg)))
     | Inr g \<Rightarrow> bnd (restore_local a (gf_primary_full_path g) userid no_config password) (\<lambda>b.
         sq (when_m (failed b) (update_state orig_state)) (restore_cleanup a g b)))"

section \<open>Restore from a URL\<close>

text \<open>\<open>urlsplit\<close>: the parts the code looks at.  The path keeps its escapes.\<close>

record url =
  url_sch :: string
  url_user :: string
  url_pass :: string
  url_host :: string
  url_pth :: string

definition is_alpha :: "char \<Rightarrow> bool" where
  "is_alpha c = (let n = (of_char c :: nat) in (65 \<le> n \<and> n \<le> 90) \<or> (97 \<le> n \<and> n \<le> 122))"

definition scheme_char :: "char \<Rightarrow> bool" where
  "scheme_char c \<longleftrightarrow> is_alpha c \<or> is_digit c \<or> c \<in> {CHR ''+'', CHR ''-'', CHR ''.''}"

definition split_scheme :: "string \<Rightarrow> string \<times> string" where
  "split_scheme s =
     (let h = takeWhile (\<lambda>c. c \<noteq> CHR '':'') s; rest = drop (length h + 1) s in
      if h \<noteq> [] \<and> length h < length s \<and> list_all scheme_char h \<and>
         (rest = [] \<or> \<not> list_all is_digit rest)
      then (lower h, rest) else ([], s))"

definition before_last :: "char \<Rightarrow> string \<Rightarrow> string option" where
  "before_last c s =
     (if c \<in> set s then Some (rev (drop 1 (dropWhile (\<lambda>x. x \<noteq> c) (rev s)))) else None)"

definition after_last :: "char \<Rightarrow> string \<Rightarrow> string" where
  "after_last c s = rev (takeWhile (\<lambda>x. x \<noteq> c) (rev s))"

definition urlsplit :: "string \<Rightarrow> url" where
  "urlsplit s =
     (let (scheme, rest) = split_scheme s;
          netloc = (if take 2 rest = ''//'' then takeWhile (\<lambda>c. c \<notin> {CHR ''/'', CHR ''?'', CHR ''#''}) (drop 2 rest) else []);
          after = (if take 2 rest = ''//'' then drop (2 + length netloc) rest else rest);
          user = before_last (CHR ''@'') netloc;
          hostport = after_last (CHR ''@'') netloc
      in \<lparr>url_sch = scheme,
          url_user = (case user of None \<Rightarrow> [] | Some u \<Rightarrow> takeWhile (\<lambda>c. c \<noteq> CHR '':'') u),
          url_pass = (case user of None \<Rightarrow> [] | Some u \<Rightarrow> drop 1 (dropWhile (\<lambda>c. c \<noteq> CHR '':'') u)),
          url_host = lower (takeWhile (\<lambda>c. c \<noteq> CHR '':'') hostport),
          url_pth = takeWhile (\<lambda>c. c \<notin> {CHR ''?'', CHR ''#''}) after\<rparr>)"

text \<open>\<open>urllib.unquote\<close>: an escape that is not one is left as it is.\<close>

fun unquote :: "string \<Rightarrow> string" where
  "unquote (c # x # y # cs) =
     (if c = CHR ''%'' then
        (case (digit_val x, digit_val y) of
           (Some h, Some l) \<Rightarrow> char_of (16 * h + l) # unquote cs
         | _ \<Rightarrow> c # unquote (x # y # cs))
      else c # unquote (x # y # cs))"
| "unquote s = s"

text \<open>\<open>CloudInfo.from_url\<close>; a ValueError for what it refuses.\<close>

definition from_url :: "url \<Rightarrow> string + cloud_info" where
  "from_url u =
     (if url_pth u = [] then Inl ''No path specified in URL.''
      else if url_sch u \<noteq> ''s3'' \<and> url_sch u \<noteq> ''gs'' then
        Inl (''Invalid URL '' @ url_sch u @ '', the scheme must be 's3' or 'gcs' '')
      else if url_user u \<noteq> [] \<and> url_pass u = [] then
        Inl ''The secret_key is required when the access_key is specified''
      else if url_pass u \<noteq> [] \<and> url_user u = [] then
        Inl ''The access_key is required when the secret_key is specified''
      else Inr \<lparr>ci_type = (if url_sch u = ''s3'' then CLOUD_TYPE_S3 else CLOUD_TYPE_GCS), ci_path = url_pth u,
                ci_bucket = url_host u, ci_access_key = url_user u, ci_secret_key = url_pass u\<rparr>)"

definition get_by_name :: "cloud list \<Rightarrow> string \<Rightarrow> string \<Rightarrow> cloud option" where
  "get_by_name cs name cloud_type = find (\<lambda>c. cl_type c = cloud_type \<and> cl_name c = name) cs"

definition get_cloud_entry :: "cloud list \<Rightarrow> nat \<Rightarrow> cloud option" where
  "get_cloud_entry cs cloudid = (if cloudid = 0 then None else get_by_cloudid cs cloudid)"

text \<open>Credentials and bucket from the configured entry where the URL has none.\<close>

definition fill_in :: "cloud option \<Rightarrow> cloud_info \<Rightarrow> cloud_info" where
  "fill_in e c =
     (case e of
        None \<Rightarrow> c
      | Some x \<Rightarrow>
          (let c1 = (if ci_bucket c = [] then c\<lparr>ci_bucket := cl_bucket x\<rparr> else c) in
           if ci_access_key c1 = [] then c1\<lparr>ci_access_key := cl_access_key x, ci_secret_key := cl_secret_key x\<rparr> else c1))"

definition download :: "agent \<Rightarrow> url \<Rightarrow> string option \<Rightarrow> body io" where
  "download a u pwd =
     (case from_url u of
        Inl msg \<Rightarrow> raise (ValueError msg)
      | Inr c \<Rightarrow> bnd (gets (\<lambda>w. (w_clouds w, w_conf w))) (\<lambda>(clouds, conf).
          let entry = (if ci_bucket c \<noteq> [] then get_by_name clouds (ci_bucket c) (ci_type c)
                       else get_cloud_entry clouds (if ci_type c = CLOUD_TYPE_S3 then cf_s3_id conf else cf_gcs_id conf));
              c' = fill_in entry c
          in if ci_bucket c' = [] then raise (ValueError ''The bucket name is required.'')
             else send_get (cloud_exe (ci_type c)) a c' pwd))"

definition local_path :: "agent \<Rightarrow> string \<Rightarrow> string" where
  "local_path a path = (if starts_with ''/.'' path \<or> ag_iswin a then drop 1 path else path)"

definition restore_url :: "agent \<Rightarrow> url \<Rightarrow> int option \<Rightarrow> bool \<Rightarrow> string option \<Rightarrow> body io" where
  "restore_url a u userid data_only password =
     (let path = unquote (url_pth u) in
      if url_sch u = ''file'' then
        bnd (gets w_db) (\<lambda>db.
          if url_host u \<noteq> [] \<and> get_agentid_from_host db (url_host u) \<noteq> Some (ag_agentid a)
          then ret [''status'' \<mapsto> JStr ''FAILED'', ''error'' \<mapsto> JStr ''Cannot yet restore by URL from a worker.'']
          else restore_local a (local_path a path) userid data_only password)
      else if url_sch u \<in> {''s3'', ''gcs''} then
        bnd (download a u None) (\<lambda>b.
          if failed b then ret b
          else (case b ''path'' of
              None \<Rightarrow> raise (KeyError ''path'')
            | Some p \<Rightarrow> bnd (restore_local a (jshow p) userid data_only password) (\<lambda>rb.
                sq (bnd (fm_delete a (jshow p)) (\<lambda>_. ret ())) (ret rb))))
      else restore_local a path userid data_only password)"

section \<open>tabcmd\<close>

definition tabcmd_command :: "string \<Rightarrow> string \<Rightarrow> string \<Rightarrow> string \<Rightarrow> nat \<Rightarrow> string" where
  "tabcmd_command args user pw url timeout =
     ''tabcmd '' @ args @ '' -u '' @ user @ '' --password '' @ pw @ '' --no-cookie --server '' @ url @
     '' --no-certcheck --timeout '' @ nat_str timeout"

definition tabcmd :: "string \<Rightarrow> agent \<Rightarrow> body io" where
  "tabcmd args a =
     bnd (gets w_conf) (\<lambda>c.
       case (case map_of (cf_credentials c) ''primary'' of
               None \<Rightarrow> map_of (cf_credentials c) ''secondary'' | x \<Rightarrow> x) of
         None \<Rightarrow> ret (error_body ''No credentials found.'')
       | Some (user, pw) \<Rightarrow>
           if user = [] \<or> pw = [] then ret (error_body ''Invalid credentials.'')
           else (case (case truthy_str (cf_tableau_internal_server_url c) of
                         None \<Rightarrow> truthy_str (cf_tableau_server_url c) | u \<Rightarrow> u) of
               None \<Rightarrow> ret (error_body ''No local URL available.'')
             | Some url \<Rightarrow>
                 cli_cmd (tabcmd_command args user pw url (cf_tabcmd_timeout c)) a Map.empty False (cf_tabcmd_timeout c)))"

definition public_url :: "conf \<Rightarrow> (string \<Rightarrow> string option) \<Rightarrow> string option" where
  "public_url c yml =
     (case truthy_str (cf_tableau_server_url c) of
        Some u \<Rightarrow> Some u
      | None \<Rightarrow> truthy_str (yml ''svcmonitor.notification.smtp.canonical_url''))"

section \<open>The URL of a file\<close>

text \<open>\<open>urllib.quote\<close>: as \<open>quote_plus\<close>, but a slash is kept and a blank is escaped.\<close>

definition quote_path_char :: "char \<Rightarrow> string" where
  "quote_path_char c =
     (let n = (of_char c :: nat) in
      if is_alpha c \<or> is_digit c \<or> c \<in> {CHR ''_'', CHR ''.'', CHR ''-'', CHR ''/''} then [c]
      else [CHR ''%'', hex_digit (n div 16), hex_digit (n mod 16)])"

definition quote_path :: "string \<Rightarrow> string" where
  "quote_path s = concat (map quote_path_char s)"

definition forward_slashes :: "string \<Rightarrow> string" where
  "forward_slashes = map (\<lambda>c. if c = CHR 0x5C then CHR ''/'' else c)"

definition cloud_scheme :: "cloud \<Rightarrow> string option" where
  "cloud_scheme c =
     (if cl_type c = CLOUD_TYPE_S3 then Some ''s3'' else if cl_type c = CLOUD_TYPE_GCS then Some ''gs'' else None)"

text \<open>\<open>None\<close> for a storage entry that is gone; the TypeError of an unknown cloud type is not one.\<close>

definition file_url :: "world \<Rightarrow> file_entry \<Rightarrow> string option" where
  "file_url w f =
     (case fe_storage_type f of
        STORAGE_TYPE_VOL \<Rightarrow>
          (case get_vol_entry_by_volid (w_vols w) (fe_storageid f) of
             None \<Rightarrow> None
           | Some v \<Rightarrow>
               (case get_by_id (w_db w) (vol_agentid v) of
                  None \<Rightarrow> None
                | Some a \<Rightarrow> Some (''file://'' @ (if ag_fqdn a \<noteq> [] then ag_fqdn a else ag_hostname a) @ ''/'' @
                              quote_path (forward_slashes (fe_name f)))))
      | STORAGE_TYPE_CLOUD \<Rightarrow>
          (case get_by_cloudid (w_clouds w) (fe_storageid f) of
             None \<Rightarrow> None
           | Some c \<Rightarrow> map_option (\<lambda>s. s @ ''://'' @ cl_bucket c @ ''/'' @ fe_name f) (cloud_scheme c)))"

lemma digit_val_hex [simp]: "n < 16 \<Longrightarrow> digit_val (hex_digit n) = Some n"
  by (auto simp: digit_val_def hex_digit_def)

lemma unquote_plain [simp]: "c \<noteq> CHR ''%'' \<Longrightarrow> unquote (c # s) = c # unquote s"
  by (cases s; cases "tl s") auto

lemma unquote_escape [simp]:
  "unquote (CHR ''%'' # hex_digit ((of_char c :: nat) div 16) # hex_digit ((of_char c :: nat) mod 16) # s) = c # unquote s"
proof -
  have "(of_char c :: nat) div 16 < 16" using nat_of_char_less_256 [of c] by (simp add: less_mult_imp_div_less)
  moreover have "16 * ((of_char c :: nat) div 16) + (of_char c :: nat) mod 16 = of_char c" by simp
  ultimately show ?thesis by simp
qed

lemma percent_not_safe: "is_alpha c \<or> is_digit c \<or> c \<in> {CHR ''_'', CHR ''.'', CHR ''-'', CHR ''/''} \<Longrightarrow> c \<noteq> CHR ''%''"
  by (auto simp: is_alpha_def is_digit_def)

lemma unquote_quote_path: "unquote (quote_path s @ t) = s @ unquote t"
proof (induction s)
  case Nil
  then show ?case by (simp add: quote_path_def)
next
  case (Cons c s)
  have "unquote (quote_path_char c @ u) = c # unquote u" for u
    using percent_not_safe [of c] by (auto simp: quote_path_char_def Let_def simp del: unquote.simps)
  with Cons show ?case by (simp add: quote_path_def)
qed

lemma of_hex_digit: "n < 16 \<Longrightarrow> (of_char (hex_digit n) :: nat) = (if n < 10 then 48 + n else 55 + n)"
  by (simp add: hex_digit_def)

lemma hex_digit_plain: "n < 16 \<Longrightarrow> hex_digit n \<noteq> CHR ''?'' \<and> hex_digit n \<noteq> CHR ''#''"
  using of_hex_digit [of n] by (intro conjI notI) (simp_all split: if_splits)

lemma quote_path_char_plain: "c \<in> set (quote_path_char d) \<Longrightarrow> c \<noteq> CHR ''?'' \<and> c \<noteq> CHR ''#''"
  using hex_digit_plain [of "of_char d div 16"] hex_digit_plain [of "of_char d mod 16"] nat_of_char_less_256 [of d]
  by (auto simp: quote_path_char_def Let_def is_alpha_def is_digit_def less_mult_imp_div_less split: if_splits)

lemma quote_path_plain: "c \<in> set (quote_path s) \<Longrightarrow> c \<noteq> CHR ''?'' \<and> c \<noteq> CHR ''#''"
  by (auto simp: quote_path_def dest: quote_path_char_plain)

text \<open>A host name as the agents report them.\<close>

definition host_ok :: "string \<Rightarrow> bool" where
  "host_ok h \<longleftrightarrow> h \<noteq> [] \<and> list_all (\<lambda>c. c \<notin> {CHR ''/'', CHR ''?'', CHR ''#'', CHR ''@'', CHR '':''}) h"

lemma host_ok_takeWhile:
  assumes "host_ok h"
  shows "takeWhile (\<lambda>c. c \<noteq> CHR ''/'' \<and> c \<noteq> CHR ''?'' \<and> c \<noteq> CHR ''#'') (h @ CHR ''/'' # s) = h"
    and "CHR ''@'' \<notin> set h"
    and "takeWhile (\<lambda>c. c \<noteq> CHR '':'') h = h"
    and "takeWhile (\<lambda>c. c \<noteq> CHR ''@'') (rev h) = rev h"
  using assms by (auto simp: host_ok_def list_all_iff takeWhile_append2 takeWhile_eq_all_conv)

lemma split_scheme_file: "split_scheme (''file://'' @ s) = (''file'', ''//'' @ s)"
  and split_scheme_gs: "split_scheme (''gs://'' @ s) = (''gs'', ''//'' @ s)"
  by (simp_all add: split_scheme_def Let_def scheme_char_def is_alpha_def is_digit_def lower_def lower_char_def)

lemma urlsplit_host:
  assumes "split_scheme u = (sch, ''//'' @ h @ CHR ''/'' # s)" and "host_ok h"
    and "\<And>c. c \<in> set s \<Longrightarrow> c \<noteq> CHR ''?'' \<and> c \<noteq> CHR ''#''"
  shows "urlsplit u =
           \<lparr>url_sch = sch, url_user = [], url_pass = [], url_host = lower h, url_pth = CHR ''/'' # s\<rparr>"
proof -
  have all: "takeWhile (\<lambda>c. c \<noteq> CHR ''?'' \<and> c \<noteq> CHR ''#'') (CHR ''/'' # s) = CHR ''/'' # s"
    using assms(3) by (auto simp: takeWhile_eq_all_conv)
  show ?thesis
    using all unfolding urlsplit_def assms(1)
    by (simp add: Let_def host_ok_takeWhile [OF assms(2)] before_last_def after_last_def)
qed

text \<open>C18: On a Windows agent, restoring from the URL that the table of files gives for a backup
  (\<open>FileEntry.url\<close>) on the primary is restoring from that very file: quoting and unquoting, the
  leading slash of the path and the test of the host name cancel out, and only the back slashes of
  the name have become slashes.\<close>

theorem file_url_roundtrip:
  assumes "fe_storage_type f = STORAGE_TYPE_VOL"
    and "get_vol_entry_by_volid (w_vols w) (fe_storageid f) = Some v"
    and "get_by_id (w_db w) (vol_agentid v) = Some a" and "ag_iswin a"
    and "host_ok (ag_fqdn a)"
    and "get_agentid_from_host (w_db w) (lower (ag_fqdn a)) = Some (ag_agentid a)"
    and "file_url w f = Some u"
  shows "restore_url a (urlsplit u) userid data_only pw w =
         restore_local a (forward_slashes (fe_name f)) userid data_only pw w"
proof -
  have u: "u = ''file://'' @ ag_fqdn a @ CHR ''/'' # quote_path (forward_slashes (fe_name f))"
    using assms by (simp add: file_url_def host_ok_def)
  have split: "urlsplit u =
      \<lparr>url_sch = ''file'', url_user = [], url_pass = [], url_host = lower (ag_fqdn a),
       url_pth = CHR ''/'' # quote_path (forward_slashes (fe_name f))\<rparr>"
    unfolding u by (rule urlsplit_host [OF split_scheme_file assms(5)]) (rule quote_path_plain)
  have unq: "unquote (CHR ''/'' # quote_path s) = CHR ''/'' # s" for s
    using unquote_quote_path [of s "[]"] by simp
  show ?thesis using assms(4,6)
    by (simp add: split restore_url_def Let_def unq local_path_def bnd_def gets_def del: unquote.simps)
qed

section \<open>What the commands leave alone\<close>

context traffic
begin

lemma moves_size_of_file [drift]: "moves f V (size_of_file a p)"
proof -
  have b: "moves f V (if failed b then ret 0 else (case b ''size'' of
      Some (JInt n) \<Rightarrow> ret n | None \<Rightarrow> raise (KeyError ''size'') | Some _ \<Rightarrow> raise (TypeError ''size'')))" for b
    by (simp add: moves_pure split: option.split jval.split)
  show ?thesis unfolding size_of_file_def by (rule drift b)+
qed

lemma moves_backup_cmd [drift]: "moves f V (backup_cmd a u)"
proof -
  have r: "moves f V (backup_report a d p sz n pl b)" for d p sz n pl b
    unfolding backup_report_def by (rule drift)+
  have w: "moves f V (backup_with a au d p)" for au d p
    unfolding backup_with_def by (rule drift r)+
  show ?thesis unfolding backup_cmd_def by (rule drift w)+
qed

lemma moves_fold_m: "(\<And>x acc. moves f V (g x acc)) \<Longrightarrow> moves f V (fold_m g xs acc)"
  by (induction xs arbitrary: acc) (auto intro: drift)

lemma moves_file_rotate [drift]: "moves f V (file_rotate n fm nm ty)"
proof -
  have r: "moves f V (rotate_one e i)" for e i unfolding rotate_one_def by (rule drift)+
  show ?thesis unfolding file_rotate_def by (rule drift moves_fold_m r)+
qed

lemma moves_rotate [drift]: "moves f V rotate_backups" "moves f V rotate_ziplogs"
  unfolding rotate_backups_def rotate_ziplogs_def rotate_def by (rule drift)+

lemma moves_ziplogs_cmd [drift]: "moves f V (ziplogs_cmd a u)"
proof -
  have r: "moves f V (gen_result x y b d u)" for x y b d u unfolding gen_result_def by (rule drift)+
  have z: "moves f V (ziplogs_finish a d p au b)" for d p au b unfolding ziplogs_finish_def by (rule drift)+
  show ?thesis unfolding ziplogs_cmd_def by (rule drift r z)+
qed

lemma moves_cleanup_cmd [drift]: "moves f V (cleanup_cmd a u)"
  unfolding cleanup_cmd_def gen_result_def by (rule drift)+

lemma moves_tabcmd [drift]: "moves f V (tabcmd args a)"
  unfolding tabcmd_def by (rule drift)+

lemma moves_download [drift]: "moves f V (download a u pwd)"
  unfolding download_def by (rule drift)+

end

text \<open>A component that also puts up with the main state being set to one of \<open>S\<close>.\<close>

locale stateful_traffic = traffic +
  fixes S :: "mstate set"
  assumes stated: "s \<in> S \<Longrightarrow> f (w\<lparr>w_state := Some s\<rparr>) \<in> insert (f w) V"
begin

lemma moves_update_state: "s \<in> S \<Longrightarrow> moves f V (update_state s)"
  using stated by (simp add: moves_def update_state_def)

lemma moves_restore_local:
  assumes "STATE_STOPPING_RESTORE \<in> S" and "STATE_STARTING_RESTORE \<in> S"
  shows "moves f V (restore_local a p u d pw)"
proof -
  note s = assms [THEN moves_update_state]
  have t: "moves f V get_tableau_status" unfolding get_tableau_status_def by (rule drift)+
  have r: "moves f V (restore_run a p d pw)" unfolding restore_run_def by (rule drift s)+
  show ?thesis unfolding restore_local_def by (rule drift s r t)+
qed

lemma moves_restore_cleanup: "moves f V (restore_cleanup a g b)"
  unfolding restore_cleanup_def by (rule drift)+

lemma moves_restore_cmd:
  assumes "STATE_STOPPING_RESTORE \<in> S" and "STATE_STARTING_RESTORE \<in> S" and "s \<in> S"
  shows "moves f V (restore_cmd a p s d u pw)"
  unfolding restore_cmd_def
  by (rule drift moves_update_state [OF assms(3)] moves_restore_cleanup moves_restore_local [OF assms(1,2)])+

lemma moves_restore_url:
  assumes "STATE_STOPPING_RESTORE \<in> S" and "STATE_STARTING_RESTORE \<in> S"
  shows "moves f V (restore_url a x u d pw)"
  unfolding restore_url_def by (rule drift moves_restore_local [OF assms])+

end

interpretation any_locks: stateful_traffic locks "{}" UNIV
  by unfold_locales (simp add: locks_def)

interpretation any_state: stateful_traffic cur_state "insert STATE_DISCONNECTED S" S for S
  by unfold_locales (simp_all add: cur_state_def)

section \<open>Rotation\<close>

text \<open>The rows a rotation may remove, and those it must not.\<close>

definition old_rows :: "int \<Rightarrow> file_entry list \<Rightarrow> file_entry list" where
  "old_rows n xs = (if n = -1 then [] else take (nat (int (length xs) - n)) xs)"

definition newest :: "int \<Rightarrow> file_entry list \<Rightarrow> file_entry list" where
  "newest n xs = (if n = -1 then xs else drop (nat (int (length xs) - n)) xs)"

definition without :: "nat set \<Rightarrow> file_entry list \<Rightarrow> file_entry list" where
  "without D = filter (\<lambda>f. fe_fileid f \<notin> D)"

lemma old_newest: "old_rows n xs @ newest n xs = xs"
  by (simp add: old_rows_def newest_def)

lemma without_empty [simp]: "without {} xs = xs"
  by (simp add: without_def)

lemma without_without [simp]: "without D (without E xs) = without (E \<union> D) xs"
  by (auto simp: without_def intro: filter_cong)

lemma keeps_files_small:
  "keeps w_files (delete_cloud_file_by_file_entry f)"
  unfolding delete_cloud_file_by_file_entry_def boto_delete_def by (rule frame | simp)+

lemma delfile_files:
  "wp (delfile_by_entry f) (\<lambda>r w'. w_files w' = w_files w \<or> w_files w' = without {fe_fileid f} (w_files w)) w"
proof -
  have c: "keeps w_files (attempt is_io (delete_cloud_file_by_file_entry f))"
    unfolding attempt_def by (rule frame keeps_files_small)+
  have r: "wp (files_remove (fe_fileid f)) Q v = Q (Inr ()) (v\<lparr>w_files := without {fe_fileid f} (w_files v)\<rparr>)" for Q v
    by (simp add: files_remove_def wp_modify without_def)
  show ?thesis
    by (auto simp: delfile_by_entry_def wp_simps r split: option.split sum.split
        intro!: wp_keeps [OF c] wp_keeps [OF keeps_files_delete] wp_keeps [OF keeps_lookups(1)])
qed

lemma rotate_one_files:
  assumes "rotate_one f info w = (r, w')"
  shows "\<exists>D \<subseteq> {fe_fileid f}. w_files w' = without D (w_files w)"
proof -
  have n: "keeps w_files (need_body b)" for b unfolding need_body_def by (rule frame)+
  have "wp (rotate_one f info) (\<lambda>r w'. w_files w' = w_files w \<or> w_files w' = without {fe_fileid f} (w_files w)) w"
    unfolding rotate_one_def wp_bnd
    by (rule wp_mono [OF delfile_files])
      (auto split: sum.split intro!: wp_keeps [OF n] wp_keeps [where f = w_files, OF _] frame)
  from wp_run [OF this assms] show ?thesis
    by (metis empty_subsetI subset_refl without_empty)
qed

lemma fold_rotate_files:
  "fold_m rotate_one fs info w = (r, w') \<Longrightarrow> \<exists>D \<subseteq> fe_fileid ` set fs. w_files w' = without D (w_files w)"
proof (induction fs arbitrary: info w)
  case Nil
  then show ?case by (auto simp: ret_def)
next
  case (Cons f fs)
  obtain q v where one: "rotate_one f info w = (q, v)" by fastforce
  from rotate_one_files [OF this] obtain D where D: "D \<subseteq> {fe_fileid f}" "w_files v = without D (w_files w)" by auto
  show ?case
  proof (cases q)
    case (Inl e)
    with Cons.prems one have "w' = v" by (simp add: bnd_def)
    with D show ?thesis by (intro exI [of _ D]) auto
  next
    case (Inr i)
    with Cons.prems one have "fold_m rotate_one fs i v = (r, w')" by (simp add: bnd_def)
    from Cons.IH [OF this] D obtain E where "E \<subseteq> fe_fileid ` set fs" "w_files w' = without (D \<union> E) (w_files w)" by auto
    with D show ?thesis by (intro exI [of _ "D \<union> E"]) auto
  qed
qed

lemma file_rotate_files:
  assumes "file_rotate n fm nm ty w = (r, w')"
  shows "\<exists>D \<subseteq> fe_fileid ` set (old_rows n (fm (w_files w))). w_files w' = without D (w_files w)"
  using assms fold_rotate_files
  by (fastforce simp: file_rotate_def bnd_def gets_def ret_def old_rows_def split: if_splits)

lemma newest_stays:
  assumes "distinct (map fe_fileid fs)" and "D \<subseteq> fe_fileid ` set (old_rows n (filter P fs))"
  shows "set (newest n (filter P fs)) \<subseteq> set (without D fs)"
proof
  fix f assume f: "f \<in> set (newest n (filter P fs))"
  have "distinct (map fe_fileid (old_rows n (filter P fs) @ newest n (filter P fs)))"
    using assms(1) by (simp add: old_newest distinct_map_filter)
  then have "fe_fileid ` set (old_rows n (filter P fs)) \<inter> fe_fileid ` set (newest n (filter P fs)) = {}"
    by simp
  then have "fe_fileid f \<notin> fe_fileid ` set (old_rows n (filter P fs))" using f by blast
  moreover have "f \<in> set fs"
    using f by (auto simp: newest_def split: if_splits dest: in_set_dropD)
  ultimately show "f \<in> set (without D fs)" using assms(2) by (auto simp: without_def)
qed

lemma other_rows_stay:
  assumes "distinct (map fe_fileid fs)" and "D \<subseteq> fe_fileid ` set (old_rows n (filter P fs))"
    and "\<And>f. P f \<Longrightarrow> \<not> Q f"
  shows "filter Q (without D fs) = filter Q fs"
proof -
  have "fe_fileid f \<notin> D" if f: "f \<in> set fs" "Q f" for f
  proof
    assume "fe_fileid f \<in> D"
    with assms(2) obtain g where g: "g \<in> set (old_rows n (filter P fs))" "fe_fileid g = fe_fileid f" by auto
    then have "g \<in> set fs" "P g" by (auto simp: old_rows_def split: if_splits dest: in_set_takeD)
    with f g(2) assms(1,3) show False by (auto simp: distinct_map dest: inj_onD)
  qed
  then show ?thesis by (auto simp: without_def intro: filter_cong)
qed

lemma distinct_without: "distinct (map fe_fileid fs) \<Longrightarrow> distinct (map fe_fileid (without D fs))"
  by (simp add: without_def distinct_map_filter)

text \<open>What a rotation of the files of a type promises, from the table \<open>fs\<close> to \<open>fs'\<close>.\<close>

definition rotated :: "string \<Rightarrow> int \<Rightarrow> int \<Rightarrow> file_entry list \<Rightarrow> file_entry list \<Rightarrow> bool" where
  "rotated ty auto_retain user_retain fs fs' \<longleftrightarrow>
     set (newest auto_retain (find_by_auto_envid ty fs)) \<subseteq> set fs' \<and>
     set (newest user_retain (find_by_non_auto_envid ty fs)) \<subseteq> set fs' \<and>
     filter (\<lambda>f. fe_file_type f \<noteq> ty) fs' = filter (\<lambda>f. fe_file_type f \<noteq> ty) fs"

lemma rotate_rotated:
  assumes "distinct (map fe_fileid (w_files w))" and "rotate ty m n w = (r, w')"
  shows "rotated ty m n (w_files w) (w_files w')"
proof -
  let ?fs = "w_files w" and ?P = "\<lambda>f. fe_file_type f = ty \<and> fe_auto f" and ?Q = "\<lambda>f. fe_file_type f = ty \<and> \<not> fe_auto f"
  have kinds: "find_by_auto_envid ty = filter ?P" "find_by_non_auto_envid ty = filter ?Q"
    by (simp_all add: find_by_auto_envid_def find_by_non_auto_envid_def)
  obtain q v where one: "file_rotate m (filter ?P) ''scheduled'' ty w = (q, v)" by fastforce
  from file_rotate_files [OF this] obtain D
    where D: "D \<subseteq> fe_fileid ` set (old_rows m (filter ?P ?fs))" "w_files v = without D ?fs" by auto
  note auto1 = newest_stays [OF assms(1) D(1)] and user1 = other_rows_stay [OF assms(1) D(1)]
  have user: "filter ?Q (without D ?fs) = filter ?Q ?fs"
    and others: "filter (\<lambda>f. fe_file_type f \<noteq> ty) (without D ?fs) = filter (\<lambda>f. fe_file_type f \<noteq> ty) ?fs"
    by (rule user1, simp)+
  note distinct' = distinct_without [OF assms(1), of D]
  have "w' = v \<or> (\<exists>r'. file_rotate n (filter ?Q) ''user generated'' ty v = (r', w'))"
    using assms(2) one by (auto simp: rotate_def bnd_def kinds ret_def split: sum.splits prod.splits)
  then have "\<exists>E \<subseteq> fe_fileid ` set (old_rows n (filter ?Q (w_files v))). w_files w' = without E (w_files v)"
  proof
    assume "w' = v"
    then show ?thesis by (intro exI [of _ "{}"]) simp
  qed (blast dest: file_rotate_files)
  then obtain E where E: "E \<subseteq> fe_fileid ` set (old_rows n (filter ?Q (without D ?fs)))" "w_files w' = without E (without D ?fs)"
    unfolding D(2) by blast
  have "set (newest n (filter ?Q ?fs)) \<subseteq> set (w_files w')"
    using newest_stays [OF distinct' E(1)] by (simp add: E(2) user)
  moreover have auto2: "filter ?P (w_files w') = filter ?P (without D ?fs)"
    and others2: "filter (\<lambda>f. fe_file_type f \<noteq> ty) (w_files w') = filter (\<lambda>f. fe_file_type f \<noteq> ty) (without D ?fs)"
    unfolding E(2) by (rule other_rows_stay [OF distinct' E(1)], simp)+
  moreover have "set (newest m (filter ?P ?fs)) \<subseteq> set (filter ?P (without D ?fs))"
    using auto1 by (auto simp: newest_def split: if_splits dest: in_set_dropD)
  then have "set (newest m (filter ?P ?fs)) \<subseteq> set (w_files w')"
    unfolding auto2 [symmetric] by auto
  ultimately show ?thesis unfolding rotated_def kinds others [symmetric] by blast
qed

text \<open>C7: The rotation of backups never removes one of the newest backups that the configuration
  says to retain, counted apart for scheduled ones and those of users, and never touches a file of
  another type, whatever the agents and clouds answer and even if it breaks off with an exception.\<close>

theorem rotate_backups_retains:
  assumes "distinct (map fe_fileid (w_files w))" and "rotate_backups w = (r, w')"
  shows "rotated FILE_TYPE_BACKUP (cf_backup_auto_retain (w_conf w)) (cf_backup_user_retain (w_conf w))
           (w_files w) (w_files w')"
  using assms rotate_rotated by (simp add: rotate_backups_def bnd_def)

definition cloud_a :: cloud where
  "cloud_a = \<lparr>cl_cloudid = 3, cl_type = CLOUD_TYPE_S3, cl_name = ''store'', cl_bucket = ''store'',
     cl_access_key = ''k'', cl_secret_key = ''s''\<rparr>"

definition backup_row :: "nat \<Rightarrow> file_entry" where
  "backup_row i = \<lparr>fe_fileid = i, fe_name = ''b'', fe_file_type = FILE_TYPE_BACKUP, fe_storage_type = STORAGE_TYPE_CLOUD,
     fe_storageid = 3, fe_size = 10, fe_auto = True, fe_encrypted = False\<rparr>"

definition world_rotate :: world where
  "world_rotate = world1\<lparr>w_conf := conf0\<lparr>cf_backup_auto_retain := 1, cf_backup_user_retain := 1\<rparr>,
     w_files := [backup_row 1, backup_row 2], w_clouds := [cloud_a], w_boto := [None]\<rparr>"

lemma rotate_backups_run:
  "\<exists>r w'. rotate_backups world_rotate = (r, w') \<and> w_files w' = [backup_row 2]"
  by (simp add: rotate_backups_def rotate_def file_rotate_def rotate_one_def delfile_by_entry_def attempt_def catch_def
      delete_cloud_file_by_file_entry_def boto_delete_def files_remove_def need_body_def bnd_def sq_def
      world_rotate_def backup_row_def cloud_a_def find_by_auto_envid_def find_by_non_auto_envid_def get_by_cloudid_def
      FILE_TYPE_BACKUP_def CLOUD_TYPE_S3_def fold_m.simps)

theorem rotate_backups_retains_witness:
  "\<exists>r w'. rotate_backups world_rotate = (r, w') \<and> w_files w' = [backup_row 2] \<and>
     rotated FILE_TYPE_BACKUP 1 1 (w_files world_rotate) (w_files w')"
proof -
  obtain r w' where run: "rotate_backups world_rotate = (r, w')" "w_files w' = [backup_row 2]"
    using rotate_backups_run by blast
  from rotate_backups_retains [OF _ run(1)] run show ?thesis
    by (simp add: world_rotate_def backup_row_def)
qed

section \<open>The main state after a restore\<close>

lemma keeps_state_cleanup: "keeps cur_state (restore_cleanup a g b)"
proof -
  have h: "keeps cur_state (http_send a m u b)" for a m u b
    unfolding http_send_def by (auto intro!: frame split: netres.split)
  have "keeps cur_state (fm_filesize a q)" "keeps cur_state (fm_delete a q)" for a q
    unfolding fm_filesize_def file_action_def fm_delete_def by (rule frame h)+
  note d = this
  show ?thesis unfolding restore_cleanup_def delete_vol_file_def attempt_def need_body_def by (rule frame d)+
qed

lemma restore_cleanup_result: "restore_cleanup a g b w = (Inr b', w') \<Longrightarrow> failed b' = failed b"
  by (auto simp: restore_cleanup_def ret_def failed_def elim!: bnd_returnsE split: if_splits option.splits)

abbreviation restoring :: "mstate set" where
  "restoring \<equiv> {STATE_STARTING_RESTORE, STATE_DISCONNECTED}"

lemma lands_update_state: "s \<in> V \<Longrightarrow> lands cur_state V (update_state s)"
  by (simp add: lands_def update_state_def)

lemma lands_restore_run: "lands cur_state restoring (restore_run a p d pw)"
proof -
  have "moves cur_state {STATE_DISCONNECTED}
     (catch (cli_cmd c a e i t) is_http (\<lambda>e. ret (error_body (''HTTP Exception: '' @ exn_str e))))" for c e i t
    by (rule quiet_state.moves_to_agents drift)+
  note m = this
  show ?thesis
    unfolding restore_run_def
    by (rule lands_sq_moves, rule lands_update_state, simp, rule moves_mono, rule m, simp)
qed

lemma restore_local_state:
  assumes "restore_local a p u d pw w = (Inr b, w')" and "\<not> failed b"
  shows "cur_state w' \<in> restoring"
  using assms(1) unfolding restore_local_def
  by (elim sq_returnsE bnd_returnsE, simp only: split: if_split_asm)
    (auto elim!: sq_returnsE bnd_returnsE split: if_splits dest: landsD [OF lands_restore_run] simp: assms(2) ret_def)

text \<open>C8: After \<open>restore_cmd\<close> has returned a failure the main state is the one the caller
  started from, whatever was reached meanwhile; this is so even if the primary was lost on the
  way, when DISCONNECTED is overwritten.  After a success the state is still STARTING-RESTORE (or
  DISCONNECTED), for the status monitor to settle.\<close>

theorem restore_state:
  assumes "restore_cmd a path orig_state no_config userid pw w = (Inr b, w')"
  shows "if failed b then cur_state w' = orig_state else cur_state w' \<in> {STATE_STARTING_RESTORE, STATE_DISCONNECTED}"
proof -
  obtain x v where k: "(case x of
       Inl msg \<Rightarrow> sq (update_state orig_state) (ret (error_body (''restore_cmd failure: '' @ msg)))
     | Inr g \<Rightarrow> bnd (restore_local a (gf_primary_full_path g) userid no_config pw) (\<lambda>b.
         sq (when_m (failed b) (update_state orig_state)) (restore_cleanup a g b))) v = (Inr b, w')"
    using assms unfolding restore_cmd_def by (rule bnd_returnsE)
  show ?thesis
  proof (cases x)
    case (Inl msg)
    with k show ?thesis by (auto simp: update_state_def ret_def sq_def bnd_def)
  next
    case (Inr g)
    with k obtain b0 v1 v2 where
      r: "restore_local a (gf_primary_full_path g) userid no_config pw v = (Inr b0, v1)"
      and s: "when_m (failed b0) (update_state orig_state) v1 = (Inr (), v2)"
      and c: "restore_cleanup a g b0 v2 = (Inr b, w')"
      by (auto elim!: bnd_returnsE sq_returnsE)
    have "cur_state w' = cur_state v2" using keepsD [OF keeps_state_cleanup c] .
    moreover have "failed b = failed b0" using c by (rule restore_cleanup_result)
    moreover have "if failed b0 then cur_state v2 = orig_state else v2 = v1"
      using s by (auto simp: update_state_def ret_def split: if_splits)
    ultimately show ?thesis using restore_local_state [OF r] by auto
  qed
qed

theorem restore_state_witness:
  "\<exists>b w'. restore_cmd agent0 ''x'' STATE_STARTED False None None world1 = (Inr b, w') \<and> failed b \<and>
     cur_state w' = STATE_STARTED"
proof -
  obtain b w' where run: "restore_cmd agent0 ''x'' STATE_STARTED False None None world1 = (Inr b, w')" and f: "failed b"
    by (simp add: restore_cmd_def get_file_def attempt_def catch_def find_by_name_def bnd_def sq_def world1_def
        world0_def update_state_def)
  from restore_state [OF run] f run show ?thesis by auto
qed

section \<open>A backup and its row\<close>

lemma keeps_sizestr [frame]: "keeps f (sizestr n)"
  unfolding sizestr_def by (rule frame)+

lemma keeps_kept_disk_check: "keeps kept (disk_check a p ty n)"
proof -
  have m: "keeps kept (fm_mkdirs a p)" for a p
    unfolding fm_mkdirs_def file_action_def http_send_def
    by (auto intro!: frame keeps_kept_exchange split: netres.split)
  have l: "keeps kept (get_primary_loc a p n)" unfolding get_primary_loc_def by (rule frame)+
  have v: "keeps kept (config_vol_target a p ty n)"
    unfolding config_vol_target_def not_enough_def over_limit_def dest_not_found_def by (rule frame l)+
  have c: "keeps kept (config_cloud_target a p ty n)"
    unfolding config_cloud_target_def dest_not_found_def by (rule frame l)+
  have t: "keeps kept (case st of STORAGE_TYPE_VOL \<Rightarrow> config_vol_target a p ty n
      | STORAGE_TYPE_CLOUD \<Rightarrow> config_cloud_target a p ty n)" for st
    using v c by (cases st) simp_all
  show ?thesis unfolding disk_check_def disk_mkdirs_def attempt_def by (rule frame m t)+
qed

lemma keeps_kept_size: "keeps kept (size_of_file a p)"
proof -
  have s: "keeps kept (fm_filesize a p)"
    unfolding fm_filesize_def file_action_def http_send_def
    by (auto intro!: frame keeps_kept_exchange split: netres.split)
  have b: "keeps kept (if failed b then ret 0 else (case b ''size'' of
      Some (JInt n) \<Rightarrow> ret n | None \<Rightarrow> raise (KeyError ''size'') | Some _ \<Rightarrow> raise (TypeError ''size'')))" for b
    by (auto intro: frame split: option.split jval.split)
  show ?thesis unfolding size_of_file_def attempt_def need_body_def by (rule frame s b)+
qed

text \<open>What the answer of a backup says of the table of files.\<close>

definition backup_row_of :: "world \<Rightarrow> body \<Rightarrow> world \<Rightarrow> bool" where
  "backup_row_of w b w' \<longleftrightarrow>
     (\<exists>f. w_files w' = w_files w @ [f] \<and> b ''fileid'' = Some (JInt (int (fe_fileid f))) \<and>
          b ''destination_type'' = Some (JStr (storage_name (fe_storage_type f))))"

lemma backup_report_run:
  assumes "backup_report a d path sz n p b w = (Inr b', w')"
  obtains f where "pf_entry p = Some f" and "w' = w" and "failed b' = failed b"
    and "b' ''fileid'' = Some (JInt (int (fe_fileid f)))"
    and "b' ''destination_type'' = Some (JStr (storage_name (fe_storage_type f)))"
proof -
  have dest: "destination a d path p f k = None" if "k \<in> {''error'', ''fileid'', ''destination_type''}" for f k
    using that by (auto simp: destination_def split: option.split)
  have s: "v' = v" if "sizestr k v = (x, v')" for k v x v'
    using keepsD [OF keeps_sizestr [of id] that] by simp
  show thesis
    using assms that unfolding backup_report_def
    by (auto elim!: bnd_returnsE split: option.splits simp: ret_def dest failed_def map_add_def dest!: s)
qed

lemma backup_with_run:
  assumes "backup_with a auto d path w = (Inr b, w')"
  shows "if failed b then w_files w' = w_files w else backup_row_of w b w'"
proof -
  obtain b0 v where cmd: "cli_cmd (backup_command path) a Map.empty False TIMEOUT_BACKUP w = (Inr b0, v)"
    and k: "(if failed b0 then ret (backup_failed (w_now v - w_now w) b0)
       else bnd (size_of_file a path) (\<lambda>sz. bnd (place_file a d path sz auto) (\<lambda>p.
           backup_report a d path sz (w_now v - w_now w) p b0))) v = (Inr b, w')"
    using assms unfolding backup_with_def by (auto elim!: bnd_returnsE)
  have v: "w_files v = w_files w" using keepsD [OF keeps_kept_commands(1) cmd] by (auto dest: keptD)
  show ?thesis
  proof (cases "failed b0")
    case True
    with k v show ?thesis by (auto simp: ret_def backup_failed_def)
  next
    case False
    with k obtain sz v1 p v2 where s: "size_of_file a path v = (Inr sz, v1)"
      and p: "place_file a d path sz auto v1 = (Inr p, v2)"
      and r: "backup_report a d path sz (w_now v - w_now w) p b0 v2 = (Inr b, w')"
      by (auto elim!: bnd_returnsE)
    have "w_files v1 = w_files v" using keepsD [OF keeps_kept_size s] by (auto dest: keptD)
    moreover obtain f where "pf_entry p = Some f" "w' = v2" "failed b = failed b0"
      "b ''fileid'' = Some (JInt (int (fe_fileid f)))"
      "b ''destination_type'' = Some (JStr (storage_name (fe_storage_type f)))"
      using r by (rule backup_report_run)
    moreover have "placed_ok d path v1 (Inr p) v2" using wp_run [OF wp_place_file p] .
    ultimately show ?thesis using False v by (auto simp: placed_ok_def backup_row_of_def split: if_splits)
  qed
qed

lemma backup_cmd_run:
  assumes "backup_cmd a userid w = (Inr b, w')"
  shows "if failed b then w_files w' = w_files w else backup_row_of w b w'"
proof -
  have c: "keeps kept (attempt is_disk (disk_check a BACKUP_DIR FILE_TYPE_BACKUP (1024 * 1024)))"
    unfolding attempt_def by (rule frame keeps_kept_disk_check)+
  obtain x v where d: "attempt is_disk (disk_check a BACKUP_DIR FILE_TYPE_BACKUP (1024 * 1024)) w = (Inr x, v)"
    and k: "(case x of Inl msg \<Rightarrow> ret (error_body msg)
     | Inr d \<Rightarrow> bnd (gets (\<lambda>w. w_stamp w (w_now w))) (\<lambda>stamp.
         backup_with a (userid = None) d (backup_path a d (stamp @ ''.tsbak'')))) v = (Inr b, w')"
    using assms unfolding backup_cmd_def by (rule bnd_returnsE)
  have v: "w_files v = w_files w" using keepsD [OF c d] by (auto dest: keptD)
  then show ?thesis
  proof (cases x)
    case (Inl msg)
    with k v show ?thesis by (auto simp: ret_def)
  next
    case (Inr dc)
    with k obtain p where "backup_with a (userid = None) dc p v = (Inr b, w')" by (auto elim!: bnd_returnsE)
    from backup_with_run [OF this] v show ?thesis by (simp add: backup_row_of_def split: if_split_asm)
  qed
qed

text \<open>A backup that is answered without an error has added exactly one row to the table of
  files, and the answer names it and the kind of storage it is in; a backup that is answered with
  an error has added none.\<close>

theorem backup_adds_row:
  assumes "backup_cmd a userid w = (Inr b, w')"
  shows "if failed b then w_files w' = w_files w else backup_row_of w b w'"
  using assms by (rule backup_cmd_run)

text \<open>The table of files gives a backup in Google Cloud Storage a URL of the scheme \<open>gs\<close>, and
  the handler accepts it, but \<open>restore_url\<close> fetches only from \<open>s3\<close> and \<open>gcs\<close>: nothing is fetched,
  and \<open>tabadmin restore\<close> is run on the path within the bucket as if it were a file of the primary.\<close>

theorem restore_url_gs:
  assumes "fe_storage_type f = STORAGE_TYPE_CLOUD" and "get_by_cloudid (w_clouds w) (fe_storageid f) = Some c"
    and "cl_type c = CLOUD_TYPE_GCS" and "host_ok (cl_bucket c)"
    and "list_all (\<lambda>x. x \<noteq> CHR ''?'' \<and> x \<noteq> CHR ''#'') (fe_name f)"
    and "file_url w f = Some u"
  shows "restore_url a (urlsplit u) userid data_only pw w =
         restore_local a (CHR ''/'' # unquote (fe_name f)) userid data_only pw w"
proof -
  have u: "u = ''gs://'' @ cl_bucket c @ CHR ''/'' # fe_name f"
    using assms by (simp add: file_url_def cloud_scheme_def CLOUD_TYPE_GCS_def CLOUD_TYPE_S3_def)
  have "urlsplit u =
      \<lparr>url_sch = ''gs'', url_user = [], url_pass = [], url_host = lower (cl_bucket c), url_pth = CHR ''/'' # fe_name f\<rparr>"
    unfolding u by (rule urlsplit_host [OF split_scheme_gs assms(4)]) (use assms(5) in \<open>auto simp: list_all_iff\<close>)
  then show ?thesis by (simp add: restore_url_def)
qed

definition file_c :: file_entry where
  "file_c = \<lparr>fe_fileid = 1, fe_name = CHR ''C'' # CHR '':'' # CHR 0x5C # ''a b'', fe_file_type = FILE_TYPE_BACKUP,
     fe_storage_type = STORAGE_TYPE_VOL, fe_storageid = 7, fe_size = 10, fe_auto = True, fe_encrypted = False\<rparr>"

theorem file_url_roundtrip_witness:
  "file_url world_disk file_c = Some ''file://primary.local/C%3A/a%20b'' \<and>
   restore_url agent0 (urlsplit ''file://primary.local/C%3A/a%20b'') None False None world_disk =
   restore_local agent0 ''C:/a b'' None False None world_disk"
proof -
  have u: "file_url world_disk file_c = Some ''file://primary.local/C%3A/a%20b''"
    by (simp add: file_url_def file_c_def world_disk_def world1_def volume_c_def agent0_def get_vol_entry_by_volid_def
        get_by_id_def quote_path_def quote_path_char_def forward_slashes_def hex_digit_def is_alpha_def is_digit_def char_of_def bit_Suc_0_iff)
  have n: "forward_slashes (fe_name file_c) = ''C:/a b''" by (simp add: forward_slashes_def file_c_def)
  have h: "get_agentid_from_host (w_db world_disk) (lower (ag_fqdn agent0)) = Some (ag_agentid agent0)"
    by (simp add: get_agentid_from_host_def agent0_def lower_def lower_char_def world_disk_def world1_def is_ip_def
        is_space_def digit_val_def hostname_only_def upper_def upper_char_def)
  show ?thesis
    using u file_url_roundtrip [of file_c world_disk volume_c agent0, OF _ _ _ _ _ h u]
    by (simp add: n) (simp add: file_c_def world_disk_def world1_def volume_c_def agent0_def get_vol_entry_by_volid_def
        get_by_id_def host_ok_def)
qed

definition file_gs :: file_entry where
  "file_gs = file_c\<lparr>fe_name := ''b.tsbak'', fe_storage_type := STORAGE_TYPE_CLOUD, fe_storageid := 3\<rparr>"

definition world_gs :: world where
  "world_gs = world1\<lparr>w_clouds := [cloud_a\<lparr>cl_type := CLOUD_TYPE_GCS\<rparr>]\<rparr>"

theorem restore_url_gs_witness:
  "restore_url agent0 (urlsplit ''gs://store/b.tsbak'') None False None world_gs =
   restore_local agent0 ''/b.tsbak'' None False None world_gs"
proof -
  have u: "file_url world_gs file_gs = Some ''gs://store/b.tsbak''"
    by (simp add: file_url_def file_gs_def world_gs_def cloud_a_def get_by_cloudid_def cloud_scheme_def
        CLOUD_TYPE_GCS_def CLOUD_TYPE_S3_def)
  show ?thesis
    using restore_url_gs [of file_gs world_gs "cloud_a\<lparr>cl_type := CLOUD_TYPE_GCS\<rparr>", OF _ _ _ _ _ u]
    by (simp add: file_gs_def world_gs_def cloud_a_def get_by_cloudid_def host_ok_def)
qed

theorem backup_adds_row_witness:
  "\<exists>b w'. backup_cmd agent0 None (world_disk\<lparr>w_vols := []\<rparr>) = (Inr b, w') \<and> failed b \<and>
     w_files w' = w_files world_disk"
proof -
  obtain b w' where run: "backup_cmd agent0 None (world_disk\<lparr>w_vols := []\<rparr>) = (Inr b, w')" and f: "failed b"
    by (simp add: backup_cmd_def disk_check_def config_vol_target_def dest_not_found_def attempt_def catch_def bnd_def
        world_disk_def world1_def conf0_def get_vol_entry_by_volid_def is_disk_def)
  from backup_adds_row [OF run] f run show ?thesis by (auto simp: world_disk_def)
qed

end
