(* ===== verification/Licensing.thy ===== *)
theory Licensing
  imports StatusMonitor Files
begin

text \<open>
  \<open>licensing.py\<close>: the license of Tableau as \<open>tabadmin license\<close> reports it, the row kept of
  it, and the notification that goes red and green with it; and the alternation of such
  notifications, which the system information page shares.
\<close>

section \<open>Parsing the report\<close>

text \<open>
  The keyword arguments that \<open>parse\<close> returns and \<open>get\<close> takes: none, the two groups of the
  regular expression, or the two numbers of the core license.
\<close>

datatype license_data = NoLicense | NamedUser string string | Cores int int

text \<open>\<open>re.search\<close>: the first place where the pattern matches; digits are taken greedily.\<close>

definition license_match :: "string \<Rightarrow> (string \<times> string) option" where
  "license_match s =
     (let i = takeWhile is_digit s; r = dropWhile is_digit s in
      if i \<noteq> [] \<and> starts_with '' interactors, '' r then
        (let r2 = drop (length '' interactors, '') r; v = takeWhile is_digit r2 in
         if v \<noteq> [] \<and> starts_with '' viewers'' (dropWhile is_digit r2) then Some (i, v) else None)
      else None)"

fun license_search :: "string \<Rightarrow> (string \<times> string) option" where
  "license_search [] = None"
| "license_search (c # cs) =
     (case license_match (c # cs) of Some m \<Rightarrow> Some m | None \<Rightarrow> license_search cs)"

text \<open>\<open>output.splitlines()\<close>\<close>

definition is_newline :: "char \<Rightarrow> bool" where
  "is_newline c \<longleftrightarrow> (of_char c :: nat) \<in> {10, 11, 12, 13, 28, 29, 30, 133}"

fun lines_from :: "string \<Rightarrow> string \<Rightarrow> string list" where
  "lines_from cur [] = (if cur = [] then [] else [cur])"
| "lines_from cur [c] = (if is_newline c then [cur] else [cur @ [c]])"
| "lines_from cur (c # d # cs) =
     (if c = CHR 0x0D \<and> d = CHR 0x0A then cur # lines_from [] cs
      else if is_newline c then cur # lines_from [] (d # cs)
      else lines_from (cur @ [c]) (d # cs))"

definition splitlines :: "string \<Rightarrow> string list" where
  "splitlines s = lines_from [] s"

text \<open>\<open>line.split()[-3]\<close> and \<open>line.split()[-1]\<close>; \<open>NoLicense\<close> for IndexError and ValueError.\<close>

definition core_line :: "string \<Rightarrow> license_data" where
  "core_line line =
     (case rev (words line) of
        licenses # _ # used # _ \<Rightarrow>
          (case (parse_int used, parse_int licenses) of
             (Some c, Some l) \<Rightarrow> Cores c l
           | _ \<Rightarrow> NoLicense)
      | _ \<Rightarrow> NoLicense)"

definition parse :: "string \<Rightarrow> license_data" where
  "parse output =
     (case license_search output of
        Some (i, v) \<Rightarrow> NamedUser i v
      | None \<Rightarrow>
          if \<not> contains ''Cores used'' output then NoLicense
          else (case find (contains ''Cores used'') (splitlines output) of
              Some line \<Rightarrow> core_line line
            | None \<Rightarrow> NoLicense))"

section \<open>The row\<close>

definition LICENSE_TYPE_NAMED_USER :: string where "LICENSE_TYPE_NAMED_USER = ''Named-user''"
definition LICENSE_TYPE_CORE :: string where "LICENSE_TYPE_CORE = ''Core''"

definition new_license :: "nat \<Rightarrow> license" where
  "new_license i = \<lparr>li_agentid = i, li_type = None, li_interactors = None, li_viewers = None,
     li_cores = None, li_core_licenses = None\<rparr>"

text \<open>The assignments of \<open>LicenseEntry.get\<close>.\<close>

definition set_default :: "license \<Rightarrow> license" where
  "set_default e = e\<lparr>li_type := Some LICENSE_TYPE_NAMED_USER, li_cores := Some 0, li_core_licenses := Some 0\<rparr>"

fun set_license :: "license_data \<Rightarrow> license \<Rightarrow> license" where
  "set_license (NamedUser i v) e =
     (if isdigit i then
        (let e1 = e\<lparr>li_type := Some LICENSE_TYPE_NAMED_USER, li_interactors := Some (int (digits_value 0 i))\<rparr>;
             e2 = (if isdigit v then e1\<lparr>li_viewers := Some (int (digits_value 0 v))\<rparr> else e1)
         in e2\<lparr>li_cores := Some 0, li_core_licenses := Some 0\<rparr>)
      else set_default e)"
| "set_license (Cores c l) e =
     e\<lparr>li_type := Some LICENSE_TYPE_CORE, li_cores := Some c, li_core_licenses := Some l,
       li_interactors := Some 0, li_viewers := Some 0\<rparr>"
| "set_license NoLicense e = set_default e"

definition get_license :: "nat \<Rightarrow> license_data \<Rightarrow> license io" where
  "get_license i d =
     bnd (gets (\<lambda>w. find (\<lambda>e. li_agentid e = i) (w_licenses w))) (\<lambda>r. case r of
       None \<Rightarrow>
         (let e = set_license d (new_license i) in
          sq (modify (\<lambda>w. w\<lparr>w_licenses := w_licenses w @ [e]\<rparr>)) (ret e))
     | Some e \<Rightarrow>
         sq (modify (\<lambda>w. w\<lparr>w_licenses := map (\<lambda>x. if li_agentid x = i then set_license d x else x) (w_licenses w)\<rparr>))
            (ret (set_license d e)))"

definition some_of :: "int option \<Rightarrow> bool" where
  "some_of n = (case n of None \<Rightarrow> False | Some k \<Rightarrow> k \<noteq> 0)"

definition valid :: "license \<Rightarrow> bool" where
  "valid e =
     (if li_type e = Some LICENSE_TYPE_CORE then some_of (li_cores e)
      else if li_type e = Some LICENSE_TYPE_NAMED_USER then some_of (li_interactors e) \<or> some_of (li_viewers e)
      else if li_type e = None then True
      else li_interactors e = None \<and> li_viewers e = None \<and> li_cores e = None)"

definition opt_int_str :: "int option \<Rightarrow> string" where
  "opt_int_str n = (case n of None \<Rightarrow> ''None'' | Some k \<Rightarrow> int_str k)"

definition license_msg :: "license \<Rightarrow> string" where
  "license_msg e =
     ''License type: '' @ (case li_type e of None \<Rightarrow> ''None'' | Some t \<Rightarrow> t) @ '', '' @
     (if li_type e = Some LICENSE_TYPE_NAMED_USER then
        ''interactors: '' @ opt_int_str (li_interactors e) @ '', viewers: '' @ opt_int_str (li_viewers e)
      else if li_type e = Some LICENSE_TYPE_CORE then
        ''cores used: '' @ opt_int_str (li_cores e) @ '' of '' @ opt_int_str (li_core_licenses e)
      else
        ''interactors: '' @ opt_int_str (li_interactors e) @ '', viewers: '' @ opt_int_str (li_viewers e) @
        '', cores used: '' @ opt_int_str (li_cores e) @ '' of '' @ opt_int_str (li_core_licenses e))"

text \<open>\<open>license_data\<close> as the dictionary that \<open>check\<close> returns.\<close>

fun license_body :: "license_data \<Rightarrow> body" where
  "license_body NoLicense = Map.empty"
| "license_body (NamedUser i v) = [''interactors'' \<mapsto> JStr i, ''viewers'' \<mapsto> JStr v]"
| "license_body (Cores c l) = [''cores'' \<mapsto> JInt c, ''core-licenses'' \<mapsto> JInt l]"

section \<open>The check\<close>

definition license_eventit :: "agent \<Rightarrow> string \<Rightarrow> bool \<Rightarrow> unit io" where
  "license_eventit a msg ok =
     bnd (get_notification ''tlicense'' None) (\<lambda>n.
       if ok then
         when_m (nt_color n = Some ''red'') (seqs [
           gen EV_LICENSE_VALID ((agent_todict a)(''stdout'' \<mapsto> JStr msg)) None,
           set_notification ''tlicense'' None
             (\<lambda>n. n\<lparr>nt_color := Some ''green'', nt_notified_color := Some ''green'', nt_description := None\<rparr>),
           commit])
       else
         when_m (nt_color n \<noteq> Some ''red'') (seqs [
           gen EV_LICENSE_INVALID ((agent_todict a)(''error'' \<mapsto> JStr msg)) None,
           set_notification ''tlicense'' None
             (\<lambda>n. n\<lparr>nt_color := Some ''red'', nt_notified_color := Some ''red''\<rparr>),
           commit]))"

definition exited_nonzero :: "body \<Rightarrow> bool" where
  "exited_nonzero b = (case b ''exit-status'' of None \<Rightarrow> True | Some e \<Rightarrow> \<not> is_zero e)"

definition license_report :: "agent \<Rightarrow> license_data \<Rightarrow> body io" where
  "license_report a d =
     bnd (get_license (ag_agentid a) d) (\<lambda>e. sq commit
       (sq (license_eventit a (license_msg e) (valid e))
         (ret (if valid e then license_body d
               else error_body (''License invalid on '' @ display a @ '': '' @ license_msg e)))))"

definition license_check :: "agent \<Rightarrow> body io" where
  "license_check a =
     bnd (cli_cmd ''tabadmin license'' a Map.empty False (60 * 10)) (\<lambda>b.
       if exited_nonzero b then ret b
       else (case b ''stdout'' of
           None \<Rightarrow> ret b
         | Some (JStr output) \<Rightarrow> license_report a (parse output)
         | Some _ \<Rightarrow> raise (TypeError ''expected string or buffer'')))"

definition repair :: "agent \<Rightarrow> body io" where
  "repair a =
     (let data = agent_todict a in
      sq (gen EV_LICENSE_REPAIR_STARTED data None)
        (bnd (cli_cmd ''tabadmin license --repair_service'' a Map.empty False (60 * 10)) (\<lambda>b.
           sq (if exited_nonzero b then
                 gen EV_LICENSE_REPAIR_FAILED
                   (data(''status'' \<mapsto> JStr ''FAILED'',
                         ''error'' \<mapsto> (case b ''stderr'' of Some e \<Rightarrow> e | None \<Rightarrow> JStr ''License repair failed''))) None
               else gen EV_LICENSE_REPAIR_FINISHED (data(''status'' \<mapsto> JStr ''OK'')) None)
              (ret b))))"

section \<open>The search\<close>

text \<open>What the regular expression stands for.\<close>

definition license_text :: "string \<Rightarrow> string \<Rightarrow> string" where
  "license_text i v = i @ '' interactors, '' @ v @ '' viewers''"

lemma starts_with_iff: "starts_with p s \<longleftrightarrow> (\<exists>t. s = p @ t)"
  by (induction p s rule: starts_with.induct) auto

lemma span_digits:
  assumes "list_all is_digit i" and "r \<noteq> [] \<Longrightarrow> \<not> is_digit (hd r)"
  shows "takeWhile is_digit (i @ r) = i" and "dropWhile is_digit (i @ r) = r"
  using assms by (induction i) (cases r; simp)+

lemma license_match_iff:
  "license_match s = Some (i, v) \<longleftrightarrow> isdigit i \<and> isdigit v \<and> (\<exists>post. s = license_text i v @ post)"
proof
  assume m: "license_match s = Some (i, v)"
  let ?r = "dropWhile is_digit s"
  let ?r2 = "drop (length '' interactors, '') ?r"
  from m have i: "i = takeWhile is_digit s" "i \<noteq> []" and r: "starts_with '' interactors, '' ?r"
    and v: "v = takeWhile is_digit ?r2" "v \<noteq> []" and e: "starts_with '' viewers'' (dropWhile is_digit ?r2)"
    by (auto simp: license_match_def Let_def split: if_splits)
  from r e obtain t u where t: "?r = '' interactors, '' @ t" and u: "dropWhile is_digit ?r2 = '' viewers'' @ u"
    unfolding starts_with_iff by blast
  have "?r2 = t" unfolding t by simp
  then have "s = i @ '' interactors, '' @ v @ '' viewers'' @ u"
    using takeWhile_dropWhile_id [of is_digit s] takeWhile_dropWhile_id [of is_digit t] t u i(1) v(1) by metis
  moreover have "isdigit i" "isdigit v"
    using i v by (auto simp: isdigit_def list_all_iff dest: set_takeWhileD)
  ultimately show "isdigit i \<and> isdigit v \<and> (\<exists>post. s = license_text i v @ post)"
    unfolding license_text_def by auto
next
  assume "isdigit i \<and> isdigit v \<and> (\<exists>post. s = license_text i v @ post)"
  then obtain post where d: "isdigit i" "isdigit v" and s: "s = i @ '' interactors, '' @ v @ '' viewers'' @ post"
    by (auto simp: license_text_def)
  have sp: "\<not> is_digit (CHR '' '')" by (simp add: is_digit_def)
  have "takeWhile is_digit s = i" "dropWhile is_digit s = '' interactors, '' @ v @ '' viewers'' @ post"
    unfolding s using d sp span_digits [of i "'' interactors, '' @ v @ '' viewers'' @ post"]
    by (auto simp: isdigit_def)
  moreover have "takeWhile is_digit (v @ '' viewers'' @ post) = v"
      "dropWhile is_digit (v @ '' viewers'' @ post) = '' viewers'' @ post"
    using d sp span_digits [of v "'' viewers'' @ post"] by (auto simp: isdigit_def)
  ultimately show "license_match s = Some (i, v)"
    using d by (simp add: license_match_def Let_def isdigit_def)
qed

definition occurs :: "string \<Rightarrow> nat \<Rightarrow> string \<Rightarrow> string \<Rightarrow> bool" where
  "occurs s n i v \<longleftrightarrow>
     isdigit i \<and> isdigit v \<and> (\<exists>pre post. s = pre @ license_text i v @ post \<and> length pre = n)"

definition leftmost :: "string \<Rightarrow> string \<Rightarrow> string \<Rightarrow> bool" where
  "leftmost s i v \<longleftrightarrow> (\<exists>n. occurs s n i v \<and> (\<forall>m j u. occurs s m j u \<longrightarrow> n \<le> m))"

lemma occurs_Nil: "\<not> occurs [] n i v"
  by (auto simp: occurs_def license_text_def)

lemma occurs_0: "occurs s 0 i v \<longleftrightarrow> license_match s = Some (i, v)"
  by (auto simp: occurs_def license_match_iff)

lemma occurs_Suc: "occurs (c # cs) (Suc n) i v \<longleftrightarrow> occurs cs n i v"
proof -
  have "(\<exists>pre post. c # cs = pre @ license_text i v @ post \<and> length pre = Suc n) \<longleftrightarrow>
      (\<exists>pre post. cs = pre @ license_text i v @ post \<and> length pre = n)"
    by (auto simp: Cons_eq_append_conv length_Suc_conv)
  then show ?thesis by (simp add: occurs_def)
qed


section \<open>Notifications that go red and green\<close>

text \<open>
  A notification of a good or a bad condition: one row that is red after a bad report and
  not red after a good one, with an event only when that changes.  \<open>seen\<close> are the events of
  this notification.
\<close>

definition seen :: "ekey \<Rightarrow> ekey \<Rightarrow> world \<Rightarrow> ekey list" where
  "seen bad good w = filter (\<lambda>k. k = bad \<or> k = good) (map (\<lambda>e. case e of Event k d u \<Rightarrow> k) (w_events w))"

fun alternates :: "'a \<Rightarrow> 'a \<Rightarrow> 'a list \<Rightarrow> bool" where
  "alternates x y [] = True"
| "alternates x y (z # zs) = (z = x \<and> alternates y x zs)"

text \<open>One report after the other.\<close>

fun reports :: "('x \<Rightarrow> unit io) \<Rightarrow> 'x list \<Rightarrow> unit io" where
  "reports op [] = ret ()"
| "reports op (x # xs) = sq (op x) (reports op xs)"

locale edge_notifier =
  fixes op :: "'x \<Rightarrow> unit io" and ok :: "'x \<Rightarrow> bool" and inv red :: "world \<Rightarrow> bool" and bad good :: ekey
  assumes step: "inv w \<Longrightarrow> \<exists>w'. op x w = (Inr (), w') \<and> inv w' \<and> red w' = (\<not> ok x) \<and>
      seen bad good w' = seen bad good w @ (if ok x = red w then [if ok x then good else bad] else [])"
begin

lemma reports_alternate:
  "inv w \<Longrightarrow> \<exists>w' ks. reports op xs w = (Inr (), w') \<and> inv w' \<and>
     red w' = (if xs = [] then red w else \<not> ok (last xs)) \<and> seen bad good w' = seen bad good w @ ks \<and>
     (if red w then alternates good bad ks else alternates bad good ks)"
proof (induction xs arbitrary: w)
  case Nil
  then show ?case by simp
next
  case (Cons x xs)
  from step [OF Cons.prems, of x] obtain v where v: "op x w = (Inr (), v)" "inv v" "red v = (\<not> ok x)"
    "seen bad good v = seen bad good w @ (if ok x = red w then [if ok x then good else bad] else [])" by blast
  from Cons.IH [OF v(2)] obtain w' ks where w': "reports op xs v = (Inr (), w')" "inv w'"
    "red w' = (if xs = [] then red v else \<not> ok (last xs))" "seen bad good w' = seen bad good v @ ks"
    "if red v then alternates good bad ks else alternates bad good ks" by blast
  show ?case
    using v w' by (intro exI [of _ w'] exI [of _ "(if ok x = red w then [if ok x then good else bad] else []) @ ks"])
      (auto simp: sq_def bnd_def split: if_splits)
qed

end

text \<open>The row of a notification, and what the two assignments to it do.\<close>

definition red_row :: "string \<Rightarrow> world \<Rightarrow> bool" where
  "red_row name w \<longleftrightarrow> list_ex (\<lambda>n. nt_name n = name \<and> nt_color n = Some ''red'') (w_notifications w)"

definition one_row :: "string \<Rightarrow> world \<Rightarrow> bool" where
  "one_row name w \<longleftrightarrow> length (filter (\<lambda>n. nt_name n = name) (w_notifications w)) \<le> 1"

lemma nt_matches_name [simp]: "nt_matches name None = (\<lambda>n. nt_name n = name)"
  by (auto simp: nt_matches_def)

lemma filter_single_map:
  "filter P xs = [x] \<Longrightarrow> (\<And>y. P (g y) = P y) \<Longrightarrow> filter P (map (\<lambda>y. if P y then g y else y) xs) = [g x]"
  by (induction xs) (auto split: if_splits simp: filter_empty_conv)

lemma get_notification_run:
  assumes "one_row name w"
  obtains n ns where "get_notification name None w = (Inr n, w\<lparr>w_notifications := ns\<rparr>)"
    and "filter (\<lambda>n. nt_name n = name) ns = [n]" and "(nt_color n = Some ''red'') = red_row name w"
    and "n \<in> set (w_notifications w) \<or> n = new_notification name None"
    and "set ns \<subseteq> insert (new_notification name None) (set (w_notifications w))"
proof (cases "filter (\<lambda>n. nt_name n = name) (w_notifications w)")
  case Nil
  then show ?thesis
    by (intro that [of "new_notification name None" "w_notifications w @ [new_notification name None]"])
      (auto simp: get_notification_def bnd_def sq_def new_notification_def red_row_def list_ex_iff filter_empty_conv)
next
  case (Cons n ns)
  with assms have one: "filter (\<lambda>n. nt_name n = name) (w_notifications w) = [n]" by (simp add: one_row_def)
  then have "{m \<in> set (w_notifications w). nt_name m = name} = {n}"
    by (metis (full_types) empty_set list.simps(15) set_filter)
  then have "n \<in> set (w_notifications w) \<and> nt_name n = name \<and> (\<forall>m \<in> set (w_notifications w). nt_name m = name \<longrightarrow> m = n)"
    by blast
  with one show ?thesis
    by (intro that [of n "w_notifications w"]) (auto simp: get_notification_def bnd_def red_row_def list_ex_iff)
qed

lemma red_of_row:
  "filter (\<lambda>n. nt_name n = name) ms = [m] \<Longrightarrow>
    list_ex (\<lambda>n. nt_name n = name \<and> nt_color n = Some c) ms = (nt_color m = Some c)"
  by (drule arg_cong [where f = set]) (auto simp: list_ex_iff)

lemma row_updated:
  assumes "filter (\<lambda>n. nt_name n = name) ns = [n]" and "\<And>m. nt_name (g m) = nt_name m"
  shows "filter (\<lambda>n. nt_name n = name) (map (\<lambda>m. if nt_name m = name then g m else m) ns) = [g n]"
  using assms(1) by (rule filter_single_map) (simp add: assms(2))

text \<open>Events of the two keys are not switched off, and neither is the agent.\<close>

definition audible :: "ekey \<Rightarrow> ekey \<Rightarrow> agent \<Rightarrow> world \<Rightarrow> bool" where
  "audible bad good a w \<longleftrightarrow> ag_enabled a \<and> cf_event_known (w_conf w) bad \<and> cf_event_known (w_conf w) good"

lemma gen_run:
  "cf_event_known (w_conf w) k \<Longrightarrow> d ''enabled'' = Some (JBool True) \<Longrightarrow>
    gen k d u w = (Inr (), w\<lparr>w_events := w_events w @ [Event k d u]\<rparr>)"
  by (simp add: gen_def bnd_def)

lemma todict_enabled: "ag_enabled a \<Longrightarrow> agent_todict a ''enabled'' = Some (JBool True)"
  by (simp add: agent_todict_def)

lemma license_eventit_edge:
  assumes "one_row ''tlicense'' w" and "audible EV_LICENSE_INVALID EV_LICENSE_VALID a w"
  shows "\<exists>w'. license_eventit a msg ok w = (Inr (), w') \<and>
     (one_row ''tlicense'' w' \<and> audible EV_LICENSE_INVALID EV_LICENSE_VALID a w') \<and> red_row ''tlicense'' w' = (\<not> ok) \<and>
     seen EV_LICENSE_INVALID EV_LICENSE_VALID w' = seen EV_LICENSE_INVALID EV_LICENSE_VALID w @
       (if ok = red_row ''tlicense'' w then [if ok then EV_LICENSE_VALID else EV_LICENSE_INVALID] else [])"
proof -
  obtain n ns where n: "get_notification ''tlicense'' None w = (Inr n, w\<lparr>w_notifications := ns\<rparr>)"
      and ns: "filter (\<lambda>n. nt_name n = ''tlicense'') ns = [n]"
      and red: "(nt_color n = Some ''red'') = red_row ''tlicense'' w"
    using assms(1) by (rule get_notification_run)
  note row = ns red_of_row [OF ns] row_updated [OF ns] red_of_row [OF row_updated [OF ns]]
  show ?thesis
    using assms(2) n red
    by (auto simp: license_eventit_def bnd_def sq_def gen_run todict_enabled audible_def set_notification_def
        commit_def one_row_def red_row_def row seen_def)
qed

interpretation tlicense: edge_notifier "\<lambda>(msg, ok). license_eventit a msg ok" snd
    "\<lambda>w. one_row ''tlicense'' w \<and> audible EV_LICENSE_INVALID EV_LICENSE_VALID a w" "red_row ''tlicense''"
    EV_LICENSE_INVALID EV_LICENSE_VALID for a
  by unfold_locales (elim conjE, simp only: case_prod_beta, rule license_eventit_edge)

text \<open>The page of the system information, while it is read from one URL and alerts are on.\<close>

definition page_inv :: "agent \<Rightarrow> string \<Rightarrow> world \<Rightarrow> bool" where
  "page_inv a url w \<longleftrightarrow>
     one_row ''systeminfo'' w \<and> audible EV_SYSTEMINFO_FAILED EV_SYSTEMINFO_OKAY a w \<and>
     cf_status_systeminfo_send_alerts (w_conf w) \<and>
     list_all (\<lambda>n. nt_name n = ''systeminfo'' \<and> nt_color n = Some ''red'' \<longrightarrow> nt_description n = Some url) (w_notifications w)"


lemma systeminfo_eventit_edge:
  assumes "page_inv a url w"
  shows "\<exists>w'. systeminfo_eventit a data url w = (Inr (), w') \<and> page_inv a url w' \<and>
     red_row ''systeminfo'' w' = (\<not> success data) \<and>
     seen EV_SYSTEMINFO_FAILED EV_SYSTEMINFO_OKAY w' = seen EV_SYSTEMINFO_FAILED EV_SYSTEMINFO_OKAY w @
       (if success data = red_row ''systeminfo'' w then [if success data then EV_SYSTEMINFO_OKAY else EV_SYSTEMINFO_FAILED] else [])"
proof -
  from assms have one: "one_row ''systeminfo'' w" by (simp add: page_inv_def)
  obtain n ns where n: "get_notification ''systeminfo'' None w = (Inr n, w\<lparr>w_notifications := ns\<rparr>)"
      and ns: "filter (\<lambda>n. nt_name n = ''systeminfo'') ns = [n]"
      and red: "(nt_color n = Some ''red'') = red_row ''systeminfo'' w"
      and old: "n \<in> set (w_notifications w) \<or> n = new_notification ''systeminfo'' None"
        "set ns \<subseteq> insert (new_notification ''systeminfo'' None) (set (w_notifications w))"
    using one by (rule get_notification_run)
  note row = ns red_of_row [OF ns] row_updated [OF ns] red_of_row [OF row_updated [OF ns]]
  have name: "nt_name n = ''systeminfo''" using arg_cong [OF ns, of set] by auto
  have desc: "nt_color n = Some ''red'' \<Longrightarrow> nt_description n = Some url"
    using assms old(1) name by (auto simp: page_inv_def list_all_iff new_notification_def)
  have all: "list_all (\<lambda>n. nt_name n = ''systeminfo'' \<and> nt_color n = Some ''red'' \<longrightarrow> nt_description n = Some url) ns"
    using assms old(2) by (auto simp: page_inv_def list_all_iff new_notification_def)
  show ?thesis
    using assms n red desc all
    by (auto simp: systeminfo_eventit_def bnd_def sq_def gen_run todict_enabled audible_def set_notification_def
        commit_def one_row_def red_row_def row seen_def page_inv_def list_all_iff split: option.split)
qed

interpretation systeminfo_page: edge_notifier "\<lambda>data. systeminfo_eventit a data url" success
    "page_inv a url" "red_row ''systeminfo''" EV_SYSTEMINFO_FAILED EV_SYSTEMINFO_OKAY for a url
  by unfold_locales (rule systeminfo_eventit_edge)

text \<open>C19: Whatever the license checks report one after the other, the events about the license
  alternate: LICENSE-INVALID only when the notification was not red, LICENSE-VALID only when it was,
  never two of a kind in a row; and afterwards the notification is red exactly if the last report was
  bad.\<close>

theorem license_events_alternate:
  assumes "one_row ''tlicense'' w" and "audible EV_LICENSE_INVALID EV_LICENSE_VALID a w"
  shows "\<exists>w' ks. reports (\<lambda>(msg, ok). license_eventit a msg ok) rs w = (Inr (), w') \<and>
     red_row ''tlicense'' w' = (if rs = [] then red_row ''tlicense'' w else \<not> snd (last rs)) \<and>
     seen EV_LICENSE_INVALID EV_LICENSE_VALID w' = seen EV_LICENSE_INVALID EV_LICENSE_VALID w @ ks \<and>
     (if red_row ''tlicense'' w then alternates EV_LICENSE_VALID EV_LICENSE_INVALID ks
      else alternates EV_LICENSE_INVALID EV_LICENSE_VALID ks)"
  using tlicense.reports_alternate [of w a rs] assms by blast

theorem license_events_alternate_witness:
  "\<exists>w' ks. reports (\<lambda>(msg, ok). license_eventit agent0 msg ok) [(''m'', False), (''m'', False), (''m'', True)] world1 = (Inr (), w') \<and>
     \<not> red_row ''tlicense'' w' \<and> alternates EV_LICENSE_INVALID EV_LICENSE_VALID ks \<and>
     seen EV_LICENSE_INVALID EV_LICENSE_VALID w' = ks"
proof -
  have "one_row ''tlicense'' world1" "audible EV_LICENSE_INVALID EV_LICENSE_VALID agent0 world1"
    "\<not> red_row ''tlicense'' world1" "seen EV_LICENSE_INVALID EV_LICENSE_VALID world1 = []"
    by (simp_all add: one_row_def audible_def red_row_def seen_def world1_def world0_def conf0_def agent0_def)
  then show ?thesis
    using license_events_alternate [of world1 agent0 "[(''m'', False), (''m'', False), (''m'', True)]"] by auto
qed

section \<open>What the checks leave alone\<close>

context traffic
begin

lemma moves_notifications [drift]:
  "moves f V (get_notification nm i)" "moves f V (set_notification nm i g)"
proof -
  have m: "moves f V (modify (\<lambda>w. w\<lparr>w_notifications := g w\<rparr>))" for g by (rule moves_modify, rule notified)
  show "moves f V (get_notification nm i)" "moves f V (set_notification nm i g)"
    unfolding get_notification_def set_notification_def by (rule drift m)+
qed

lemma moves_commit [drift]: "moves f V commit" "moves f V rollback"
  unfolding commit_def rollback_def by (rule moves_modify, rule in_table)+

lemma moves_license_check [drift]: "moves f V (license_check a)"
proof -
  have m: "moves f V (modify (\<lambda>w. w\<lparr>w_licenses := g w\<rparr>))" for g by (rule moves_modify, rule licensed)
  have g: "moves f V (get_license i d)" for i d unfolding get_license_def by (rule drift m)+
  have e: "moves f V (license_eventit a x b)" for x b unfolding license_eventit_def by (rule drift)+
  have r: "moves f V (license_report a d)" for d unfolding license_report_def by (rule drift g e)+
  have k: "moves f V (if exited_nonzero b then ret b else (case b ''stdout'' of None \<Rightarrow> ret b
      | Some (JStr output) \<Rightarrow> license_report a (parse output)
      | Some _ \<Rightarrow> raise (TypeError ''expected string or buffer'')))" for b
    by (auto intro: r moves_pure split: option.split jval.split)
  show ?thesis unfolding license_check_def by (rule drift k)+
qed

lemma moves_repair [drift]: "moves f V (repair a)"
  unfolding repair_def by (rule drift)+

end

end
