(* ===== verification/Commands.thy ===== *)
theory Commands
  imports Server Licensing
begin

text \<open>
  A line typed at the command port: how \<open>Command\<close> in \<open>clihandler.py\<close> takes it apart and
  completes it from the table of agents, and how a handler finds its agent.
\<close>

section \<open>shlex\<close>

text \<open>
  \<open>shlex.split(line)\<close>: POSIX rules, no comments.  The state of the lexer is between words,
  in a word, in quotes, or after an escape, which remembers whether it came up in a word
  or in double quotes; \<open>quoted\<close> tells an empty word in quotes from no word.
\<close>

datatype lexer = Between | InWord | InQuotes char | EscapedWord | EscapedQuotes

definition lex_space :: "char \<Rightarrow> bool" where
  "lex_space c \<longleftrightarrow> c \<in> {CHR '' '', CHR 0x09, CHR 0x0D, CHR 0x0A}"

definition is_quote :: "char \<Rightarrow> bool" where
  "is_quote c \<longleftrightarrow> c = CHR 0x27 \<or> c = CHR 0x22"

abbreviation backslash :: char where "backslash \<equiv> CHR 0x5C"

fun add_token :: "string \<Rightarrow> string + string list \<Rightarrow> string + string list" where
  "add_token t (Inl e) = Inl e"
| "add_token t (Inr ts) = Inr (t # ts)"

fun lex :: "lexer \<Rightarrow> string \<Rightarrow> bool \<Rightarrow> string \<Rightarrow> string + string list" where
  "lex Between t q [] = Inr []"
| "lex InWord t q [] = Inr (if t = [] \<and> \<not> q then [] else [t])"
| "lex (InQuotes d) t q [] = Inl ''No closing quotation''"
| "lex EscapedWord t q [] = Inl ''No escaped character''"
| "lex EscapedQuotes t q [] = Inl ''No escaped character''"
| "lex Between t q (c # cs) =
     (if lex_space c then lex Between [] False cs
      else if c = backslash then lex EscapedWord [] False cs
      else if is_quote c then lex (InQuotes c) [] True cs
      else lex InWord [c] False cs)"
| "lex InWord t q (c # cs) =
     (if lex_space c then
        (if t \<noteq> [] \<or> q then add_token t (lex Between [] False cs) else lex Between [] False cs)
      else if is_quote c then lex (InQuotes c) t True cs
      else if c = backslash then lex EscapedWord t q cs
      else lex InWord (t @ [c]) q cs)"
| "lex (InQuotes d) t q (c # cs) =
     (if c = d then lex InWord t True cs
      else if c = backslash \<and> d = CHR 0x22 then lex EscapedQuotes t True cs
      else lex (InQuotes d) (t @ [c]) True cs)"
| "lex EscapedWord t q (c # cs) = lex InWord (t @ [c]) q cs"
| "lex EscapedQuotes t q (c # cs) =
     (if c \<noteq> backslash \<and> c \<noteq> CHR 0x22 then lex (InQuotes CHR 0x22) (t @ [backslash, c]) True cs
      else lex (InQuotes CHR 0x22) (t @ [c]) True cs)"

definition shlex_split :: "string \<Rightarrow> string + string list" where
  "shlex_split line = lex Between [] False line"

section \<open>Command\<close>

text \<open>\<open>None\<close> as a value is a flag without \<open>=\<close>, or what \<open>sanity\<close> put there.\<close>

record command =
  cm_name :: string
  cm_dict :: "string \<rightharpoonup> string option"
  cm_args :: "string list"

text \<open>One token that starts with a slash, the slash taken off.\<close>

definition split_eq :: "string \<Rightarrow> string \<times> string option" where
  "split_eq token =
     (if CHR ''='' \<in> set token
      then (strip (takeWhile (\<lambda>c. c \<noteq> CHR ''='') token),
            Some (strip (drop 1 (dropWhile (\<lambda>c. c \<noteq> CHR ''='') token))))
      else (strip token, None))"

fun take_opts :: "(string \<rightharpoonup> string option) \<Rightarrow> string list \<Rightarrow> (string \<rightharpoonup> string option) \<times> string list" where
  "take_opts d [] = (d, [])"
| "take_opts d (t # ts) =
     (if starts_with ''/'' t then (case split_eq (tl t) of (k, v) \<Rightarrow> take_opts (d(k \<mapsto> v)) ts) else (d, t # ts))"

definition dashes_to_underscores :: "string \<Rightarrow> string" where
  "dashes_to_underscores = map (\<lambda>c. if c = CHR ''-'' then CHR ''_'' else c)"

definition given :: "(string \<rightharpoonup> string option) \<Rightarrow> string \<Rightarrow> bool" where
  "given d k \<longleftrightarrow> d k \<noteq> None"

text \<open>\<open>Column == value\<close> in a query; comparing with None is \<open>IS NULL\<close>.\<close>

definition opt_is :: "(string \<rightharpoonup> string option) \<Rightarrow> string \<Rightarrow> string option \<Rightarrow> bool" where
  "opt_is d k x \<longleftrightarrow> (case d k of None \<Rightarrow> True | Some v \<Rightarrow> x = v)"

fun type_name :: "agent_type \<Rightarrow> string" where
  "type_name PRIMARY = ''primary''"
| "type_name WORKER = ''worker''"
| "type_name ARCHIVE = ''archive''"

definition agent_matches :: "(string \<rightharpoonup> string option) \<Rightarrow> agent \<Rightarrow> bool" where
  "agent_matches d a \<longleftrightarrow>
     opt_is d ''uuid'' (Some (ag_uuid a)) \<and> opt_is d ''displayname'' (ag_displayname a) \<and>
     opt_is d ''hostname'' (Some (ag_hostname a)) \<and> opt_is d ''type'' (map_option type_name (ag_agent_type a))"

text \<open>
  \<open>sanity\<close>, without the ids of the one domain and the one environment: the uuid of the
  agent meant, and the check of \<open>userid\<close>, where a flag without value is an AttributeError.
\<close>

definition resolve_uuid :: "agent list \<Rightarrow> (string \<rightharpoonup> string option) \<Rightarrow> string + (string \<rightharpoonup> string option)" where
  "resolve_uuid db d =
     (if \<not> given d ''displayname'' \<and> \<not> given d ''hostname'' \<and> \<not> given d ''type'' then
        (if given d ''uuid'' then Inr d
         else Inr (d(''uuid'' \<mapsto> map_option ag_uuid (the_one (filter (\<lambda>a. ag_agent_type a = Some PRIMARY) db)))))
      else (case filter (agent_matches d) db of
          [] \<Rightarrow> Inl ''no matching agent found''
        | [a] \<Rightarrow> Inr (d(''uuid'' \<mapsto> Some (ag_uuid a)))
        | _ \<Rightarrow> Inl ''agent must be unique''))"

definition check_userid :: "(string \<rightharpoonup> string option) \<Rightarrow> unit io" where
  "check_userid d =
     (case d ''userid'' of
        None \<Rightarrow> ret ()
      | Some None \<Rightarrow> raise (AttributeError ''isdigit'')
      | Some (Some v) \<Rightarrow>
          if isdigit v then ret () else raise (CommandException ''Invalid userid: must be an integer.''))"

definition sanity :: "(string \<rightharpoonup> string option) \<Rightarrow> (string \<rightharpoonup> string option) io" where
  "sanity d =
     bnd (gets w_db) (\<lambda>db. case resolve_uuid db d of
       Inl msg \<Rightarrow> raise (CommandException msg)
     | Inr d' \<Rightarrow> sq (check_userid d') (ret d'))"

definition parse_command :: "string \<Rightarrow> command io" where
  "parse_command line =
     (case shlex_split line of
        Inl msg \<Rightarrow> raise (CommandException msg)
      | Inr tokens \<Rightarrow>
          (case take_opts Map.empty tokens of
             (d, []) \<Rightarrow> raise (CommandException (''Missing command: '' @ line))
           | (d, name # args) \<Rightarrow>
               if name = [] then raise (CommandException (''Missing command: '' @ line))
               else bnd (sanity d) (\<lambda>d'.
                 ret \<lparr>cm_name = dashes_to_underscores name, cm_dict = d', cm_args = map strip args\<rparr>)))"

section \<open>What the handlers share\<close>

definition get_agent :: "command \<Rightarrow> agent option io" where
  "get_agent c =
     (case cm_dict c ''uuid'' of
        None \<Rightarrow> sq (error_num ERROR_AGENT_NOT_SPECIFIED) (ret None)
      | Some u \<Rightarrow>
          (case truthy_str u of
             None \<Rightarrow> sq (error_num ERROR_AGENT_NOT_SPECIFIED) (ret None)
           | Some uuid \<Rightarrow>
               bnd (agent_by_uuid uuid) (\<lambda>r. case r of
                 None \<Rightarrow> sq (error_msg ERROR_AGENT_NOT_CONNECTED (''No connected agent with uuid='' @ uuid)) (ret None)
               | Some a \<Rightarrow> bnd (gets w_db) (\<lambda>db. case get_by_uuid db (ag_uuid a) of
                   None \<Rightarrow> raise (AttributeError ''_sa_instance_state'')
                 | Some t \<Rightarrow>
                     if ag_enabled t then ret (Some a)
                     else sq (error_msg ERROR_AGENT_NOT_ENABLED (''Agent disabled with uuid='' @ uuid)) (ret None)))))"

text \<open>\<open>agent = self.get_agent(cmd.dict); if not agent: return\<close>\<close>

definition with_agent :: "command \<Rightarrow> (agent \<Rightarrow> unit io) \<Rightarrow> unit io" where
  "with_agent c k = bnd (get_agent c) (\<lambda>r. case r of None \<Rightarrow> ret () | Some a \<Rightarrow> k a)"

text \<open>\<open>int(cmd.dict['userid'])\<close>, and None when it is not given.\<close>

definition get_userid :: "command \<Rightarrow> int option io" where
  "get_userid c =
     (case cm_dict c ''userid'' of
        None \<Rightarrow> ret None
      | Some None \<Rightarrow> raise (TypeError ''int() argument must be a string or a number'')
      | Some (Some v) \<Rightarrow>
          (case parse_int v of None \<Rightarrow> raise (ValueError v) | Some i \<Rightarrow> ret (Some i)))"

text \<open>\<open>aconn.user_action_lock(blocking=False)\<close> around the rest of a handler.\<close>

definition if_locked :: "agent \<Rightarrow> unit io \<Rightarrow> unit io \<Rightarrow> unit io" where
  "if_locked a busy k = bnd (user_action_lock False a) (\<lambda>ok. if \<not> ok then busy else k)"

text \<open>The text of the traceback is left out.\<close>

definition traceback_string :: "pyexn \<Rightarrow> string" where
  "traceback_string e = exn_str e"

end
