(* ===== verification/Handlers.thy ===== *)
theory Handlers
  imports Commands
begin

text \<open>
  The handlers of \<open>clihandler.py\<close> that change the state of Tableau, of the controller or of
  its files: start, stop, restart, backup, restore, the commands built like them, and the
  upgrade lock; and the main loop that reads commands.
\<close>

definition trigger_check_status_event :: "unit io" where
  "trigger_check_status_event = modify (\<lambda>w. w\<lparr>w_check_event := True\<rparr>)"

text \<open>The four states in which Tableau is up, and in which it is down.\<close>

definition up_states :: "mstate list" where
  "up_states = [STATE_STARTED, STATE_DEGRADED]"

definition down_states :: "mstate list" where
  "down_states = [STATE_STOPPED, STATE_STOPPED_UNEXPECTED]"

text \<open>\<open>self.error(...)\<close> and \<open>aconn.user_action_unlock()\<close> before a return.\<close>

definition refuse :: "agent \<Rightarrow> nat \<Rightarrow> string \<Rightarrow> unit io" where
  "refuse a n msg = seqs [error_msg n msg, user_action_unlock a]"

section \<open>start\<close>

definition start_finish :: "agent \<Rightarrow> int option \<Rightarrow> body \<Rightarrow> unit io" where
  "start_finish a userid b =
     (let data = agent_todict a in
      if (case b ''exit-status'' of Some e \<Rightarrow> truthy e | None \<Rightarrow> True) then seqs [
        gen EV_TABLEAU_START_FAILED (dict_add b data) userid,
        update_state STATE_STOPPED,
        gen EV_STATE_STOPPED data userid]
      else seqs [
        update_state STATE_STARTED,
        gen EV_STATE_STARTED (dict_add b data) userid])"

definition start_run :: "command \<Rightarrow> agent \<Rightarrow> unit io" where
  "start_run c a =
     sq (update_state STATE_STARTING) (sq ack (bnd (get_userid c) (\<lambda>userid.
     bnd (gets w_maint_started) (\<lambda>maint_started.
     sq (if maint_started then bnd (maint ''stop'' None True) (\<lambda>_. ret ()) else ret ())
     (bnd (cli_cmd ''tabadmin start'' a Map.empty False (60 * 60)) (\<lambda>b.
       seqs [check_status_with_connection a, start_finish a userid b, user_action_unlock a, report_status b]))))))"

definition start_locked :: "command \<Rightarrow> agent \<Rightarrow> unit io" where
  "start_locked c a =
     bnd get_state (\<lambda>main_state.
       if main_state \<notin> set down_states then
         refuse a ERROR_WRONG_STATE (''Can't start - main state is: '' @ state_name main_state)
       else bnd get_tableau_status (\<lambda>reported_status.
         if reported_status \<noteq> STATUS_STOPPED then
           refuse a ERROR_WRONG_STATE (''Can't start - reported status is: '' @ reported_status)
         else start_run c a))"

definition do_start :: "command \<Rightarrow> unit io" where
  "do_start c = upgrade_rwlock
     (if cm_args c \<noteq> [] then print_usage ''start''
      else with_agent c (\<lambda>a. if_locked a (error_num ERROR_BUSY) (start_locked c a)))"

section \<open>stop and restart\<close>

datatype stop_action = ACTION_STOP | ACTION_RESTART

definition good_states :: "stop_action \<Rightarrow> mstate list" where
  "good_states act = (if act = ACTION_RESTART then up_states @ down_states else up_states)"

definition good_reported :: "stop_action \<Rightarrow> string list" where
  "good_reported act =
     (if act = ACTION_RESTART then [STATUS_RUNNING, STATUS_DEGRADED, STATUS_STOPPED]
      else [STATUS_RUNNING, STATUS_DEGRADED])"

text \<open>\<open>body['info'] += '\n' + msg\<close>, or the first one\<close>

definition add_info :: "string \<Rightarrow> string \<Rightarrow> body \<Rightarrow> body" where
  "add_info sep msg b =
     b(''info'' \<mapsto> JStr (case b ''info'' of Some v \<Rightarrow> jstr (Some v) @ sep @ msg | None \<Rightarrow> msg))"

text \<open>Return False with the lock given back.\<close>

definition give_up :: "agent \<Rightarrow> mstate \<Rightarrow> body \<Rightarrow> bool io" where
  "give_up a main_state b =
     sq (seqs [update_state main_state, report_status b, user_action_unlock a]) (ret False)"

fun stop_keys :: "stop_action \<Rightarrow> mstate \<times> ekey \<times> ekey \<times> ekey \<times> ekey" where
  "stop_keys ACTION_STOP =
     (STATE_STARTED_BACKUP_STOP, EV_BACKUP_BEFORE_STOP_STARTED, EV_BACKUP_BEFORE_STOP_FINISHED,
      EV_BACKUP_BEFORE_STOP_FINISHED_COPY_FAILED, EV_BACKUP_BEFORE_STOP_FAILED)"
| "stop_keys ACTION_RESTART =
     (STATE_STARTED_BACKUP_RESTART, EV_BACKUP_BEFORE_RESTART_STARTED, EV_BACKUP_BEFORE_RESTART_FINISHED,
      EV_BACKUP_BEFORE_RESTART_FINISHED_COPY_FAILED, EV_BACKUP_BEFORE_RESTART_FAILED)"

definition stop_backup :: "stop_action \<Rightarrow> agent \<Rightarrow> int option \<Rightarrow> mstate \<Rightarrow> bool io" where
  "stop_backup act a userid main_state =
     (case stop_keys act of (state_started, ev_started, ev_finished, ev_copy_failed, ev_failed) \<Rightarrow>
      (let data = agent_todict a in
       sq (seqs [update_state state_started, gen ev_started data userid])
         (bnd (backup_cmd a userid) (\<lambda>b.
            if success b then
              sq (gen (if has_key b ''copy-failed'' then ev_copy_failed else ev_finished) (dict_add b data) userid)
                (ret True)
            else
              sq (gen ev_failed (dict_add b data) userid)
                (give_up a main_state (add_info [newline] ''Backup failed.  Will not attempt stop'' b))))))"

definition pre_stop :: "stop_action \<Rightarrow> agent \<Rightarrow> int option \<Rightarrow> bool \<Rightarrow> bool \<Rightarrow> bool io" where
  "pre_stop act a userid with_license backup_first =
     bnd get_state (\<lambda>main_state.
       if main_state \<notin> set (good_states act) then
         sq (refuse a ERROR_WRONG_STATE (''can't stop - main state is: '' @ state_name main_state)) (ret False)
       else bnd get_tableau_status (\<lambda>reported_status.
         if reported_status \<notin> set (good_reported act) then
           sq (refuse a ERROR_WRONG_STATE (''FAIL: Can't stop/restart - reported status is: '' @ reported_status)) (ret False)
         else sq ack
           (bnd (if with_license then license_check a else ret Map.empty) (\<lambda>license_body.
              if failed license_body then give_up a main_state license_body
              else if backup_first then stop_backup act a userid main_state
              else ret True))))"

definition restart_run :: "agent \<Rightarrow> int option \<Rightarrow> unit io" where
  "restart_run a userid =
     (let data = agent_todict a in
      sq (seqs [update_state STATE_RESTARTING, gen EV_RESTART_STARTED data userid])
        (bnd (cli_cmd ''tabadmin restart'' a Map.empty False (60 * 60)) (\<lambda>b.
           sq (if success b then seqs [
                 update_state STATE_STARTED,
                 gen EV_RESTART_FINISHED (dict_add b data) userid,
                 user_action_unlock a,
                 trigger_check_status_event]
               else seqs [
                 gen EV_RESTART_FAILED (dict_add b data) userid,
                 check_status_with_connection a,
                 user_action_unlock a])
             (report_status b))))"

definition do_restart :: "command \<Rightarrow> unit io" where
  "do_restart c = upgrade_rwlock
     (if cm_args c \<noteq> [] then print_usage ''[/nobackup] [/nolicense] restart''
      else bnd (get_userid c) (\<lambda>userid.
        with_agent c (\<lambda>a. if_locked a (error_num ERROR_BUSY)
          (bnd (pre_stop ACTION_RESTART a userid (\<not> given (cm_dict c) ''nolicense'') (\<not> given (cm_dict c) ''nobackup'')) (\<lambda>ok.
             if \<not> ok then ret () else restart_run a userid)))))"

text \<open>The text of the dictionary that could not be started is left out.\<close>

definition stop_run :: "agent \<Rightarrow> int option \<Rightarrow> bool \<Rightarrow> unit io" where
  "stop_run a userid start_maint =
     sq (update_state STATE_STOPPING)
       (bnd (cli_cmd ''tabadmin stop'' a Map.empty False (60 * 30)) (\<lambda>b0.
        bnd (if success b0 \<and> start_maint then
               bnd (maint ''start'' None True) (\<lambda>m.
                 ret (if failed m then add_info [newline] ''maint start failed: '' b0 else b0))
             else ret b0) (\<lambda>b.
          seqs [check_status_with_connection a,
            when_m (success b) (gen EV_STATE_STOPPED (agent_todict a) userid),
            user_action_unlock a,
            report_status b])))"

definition do_stop :: "command \<Rightarrow> unit io" where
  "do_stop c = upgrade_rwlock
     (if cm_args c \<noteq> [] then print_usage ''[/nobackup] [/nolicense] [/nomaint] stop''
      else bnd (get_userid c) (\<lambda>userid.
        with_agent c (\<lambda>a. if_locked a (error_num ERROR_BUSY)
          (bnd (pre_stop ACTION_STOP a userid (\<not> given (cm_dict c) ''nolicense'') (\<not> given (cm_dict c) ''nobackup'')) (\<lambda>ok.
             if \<not> ok then ret () else stop_run a userid (\<not> given (cm_dict c) ''nomaint''))))))"

section \<open>backup\<close>

text \<open>
  \<open>FileEntry.api\<close>, without the time of creation: the rows keep none.  A scheme that is None is a
  TypeError when it is put before the rest of the URL.
\<close>

definition no_scheme :: "world \<Rightarrow> file_entry \<Rightarrow> bool" where
  "no_scheme w f \<longleftrightarrow>
     fe_storage_type f = STORAGE_TYPE_CLOUD \<and>
     (case get_by_cloudid (w_clouds w) (fe_storageid f) of None \<Rightarrow> False | Some c \<Rightarrow> cloud_scheme c = None)"

definition file_api :: "file_entry \<Rightarrow> body io" where
  "file_api f =
     bnd (gets (\<lambda>w. (no_scheme w f, file_url w f))) (\<lambda>(bad, url).
       if bad then raise (TypeError ''unsupported operand type(s) for +'')
       else ret [''id'' \<mapsto> JInt (int (fe_fileid f)), ''url'' \<mapsto> jopt url, ''size'' \<mapsto> JInt (fe_size f)])"

definition get_by_fileid :: "jval \<Rightarrow> file_entry option io" where
  "get_by_fileid v =
     gets (\<lambda>w. find (\<lambda>f. v = JInt (int (fe_fileid f))) (w_files w))"

definition backup_reply :: "body \<Rightarrow> unit io" where
  "backup_reply b =
     (if success b then
        (case b ''fileid'' of
           None \<Rightarrow> raise (KeyError ''fileid'')
         | Some v \<Rightarrow> bnd (get_by_fileid v) (\<lambda>r. case r of
             None \<Rightarrow> raise (AttributeError ''api'')
           | Some f \<Rightarrow> bnd (file_api f) report_status))
      else report_status b)"

text \<open>The four event keys: started, finished, copy failed, failed.\<close>

definition backup_keys :: "int option \<Rightarrow> ekey \<times> ekey \<times> ekey \<times> ekey" where
  "backup_keys userid =
     (if userid \<noteq> None then
        (EV_BACKUP_STARTED, EV_BACKUP_FINISHED, EV_BACKUP_FINISHED_COPY_FAILED, EV_BACKUP_FAILED)
      else
        (EV_BACKUP_STARTED_SCHEDULED, EV_BACKUP_FINISHED_SCHEDULED, EV_BACKUP_FINISHED_SCHEDULED_COPY_FAILED,
         EV_BACKUP_FAILED_SCHEDULED))"

definition backup_caught :: "agent \<Rightarrow> int option \<Rightarrow> body io" where
  "backup_caught a userid =
     catch (backup_cmd a userid) is_standard_error
       (\<lambda>e. ret ((error_body (''Backup Error. Traceback: '' @ traceback_string e))(''info'' \<mapsto> JStr ''Failure'')))"

definition backup_run :: "agent \<Rightarrow> int option \<Rightarrow> mstate \<Rightarrow> unit io" where
  "backup_run a userid main_state =
     (case backup_keys userid of (ev_started, ev_finished, ev_copy_failed, ev_failed) \<Rightarrow>
      (let data = agent_todict a in
       sq (seqs [gen ev_started data userid, ack])
         (bnd (backup_caught a userid) (\<lambda>b0.
          bnd rotate_backups (\<lambda>rotate_info.
            let b = add_info [] rotate_info b0 in
            seqs [
              gen (if failed b then ev_failed else if has_key b ''copy-failed'' then ev_copy_failed else ev_finished)
                (dict_add b data) userid,
              update_state main_state,
              user_action_unlock a,
              backup_reply b])))))"

definition backup_locked :: "agent \<Rightarrow> int option \<Rightarrow> unit io" where
  "backup_locked a userid =
     bnd get_state (\<lambda>main_state.
       if main_state \<notin> set (up_states @ down_states) then
         refuse a ERROR_BUSY (''FAIL: Can't backup - main state is: '' @ state_name main_state)
       else bnd get_tableau_status (\<lambda>reported_status.
         if reported_status = STATUS_RUNNING \<or> reported_status = STATUS_DEGRADED then
           sq (update_state STATE_STARTED_BACKUP) (backup_run a userid main_state)
         else if reported_status = STATUS_STOPPED then
           sq (update_state STATE_STOPPED_BACKUP) (backup_run a userid main_state)
         else refuse a ERROR_WRONG_STATE (''FAIL: Can't backup - reported status is: '' @ reported_status)))"

definition do_backup :: "command \<Rightarrow> unit io" where
  "do_backup c = upgrade_rwlock
     (if cm_args c \<noteq> [] then print_usage ''backup''
      else bnd (get_userid c) (\<lambda>userid.
      bnd (gets w_conf) (\<lambda>conf.
        if userid = None \<and> cf_backup_auto_retain conf = 0 then
          seqs [ack, report_status [''status'' \<mapsto> JStr ''OK'', ''info'' \<mapsto> JStr ''Scheduled backups are disabled'']]
        else with_agent c (\<lambda>a. if_locked a (error_num ERROR_BUSY) (backup_locked a userid)))))"

section \<open>restore\<close>

definition restore_keys :: "(string \<rightharpoonup> string option) \<Rightarrow> body \<Rightarrow> body" where
  "restore_keys d data =
     data(''restore_type'' \<mapsto> JStr (if given d ''noconfig'' then ''Data only'' else ''Data and Configuration''))"

definition restore_finish :: "agent \<Rightarrow> body \<Rightarrow> int option \<Rightarrow> body \<Rightarrow> unit io" where
  "restore_finish a data userid b0 =
     bnd (if success b0 then bnd rotate_backups (\<lambda>info.
            ret (b0(''stdout'' \<mapsto> JStr (case b0 ''stdout'' of Some v \<Rightarrow> jstr (Some v) @ info | None \<Rightarrow> info))))
          else ret b0) (\<lambda>b. seqs [
       check_status_with_connection a,
       gen (if success b then EV_RESTORE_FINISHED else EV_RESTORE_FAILED) (dict_add b data) userid,
       user_action_unlock a,
       report_status b])"

definition restore_caught :: "agent \<Rightarrow> string \<Rightarrow> mstate \<Rightarrow> bool \<Rightarrow> int option \<Rightarrow> string option \<Rightarrow> body io" where
  "restore_caught a name main_state no_config userid pw =
     catch (restore_cmd a name main_state no_config userid pw) is_standard_error
       (\<lambda>e. sq (update_state main_state) (ret (error_body (''Restore Error: Traceback: '' @ traceback_string e))))"

definition restore_backup :: "agent \<Rightarrow> body \<Rightarrow> int option \<Rightarrow> mstate \<Rightarrow> unit io \<Rightarrow> unit io" where
  "restore_backup a data userid main_state k =
     sq (gen EV_BACKUP_BEFORE_RESTORE_STARTED data userid)
       (bnd (catch (backup_cmd a userid) is_standard_error
               (\<lambda>e. ret (error_body (''Backup For Restore Error. Traceback: '' @ traceback_string e)))) (\<lambda>b.
          sq (gen (if failed b then EV_BACKUP_BEFORE_RESTORE_FAILED
                   else if has_key b ''copy-failed'' then EV_BACKUP_BEFORE_RESTORE_FINISHED_COPY_FAILED
                   else EV_BACKUP_BEFORE_RESTORE_FINISHED) (dict_add b data) userid)
            (if failed b \<or> has_key b ''copy-failed''
             then seqs [report_status b, update_state main_state, user_action_unlock a]
             else k)))"

definition restore_run_all :: "command \<Rightarrow> agent \<Rightarrow> string \<Rightarrow> string option \<Rightarrow> int option \<Rightarrow> mstate \<Rightarrow> body \<Rightarrow> unit io" where
  "restore_run_all c a name pw userid main_state data =
     (let restore = bnd (restore_caught a name main_state (given (cm_dict c) ''noconfig'') userid pw)
                      (restore_finish a data userid)
      in sq ack
        (bnd (if given (cm_dict c) ''nolicense'' then ret Map.empty else license_check a) (\<lambda>license_body.
          if failed license_body then
            seqs [update_state main_state, report_status license_body, user_action_unlock a]
          else if given (cm_dict c) ''nobackup'' then restore
          else restore_backup a data userid main_state restore)))"

definition restore_missing :: "agent \<Rightarrow> body \<Rightarrow> int option \<Rightarrow> string \<Rightarrow> unit io" where
  "restore_missing a data userid msg = seqs [
     error_msg ERROR_COMMAND_FAILED msg,
     gen EV_RESTORE_FAILED
       (dict_add [''stderr'' \<mapsto> JStr msg, ''stdout'' \<mapsto> JStr [], ''error'' \<mapsto> JStr []] data) userid,
     user_action_unlock a]"

definition do_restore :: "command \<Rightarrow> unit io" where
  "do_restore c = upgrade_rwlock
     (case cm_args c of
        [] \<Rightarrow> print_usage ''[/noconfig] [/nobackup] [/nolicense] restore backup-name [tableau-run-as-user-password]''
      | name # rest \<Rightarrow>
          if length rest > 1 then
            print_usage ''[/noconfig] [/nobackup] [/nolicense] restore backup-name [tableau-run-as-user-password]''
          else with_agent c (\<lambda>a. bnd (get_userid c) (\<lambda>userid. if_locked a (error_num ERROR_BUSY)
            (bnd get_state (\<lambda>main_state.
              if main_state \<notin> set (up_states @ down_states) then
                refuse a ERROR_WRONG_STATE (''FAIL: Can't backup before restore - main state is: '' @ state_name main_state)
              else
                (let data = restore_keys (cm_dict c) (agent_todict a);
                     pw = (case rest of [] \<Rightarrow> None | p # _ \<Rightarrow> Some p) in
                 bnd (attempt is_io (get_file a name True)) (\<lambda>r. case r of
                   Inl msg \<Rightarrow> restore_missing a data userid msg
                 | Inr _ \<Rightarrow> bnd get_tableau_status (\<lambda>reported_status.
                     if reported_status = STATUS_RUNNING \<or> reported_status = STATUS_DEGRADED then
                       sq (update_state STATE_STARTED_BACKUP_RESTORE) (restore_run_all c a name pw userid main_state data)
                     else if reported_status = STATUS_STOPPED then
                       sq (update_state STATE_STOPPED_BACKUP_RESTORE) (restore_run_all c a name pw userid main_state data)
                     else refuse a ERROR_WRONG_STATE
                       (''FAIL: Can't backup before restore - status is: '' @ reported_status)))))))))"

section \<open>restore-url\<close>

definition restore_url_finish :: "agent \<Rightarrow> int option \<Rightarrow> body \<Rightarrow> unit io" where
  "restore_url_finish a userid b = seqs [
     check_status_with_connection a,
     gen (if success b then EV_RESTORE_FINISHED else EV_RESTORE_FAILED) (dict_add b (agent_todict a)) userid,
     user_action_unlock a,
     report_status b]"

definition restore_url_caught :: "agent \<Rightarrow> url \<Rightarrow> int option \<Rightarrow> bool \<Rightarrow> string option \<Rightarrow> body io" where
  "restore_url_caught a u userid data_only pw =
     catch (restore_url a u userid data_only pw) is_standard_error
       (\<lambda>e. ret (error_body (''Restore Error: Traceback: '' @ traceback_string e)))"

definition restore_url_usage :: string where
  "restore_url_usage = ''[/noconfig] restore-url <url> [tableau-run-as-user-password]''"

definition do_restore_url :: "command \<Rightarrow> unit io" where
  "do_restore_url c = upgrade_rwlock
     (case cm_args c of
        [] \<Rightarrow> print_usage restore_url_usage
      | link # rest \<Rightarrow>
          if length rest > 1 then print_usage restore_url_usage
          else with_agent c (\<lambda>a.
            let u = urlsplit link in
            if url_sch u \<notin> {''file'', ''s3'', ''gs''} then
              error_msg ERROR_BAD_VALUE (''Invalid URL scheme : '' @ url_sch u)
            else bnd (user_action_lock True a) (\<lambda>_.
              bnd get_state (\<lambda>main_state.
                if main_state \<notin> set (up_states @ down_states) then
                  refuse a ERROR_WRONG_STATE (''Invalid restore state: '' @ state_name main_state)
                else sq ack (bnd (get_userid c) (\<lambda>userid.
                  bnd (restore_url_caught a u userid (given (cm_dict c) ''noconfig'')
                         (case rest of [] \<Rightarrow> None | p # _ \<Rightarrow> Some p))
                    (restore_url_finish a userid)))))))"

section \<open>Commands that run in a state of their own\<close>

text \<open>
  The main state goes to one of two states while the command runs, depending on whether
  Tableau is up or down, and back afterwards.
\<close>

definition in_state :: "agent \<Rightarrow> mstate \<Rightarrow> mstate \<Rightarrow> string \<Rightarrow> (mstate \<Rightarrow> unit io) \<Rightarrow> unit io" where
  "in_state a up down sep k =
     bnd get_state (\<lambda>main_state.
       if main_state \<in> set up_states then sq (update_state up) (k main_state)
       else if main_state \<in> set down_states then sq (update_state down) (k main_state)
       else refuse a ERROR_WRONG_STATE (''FAIL: Main state is '' @ state_name main_state @ sep))"

definition back_to :: "agent \<Rightarrow> mstate \<Rightarrow> body \<Rightarrow> unit io" where
  "back_to a main_state b = seqs [update_state main_state, user_action_unlock a, report_status b]"

text \<open>\<open>files\<close> has no method \<open>delfile_cmd\<close>.\<close>

definition do_deletefile :: "command \<Rightarrow> unit io" where
  "do_deletefile c = upgrade_rwlock
     (case cm_args c of
        [filename] \<Rightarrow>
          bnd (find_by_name filename) (\<lambda>entry. case entry of
            None \<Rightarrow> error_msg ERROR_NOT_FOUND (''File not found: '' @ filename)
          | Some f \<Rightarrow> with_agent c (\<lambda>a. if_locked a (error_num ERROR_BUSY)
              (in_state a STATE_STARTED_FILEDEL STATE_STOPPED_FILEDEL ''.''
                (\<lambda>main_state. sq ack (raise (AttributeError ''delfile_cmd''))))))
      | _ \<Rightarrow> print_usage ''deletefile file-name'')"

definition do_ziplogs :: "command \<Rightarrow> unit io" where
  "do_ziplogs c = upgrade_rwlock
     (if cm_args c \<noteq> [] then print_usage ''ziplogs''
      else bnd (get_userid c) (\<lambda>userid.
      bnd (gets w_conf) (\<lambda>conf.
        if userid = None \<and> cf_ziplog_auto_retain conf = 0 then
          seqs [ack, report_status [''status'' \<mapsto> JStr ''OK'', ''info'' \<mapsto> JStr ''Scheduled ziplogs are disabled'']]
        else with_agent c (\<lambda>a. if_locked a (error_num ERROR_WRONG_STATE)
          (in_state a STATE_STARTED_ZIPLOGS STATE_STOPPED_ZIPLOGS [] (\<lambda>main_state.
             sq ack (bnd (ziplogs_cmd a userid) (back_to a main_state))))))))"

definition do_cleanup :: "command \<Rightarrow> unit io" where
  "do_cleanup c = upgrade_rwlock
     (if cm_args c \<noteq> [] then print_usage ''cleanup''
      else with_agent c (\<lambda>a. if_locked a (error_num ERROR_BUSY)
        (in_state a STATE_STARTED_CLEANUP STATE_STOPPED_CLEANUP [] (\<lambda>main_state.
           bnd (get_userid c) (\<lambda>userid. sq ack (bnd (cleanup_cmd a userid) (back_to a main_state)))))))"

section \<open>The upgrade lock\<close>

definition set_upgrading :: "bool \<Rightarrow> unit io" where
  "set_upgrading b = modify (\<lambda>w. w\<lparr>w_upgrading := b\<rparr>)"

definition upgrade_states :: "mstate list" where
  "upgrade_states = [STATE_STARTED, STATE_STOPPED, STATE_STOPPED_UNEXPECTED, STATE_DEGRADED, STATE_PENDING,
     STATE_DISCONNECTED]"

fun is_runtime :: "pyexn \<Rightarrow> bool" where
  "is_runtime (RuntimeError s) = True"
| "is_runtime _ = False"

definition upgrade_on :: "unit io" where
  "upgrade_on =
     sq (rw_call write_acquire)
      (bnd get_state (\<lambda>main_state.
         if main_state \<notin> set upgrade_states then
           sq (error_msg ERROR_BUSY (''FAIL: Can't upgrade - main state is: '' @ state_name main_state))
             (bnd (rw_call write_release) (\<lambda>_. ret ()))
         else bnd (gets w_maint_started) (\<lambda>maint_started.
           bnd (if maint_started then bnd (maint ''stop'' None False) (\<lambda>b. ret [''maint-stop'' \<mapsto> JDict b])
                else ret Map.empty) (\<lambda>combined.
           bnd (archive ''stop'' None (-1)) (\<lambda>b.
             seqs [set_upgrading True, ack, report_status (combined(''archive-stop'' \<mapsto> JDict b))])))))"

definition upgrade_off :: "unit io" where
  "upgrade_off =
     sq (set_upgrading False)
      (bnd get_state (\<lambda>main_state.
       bnd (catch (sq (rw_call write_release) (ret True)) is_runtime (\<lambda>e.
              sq (error_msg ERROR_COMMAND_FAILED
                   (''FAIL: Can't disable upgrade: upgrading: False, main state: '' @ state_name main_state @ '', error''))
                (ret False))) (\<lambda>ok.
         if \<not> ok then ret ()
         else bnd (archive ''start'' None (-1)) (\<lambda>b.
           seqs [ack, report_status [''archive-start'' \<mapsto> JDict b]]))))"

text \<open>
  The five other arguments start processes on the controller's own machine (package
  management and cron); they are the parameter \<open>packages\<close>.
\<close>

definition upgrade_usage :: string where
  "upgrade_usage = ''upgrade [on | off | list | apt-get-update | controller | auto-on | auto-off]''"

definition do_upgrade :: "(string \<Rightarrow> unit io) \<Rightarrow> command \<Rightarrow> unit io" where
  "do_upgrade packages c =
     (case cm_args c of
        [] \<Rightarrow> bnd (gets w_upgrading) (\<lambda>u. bnd get_state (\<lambda>main_state. seqs [
          ack,
          report_status [''upgrading'' \<mapsto> JStr (if u then ''yes'' else ''no''), ''main-state'' \<mapsto> JStr (state_name main_state)]]))
      | [arg] \<Rightarrow>
          if arg \<notin> {''on'', ''off'', ''list'', ''apt-get-update'', ''controller'', ''auto-on'', ''auto-off''}
          then print_usage upgrade_usage
          else if arg \<noteq> ''on'' \<and> arg \<noteq> ''off'' then sq ack (packages arg)
          else if arg = ''on'' then upgrade_on
          else upgrade_off
      | _ \<Rightarrow> print_usage upgrade_usage)"

section \<open>Commands passed on to agents\<close>

definition lower_arg :: "string list \<Rightarrow> string" where
  "lower_arg args = (case args of [] \<Rightarrow> [] | x # _ \<Rightarrow> lower x)"

definition do_maint :: "command \<Rightarrow> unit io" where
  "do_maint c =
     (case cm_args c of
        [x] \<Rightarrow>
          if lower x \<noteq> ''start'' \<and> lower x \<noteq> ''stop'' then print_usage ''maint start|stop''
          else sq ack (bnd (maint (lower x) None True) report_status)
      | _ \<Rightarrow> print_usage ''maint start|stop'')"

definition do_archive :: "command \<Rightarrow> unit io" where
  "do_archive c =
     (if cm_args c = [] \<or> length (cm_args c) > 2 then print_usage ''archive [start|stop] [port]''
      else with_agent c (\<lambda>a.
        let action = lower (hd (cm_args c)) in
        if action \<noteq> ''start'' \<and> action \<noteq> ''stop'' then print_usage ''archive [start|stop] [port]''
        else (case (case cm_args c of [_, p] \<Rightarrow> parse_int p | _ \<Rightarrow> Some (-1)) of
            None \<Rightarrow> error_msg ERROR_INVALID_PORT
              (''invalid port '' @ last (cm_args c) @ '', number required.'')
          | Some port \<Rightarrow> sq ack (bnd (archive action (Some a) port) report_status))))"

definition do_status :: "command \<Rightarrow> unit io" where
  "do_status c =
     (if cm_args c \<noteq> [] then seqs [error_msg ERROR_USAGE (''status does not have an argument.''), print_usage ''status'']
      else with_agent c (\<lambda>a.
        sq ack (bnd (cli_cmd ''tabadmin status -v'' a Map.empty False (60 * 30)) report_status)))"

text \<open>
  The words of a command line, each one with a blank in it in double quotes.  Time limits are
  natural numbers here, so that a negative one in \<open>do_cli\<close> counts as zero.
\<close>

definition quote_arg :: "string \<Rightarrow> string \<Rightarrow> string" where
  "quote_arg sep arg =
     (if CHR '' '' \<in> set arg then CHR '' '' # quoted arg @ sep else CHR '' '' # arg)"

definition CLI_TIMEOUT :: nat where "CLI_TIMEOUT = 60 * 60 * 2"

definition do_cli :: "command \<Rightarrow> unit io" where
  "do_cli c =
     (case cm_args c of
        [] \<Rightarrow> print_usage ''[/timeout=<seconds>] cli <command> [args...]''
      | cmd # args \<Rightarrow> with_agent c (\<lambda>a. sq ack
          (let line = cmd @ concat (map (quote_arg '' '') args) in
           case cm_dict c ''timeout'' of
             None \<Rightarrow> bnd (cli_cmd line a Map.empty False CLI_TIMEOUT) report_status
           | Some None \<Rightarrow> raise (TypeError ''int() argument must be a string or a number'')
           | Some (Some t) \<Rightarrow>
               (case parse_int t of
                  None \<Rightarrow> error_msg ERROR_INVALID_PORT (''cli: Invalid timeout: '' @ t)
                | Some n \<Rightarrow> bnd (cli_cmd line a Map.empty False (nat n)) report_status))))"

definition do_kill :: "command \<Rightarrow> unit io" where
  "do_kill c =
     with_agent c (\<lambda>a.
       case cm_args c of
         [x] \<Rightarrow>
           (case parse_int x of
              None \<Rightarrow> error_msg ERROR_INVALID_XID (''Invalid XID: '' @ x)
            | Some xid \<Rightarrow> sq ack (bnd (kill_cmd (JInt xid) a) report_status))
       | _ \<Rightarrow> print_usage ''kill <xid>'')"

definition do_tabcmd :: "command \<Rightarrow> unit io" where
  "do_tabcmd c =
     with_agent c (\<lambda>a. sq ack
       (bnd (tabcmd (case cm_args c of [] \<Rightarrow> [] | x # xs \<Rightarrow> x @ concat (map (quote_arg '' '') xs)) a) report_status))"

definition do_phttp :: "command \<Rightarrow> unit io" where
  "do_phttp c =
     (if length (cm_args c) < 2 then print_usage ''phttp GET|PUT <URL> [source-or-destination]''
      else with_agent c (\<lambda>a. sq ack
        (bnd (cli_cmd (''phttp'' @ concat (map (quote_arg []) (cm_args c))) a
                [''BASIC_USERNAME'' \<mapsto> JStr (ag_username a), ''BASIC_PASSWORD'' \<mapsto> JStr (ag_password a)] False (10 * 60))
          report_status)))"

text \<open>\<open>copy_cmd\<close> takes four arguments and is given three.\<close>

definition do_copy :: "command \<Rightarrow> unit io" where
  "do_copy c =
     (if length (cm_args c) \<noteq> 3 then print_usage ''copy source-agent-name:filename dest-agent-name dest-dir''
      else sq ack (raise (TypeError ''copy_cmd() takes exactly 5 arguments (4 given)'')))"

definition firewall_commands :: "string \<Rightarrow> int list \<Rightarrow> body" where
  "firewall_commands act ports =
     [''ports'' \<mapsto> JList (map (\<lambda>p. JDict [''action'' \<mapsto> JStr act, ''num'' \<mapsto> JInt p]) ports)]"

fun parse_ports :: "string list \<Rightarrow> int list option" where
  "parse_ports [] = Some []"
| "parse_ports (x # xs) =
     (case (parse_int x, parse_ports xs) of (Some p, Some ps) \<Rightarrow> Some (p # ps) | _ \<Rightarrow> None)"

definition firewall_usage :: string where
  "firewall_usage = ''firewall { status | { enable | disable } port [port] }''"

definition do_firewall :: "command \<Rightarrow> unit io" where
  "do_firewall c =
     (case cm_args c of
        [] \<Rightarrow> print_usage firewall_usage
      | act # ports \<Rightarrow>
          if ports = [] \<and> act \<noteq> ''status'' \<or> ports \<noteq> [] \<and> act \<noteq> ''enable'' \<and> act \<noteq> ''disable''
          then print_usage firewall_usage
          else with_agent c (\<lambda>a.
            if act = ''status'' then sq ack (bnd (send_immediate a ''GET'' ''/firewall'' Map.empty) report_status)
            else (case parse_ports ports of
                None \<Rightarrow> error_msg ERROR_INVALID_PORT ''firewall: Invalid port: ''
              | Some ps \<Rightarrow> sq ack (bnd (send_immediate a ''POST'' ''/firewall'' (firewall_commands act ps)) report_status))))"

definition do_hup :: "command \<Rightarrow> unit io" where
  "do_hup c =
     with_agent c (\<lambda>a. sq ack (bnd (http_send a ''POST'' ''/hup'' Map.empty) (\<lambda>_. report_status Map.empty)))"

text \<open>The three actions of \<open>license\<close> about the license server are the parameter \<open>licensing\<close>.\<close>

definition license_usage :: string where
  "license_usage = ''license [update | info | {verify|send} | repair]''"

definition license_run :: "(string \<Rightarrow> body io) \<Rightarrow> string \<Rightarrow> agent option \<Rightarrow> unit io" where
  "license_run licensing action agent =
     sq ack (bnd (case agent of
       None \<Rightarrow> licensing action
     | Some a \<Rightarrow> if action = ''repair'' then repair a else license_check a) report_status)"

definition do_license :: "(string \<Rightarrow> body io) \<Rightarrow> command \<Rightarrow> unit io" where
  "do_license licensing c = upgrade_rwlock
     (let action = (case cm_args c of [] \<Rightarrow> ''update'' | x # _ \<Rightarrow> lower x) in
      if length (cm_args c) > 1 \<or> action \<notin> {''repair'', ''info'', ''verify'', ''send'', ''update''}
      then print_usage license_usage
      else bnd get_state (\<lambda>state.
        if action \<in> {''info'', ''verify'', ''send''} then bnd odbc_ok (\<lambda>_. license_run licensing action None)
        else bnd (get_agent c) (\<lambda>r. case r of
            None \<Rightarrow> error_msg ERROR_AGENT_NOT_CONNECTED (''FAIL: Main state is '' @ state_name state)
          | Some a \<Rightarrow> bnd odbc_ok (\<lambda>ok.
              if \<not> ok \<and> action \<noteq> ''repair'' then
                error_msg ERROR_WRONG_STATE (''FAIL: Main state is '' @ state_name state)
              else license_run licensing action (Some a)))))"

definition set_displayname :: "string option \<Rightarrow> string \<Rightarrow> unit io" where
  "set_displayname uuid name =
     bnd (gets w_db) (\<lambda>db. case filter (\<lambda>a. Some (ag_uuid a) = uuid) db of
       [] \<Rightarrow> raise (ValueError (''No agent found with uuid='' @ (case uuid of None \<Rightarrow> ''None'' | Some u \<Rightarrow> u)))
     | [a] \<Rightarrow> modify (\<lambda>w. w\<lparr>w_db := map (\<lambda>a. if Some (ag_uuid a) = uuid then a\<lparr>ag_displayname := Some name\<rparr> else a) (w_db w)\<rparr>)
     | _ \<Rightarrow> raise (DBError ''MultipleResultsFound''))"

fun is_value :: "pyexn \<Rightarrow> bool" where
  "is_value (ValueError s) = True"
| "is_value _ = False"

definition do_displayname :: "command \<Rightarrow> unit io" where
  "do_displayname c =
     (case cm_args c of
        [name] \<Rightarrow>
          (case cm_dict c ''uuid'' of
             None \<Rightarrow> raise (KeyError ''uuid'')
           | Some u \<Rightarrow>
               sq (catch (sq (set_displayname u name) ack) is_value
                     (\<lambda>e. error_msg ERROR_COMMAND_FAILED (exn_str e)))
                 (report_status Map.empty))
      | _ \<Rightarrow> print_usage ''displayname new-displayname'')"

definition do_nop :: "command \<Rightarrow> unit io" where
  "do_nop c = seqs [ack, report_status
     [''dict'' \<mapsto> JDict (\<lambda>k. map_option jopt (cm_dict c k)),
      ''command'' \<mapsto> JStr (cm_name c), ''args'' \<mapsto> JList (map JStr (cm_args c))]]"

section \<open>The main loop\<close>

text \<open>
  The handlers of this theory by the names of their methods; \<open>others\<close> are the methods of the
  class that are not modelled.
\<close>

record surroundings =
  su_packages :: "string \<Rightarrow> unit io"
  su_licensing :: "string \<Rightarrow> body io"
  su_others :: "string \<Rightarrow> (command \<Rightarrow> unit io) option"

definition handlers :: "surroundings \<Rightarrow> (string \<times> (command \<Rightarrow> unit io)) list" where
  "handlers env =
     [(''start'', do_start), (''restart'', do_restart), (''stop'', do_stop), (''backup'', do_backup),
      (''restore'', do_restore), (''restore_url'', do_restore_url), (''deletefile'', do_deletefile),
      (''ziplogs'', do_ziplogs), (''cleanup'', do_cleanup), (''license'', do_license (su_licensing env)),
      (''maint'', do_maint), (''archive'', do_archive), (''status'', do_status), (''cli'', do_cli),
      (''kill'', do_kill), (''tabcmd'', do_tabcmd), (''phttp'', do_phttp), (''copy'', do_copy),
      (''firewall'', do_firewall), (''hup'', do_hup), (''displayname'', do_displayname), (''nop'', do_nop),
      (''upgrade'', do_upgrade (su_packages env))]"

definition find_method :: "surroundings \<Rightarrow> string \<Rightarrow> (command \<Rightarrow> unit io) option" where
  "find_method env name = (case map_of (handlers env) name of Some f \<Rightarrow> Some f | None \<Rightarrow> su_others env name)"

text \<open>What became of a line: on to the next one, or the process exits, or it waits for a lock.\<close>

datatype ending = Proceeds | Exited nat | Waiting

text \<open>
  The password in \<open>ad verify username password\<close> and \<open>auth verify username password\<close> is kept
  out of the report of an exception.
\<close>

definition hide_password :: "string \<Rightarrow> string" where
  "hide_password line =
     (case words line of
        [cmd, verb, user, password] \<Rightarrow>
          if (cmd = ''ad'' \<or> cmd = ''auth'') \<and> verb = ''verify''
          then cmd @ '' '' @ verb @ '' '' @ user @ '' '' @ ''<>''
          else line
      | _ \<Rightarrow> line)"

definition in_quotes :: "string \<Rightarrow> string" where
  "in_quotes s = CHR 0x27 # s @ [CHR 0x27]"

definition exception_text :: "mstate \<Rightarrow> string \<Rightarrow> pyexn \<Rightarrow> string" where
  "exception_text before_state line e =
     ''Command Failed with Exception.'' @ [newline] @
     ''Command: '' @ in_quotes (hide_password line) @ [newline] @
     ''State is '' @ in_quotes (state_name before_state) @ ''.'' @ [newline] @
     traceback_string e"

text \<open>The version of the controller, which the event names too, is left out.\<close>

definition handle_exception :: "mstate \<Rightarrow> string \<Rightarrow> pyexn \<Rightarrow> unit io" where
  "handle_exception before_state line e = seqs [
     rollback,
     error_msg ERROR_COMMAND_FAILED (exception_text before_state line e),
     gen EV_SYSTEM_EXCEPTION (error_body (exception_text before_state line e)) None]"

definition exits :: "nat \<Rightarrow> mstate \<Rightarrow> string \<Rightarrow> pyexn \<Rightarrow> world \<Rightarrow> ending \<times> world" where
  "exits n before_state line e w = (Exited n, snd (handle_exception before_state line e w))"

definition after :: "unit io \<Rightarrow> world \<Rightarrow> ending \<times> world" where
  "after m w = (Proceeds, snd (m w))"

definition handle_line :: "surroundings \<Rightarrow> string \<Rightarrow> world \<Rightarrow> ending \<times> world" where
  "handle_line env line w =
     (case parse_command line w of
        (Inl e, w1) \<Rightarrow>
          (case e of
             CommandException msg \<Rightarrow> after (error_msg ERROR_COMMAND_SYNTAX_ERROR msg) w1
           | _ \<Rightarrow> exits 91 (cur_state w) line e w1)
      | (Inr c, w1) \<Rightarrow>
          (case find_method env (cm_name c) of
             None \<Rightarrow> after (error_msg ERROR_NO_SUCH_COMMAND (''invalid command: '' @ cm_name c)) w1
           | Some f \<Rightarrow>
               (case f c w1 of
                  (Inr _, w2) \<Rightarrow> after rollback w2
                | (Inl e, w2) \<Rightarrow>
                    (case e of
                       InvalidStateError msg \<Rightarrow> after (sq (error_msg ERROR_WRONG_STATE msg) rollback) w2
                     | Blocked \<Rightarrow> (Waiting, w2)
                     | _ \<Rightarrow> exits 92 (cur_state w) line e w2))))"

text \<open>The lines of a connection, stripped; an empty one ends it.\<close>

fun handle :: "surroundings \<Rightarrow> string list \<Rightarrow> world \<Rightarrow> ending \<times> world" where
  "handle env [] w = (Proceeds, w)"
| "handle env (line # lines) w =
     (if line = [] then (Proceeds, w)
      else (case handle_line env line w of
          (Proceeds, w') \<Rightarrow> handle env lines w'
        | r \<Rightarrow> r))"

section \<open>The locks\<close>

lemma acts_seqs_then: "acts f id m \<Longrightarrow> acts f g (seqs ms) \<Longrightarrow> acts f g (seqs (m # ms))"
  by (simp add: acts_sq_then)

text \<open>A guard that changes \<open>f\<close> by \<open>g\<close> if it answers False and leaves it alone otherwise.\<close>

definition ends_by :: "('s \<Rightarrow> 'b) \<Rightarrow> ('b \<Rightarrow> 'b) \<Rightarrow> ('s, bool) M \<Rightarrow> bool" where
  "ends_by f g m \<longleftrightarrow> (\<forall>s b s'. m s = (Inr b, s') \<longrightarrow> f s' = (if b then f s else g (f s)))"

lemma ends_ret: "ends_by f g (ret True)"
  by (simp add: ends_by_def)

lemma ends_sq_False: "acts f g m \<Longrightarrow> ends_by f g (sq m (ret False))"
  unfolding ends_by_def by (auto elim!: sq_returnsE dest: actsD)

lemma ends_bnd: "keeps f m \<Longrightarrow> (\<And>x. ends_by f g (k x)) \<Longrightarrow> ends_by f g (bnd m k)"
  unfolding ends_by_def by (auto elim!: bnd_returnsE dest: keepsD)

lemma ends_sq: "keeps f m \<Longrightarrow> ends_by f g n \<Longrightarrow> ends_by f g (sq m n)"
  by (simp add: sq_def ends_bnd)

lemma ends_if: "ends_by f g m \<Longrightarrow> ends_by f g n \<Longrightarrow> ends_by f g (if b then m else n)"
  by simp

lemma ends_cases:
  "(\<And>x y. ends_by f g (h x y)) \<Longrightarrow> ends_by f g (case p of (x, y) \<Rightarrow> h x y)"
  "(\<And>x. ends_by f g (k x)) \<Longrightarrow> ends_by f g (Let v k)"
  by (simp_all split: prod.split)

lemmas ends = ends_ret ends_sq_False ends_sq ends_bnd ends_if ends_cases

lemma acts_guard:
  assumes "ends_by f g m" and "acts f g k"
  shows "acts f g (bnd m (\<lambda>ok. if \<not> ok then ret () else k))"
  unfolding acts_def
proof (intro allI impI)
  fix s x s' assume "bnd m (\<lambda>ok. if \<not> ok then ret () else k) s = (Inr x, s')"
  then obtain b t where m: "m s = (Inr b, t)" and k: "(if \<not> b then ret () else k) t = (Inr x, s')"
    by (rule bnd_returnsE)
  from m assms(1) have "f t = (if b then f s else g (f s))" by (auto simp: ends_by_def)
  with k assms(2) show "f s' = g (f s)" by (cases b) (auto dest: actsD)
qed

lemma keeps_locks_commands [frame]:
  "keeps locks (cli_cmd c a e i t)" "keeps locks (maint x ag al)" "keeps locks (archive x ag p)"
  "keeps locks (backup_cmd a u)" "keeps locks rotate_backups" "keeps locks (ziplogs_cmd a u)"
  "keeps locks (cleanup_cmd a u)" "keeps locks (license_check a)" "keeps locks (repair a)"
  "keeps locks (get_file a n ck)" "keeps locks (send_immediate a m x b)" "keeps locks (kill_cmd j a)"
  "keeps locks (tabcmd y a)" "keeps locks (http_send a m x b)" "keeps locks (find_by_name n)"
  unfolding moves_none [symmetric] by (rule quiet_locks.moves_to_agents drift)+

lemma keeps_locks_restore [frame]:
  "keeps locks (restore_cmd a n s b u p)" "keeps locks (restore_url a l u b p)"
  unfolding moves_none [symmetric]
  by (rule any_locks.moves_restore_cmd any_locks.moves_restore_url UNIV_I)+

lemma keeps_locks_shared [frame]:
  "keeps locks (get_agent c)" "keeps locks (get_userid c)" "keeps locks trigger_check_status_event"
  "keeps locks (start_finish a u b)" "keeps locks (file_api f)" "keeps locks (backup_reply b)"
proof -
  show "keeps locks (get_agent c)" unfolding get_agent_def by (rule frame)+
  show "keeps locks (get_userid c)" unfolding get_userid_def by (auto intro: frame split: option.split)
  show "keeps locks trigger_check_status_event"
    unfolding trigger_check_status_event_def by (rule keeps_modify) (simp add: locks_def)
  show "keeps locks (start_finish a u b)" unfolding start_finish_def by (rule frame)+
  show f: "keeps locks (file_api f)" for f unfolding file_api_def by (rule frame)+
  show "keeps locks (backup_reply b)" unfolding backup_reply_def get_by_fileid_def by (rule frame f)+
qed

lemma acts_refuse: "acts locks (unlock_by a) (refuse a n msg)"
  unfolding refuse_def by (rule locked frame)+

lemma acts_start: "acts locks (unlock_by a) (start_run c a)"
  unfolding start_run_def
  by (rule acts_unlock_seqs acts_seqs_then acts_check_status_with_connection locked frame)+

lemma ends_pre_stop: "ends_by locks (unlock_by a) (pre_stop act a u l b)"
proof -
  have g: "acts locks (unlock_by a) (seqs [update_state m, report_status x, user_action_unlock a])" for m x
    by (rule acts_unlock_seqs acts_seqs_keeps frame)+
  have "ends_by locks (unlock_by a) (give_up a m x)" for m x
    unfolding give_up_def by (rule ends g)+
  note u = this
  have s: "ends_by locks (unlock_by a) (stop_backup act a u m)" for m
    unfolding stop_backup_def by (rule ends u frame)+
  show ?thesis unfolding pre_stop_def by (rule ends u s acts_refuse frame)+
qed

lemma acts_if_locked:
  "keeps locks busy \<Longrightarrow> acts locks (unlock_by a) k \<Longrightarrow> acts locks id (if_locked a busy k)"
  unfolding if_locked_def by (rule user_lock.guarded)

lemma acts_with_agent: "(\<And>a. acts locks id (k a)) \<Longrightarrow> acts locks id (with_agent c k)"
  unfolding with_agent_def by (rule acts_bnd_keeps, rule frame, rule acts_option, rule acts_ret_id)

lemma acts_keeps: "keeps locks m \<Longrightarrow> acts locks id m"
  by (rule keeps_acts)

lemma acts_sum:
  "(\<And>x. acts f g (h x)) \<Longrightarrow> (\<And>x. acts f g (k x)) \<Longrightarrow> acts f g (case v of Inl x \<Rightarrow> h x | Inr x \<Rightarrow> k x)"
  by (cases v) simp_all

text \<open>The steps of a proof that a handler gives its locks back, in the order they are tried.\<close>

lemmas giving_back = acts_if acts_option acts_sum acts_Let acts_unlock_seqs acts_seqs_then acts_check_status_with_connection
  acts_refuse acts_seqs_keeps acts_sq_keeps acts_bnd_keeps

lemma acts_restart: "acts locks (unlock_by a) (restart_run a u)"
proof -
  have b: "acts locks (unlock_by a) (sq (seqs ms) m)" if "acts locks (unlock_by a) (seqs ms)" "keeps locks m" for ms m
    using that by (rule acts_keeps_sq)
  have i: "acts locks (unlock_by a) (sq (if x then m1 else m2) n)"
    if "acts locks (unlock_by a) m1" "acts locks (unlock_by a) m2" "keeps locks n" for x m1 m2 n
    using that by (auto intro: acts_keeps_sq)
  show ?thesis unfolding restart_run_def by (rule i giving_back frame)+
qed

lemma acts_stop: "acts locks (unlock_by a) (stop_run a u m)"
  unfolding stop_run_def by (rule giving_back frame)+

lemma acts_backup: "acts locks (unlock_by a) (backup_run a u m)"
proof -
  have c: "keeps locks (backup_caught a u)" unfolding backup_caught_def by (rule frame)+
  have p: "acts f g (case z of (p1, p2, p3, p4) \<Rightarrow> h p1 p2 p3 p4)"
    if "\<And>p1 p2 p3 p4. acts f g (h p1 p2 p3 p4)" for f g h z
    using that by (cases z) simp
  show ?thesis unfolding backup_run_def by (rule p giving_back c frame)+
qed

lemma acts_in_state:
  "(\<And>m. acts locks (unlock_by a) (k m)) \<Longrightarrow> acts locks (unlock_by a) (in_state a up down sep k)"
  unfolding in_state_def by (rule giving_back frame | assumption)+

lemma acts_back_to: "acts locks (unlock_by a) (back_to a m b)"
  unfolding back_to_def by (rule giving_back frame)+

lemma acts_restore_run_all: "acts locks (unlock_by a) (restore_run_all c a n pw u m d)"
proof -
  have c: "keeps locks (restore_caught a n m b u pw)" for b unfolding restore_caught_def by (rule frame)+
  have f: "acts locks (unlock_by a) (restore_finish a d u b)" for b
    unfolding restore_finish_def by (rule giving_back frame)+
  have b: "acts locks (unlock_by a) (restore_backup a d u m k)" if "acts locks (unlock_by a) k" for k
    unfolding restore_backup_def by (rule that giving_back frame)+
  show ?thesis unfolding restore_run_all_def Let_def by (rule b f giving_back c frame)+
qed

lemma acts_restore_missing: "acts locks (unlock_by a) (restore_missing a d u msg)"
  unfolding restore_missing_def by (rule giving_back frame)+

lemma acts_restore_url: "acts locks (unlock_by a) (restore_url_finish a u b)"
  unfolding restore_url_finish_def by (rule giving_back frame)+

lemma keeps_locks_url_caught: "keeps locks (restore_url_caught a l u b pw)"
  unfolding restore_url_caught_def by (rule frame)+

lemma acts_blocking_lock:
  fixes k :: "unit io"
  assumes "acts locks (unlock_by a) k"
  shows "acts locks id (bnd (user_action_lock True a) (\<lambda>_. k))"
proof -
  have "bnd (user_action_lock True a) (\<lambda>_. k) = bnd (user_action_lock True a) (\<lambda>ok. if \<not> ok then ret () else k)"
    by (auto simp: fun_eq_iff user_action_lock_def bnd_def sq_def)
  with user_lock.guarded [OF keeps_ret assms] show ?thesis by simp
qed

text \<open>Every handler but \<open>upgrade\<close>.\<close>

lemma acts_user_actions:
  "acts locks id (do_start c)" "acts locks id (do_restart c)" "acts locks id (do_stop c)"
  "acts locks id (do_backup c)" "acts locks id (do_restore c)" "acts locks id (do_restore_url c)"
  "acts locks id (do_deletefile c)" "acts locks id (do_ziplogs c)" "acts locks id (do_cleanup c)"
proof -
  note start = acts_upgrade_rwlock acts_if acts_option acts_with_agent acts_if_locked
  note guard = acts_guard [OF ends_pre_stop]
  have k: "acts locks id (print_usage m)" "acts locks id (error_msg n m)" "acts locks id (seqs [ack, report_status b])" for m n b
    by (rule acts_keeps, (rule frame)+)+
  show "acts locks id (do_start c)"
    unfolding do_start_def start_locked_def by (rule start k acts_start giving_back frame)+
  show "acts locks id (do_restart c)"
    unfolding do_restart_def by (rule start k guard acts_restart giving_back frame)+
  show "acts locks id (do_stop c)"
    unfolding do_stop_def by (rule start k guard acts_stop giving_back frame)+
  show "acts locks id (do_backup c)"
    unfolding do_backup_def backup_locked_def by (rule start k acts_backup giving_back frame)+
  have l: "acts f id (case xs of [] \<Rightarrow> m | x # ys \<Rightarrow> g x ys)"
    if "acts f id m" "\<And>x ys. acts f id (g x ys)" for f :: "world \<Rightarrow> 'z" and xs :: "string list" and m :: "unit io" and g
    using that by (cases xs) simp_all
  show "acts locks id (do_restore c)"
    unfolding do_restore_def attempt_def Let_def
    by (rule start l k acts_restore_run_all acts_restore_missing giving_back frame)+
  show "acts locks id (do_restore_url c)"
    unfolding do_restore_url_def Let_def
    by (rule start l k acts_blocking_lock acts_restore_url giving_back keeps_locks_url_caught frame)+
  show "acts locks id (do_deletefile c)"
    unfolding do_deletefile_def by (rule start l k acts_in_state acts_raise giving_back frame)+
  show "acts locks id (do_ziplogs c)"
    unfolding do_ziplogs_def by (rule start k acts_in_state acts_back_to giving_back frame)+
  show "acts locks id (do_cleanup c)"
    unfolding do_cleanup_def by (rule start k acts_in_state acts_back_to giving_back frame)+
qed

lemma keeps_locks_passed_on:
  "keeps locks (do_maint c)" "keeps locks (do_archive c)" "keeps locks (do_status c)" "keeps locks (do_cli c)"
  "keeps locks (do_kill c)" "keeps locks (do_tabcmd c)" "keeps locks (do_phttp c)" "keeps locks (do_copy c)"
  "keeps locks (do_firewall c)" "keeps locks (do_hup c)" "keeps locks (do_displayname c)" "keeps locks (do_nop c)"
proof -
  have w: "keeps locks (with_agent c k)" if "\<And>a. keeps locks (k a)" for k
    unfolding with_agent_def by (rule that frame)+
  have s: "keeps locks (case xs of [x] \<Rightarrow> g x | _ \<Rightarrow> m)" if "\<And>x. keeps locks (g x)" "keeps locks m"
    for xs :: "string list" and g and m :: "unit io"
    using that by (cases xs; cases "tl xs") auto
  have d: "keeps locks (set_displayname u n)" for u n
  proof -
    have "keeps locks (modify (\<lambda>w. w\<lparr>w_db := g w\<rparr>))" for g by (rule keeps_modify) (simp add: locks_def)
    then show ?thesis
      unfolding set_displayname_def by (auto intro!: frame simp: locks_def split: list.split)
  qed
  show "keeps locks (do_maint c)" unfolding do_maint_def by (rule s frame)+
  show "keeps locks (do_archive c)" unfolding do_archive_def Let_def by (rule w frame)+
  show "keeps locks (do_status c)" unfolding do_status_def by (rule w frame)+
  show "keeps locks (do_cli c)"
    unfolding do_cli_def Let_def by (auto intro!: w frame split: list.split option.split)
  show "keeps locks (do_kill c)" unfolding do_kill_def by (rule w s frame)+
  show "keeps locks (do_tabcmd c)" unfolding do_tabcmd_def by (rule w frame)+
  show "keeps locks (do_phttp c)" unfolding do_phttp_def by (rule w frame)+
  show "keeps locks (do_copy c)" unfolding do_copy_def by (rule frame)+
  show "keeps locks (do_firewall c)" unfolding do_firewall_def by (rule w frame)+
  show "keeps locks (do_hup c)" unfolding do_hup_def by (rule w frame)+
  show "keeps locks (do_displayname c)"
    unfolding do_displayname_def by (rule s d frame)+
  show "keeps locks (do_nop c)" unfolding do_nop_def by (rule frame)+
qed

lemma acts_license:
  assumes "\<And>x. keeps locks (licensing x)"
  shows "acts locks id (do_license licensing c)"
proof -
  have r: "keeps locks (license_run licensing x g)" for x g
    unfolding license_run_def by (rule assms frame)+
  show ?thesis unfolding do_license_def Let_def by (rule acts_upgrade_rwlock, rule acts_keeps) (rule r frame)+
qed

text \<open>What the methods that are not modelled are taken to do with the locks: nothing.\<close>

definition gentle :: "surroundings \<Rightarrow> bool" where
  "gentle env \<longleftrightarrow>
     (\<forall>x. keeps locks (su_licensing env x)) \<and>
     (\<forall>n f c. su_others env n = Some f \<longrightarrow> acts locks id (f c))"

lemma acts_find_method:
  assumes "gentle env" and "find_method env n = Some f" and "n \<noteq> ''upgrade''"
  shows "acts locks id (f c)"
proof (cases "map_of (handlers env) n")
  case None
  with assms show ?thesis by (simp add: find_method_def gentle_def)
next
  case (Some g)
  with assms(2) have "map_of (handlers env) n = Some f" by (simp add: find_method_def)
  then show ?thesis
    using assms(1,3) acts_user_actions [of c] keeps_locks_passed_on [of c, THEN acts_keeps]
      acts_license [of "su_licensing env" c]
    by (auto simp: handlers_def gentle_def split: if_splits)
qed

end
