(* ===== verification/Session.thy ===== *)
theory Session
  imports Handlers
begin

text \<open>
  What the handlers and the main loop guarantee: the locks and the main state after a
  command, the guards of the commands that start and stop Tableau, and the lines that end
  the process.
\<close>

section \<open>Running a handler\<close>

text \<open>A handler under the upgrade lock, when nobody else holds it.\<close>

definition rw_read :: rwl where "rw_read = rw_init\<lparr>rwlock := 1\<rparr>"

lemma upgrade_run:
  assumes "w_rw w = rw_init" and "f (w\<lparr>w_rw := rw_read\<rparr>) = (r, v)" and "w_rw v = rw_read" and "r \<noteq> Inl Blocked"
  shows "upgrade_rwlock f w = (r, v\<lparr>w_rw := rw_init\<rparr>)"
proof -
  have a: "read_acquire True rw_init = Done True rw_read"
    by (simp add: read_acquire_def rw_init_def rw_read_def)
  have b: "\<exists>x. read_release rw_read = Done x rw_init"
    by (simp add: read_release_def finish_release_def rw_init_def rw_read_def Let_def)
  show ?thesis
    using assms a b
    by (auto simp: upgrade_rwlock_def rw_call_def sq_def bnd_def split: sum.split pyexn.split)
qed

text \<open>The one agent of the sample world, free to be locked.\<close>

definition calm_world :: "world \<Rightarrow> bool" where
  "calm_world w \<longleftrightarrow> w_agents w = [(1, agent0)] \<and> w_db w = [agent0] \<and> w_ulock w = (\<lambda>_. None)"

lemma locked_run:
  assumes "calm_world w" and "cm_dict c ''uuid'' = Some (Some ''u1'')"
    and "k agent0 (w\<lparr>w_ulock := (\<lambda>_. None)(1 := Some (w_thread w, 0))\<rparr>) = x"
  shows "with_agent c (\<lambda>a. if_locked a busy (k a)) w = x"
proof -
  have "get_agent c w = (Inr (Some agent0), w)"
    using assms(1,2)
    by (simp add: calm_world_def get_agent_def truthy_str_def agent_by_uuid_def all_agents_def enabled_agents_eq
        lift_sum_def bnd_def get_by_uuid_def agent0_def row_enabled_def)
  then show ?thesis
    using assms(1,3) by (simp add: calm_world_def with_agent_def if_locked_def user_action_lock_def bnd_def sq_def
        ulock_free_for_def agent0_def)
qed

text \<open>A user action on that agent, under both locks.\<close>

lemma user_action_run:
  assumes "calm_world w" and "w_rw w = rw_init" and "cm_dict c ''uuid'' = Some (Some ''u1'')"
    and "k agent0 (w\<lparr>w_rw := rw_read, w_ulock := (\<lambda>_. None)(1 := Some (w_thread w, 0))\<rparr>) = (Inr (), v)"
    and "w_rw v = rw_read"
  shows "upgrade_rwlock (with_agent c (\<lambda>a. if_locked a busy (k a))) w = (Inr (), v\<lparr>w_rw := rw_init\<rparr>)"
proof -
  let ?f = "with_agent c (\<lambda>a. if_locked a busy (k a))"
  have "?f (w\<lparr>w_rw := rw_read\<rparr>) = (Inr (), v)"
    using assms(1,4) by (intro locked_run [OF _ assms(3)]) (simp_all add: calm_world_def)
  from upgrade_run [of w ?f, OF assms(2) this assms(5)] show ?thesis by simp
qed

lemma refuse_run:
  assumes "w_ulock w = (\<lambda>_. None)(1 := Some (w_thread w, 0))"
  shows "refuse agent0 n msg w = (Inr (), w\<lparr>w_replies := w_replies w @ [ErrorReply n msg], w_ulock := \<lambda>_. None\<rparr>)"
  using assms by (simp add: refuse_def error_msg_def print_client_def user_action_unlock_def bnd_def sq_def
      ulock_free_for_def agent0_def)

section \<open>The locks\<close>

text \<open>C3: A handler that returns, on whatever path, has given back the user action lock of its
  agent as often as it took it and the upgrade lock that its decorator took; only \<open>upgrade\<close> leaves
  the upgrade lock otherwise than it found it.\<close>

theorem handlers_give_locks_back:
  assumes "gentle env" and "find_method env name = Some f" and "name \<noteq> ''upgrade''"
    and "f c w = (Inr (), w')"
  shows "locks w' = locks w"
  using actsD [OF acts_find_method [OF assms(1-3)] assms(4)] by simp

definition plain :: surroundings where
  "plain = \<lparr>su_packages = (\<lambda>_. ret ()), su_licensing = (\<lambda>_. ret Map.empty), su_others = (\<lambda>_. None)\<rparr>"

definition start_cmd :: command where
  "start_cmd = \<lparr>cm_name = ''start'', cm_dict = [''uuid'' \<mapsto> Some ''u1''], cm_args = []\<rparr>"

definition started_msg :: string where "started_msg = ''Can't start - main state is: '' @ state_name STATE_STARTED"

lemma start_refused:
  "do_start start_cmd world1 = (Inr (), world1\<lparr>w_replies := [ErrorReply ERROR_WRONG_STATE started_msg]\<rparr>)"
proof -
  let ?u = "world1\<lparr>w_rw := rw_read, w_ulock := (\<lambda>_. None)(1 := Some (w_thread world1, 0))\<rparr>"
  let ?v = "world1\<lparr>w_rw := rw_read, w_replies := [ErrorReply ERROR_WRONG_STATE started_msg]\<rparr>"
  have r: "refuse agent0 ERROR_WRONG_STATE started_msg ?u = (Inr (), ?v)"
    by (subst refuse_run) (simp_all add: world1_def world0_def)
  have s: "get_state ?u = (Inr STATE_STARTED, ?u)" by (simp add: get_state_def cur_state_def world1_def)
  have "start_locked start_cmd agent0 ?u = (Inr (), ?v)"
    unfolding start_locked_def bnd_def s using r by (simp add: down_states_def started_msg_def)
  from user_action_run [of world1 start_cmd "start_locked start_cmd", OF _ _ _ this]
  have "upgrade_rwlock (with_agent start_cmd (\<lambda>a. if_locked a (error_num ERROR_BUSY) (start_locked start_cmd a))) world1
      = (Inr (), ?v\<lparr>w_rw := rw_init\<rparr>)"
    by (simp add: calm_world_def start_cmd_def world1_def world0_def)
  then show ?thesis by (simp add: do_start_def start_cmd_def world1_def world0_def)
qed

theorem handlers_give_locks_back_witness:
  "find_method plain ''start'' = Some do_start \<and> locks (snd (do_start start_cmd world1)) = locks world1"
proof -
  have g: "gentle plain" by (simp add: gentle_def plain_def frame)
  have m: "find_method plain ''start'' = Some do_start" by (simp add: find_method_def handlers_def)
  show ?thesis using m handlers_give_locks_back [OF g m _ start_refused] by (simp add: start_refused)
qed

section \<open>The main state after a command\<close>

lemma acts_upgrade:
  assumes "acts f id body" and "\<And>w l. f (w\<lparr>w_rw := l\<rparr>) = f w"
  shows "acts f id (upgrade_rwlock body)"
  unfolding acts_def
proof (intro allI impI)
  fix w x w' assume "upgrade_rwlock body w = (Inr x, w')"
  then obtain l v l' where "body (w\<lparr>w_rw := l\<rparr>) = (Inr (), v)" "w' = v\<lparr>w_rw := l'\<rparr>"
    by (auto simp: upgrade_rwlock_def rw_call_def sq_def bnd_def
        split: outcome.splits prod.splits sum.splits pyexn.splits)
  with actsD [OF assms(1)] assms(2) show "f w' = id (f w)" by simp
qed

lemma keeps_upgrade:
  assumes "keeps f body" and "\<And>w l. f (w\<lparr>w_rw := l\<rparr>) = f w"
  shows "keeps f (upgrade_rwlock body)"
proof -
  have rw: "f v = f s" if "rw_call m s = (r, v)" for m :: "rwl \<Rightarrow> 'z outcome" and s r v
    using that assms(2) by (auto simp: rw_call_def bnd_def sq_def split: outcome.splits)
  have rwk: "keeps f (rw_call m)" for m :: "rwl \<Rightarrow> 'z outcome"
    unfolding keeps_def by (metis rw prod.collapse)
  show ?thesis
    unfolding upgrade_rwlock_def
  proof (rule keeps_sq [OF rwk], unfold keeps_def, intro allI)
    fix s
    obtain r v where b: "body s = (r, v)" by fastforce
    obtain r' u where c: "rw_call read_release v = (r', u)" by fastforce
    have "f v = f s" "f u = f v" using keepsD [OF assms(1) b] rw [OF c] by auto
    then show "f (snd (case body s of (Inl Blocked, w') \<Rightarrow> (Inl Blocked, w')
        | (r, w') \<Rightarrow> (case rw_call read_release w' of (Inl e, w'') \<Rightarrow> (Inl e, w'') | (Inr _, w'') \<Rightarrow> (r, w'')))) = f s"
      by (auto simp: b c split: sum.split pyexn.split)
  qed
qed

lemma keeps_state_shared [frame]:
  "keeps cur_state (get_agent c)" "keeps cur_state (get_userid c)" "keeps cur_state get_tableau_status"
  "keeps cur_state (refuse a n m)" "keeps cur_state (find_by_name x)"
proof -
  show "keeps cur_state (get_agent c)" unfolding get_agent_def by (rule frame)+
  show "keeps cur_state (get_userid c)" unfolding get_userid_def by (auto intro: frame split: option.split)
  show "keeps cur_state get_tableau_status" unfolding get_tableau_status_def by (rule frame)+
  show "keeps cur_state (refuse a n m)" unfolding refuse_def by (rule frame)+
  show "keeps cur_state (find_by_name x)" unfolding find_by_name_def by (rule frame)+
qed

lemma acts_with_agent_state:
  "(\<And>a. acts cur_state id (k a)) \<Longrightarrow> acts cur_state id (with_agent c k)"
  unfolding with_agent_def by (rule acts_bnd_keeps, rule frame, rule acts_option, rule acts_ret_id)

lemma acts_if_locked_state:
  "keeps cur_state busy \<Longrightarrow> acts cur_state id k \<Longrightarrow> acts cur_state id (if_locked a busy k)"
  unfolding if_locked_def by (rule acts_bnd_keeps, rule frame, rule acts_if, rule keeps_acts)

text \<open>What ends in the state it was told to go back to.\<close>

lemma restores_state:
  assumes "\<And>m. lands cur_state {m} (k m)"
  shows "acts cur_state id (bnd get_state k)"
  unfolding acts_def get_state_def
proof (intro allI impI)
  fix s x s' assume "bnd (gets cur_state) k s = (Inr x, s')"
  then have "k (cur_state s) s = (Inr x, s')" by (simp add: bnd_def)
  from landsD [OF assms this] show "cur_state s' = id (cur_state s)" by simp
qed


text \<open>\<open>returns_to m k\<close>: begun in \<open>m\<close>, \<open>k\<close> is back in \<open>m\<close> when it returns.\<close>

definition returns_to :: "mstate \<Rightarrow> 'a io \<Rightarrow> bool" where
  "returns_to m k \<longleftrightarrow> (\<forall>w x w'. cur_state w = m \<longrightarrow> k w = (Inr x, w') \<longrightarrow> cur_state w' = m)"

lemma returns_to_keeps: "keeps cur_state k \<Longrightarrow> returns_to m k"
  by (auto simp: returns_to_def dest: keepsD)

lemma returns_to_lands: "lands cur_state {m} k \<Longrightarrow> returns_to m k"
  by (auto simp: returns_to_def dest: landsD)

lemma returns_to_bnd: "keeps cur_state h \<Longrightarrow> (\<And>x. returns_to m (k x)) \<Longrightarrow> returns_to m (bnd h k)"
  unfolding returns_to_def
proof (intro allI impI)
  assume h: "keeps cur_state h" and k: "\<And>x. \<forall>w y w'. cur_state w = m \<longrightarrow> k x w = (Inr y, w') \<longrightarrow> cur_state w' = m"
  fix w y w' assume "cur_state w = m" and "bnd h k w = (Inr y, w')"
  then show "cur_state w' = m" using keepsD [OF h] k by (elim bnd_returnsE) metis
qed

lemma returns_to_if: "returns_to m h \<Longrightarrow> returns_to m k \<Longrightarrow> returns_to m (if b then h else k)"
  by simp

lemma acts_get_state:
  assumes "\<And>m. returns_to m (k m)"
  shows "acts cur_state id (bnd get_state k)"
  unfolding acts_def
proof (intro allI impI)
  fix w x w' assume "bnd get_state k w = (Inr x, w')"
  then have "k (cur_state w) w = (Inr x, w')" by (simp add: bnd_def get_state_def)
  with assms [of "cur_state w"] show "cur_state w' = id (cur_state w)"
    unfolding returns_to_def id_apply by blast
qed

lemmas returning = returns_to_if returns_to_bnd returns_to_keeps

lemma keeps_state_reply [frame]: "keeps cur_state (backup_reply b)" "keeps cur_state (user_action_unlock a)"
proof -
  have f: "keeps cur_state (file_api f)" for f unfolding file_api_def by (rule frame)+
  show "keeps cur_state (backup_reply b)" unfolding backup_reply_def get_by_fileid_def by (rule frame f)+
  show "keeps cur_state (user_action_unlock a)" by (rule frame)
qed

lemma lands_back_to: "lands cur_state {m} (back_to a m b)"
  unfolding back_to_def
  by (rule lands_seqs_moves, rule lands_update_state, simp, rule keeps_moves) (rule frame)+

lemma lands_backup_run: "lands cur_state {m} (backup_run a u m)"
proof -
  have e: "lands cur_state {m} (seqs [gen k d u, update_state m, user_action_unlock a, backup_reply b])" for k d b
    by (subst seqs.simps(2), rule lands_sq_any, rule lands_seqs_moves, rule lands_update_state, simp, rule keeps_moves) (rule frame)+
  show ?thesis
    unfolding backup_run_def
    by (cases "backup_keys u") (simp only: prod.case Let_def, intro lands_sq_any lands_bnd_any e)
qed

lemma acts_in_state_restored:
  assumes "\<And>m. lands cur_state {m} (k m)"
  shows "acts cur_state id (in_state a up down sep k)"
proof -
  have "returns_to m (sq (update_state s) (k m))" for m s
    by (rule returns_to_lands, rule lands_sq_any, rule assms)
  note r = this
  show ?thesis
    unfolding in_state_def
    by (rule acts_get_state, rule returns_to_if, rule r, rule returns_to_if, rule r, rule returns_to_keeps, rule frame)
qed

lemma acts_backup_locked: "acts cur_state id (backup_locked a u)"
proof -
  have "returns_to m (sq (update_state s) (backup_run a u m))" for m s
    by (rule returns_to_lands, rule lands_sq_any, rule lands_backup_run)
  note r = this
  show ?thesis
    unfolding backup_locked_def
    by (rule acts_get_state, rule returns_to_if, rule returns_to_keeps, rule frame, rule returns_to_bnd, rule frame)
      (rule returns_to_if r | rule returns_to_keeps, rule frame)+
qed

lemmas restoring_rules = acts_if acts_bnd_keeps acts_with_agent_state acts_if_locked_state acts_in_state_restored
  acts_backup_locked lands_sq_any lands_bnd_any lands_back_to keeps_acts

lemma acts_restored:
  "acts cur_state id (do_backup c)" "acts cur_state id (do_ziplogs c)" "acts cur_state id (do_cleanup c)"
proof -
  have s: "cur_state (w\<lparr>w_rw := l\<rparr>) = cur_state w" for w l by (simp add: cur_state_def)
  show "acts cur_state id (do_backup c)"
    unfolding do_backup_def by (rule acts_upgrade [OF _ s]) (rule restoring_rules frame)+
  show "acts cur_state id (do_ziplogs c)"
    unfolding do_ziplogs_def by (rule acts_upgrade [OF _ s]) (rule restoring_rules frame)+
  show "acts cur_state id (do_cleanup c)"
    unfolding do_cleanup_def by (rule acts_upgrade [OF _ s]) (rule restoring_rules frame)+
qed


text \<open>C9: \<open>backup\<close>, \<open>ziplogs\<close> and \<open>cleanup\<close>, whenever they return, on whatever path, leave the
  main state as they found it; that is so even if the primary was lost on the way, when DISCONNECTED
  is overwritten.\<close>

theorem state_comes_back:
  assumes "name \<in> {''backup'', ''ziplogs'', ''cleanup''}" and "find_method env name = Some f"
    and "f c w = (Inr (), w')"
  shows "cur_state w' = cur_state w"
proof -
  have "f \<in> {do_backup, do_ziplogs, do_cleanup}"
    using assms(1,2) by (auto simp: find_method_def handlers_def)
  then have "acts cur_state id (f c)" using acts_restored by auto
  from actsD [OF this assms(3)] show ?thesis by simp
qed

definition cleanup_line :: command where
  "cleanup_line = \<lparr>cm_name = ''cleanup'', cm_dict = [''uuid'' \<mapsto> Some ''u1''], cm_args = []\<rparr>"

definition cleanup_world :: world where
  "cleanup_world = world1\<lparr>w_net := [(0, Resp 200 ''OK'' (JsonBody stop_failed))]\<rparr>"

lemma cleanup_run: "\<exists>w'. do_cleanup cleanup_line cleanup_world = (Inr (), w')"
proof -
  let ?k = "\<lambda>a. in_state a STATE_STARTED_CLEANUP STATE_STOPPED_CLEANUP [] (\<lambda>main_state.
      bnd (get_userid cleanup_line) (\<lambda>userid. sq ack (bnd (cleanup_cmd a userid) (back_to a main_state))))"
  let ?u = "cleanup_world\<lparr>w_rw := rw_read, w_ulock := (\<lambda>_. None)(1 := Some (w_thread cleanup_world, 0))\<rparr>"
  have "\<exists>v. ?k agent0 ?u = (Inr (), v) \<and> w_rw v = rw_read"
    by (simp add: in_state_def get_state_def cur_state_def bnd_def sq_def get_userid_def cleanup_line_def
        cleanup_world_def world1_def world0_def up_states_def update_state_def ack_def print_client_def cleanup_cmd_def
        cli_cmd_def send_cli_def post_start_def checked_exchange_def exchange_def next_xid_def gen_def conf0_def
        agent_todict_def dict_add_def back_to_def json_loads_def check_started_def failed_def gen_result_def
        stop_failed_def has_key_def user_action_unlock_def agent0_def report_status_def ulock_free_for_def)
  then obtain v where "?k agent0 ?u = (Inr (), v)" "w_rw v = rw_read" by blast
  from user_action_run [of cleanup_world cleanup_line ?k, OF _ _ _ this]
  have "upgrade_rwlock (with_agent cleanup_line (\<lambda>a. if_locked a (error_num ERROR_BUSY) (?k a))) cleanup_world
      = (Inr (), v\<lparr>w_rw := rw_init\<rparr>)"
    by (simp add: calm_world_def cleanup_line_def cleanup_world_def world1_def world0_def)
  then show ?thesis by (simp add: do_cleanup_def cleanup_line_def)
qed

theorem state_comes_back_witness:
  "find_method plain ''cleanup'' = Some do_cleanup \<and>
   (\<exists>w'. do_cleanup cleanup_line cleanup_world = (Inr (), w') \<and> cur_state w' = STATE_STARTED)"
proof -
  have m: "find_method plain ''cleanup'' = Some do_cleanup" by (simp add: find_method_def handlers_def)
  obtain w' where r: "do_cleanup cleanup_line cleanup_world = (Inr (), w')" using cleanup_run by blast
  have "cur_state w' = cur_state cleanup_world"
    by (rule state_comes_back [OF _ m r]) simp
  then show ?thesis using m r by (simp add: cleanup_world_def world1_def cur_state_def)
qed


section \<open>Before a stop\<close>

lemma keeps_files_requests [frame]:
  "keeps w_files (cli_cmd cmd a env im t)" "keeps w_files (license_check a)"
proof -
  show c: "keeps w_files (cli_cmd cmd a env im t)" for cmd env im t
    using keeps_part [OF keeps_kept_commands(1), of snd] by (simp add: kept_def)
  have m: "keeps w_files (modify (\<lambda>w. w\<lparr>w_licenses := g w\<rparr>))"
    "keeps w_files (modify (\<lambda>w. w\<lparr>w_notifications := h w\<rparr>))" "keeps w_files commit" "keeps w_files (gen k d u)"
    for g h k d u
    by (simp_all add: keeps_def commit_def) (simp add: keeps_gen keeps_snd)
  have e: "keeps w_files (license_eventit a msg ok)" for msg ok
    unfolding license_eventit_def get_notification_def set_notification_def by (rule m frame)+
  have l: "keeps w_files (get_license i d)" for i d
    unfolding get_license_def Let_def by (rule m frame)+
  have r: "keeps w_files (license_report a d)" for d
    unfolding license_report_def by (rule m e l frame)+
  have k: "keeps w_files (if exited_nonzero b then ret b else (case b ''stdout'' of None \<Rightarrow> ret b
      | Some (JStr output) \<Rightarrow> license_report a (parse output)
      | Some _ \<Rightarrow> raise (TypeError ''expected string or buffer'')))" for b
    by (auto intro: r frame split: option.split jval.split)
  show "keeps w_files (license_check a)"
    unfolding license_check_def by (rule keeps_bnd [OF c k])
qed

lemma give_up_run: "give_up a m b w = (Inr ok, w') \<Longrightarrow> \<not> ok \<and> cur_state w' = m \<and> w_files w' = w_files w"
  by (auto simp: give_up_def update_state_def user_action_unlock_def report_status_def print_client_def cur_state_def
      ret_def bnd_def sq_def split: if_splits)

lemma refused_run:
  "sq (refuse a n msg) (ret False) w = (Inr ok, w') \<Longrightarrow> \<not> ok \<and> cur_state w' = cur_state w \<and> w_files w' = w_files w"
  by (auto simp: refuse_def error_msg_def user_action_unlock_def print_client_def cur_state_def
      ret_def bnd_def sq_def split: if_splits)

lemma stop_backup_run:
  assumes "stop_backup act a u m w = (Inr ok, w')"
  shows "if ok then \<exists>f. w_files w' = w_files w @ [f] else w_files w' = w_files w \<and> cur_state w' = m"
proof -
  obtain st ks kf kc kx where k: "stop_keys act = (st, ks, kf, kc, kx)" by (cases "stop_keys act") auto
  obtain v b v1 where s: "seqs [update_state st, gen ks (agent_todict a) u] w = (Inr (), v)"
    and b: "backup_cmd a u v = (Inr b, v1)"
    and e: "(if success b then
         sq (gen (if has_key b ''copy-failed'' then kc else kf) (dict_add b (agent_todict a)) u) (ret True)
       else sq (gen kx (dict_add b (agent_todict a)) u)
         (give_up a m (add_info [newline] ''Backup failed.  Will not attempt stop'' b))) v1 = (Inr ok, w')"
    using assms unfolding stop_backup_def k prod.case Let_def by (elim sq_returnsE bnd_returnsE) simp
  have "keeps w_files (seqs [update_state st, gen ks (agent_todict a) u])"
    by (intro keeps_seqs_Cons keeps_seqs_Nil keeps_gen) (simp_all add: update_state_def keeps_def)
  from keepsD [OF this s] have v: "w_files v = w_files w" .
  have g: "w_files t = w_files v1" if "gen key d u v1 = (Inr (), t)" for key d t
    using keepsD [of w_files "gen key d u", OF keeps_gen that] by simp
  show ?thesis
    using e backup_cmd_run [OF b] v
    by (auto simp: success_iff ret_def backup_row_of_def dest!: g give_up_run elim!: sq_returnsE split: if_splits)
qed




definition world_up :: world where
  "world_up = world1\<lparr>w_procs := [\<lparr>pr_agentid = 1, pr_name = ''Status'', pr_pid = 0, pr_status = STATUS_RUNNING\<rparr>]\<rparr>"


section \<open>Guards\<close>

lemma upgrade_returns:
  assumes "upgrade_rwlock f w = (Inr x, w')"
  obtains l v l' where "f (w\<lparr>w_rw := l\<rparr>) = (Inr (), v)" and "w' = v\<lparr>w_rw := l'\<rparr>"
  using assms by (auto simp: upgrade_rwlock_def rw_call_def sq_def bnd_def
      split: outcome.splits prod.splits sum.splits pyexn.splits)

text \<open>What a handler leaves alone before it acts: the requests, the main state and the tables.\<close>

definition settled_part :: "world \<Rightarrow> request list \<times> mstate option \<times> process list \<times> agent list \<times> file_entry list" where
  "settled_part w = (w_sent w, w_state w, w_procs w, w_db w, w_files w)"

lemma settled_updates [simp]:
  "settled_part (w\<lparr>w_rw := l\<rparr>) = settled_part w" "settled_part (w\<lparr>w_replies := r\<rparr>) = settled_part w"
  "settled_part (w\<lparr>w_ulock := u\<rparr>) = settled_part w"
  by (simp_all add: settled_part_def)

lemma keeps_settled [frame]:
  "keeps settled_part (print_usage m)" "keeps settled_part (error_num n)" "keeps settled_part (error_msg n m)"
  "keeps settled_part ack" "keeps settled_part (user_action_unlock a)" "keeps settled_part (user_action_lock b a)"
  by (rule keeps_reply, simp)+ (auto simp: keeps_def user_action_unlock_def user_action_lock_def bnd_def sq_def)

lemma keeps_settled_shared [frame]:
  "keeps settled_part (get_agent c)" "keeps settled_part (refuse a n m)" "keeps settled_part (find_by_name x)"
proof -
  show "keeps settled_part (get_agent c)" unfolding get_agent_def by (rule frame)+
  show "keeps settled_part (refuse a n m)" unfolding refuse_def by (rule frame)+
  show "keeps settled_part (find_by_name x)" unfolding find_by_name_def by (rule frame)+
qed

lemma with_agent_returns:
  assumes "with_agent c (\<lambda>a. if_locked a busy (k a)) w = (Inr (), w')" and "keeps settled_part busy"
  shows "settled_part w' = settled_part w \<or> (\<exists>a v. settled_part v = settled_part w \<and> k a v = (Inr (), w'))"
proof -
  obtain r v where g: "get_agent c w = (Inr r, v)"
    and e: "(case r of None \<Rightarrow> ret () | Some a \<Rightarrow> if_locked a busy (k a)) v = (Inr (), w')"
    using assms(1) unfolding with_agent_def by (rule bnd_returnsE)
  have v: "settled_part v = settled_part w" using keepsD [OF keeps_settled_shared(1) g] by simp
  show ?thesis
  proof (cases r)
    case None
    with e v show ?thesis by (simp add: ret_def)
  next
    case (Some a)
    with e obtain ok u where l: "user_action_lock False a v = (Inr ok, u)"
      and k: "(if \<not> ok then busy else k a) u = (Inr (), w')"
      by (auto simp: if_locked_def elim!: bnd_returnsE simp del: if_split)
    have "settled_part u = settled_part v" using keepsD [OF keeps_settled(6) l] by simp
    with v k keepsD [OF assms(2)] show ?thesis by (cases ok) auto
  qed
qed


lemma settled_state: "settled_part v = settled_part w \<Longrightarrow> cur_state v = cur_state w"
  by (simp add: settled_part_def cur_state_def)

lemma settled_status:
  "settled_part v = settled_part w \<Longrightarrow> get_tableau_status v = (r, v) \<Longrightarrow> get_tableau_status w = (r, w)"
  by (auto simp: settled_part_def get_tableau_status_def status_rows_def bnd_def ret_def raise_def
      split: list.splits if_splits)

lemma status_run: "get_tableau_status w = (r, v) \<Longrightarrow> v = w"
  by (auto simp: get_tableau_status_def bnd_def ret_def raise_def split: list.splits if_splits)

lemma lands_start_run: "lands cur_state {STATE_STARTED, STATE_STOPPED} (start_run c a)"
proof -
  let ?V = "{STATE_STARTED, STATE_STOPPED}"
  have f: "lands cur_state ?V (seqs [m, update_state s, gen k d u])" if "s \<in> ?V" for m s k d u
    unfolding seqs.simps
    by (rule lands_sq_any, rule lands_sq_moves, rule lands_update_state, rule that, rule keeps_moves) (rule frame)+
  have g: "lands cur_state ?V (seqs [update_state s, gen k d u])" if "s \<in> ?V" for s k d u
    unfolding seqs.simps
    by (rule lands_sq_moves, rule lands_update_state, rule that, rule keeps_moves) (rule frame)+
  have e: "lands cur_state ?V (start_finish a u b)" for u b
    unfolding start_finish_def Let_def by (rule lands_cases, rule f, simp, rule g, simp)
  have t: "lands cur_state ?V (seqs [m, start_finish a u b, user_action_unlock a, report_status b])" for m u b
    unfolding seqs.simps
    by (rule lands_sq_any, rule lands_sq_moves, rule e, rule keeps_moves) (rule frame)+
  show ?thesis
    unfolding start_run_def by (intro lands_sq_any lands_bnd_any t)
qed

lemma start_locked_run:
  assumes "start_locked c a w = (Inr (), w')"
  shows "settled_part w' = settled_part w \<or>
    cur_state w \<in> set down_states \<and> get_tableau_status w = (Inr STATUS_STOPPED, w) \<and> cur_state w' \<in> {STATE_STARTED, STATE_STOPPED}"
proof -
  have r: "settled_part v' = settled_part v" if "refuse a n m v = (x, v')" for n m v x v'
    using keepsD [OF keeps_settled_shared(2) that] .
  show ?thesis
  proof (cases "cur_state w \<in> set down_states")
    case False
    with assms show ?thesis by (auto simp: start_locked_def get_state_def bnd_def dest: r)
  next
    case True
    with assms obtain s v where s: "get_tableau_status w = (Inr s, v)"
      and k: "(if s \<noteq> STATUS_STOPPED then refuse a ERROR_WRONG_STATE (''Can't start - reported status is: '' @ s)
        else start_run c a) v = (Inr (), w')"
      by (auto simp: start_locked_def get_state_def bnd_def split: sum.splits prod.splits)
    from k True s show ?thesis
      using landsD [OF lands_start_run] by (auto simp: status_run [OF s] dest: r split: if_splits)
  qed
qed

text \<open>C16: \<open>start\<close>, when it returns, either has refused, and then nothing has been sent to an
  agent and the main state is as it was, or has found Tableau down by the main state and stopped by
  its own report, and leaves the main state STARTED or STOPPED.\<close>

theorem start_guarded:
  assumes "do_start c w = (Inr (), w')"
  shows "w_sent w' = w_sent w \<and> cur_state w' = cur_state w \<or>
    cur_state w \<in> {STATE_STOPPED, STATE_STOPPED_UNEXPECTED} \<and>
    get_tableau_status w = (Inr STATUS_STOPPED, w) \<and> cur_state w' \<in> {STATE_STARTED, STATE_STOPPED}"
proof -
  let ?f = "with_agent c (\<lambda>a. if_locked a (error_num ERROR_BUSY) (start_locked c a))"
  have quiet: ?thesis if "settled_part w' = settled_part w"
    using that settled_state [OF that] by (simp add: settled_part_def)
  from assms obtain l v l' where run: "(if cm_args c \<noteq> [] then print_usage ''start'' else ?f) (w\<lparr>w_rw := l\<rparr>) = (Inr (), v)"
    and w': "w' = v\<lparr>w_rw := l'\<rparr>"
    unfolding do_start_def by (rule upgrade_returns)
  show ?thesis
  proof (cases "cm_args c = []")
    case False
    with run have "print_usage ''start'' (w\<lparr>w_rw := l\<rparr>) = (Inr (), v)" by simp
    from keepsD [OF keeps_settled(1) this] w' show ?thesis by (intro quiet) simp
  next
    case True
    with run have "?f (w\<lparr>w_rw := l\<rparr>) = (Inr (), v)" by simp
    from with_agent_returns [OF this keeps_settled(2)] consider "settled_part v = settled_part w"
      | a u where "settled_part u = settled_part w" "start_locked c a u = (Inr (), v)" by auto
    then show ?thesis
    proof cases
      case 1
      with w' show ?thesis by (intro quiet) simp
    next
      case 2
      have c: "cur_state w' = cur_state v" using w' by (simp add: cur_state_def)
      from start_locked_run [OF 2(2)] show ?thesis
      proof
        assume "settled_part v = settled_part u"
        with 2(1) w' show ?thesis by (intro quiet) simp
      next
        assume "cur_state u \<in> set down_states \<and> get_tableau_status u = (Inr STATUS_STOPPED, u) \<and> cur_state v \<in> {STATE_STARTED, STATE_STOPPED}"
        with settled_state [OF 2(1)] settled_status [OF 2(1)] c show ?thesis by (simp add: down_states_def)
      qed
    qed
  qed
qed

theorem start_guarded_witness:
  "\<exists>w'. do_start \<lparr>cm_name = ''start'', cm_dict = [''uuid'' \<mapsto> None], cm_args = []\<rparr> world1 = (Inr (), w') \<and>
     w_sent w' = w_sent world1 \<and> cur_state w' = cur_state world1"
proof -
  let ?c = "\<lparr>cm_name = ''start'', cm_dict = [''uuid'' \<mapsto> None], cm_args = []\<rparr>"
  have "\<exists>w'. do_start ?c world1 = (Inr (), w')"
    by (simp add: do_start_def upgrade_rwlock_def rw_call_def read_acquire_def read_release_def finish_release_def
        rw_init_def with_agent_def get_agent_def truthy_str_def error_num_def print_client_def world1_def world0_def
        bnd_def sq_def Let_def)
  then obtain w' where run: "do_start ?c world1 = (Inr (), w')" by blast
  from start_guarded [OF run] show ?thesis using run by (auto simp: world1_def cur_state_def)
qed


section \<open>Deleting a file\<close>

definition acks :: "world \<Rightarrow> nat" where
  "acks w = length (filter (\<lambda>r. r = Ack) (w_replies w))"

definition quiet_part :: "world \<Rightarrow> file_entry list \<times> request list \<times> nat" where
  "quiet_part w = (w_files w, w_sent w, acks w)"

text \<open>\<open>m\<close> keeps the files and sends nothing, and if it says OK it dies with the main state in FILEDEL.\<close>

definition filedel :: "world \<Rightarrow> bool" where
  "filedel w \<longleftrightarrow> cur_state w \<in> {STATE_STARTED_FILEDEL, STATE_STOPPED_FILEDEL}"

definition dead_end :: "'a io \<Rightarrow> bool" where
  "dead_end m \<longleftrightarrow> (\<forall>w. case m w of (r, w') \<Rightarrow>
     w_files w' = w_files w \<and> w_sent w' = w_sent w \<and>
     (acks w' = acks w \<or> isl r \<and> filedel w'))"

lemma dead_end_at:
  "dead_end m \<Longrightarrow> m w = (r, w') \<Longrightarrow> w_files w' = w_files w \<and> w_sent w' = w_sent w \<and>
     (acks w' = acks w \<or> isl r \<and> filedel w')"
  unfolding dead_end_def by (drule spec [of _ w]) simp

lemma dead_end_keeps: "keeps quiet_part m \<Longrightarrow> dead_end m"
  by (auto simp: dead_end_def quiet_part_def dest: keepsD split: prod.split)

lemma dead_end_bnd:
  assumes "keeps quiet_part m" and "\<And>x. dead_end (k x)"
  shows "dead_end (bnd m k)"
  unfolding dead_end_def
proof
  fix w
  obtain r v where m: "m w = (r, v)" by fastforce
  have v: "w_files v = w_files w" "w_sent v = w_sent w" "acks v = acks w"
    using keepsD [OF assms(1) m] by (simp_all add: quiet_part_def)
  show "case bnd m k w of (r, w') \<Rightarrow> w_files w' = w_files w \<and> w_sent w' = w_sent w \<and>
     (acks w' = acks w \<or> isl r \<and> filedel w')"
  proof (cases r)
    case (Inl e)
    with m v show ?thesis by (simp add: bnd_def)
  next
    case (Inr x)
    with m have "bnd m k w = k x v" by (simp add: bnd_def)
    then show ?thesis using assms(2) [of x] v unfolding dead_end_def by (auto dest: spec [of _ v])
  qed
qed

lemma dead_end_cases:
  "dead_end m \<Longrightarrow> dead_end n \<Longrightarrow> dead_end (if b then m else n)"
  "dead_end m \<Longrightarrow> (\<And>x. dead_end (k x)) \<Longrightarrow> dead_end (case v of None \<Rightarrow> m | Some x \<Rightarrow> k x)"
  by (auto split: option.split)

lemma keeps_quiet [frame]:
  "keeps quiet_part (print_usage m)" "keeps quiet_part (error_num n)" "keeps quiet_part (error_msg n m)"
  "keeps quiet_part (user_action_unlock a)" "keeps quiet_part (user_action_lock b a)" "keeps quiet_part (update_state s)"
  by (auto simp: quiet_part_def acks_def keeps_def user_action_unlock_def user_action_lock_def bnd_def sq_def
      print_usage_def error_msg_def error_num_def print_client_def update_state_def)

lemma keeps_quiet_shared [frame]:
  "keeps quiet_part (get_agent c)" "keeps quiet_part (refuse a n m)" "keeps quiet_part (find_by_name x)"
  "keeps quiet_part (rw_call (f :: rwl \<Rightarrow> 'z outcome))"
proof -
  show "keeps quiet_part (get_agent c)" unfolding get_agent_def by (rule frame)+
  show "keeps quiet_part (refuse a n m)" unfolding refuse_def by (rule frame)+
  show "keeps quiet_part (find_by_name x)" unfolding find_by_name_def by (rule frame)+
  show "keeps quiet_part (rw_call f)"
    by (auto simp: rw_call_def keeps_def bnd_def sq_def quiet_part_def acks_def split: outcome.split)
qed


lemma dead_end_in_state:
  "dead_end (in_state a STATE_STARTED_FILEDEL STATE_STOPPED_FILEDEL sep
     (\<lambda>m. sq ack (raise (AttributeError ''delfile_cmd''))))"
  unfolding in_state_def
proof (rule dead_end_bnd)
  show "keeps quiet_part get_state" by (simp add: get_state_def keeps_def)
  have d: "dead_end (sq (update_state s) (sq ack (raise (AttributeError ''delfile_cmd''))))"
    if "s \<in> {STATE_STARTED_FILEDEL, STATE_STOPPED_FILEDEL}" for s
    using that by (auto simp: dead_end_def filedel_def acks_def sq_def bnd_def update_state_def ack_def print_client_def
        cur_state_def)
  have r: "dead_end (refuse a n m)" for n m by (rule dead_end_keeps, rule frame)
  show "dead_end (if x \<in> set up_states then sq (update_state STATE_STARTED_FILEDEL) (sq ack (raise (AttributeError ''delfile_cmd'')))
     else if x \<in> set down_states then sq (update_state STATE_STOPPED_FILEDEL) (sq ack (raise (AttributeError ''delfile_cmd'')))
     else refuse a ERROR_WRONG_STATE (''FAIL: Main state is '' @ state_name x @ sep))" for x
    by (intro dead_end_cases d r) simp_all
qed

lemma dead_end_upgrade:
  assumes "dead_end f"
  shows "dead_end (upgrade_rwlock f)"
  unfolding upgrade_rwlock_def sq_def
proof (rule dead_end_bnd, rule frame)
  fix x
  show "dead_end (\<lambda>w. case f w of (Inl Blocked, w') \<Rightarrow> (Inl Blocked, w')
     | (r, w') \<Rightarrow> (case rw_call read_release w' of (Inl e, w'') \<Rightarrow> (Inl e, w'') | (Inr _, w'') \<Rightarrow> (r, w'')))"
    unfolding dead_end_def
  proof
    fix w
    obtain r v where f: "f w = (r, v)" by fastforce
    obtain q u where g: "rw_call read_release v = (q, u)" by fastforce
    have u: "w_files u = w_files v" "w_sent u = w_sent v" "acks u = acks v"
      using keepsD [OF keeps_quiet_shared(4) g] by (simp_all add: quiet_part_def)
    have "w_state u = w_state v"
      using g by (auto simp: rw_call_def bnd_def sq_def split: outcome.splits)
    then have "filedel u = filedel v" by (simp add: filedel_def cur_state_def)
    then show "case case f w of (Inl Blocked, w') \<Rightarrow> (Inl Blocked, w')
         | (r, w') \<Rightarrow> (case rw_call read_release w' of (Inl e, w'') \<Rightarrow> (Inl e, w'') | (Inr _, w'') \<Rightarrow> (r, w''))
       of (r, w') \<Rightarrow> w_files w' = w_files w \<and> w_sent w' = w_sent w \<and>
         (acks w' = acks w \<or> isl r \<and> filedel w')"
      using dead_end_at [OF assms f] u by (auto simp: f g split: sum.split pyexn.split)
  qed
qed


lemma dead_end_deletefile: "dead_end (do_deletefile c)"
proof -
  have "dead_end (with_agent c (\<lambda>a. if_locked a (error_num ERROR_BUSY)
      (in_state a STATE_STARTED_FILEDEL STATE_STOPPED_FILEDEL ''.''
        (\<lambda>m. sq ack (raise (AttributeError ''delfile_cmd''))))))"
    unfolding with_agent_def if_locked_def
    by (rule dead_end_bnd dead_end_cases dead_end_in_state | rule dead_end_keeps, rule frame | rule frame)+
  note w = this
  have e: "dead_end (error_msg n m)" "dead_end (print_usage m)" for n m by (rule dead_end_keeps, rule frame)+
  have "dead_end (bnd (find_by_name x) (\<lambda>entry. case entry of
      None \<Rightarrow> error_msg ERROR_NOT_FOUND (''File not found: '' @ x)
    | Some f \<Rightarrow> with_agent c (\<lambda>a. if_locked a (error_num ERROR_BUSY)
        (in_state a STATE_STARTED_FILEDEL STATE_STOPPED_FILEDEL ''.''
          (\<lambda>m. sq ack (raise (AttributeError ''delfile_cmd'')))))))" for x
    by (rule dead_end_bnd, rule frame) (rule dead_end_cases e w)+
  then show ?thesis
    unfolding do_deletefile_def
    by (intro dead_end_upgrade) (auto intro: e split: list.split)
qed

text \<open>\<open>deletefile\<close> never deletes: whatever the command and whatever becomes of it, the table of
  files is as it was and nothing has been sent to an agent; and if the client has been told OK, the
  handler has raised, with the main state left in one of the two FILEDEL states.  The method it calls
  does not exist.\<close>

theorem deletefile_never_deletes:
  assumes "do_deletefile c w = (r, w')"
  shows "w_files w' = w_files w \<and> w_sent w' = w_sent w \<and>
    (acks w' = acks w \<or> isl r \<and> cur_state w' \<in> {STATE_STARTED_FILEDEL, STATE_STOPPED_FILEDEL})"
  using dead_end_at [OF dead_end_deletefile assms] unfolding filedel_def by simp

theorem deletefile_never_deletes_witness:
  "\<exists>r w'. do_deletefile cleanup_line world_up = (r, w') \<and> w_files w' = w_files world_up \<and> w_sent w' = w_sent world_up"
proof -
  obtain r w' where run: "do_deletefile cleanup_line world_up = (r, w')" by fastforce
  from deletefile_never_deletes [OF run] run show ?thesis by blast
qed

section \<open>Passwords\<close>

text \<open>What is reported of a command that died does not depend on the password in
  \<open>ad verify\<close> and \<open>auth verify\<close>, as long as the line falls into four words at its blanks: two
  lines that differ in the password are reported alike.\<close>

theorem password_hidden:
  assumes "words line = [cmd, ''verify'', user, password]" and "words line' = [cmd, ''verify'', user, password']"
    and "cmd \<in> {''ad'', ''auth''}"
  shows "handle_exception s line e w = handle_exception s line' e w"
  using assms by (auto simp: handle_exception_def exception_text_def hide_password_def)

theorem password_hidden_witness:
  "handle_exception STATE_STARTED ''ad verify joe secret'' (ValueError ''x'') world1 =
   handle_exception STATE_STARTED ''ad  verify joe other'' (ValueError ''x'') world1"
  by (rule password_hidden [where cmd = "''ad''" and user = "''joe''" and password = "''secret''" and password' = "''other''"])
    (simp_all add: words_def is_space_def)

end
