(* ===== verification/MonitorView.thy ===== *)
theory MonitorView
  imports Handlers "HOL-Library.Char_ord" "HOL-Library.List_Lexorder"
begin

text \<open>
  What the web application shows of the state (\<open>app/palette/monitor.py\<close>): the table
  \<open>state_control\<close> with the actions allowed in each main state, the colours of disks, ports,
  licenses and processes, and the views for administrators and for publishers.
\<close>

section \<open>The state control table\<close>

text \<open>The rows of \<open>state_control.json\<close>; the icon is always null.\<close>

record control =
  sc_text :: string
  sc_allowable_actions :: string
  sc_color :: string

definition control_row :: "string \<Rightarrow> string \<Rightarrow> string \<Rightarrow> control" where
  "control_row text actions color = \<lparr>sc_text = text, sc_allowable_actions = actions, sc_color = color\<rparr>"

definition stopped_actions :: string where
  "stopped_actions = ''start backup restore restart repair-license ziplogs''"

definition started_actions :: string where
  "started_actions = ''stop backup restore restart repair-license ziplogs user-refresh''"

definition state_control :: "(mstate \<times> control) list" where
  "state_control =
     [(STATE_DISCONNECTED, control_row ''Tableau Status Unknown'' [] ''red''),
      (STATE_PENDING, control_row ''Retrieving Tableau Status'' [] ''yellow''),
      (STATE_STOPPING, control_row ''Tableau Stopping'' [] ''yellow''),
      (STATE_STOPPING_RESTORE, control_row ''Tableau Stopping'' [] ''yellow''),
      (STATE_RESTARTING, control_row ''Tableau Restarting'' [] ''yellow''),
      (STATE_STOPPED, control_row ''Tableau Stopped'' stopped_actions ''yellow''),
      (STATE_STOPPED_UNEXPECTED, control_row ''Unplanned Tableau Stop'' stopped_actions ''red''),
      (STATE_STOPPED_RESTORE, control_row ''Tableau Stopped'' [] ''yellow''),
      (STATE_STOPPED_BACKUP, control_row ''Tableau Stopped'' [] ''yellow''),
      (STATE_STOPPED_BACKUP_RESTORE, control_row ''Tableau Stopped'' [] ''yellow''),
      (STATE_STOPPED_FILEDEL, control_row ''Tableau Stopped'' [] ''yellow''),
      (STATE_STOPPED_ZIPLOGS, control_row ''Tableau Stopped'' [] ''yellow''),
      (STATE_STOPPED_CLEANUP, control_row ''Tableau Stopped'' [] ''yellow''),
      (STATE_STARTING, control_row ''Starting Tableau'' ''user-refresh'' ''yellow''),
      (STATE_STARTING_RESTORE, control_row ''Tableau Stopped'' [] ''yellow''),
      (STATE_STARTED, control_row ''Tableau Running'' started_actions ''green''),
      (STATE_STARTED_BACKUP, control_row ''Tableau Running'' ''user-refresh'' ''green''),
      (STATE_STARTED_BACKUP_RESTORE, control_row ''Tableau Running'' [] ''green''),
      (STATE_STARTED_BACKUP_STOP, control_row ''Tableau Running'' [] ''green''),
      (STATE_STARTED_BACKUP_RESTART, control_row ''Tableau Running'' [] ''green''),
      (STATE_STARTED_FILEDEL, control_row ''Tableau Running'' [] ''green''),
      (STATE_STARTED_ZIPLOGS, control_row ''Tableau Running'' ''user-refresh'' ''green''),
      (STATE_STARTED_CLEANUP, control_row ''Tableau Running'' ''user-refresh'' ''green''),
      (STATE_DEGRADED, control_row ''Tableau Partially Degraded'' started_actions ''red''),
      (STATE_PRIMARY_NOT_ENABLED, control_row ''Primary Disabled'' [] ''red''),
      (STATE_UPGRADING, control_row ''Upgrading Palette Software'' [] ''yellow'')]"

definition get_state_control_entry :: "mstate \<Rightarrow> control option" where
  "get_state_control_entry s = map_of state_control s"

section \<open>Colours\<close>

definition RED_NUM :: nat where "RED_NUM = 1"
definition YELLOW_NUM :: nat where "YELLOW_NUM = 2"
definition GREEN_NUM :: nat where "GREEN_NUM = 3"

lemmas color_nums = RED_NUM_def YELLOW_NUM_def GREEN_NUM_def

definition color_to_num :: "string \<Rightarrow> nat option" where
  "color_to_num c =
     (if c = ''red'' then Some RED_NUM else if c = ''yellow'' then Some YELLOW_NUM
      else if c = ''green'' then Some GREEN_NUM else None)"

definition color_to_str :: "nat \<Rightarrow> string option" where
  "color_to_str n =
     (if n = RED_NUM then Some ''red'' else if n = YELLOW_NUM then Some ''yellow''
      else if n = GREEN_NUM then Some ''green'' else None)"

text \<open>\<open>Colors.color_to_num[color]\<close> and \<open>Colors.color_to_str[num]\<close>\<close>

definition num_of :: "string option \<Rightarrow> nat io" where
  "num_of c = (case c of None \<Rightarrow> raise (KeyError ''None'')
     | Some s \<Rightarrow> (case color_to_num s of None \<Rightarrow> raise (KeyError s) | Some n \<Rightarrow> ret n))"

definition str_of :: "nat \<Rightarrow> string io" where
  "str_of n = (case color_to_str n of None \<Rightarrow> raise (KeyError (nat_str n)) | Some s \<Rightarrow> ret s)"

text \<open>The colour of a row of the table; what it does not know is red.\<close>

definition control_num :: "control \<Rightarrow> nat" where
  "control_num sc = (case color_to_num (sc_color sc) of Some n \<Rightarrow> n | None \<Rightarrow> RED_NUM)"

text \<open>The \<open>color\<close> entries of a list of dictionaries.\<close>

fun lowest_from :: "nat \<Rightarrow> string option list \<Rightarrow> nat io" where
  "lowest_from low [] = ret low"
| "lowest_from low (c # cs) = bnd (num_of c) (\<lambda>n. lowest_from (if n < low then n else low) cs)"

definition lowest_color :: "string option list \<Rightarrow> nat io" where
  "lowest_color cs = lowest_from GREEN_NUM cs"

section \<open>Agents as they are known\<close>

text \<open>
  A row of the \<open>agent\<close> table with the columns only this page reads.  Times are as in
  the rest of the model; how they are displayed is the parameter \<open>show_time\<close>.
\<close>

record known_agent =
  kn_agent :: agent
  kn_version :: string
  kn_creation_time :: "nat option"
  kn_modification_time :: "nat option"
  kn_last_connection_time :: nat
  kn_last_disconnect_time :: "nat option"

definition connected :: "known_agent \<Rightarrow> bool" where
  "connected k =
     (case kn_last_disconnect_time k of None \<Rightarrow> True | Some t \<Rightarrow> t < kn_last_connection_time k)"

text \<open>The main state of the environment; only the first primary counts.\<close>

definition calculate_main_state :: "known_agent list \<Rightarrow> mstate io" where
  "calculate_main_state agents =
     bnd (gets w_upgrading) (\<lambda>upgrading.
       if upgrading then ret STATE_UPGRADING
       else (case find (\<lambda>k. ag_agent_type (kn_agent k) = Some PRIMARY) agents of
           Some k \<Rightarrow> if ag_enabled (kn_agent k) then gets cur_state else ret STATE_PRIMARY_NOT_ENABLED
         | None \<Rightarrow> gets cur_state))"

section \<open>Disks, ports, license, load\<close>

text \<open>\<open>used > high / 100 * size\<close>, without the rounding of floating point numbers\<close>

definition disk_color :: "int \<Rightarrow> int \<Rightarrow> int \<Rightarrow> int \<Rightarrow> string" where
  "disk_color used whole low high =
     (if used * 100 > high * whole then ''red''
      else if used * 100 > low * whole then ''yellow''
      else ''green'')"

record colored =
  in_name :: string
  in_value :: string
  in_color :: "string option"

fun volumes_from :: "int \<Rightarrow> int \<Rightarrow> volume list \<Rightarrow> colored list io" where
  "volumes_from low high [] = ret []"
| "volumes_from low high (v # vs) =
     (if vol_size v = 0 then volumes_from low high vs
      else bnd (sizestr (vol_available_space v)) (\<lambda>free.
           bnd (sizestr (vol_size v)) (\<lambda>whole.
           bnd (volumes_from low high vs) (\<lambda>rest.
             ret (\<lparr>in_name = vol_name v, in_value = free @ '' free of '' @ whole,
                    in_color = Some (disk_color (vol_size v - vol_available_space v) (vol_size v) low high)\<rparr> # rest)))))"

definition volume_info :: "agent \<Rightarrow> colored list io" where
  "volume_info a =
     bnd (gets (\<lambda>w. (cf_disk_watermark_low (w_conf w), cf_disk_watermark_high (w_conf w), w_vols w))) (\<lambda>(low, high, vols).
       volumes_from low high
         (filter (\<lambda>v. vol_agentid v = ag_agentid a \<and>
                     (ag_iswin a \<longrightarrow> vol_type v = ''Fixed'' \<or> vol_type v = ''Network''))
           (sort_key vol_name vols)))"

text \<open>A row of the table \<open>firewall\<close>.\<close>

record firewall =
  fw_agentid :: nat
  fw_name :: string
  fw_port :: int
  fw_color :: "string option"

definition firewall_info :: "firewall list \<Rightarrow> agent \<Rightarrow> colored list" where
  "firewall_info rows a =
     map (\<lambda>r. \<lparr>in_name = fw_name r, in_value = int_str (fw_port r), in_color = fw_color r\<rparr>)
       (sort_key fw_port (filter (\<lambda>r. fw_agentid r = ag_agentid a) rows))"

definition out_ports :: "agent \<Rightarrow> colored list io" where
  "out_ports a =
     gets (\<lambda>w. map (\<lambda>p. \<lparr>in_name = po_service_name p, in_value = int_str (po_dest_port p), in_color = po_color p\<rparr>)
       (sort_key po_dest_port (filter (\<lambda>p. po_agentid p = ag_agentid a \<and> po_color p \<noteq> None) (w_ports w))))"

definition license_info :: "nat \<Rightarrow> colored io" where
  "license_info i =
     gets (\<lambda>w. case find (\<lambda>e. li_agentid e = i) (w_licenses w) of
       None \<Rightarrow> \<lparr>in_name = [], in_value = ''unknown'', in_color = Some ''green''\<rparr>
     | Some e \<Rightarrow>
         if valid e then \<lparr>in_name = [], in_value = ''valid'', in_color = Some ''green''\<rparr>
         else \<lparr>in_name = [], in_value = ''invalid'', in_color = Some ''red''\<rparr>)"

definition cpu_info :: "agent \<Rightarrow> string option io" where
  "cpu_info a =
     bnd (gets (\<lambda>w. filter (\<lambda>n. nt_name n = ''cpu'' \<and> nt_agentid n = Some (ag_agentid a)) (w_notifications w)))
       (\<lambda>ns. case ns of
          [] \<Rightarrow> ret (Some ''green'')
        | n # rest \<Rightarrow>
            if rest \<noteq> [] then raise (DBError ''MultipleResultsFound'')
            else ret (case nt_color n of None \<Rightarrow> Some ''green'' | Some [] \<Rightarrow> Some ''green'' | Some c \<Rightarrow> Some c))"

section \<open>Processes\<close>

record proc_view =
  pv_pid :: jval
  pv_name :: string
  pv_status :: string
  pv_color :: string

text \<open>
  The entry \<open>warnings\<close> of an agent: absent, a list, or, where the code forgets the brackets, a
  single warning.
\<close>

datatype warnings =
    NoWarnings
  | Warnings "(string \<times> string) list"
  | OneWarning "string \<times> string"

text \<open>The colour of the agent so far, its warnings, and whether a worker has a problem.\<close>

record health =
  he_color :: nat
  he_warnings :: warnings
  he_problem :: bool

definition proc_green :: "string \<Rightarrow> bool" where
  "proc_green status \<longleftrightarrow>
     contains ''running'' status \<or>
     status \<in> {''Active'', ''Passive'', ''Busy'', ''ReadOnly'', ''ActiveSyncing''}"

fun tableau_procs :: "process list \<Rightarrow> health \<Rightarrow> proc_view list \<times> health" where
  "tableau_procs [] h = ([], h)"
| "tableau_procs (p # ps) h =
     (if pr_pid p = 0 then tableau_procs ps h
      else if pr_pid p = -1 then
        tableau_procs ps \<lparr>he_color = RED_NUM, he_warnings = Warnings [(''red'', pr_name p)], he_problem = True\<rparr>
      else
        (let green = proc_green (pr_status p);
             v = \<lparr>pv_pid = (if pr_pid p > 0 then JInt (pr_pid p) else JStr (pr_status p)), pv_name = pr_name p,
                   pv_status = pr_status p, pv_color = (if green then ''green'' else ''red'')\<rparr>;
             (vs, h') = tableau_procs ps (if green then h else h\<lparr>he_color := RED_NUM\<rparr>)
         in (v # vs, h')))"

definition add_warning :: "string \<times> string \<Rightarrow> warnings \<Rightarrow> warnings io" where
  "add_warning x ws =
     (case ws of
        NoWarnings \<Rightarrow> ret (OneWarning x)
      | Warnings l \<Rightarrow> ret (Warnings (l @ [x]))
      | OneWarning y \<Rightarrow> raise (AttributeError ''append''))"


section \<open>One agent\<close>

record parts =
  pt_license :: "colored option"
  pt_volumes :: "colored list option"
  pt_in_ports :: "colored list option"
  pt_out_ports :: "colored list option"
  pt_cpu :: "string option"

definition no_parts :: parts where
  "no_parts = \<lparr>pt_license = None, pt_volumes = None, pt_in_ports = None, pt_out_ports = None, pt_cpu = None\<rparr>"

definition disconnected_msg :: "(nat \<Rightarrow> string) \<Rightarrow> known_agent \<Rightarrow> string" where
  "disconnected_msg show_time k =
     ''Disconnected'' @ (case kn_last_disconnect_time k of None \<Rightarrow> [] | Some t \<Rightarrow> '' '' @ show_time t)"

definition red_alert :: "string \<Rightarrow> health" where
  "red_alert msg = \<lparr>he_color = RED_NUM, he_warnings = Warnings [(''red'', msg)], he_problem = False\<rparr>"

text \<open>A connected agent: the worst of its parts.\<close>

definition connected_part :: "firewall list \<Rightarrow> known_agent \<Rightarrow> (parts \<times> health) io" where
  "connected_part rows k =
     (let a = kn_agent k; primary = (ag_agent_type a = Some PRIMARY) in
      bnd (license_info (ag_agentid a)) (\<lambda>lic.
      bnd (if primary then num_of (in_color lic) else ret GREEN_NUM) (\<lambda>lic_num.
      bnd (volume_info a) (\<lambda>vols.
      bnd (out_ports a) (\<lambda>outs.
      bnd (cpu_info a) (\<lambda>cpu.
      bnd (num_of cpu) (\<lambda>cpu_num.
      bnd (lowest_color (map in_color vols)) (\<lambda>vol_num.
      bnd (lowest_color (map in_color (firewall_info rows a))) (\<lambda>fw_num.
      bnd (lowest_color (map in_color outs)) (\<lambda>out_num.
        ret (\<lparr>pt_license = (if primary then Some lic else None), pt_volumes = Some vols,
               pt_in_ports = Some (firewall_info rows a), pt_out_ports = Some outs, pt_cpu = cpu\<rparr>,
             \<lparr>he_color = Min {lic_num, cpu_num, vol_num, fw_num, out_num, GREEN_NUM},
               he_warnings = NoWarnings, he_problem = False\<rparr>)))))))))))"

definition connection_part ::
    "(nat \<Rightarrow> string) \<Rightarrow> firewall list \<Rightarrow> mstate \<Rightarrow> known_agent \<Rightarrow> (parts \<times> health) io" where
  "connection_part show_time rows main_state k =
     (if (main_state = STATE_DISCONNECTED \<or> main_state = STATE_PENDING) \<and> ag_agent_type (kn_agent k) = Some PRIMARY then
        ret (no_parts, red_alert (if main_state = STATE_DISCONNECTED then disconnected_msg show_time k
                                  else ''Retrieving Tableau Status''))
      else if connected k then connected_part rows k
      else ret (no_parts, red_alert (disconnected_msg show_time k)))"

definition runs_tableau :: "known_agent \<Rightarrow> bool" where
  "runs_tableau k \<longleftrightarrow> ag_agent_type (kn_agent k) = Some PRIMARY \<or> ag_agent_type (kn_agent k) = Some WORKER"

definition stopped_part :: "mstate \<Rightarrow> known_agent \<Rightarrow> health \<Rightarrow> health" where
  "stopped_part main_state k h =
     (let problem = (he_problem h \<or> ag_agent_type (kn_agent k) = Some WORKER) in
      if runs_tableau k \<and> main_state = STATE_STOPPED then
        \<lparr>he_color = YELLOW_NUM, he_warnings = Warnings [(''yellow'', ''Tableau stopped'')], he_problem = problem\<rparr>
      else if runs_tableau k \<and> main_state = STATE_STOPPED_UNEXPECTED then
        \<lparr>he_color = RED_NUM, he_warnings = Warnings [(''red'', ''Tableau stopped'')], he_problem = problem\<rparr>
      else h)"

text \<open>The web application reads the committed table.\<close>

definition process_part :: "known_agent \<Rightarrow> health \<Rightarrow> (proc_view list \<times> health) io" where
  "process_part k h =
     (if \<not> runs_tableau k then ret ([], h)
      else bnd (gets (\<lambda>w. sort_key pr_name (filter (\<lambda>p. pr_agentid p = ag_agentid (kn_agent k)) (w_procs_db w)))) (\<lambda>rows.
        (let (procs, h') = tableau_procs rows h in
         if ag_agent_type (kn_agent k) = Some WORKER \<and> rows = [] then
           bnd (add_warning (''red'', ''Tableau processes unavailable'') (he_warnings h')) (\<lambda>ws.
             ret (procs, \<lparr>he_color = RED_NUM, he_warnings = ws, he_problem = True\<rparr>))
         else ret (procs, h'))))"

text \<open>The entry of one agent: its own columns, its parts, warnings, processes and colour.\<close>

record agent_view =
  av_agent :: known_agent
  av_parts :: parts
  av_warnings :: warnings
  av_details :: "proc_view list"
  av_color :: string

definition agent_part ::
    "(nat \<Rightarrow> string) \<Rightarrow> firewall list \<Rightarrow> mstate \<Rightarrow> known_agent \<Rightarrow> (agent_view \<times> nat \<times> bool) io" where
  "agent_part show_time rows main_state k =
     bnd (connection_part show_time rows main_state k) (\<lambda>(parts, h).
     bnd (process_part k (stopped_part main_state k h)) (\<lambda>(procs, h').
     bnd (str_of (he_color h')) (\<lambda>color.
       ret (\<lparr>av_agent = k, av_parts = parts, av_warnings = he_warnings h', av_details = procs, av_color = color\<rparr>,
            he_color h', he_problem h'))))"

text \<open>The loop over the agents, with the colour and the problem so far.\<close>

fun agents_part ::
    "(nat \<Rightarrow> string) \<Rightarrow> firewall list \<Rightarrow> mstate \<Rightarrow> known_agent list \<Rightarrow> nat \<Rightarrow> bool \<Rightarrow> (agent_view list \<times> nat \<times> bool) io" where
  "agents_part show_time rows main_state [] color problem = ret ([], color, problem)"
| "agents_part show_time rows main_state (k # ks) color problem =
     (if \<not> ag_enabled (kn_agent k) then agents_part show_time rows main_state ks color problem
      else bnd (agent_part show_time rows main_state k) (\<lambda>(v, n, p).
           bnd (agents_part show_time rows main_state ks (if n < color then n else color) (problem \<or> p)) (\<lambda>(vs, color', problem').
             ret (v # vs, color', problem'))))"

section \<open>The views\<close>

definition NO_ADMIN :: nat where "NO_ADMIN = 0"
definition READONLY_ADMIN :: nat where "READONLY_ADMIN = 1"
definition MANAGER_ADMIN :: nat where "MANAGER_ADMIN = 2"
definition SUPER_ADMIN :: nat where "SUPER_ADMIN = 3"

record view =
  vw_state :: mstate
  vw_allowable_actions :: "string list"
  vw_text :: string
  vw_color :: string
  vw_in_progress :: bool
  vw_agents :: "agent_view list"
  vw_admin :: bool

definition allowed :: "nat \<Rightarrow> control \<Rightarrow> string list" where
  "allowed roleid sc =
     (if roleid \<ge> MANAGER_ADMIN \<and> sc_allowable_actions sc \<noteq> [] then split_on (CHR '' '') (sc_allowable_actions sc) else [])"

definition idle_states :: "mstate list" where
  "idle_states = [STATE_STOPPED, STATE_STOPPED_UNEXPECTED, STATE_STARTED, STATE_DEGRADED, STATE_PENDING, STATE_DISCONNECTED]"

text \<open>
  The state, the row and the colour that are shown in the end: DEGRADED for a running Tableau
  with a worker in trouble; while upgrading the row of that state alone counts.
\<close>

definition shown ::
    "nat \<Rightarrow> mstate \<Rightarrow> control \<Rightarrow> nat \<Rightarrow> bool \<Rightarrow> (mstate \<times> control \<times> string list \<times> nat) option" where
  "shown roleid main_state sc color problem =
     (if main_state = STATE_STARTED \<and> problem then
        map_option (\<lambda>sc'. (STATE_DEGRADED, sc', allowed roleid sc, RED_NUM)) (get_state_control_entry STATE_DEGRADED)
      else if main_state = STATE_UPGRADING then
        map_option (\<lambda>sc'. (main_state, sc', allowed roleid sc', control_num sc')) (get_state_control_entry main_state)
      else Some (main_state, sc, allowed roleid sc, color))"

definition get_admin_view ::
    "(nat \<Rightarrow> string) \<Rightarrow> firewall list \<Rightarrow> nat \<Rightarrow> mstate \<Rightarrow> control \<Rightarrow> known_agent list \<Rightarrow> view option io" where
  "get_admin_view show_time rows roleid main_state sc agents =
     bnd (agents_part show_time rows main_state agents (control_num sc) False) (\<lambda>(views, color, problem).
       (case shown roleid main_state sc color problem of
          None \<Rightarrow> ret None
        | Some (state, sc', actions, n) \<Rightarrow> bnd (str_of n) (\<lambda>c.
            ret (Some \<lparr>vw_state = state, vw_allowable_actions = actions, vw_text = sc_text sc', vw_color = c,
                       vw_in_progress = (main_state \<notin> set idle_states), vw_agents = views, vw_admin = True\<rparr>))))"

definition publisher_state :: "mstate \<Rightarrow> mstate" where
  "publisher_state s =
     (if s = STATE_PENDING \<or> s = STATE_DISCONNECTED then STATE_DISCONNECTED
      else if s = STATE_DEGRADED then s
      else if contains ''STARTED'' (state_name s) then STATE_STARTED
      else STATE_STOPPED)"

definition get_publisher_view :: "mstate \<Rightarrow> view option io" where
  "get_publisher_view main_state =
     (case get_state_control_entry (publisher_state main_state) of
        None \<Rightarrow> ret None
      | Some sc \<Rightarrow> bnd (str_of (control_num sc)) (\<lambda>c.
          ret (Some \<lparr>vw_state = publisher_state main_state, vw_allowable_actions = [], vw_text = sc_text sc, vw_color = c,
                     vw_in_progress = False, vw_agents = [], vw_admin = False\<rparr>)))"

text \<open>
  \<open>handle_monitor\<close>, without the events and the dropdowns of the page; the domain's
  license key and trial days, which the administrator's view carries too, are left out.
\<close>

definition handle_monitor :: "(nat \<Rightarrow> string) \<Rightarrow> firewall list \<Rightarrow> nat \<Rightarrow> known_agent list \<Rightarrow> view option io" where
  "handle_monitor show_time rows roleid agents =
     bnd (calculate_main_state agents) (\<lambda>main_state.
       case get_state_control_entry main_state of
         None \<Rightarrow> ret None
       | Some sc \<Rightarrow>
           if roleid = NO_ADMIN then get_publisher_view main_state
           else get_admin_view show_time rows roleid main_state sc agents)"


section \<open>The colour of the whole\<close>

lemma reads:
  "license_info i w = (r, w') \<Longrightarrow> w' = w" "out_ports a w = (s, w') \<Longrightarrow> w' = w"
  "num_of c w = (n, w') \<Longrightarrow> w' = w" "str_of k w = (t, w') \<Longrightarrow> w' = w"
  by (auto simp: license_info_def out_ports_def num_of_def str_of_def ret_def raise_def split: option.splits)

lemma keeps_id: "keeps (\<lambda>w. w) m \<Longrightarrow> m w = (r, w') \<Longrightarrow> w' = w"
  using keepsD [of "\<lambda>w. w" m w r w'] by simp

lemma keeps_view_parts [frame]:
  "keeps (\<lambda>w. w) (num_of c)" "keeps (\<lambda>w. w) (str_of n)" "keeps (\<lambda>w. w) (license_info i)"
  "keeps (\<lambda>w. w) (out_ports a)" "keeps (\<lambda>w. w) (cpu_info a)" "keeps (\<lambda>w. w) (volume_info a)"
  "keeps (\<lambda>w. w) (lowest_color cs)" "keeps (\<lambda>w. w) (add_warning x ws)"
proof -
  show n: "keeps (\<lambda>w. w) (num_of c)" for c unfolding num_of_def by (rule frame)+
  show "keeps (\<lambda>w. w) (str_of n)" unfolding str_of_def by (rule frame)+
  show "keeps (\<lambda>w. w) (license_info i)" "keeps (\<lambda>w. w) (out_ports a)"
    unfolding license_info_def out_ports_def by (rule frame)+
  show "keeps (\<lambda>w. w) (cpu_info a)" unfolding cpu_info_def by (rule frame)+
  have v: "keeps (\<lambda>w. w) (volumes_from low high vs)" for low high vs
  proof (induction vs)
    case Nil
    show ?case unfolding volumes_from.simps by (rule frame)
  next
    case (Cons v vs)
    show ?case unfolding volumes_from.simps sizestr_def by (rule frame Cons)+
  qed
  show "keeps (\<lambda>w. w) (volume_info a)" unfolding volume_info_def by (rule frame v)+
  have l: "keeps (\<lambda>w. w) (lowest_from n cs)" for n
  proof (induction cs arbitrary: n)
    case Nil
    show ?case unfolding lowest_from.simps by (rule frame)
  next
    case (Cons c cs)
    show ?case unfolding lowest_from.simps by (rule keeps_bnd [OF n Cons])
  qed
  show "keeps (\<lambda>w. w) (lowest_color cs)" unfolding lowest_color_def by (rule l)
  show "keeps (\<lambda>w. w) (add_warning x ws)" unfolding add_warning_def by (cases ws) (simp_all add: keeps_def)
qed

lemma keeps_agent_part [frame]: "keeps (\<lambda>w. w) (agent_part show_time rows s k)"
proof -
  have c: "keeps (\<lambda>w. w) (connection_part show_time rows s k)"
    unfolding connection_part_def connected_part_def by (rule frame)+
  have p: "keeps (\<lambda>w. w) (process_part k h)" for h
    unfolding process_part_def by (rule frame)+
  show ?thesis unfolding agent_part_def by (rule frame c p)+
qed

text \<open>The number behind the colour of an agent.\<close>

definition view_num :: "agent_view \<Rightarrow> nat option" where
  "view_num v = color_to_num (av_color v)"

lemma str_of_num: "str_of n w = (Inr c, w') \<Longrightarrow> color_to_num c = Some n"
  by (auto simp: str_of_def color_to_str_def color_to_num_def ret_def raise_def split: option.splits if_splits)

lemma agent_part_num: "agent_part show_time rows s k w = (Inr (v, n, p), w') \<Longrightarrow> view_num v = Some n"
  by (auto simp: agent_part_def view_num_def ret_def elim!: bnd_returnsE dest: str_of_num)

lemma agents_part_color:
  assumes "agents_part show_time rows s ks color problem w = (Inr (vs, c, p), w')"
  shows "w' = w \<and> c \<le> color \<and> (\<forall>v\<in>set vs. \<exists>n. view_num v = Some n \<and> c \<le> n) \<and>
    (c = color \<or> (\<exists>v\<in>set vs. view_num v = Some c))"
  using assms
proof (induction ks arbitrary: color problem w vs c p w')
  case Nil
  then show ?case by (simp add: ret_def)
next
  case (Cons k ks)
  show ?case
  proof (cases "ag_enabled (kn_agent k)")
    case False
    with Cons show ?thesis by simp
  next
    case True
    with Cons.prems obtain v n q u us where a: "agent_part show_time rows s k w = (Inr (v, n, q), u)"
      and r: "agents_part show_time rows s ks (if n < color then n else color) (problem \<or> q) u = (Inr (us, c, p), w')"
      and vs: "vs = v # us"
      by (auto simp: ret_def elim!: bnd_returnsE)
    have u: "u = w" using keeps_id [OF keeps_agent_part a] .
    have n: "view_num v = Some n" using agent_part_num [OF a] .
    from Cons.IH [OF r] u n vs show ?thesis by (auto split: if_splits)
  qed
qed

text \<open>The colour of the administrators' page is never better than that of any agent on
  it, nor than the one the table gives for the main state, except while upgrading, when it is
  the one of the table: the page that says green has nothing to hide.\<close>

theorem overall_color:
  assumes "get_admin_view show_time rows roleid s sc agents w = (Inr (Some v), w')"
    and "get_state_control_entry s = Some sc"
  shows "if s = STATE_UPGRADING then vw_color v = ''yellow''
    else (\<exists>n. color_to_num (vw_color v) = Some n \<and> n \<le> control_num sc \<and>
      (\<forall>a\<in>set (vw_agents v). \<exists>m. view_num a = Some m \<and> n \<le> m))"
proof -
  from assms(1) obtain vs c p u state sc' actions n where
    a: "agents_part show_time rows s agents (control_num sc) False w = (Inr (vs, c, p), u)"
    and s: "shown roleid s sc c p = Some (state, sc', actions, n)"
    and t: "str_of n u = (Inr (vw_color v), w')" and v: "vw_agents v = vs"
    by (auto simp: get_admin_view_def ret_def elim!: bnd_returnsE split: option.splits)
  note c = agents_part_color [OF a]
  show ?thesis
  proof (cases "s = STATE_UPGRADING")
    case True
    with s have "n = YELLOW_NUM"
      by (auto simp: shown_def get_state_control_entry_def state_control_def control_num_def control_row_def
          color_to_num_def)
    with t True show ?thesis by (auto simp: str_of_def color_to_str_def color_nums ret_def)
  next
    case False
    have red: "RED_NUM \<le> m" if "color_to_num x = Some m" for x m
      using that by (auto simp: color_to_num_def color_nums split: if_splits)
    have "RED_NUM \<le> control_num sc"
      using red by (auto simp: control_num_def split: option.splits)
    moreover have "n = c \<or> n = RED_NUM"
      using s False by (auto simp: shown_def split: if_splits)
    ultimately show ?thesis
      using False c v str_of_num [OF t] red by (fastforce simp: view_num_def)
  qed
qed


definition full_disk :: volume where
  "full_disk = \<lparr>vol_volid = 1, vol_agentid = 1, vol_name = ''C:'', vol_path = ''C:'', vol_type = ''Fixed'',
     vol_size = 1000, vol_available_space = 5, vol_archive = False, vol_archive_limit = 0, vol_active = True,
     vol_system = True, vol_priority = 0, vol_color = None\<rparr>"

definition known0 :: known_agent where
  "known0 = \<lparr>kn_agent = agent0, kn_version = ''1'', kn_creation_time = None, kn_modification_time = None,
     kn_last_connection_time = 1, kn_last_disconnect_time = None\<rparr>"

definition full_world :: world where
  "full_world = world1\<lparr>w_vols := [full_disk], w_conf := conf0\<lparr>cf_disk_watermark_low := 80, cf_disk_watermark_high := 90\<rparr>\<rparr>"

lemma full_volumes: "\<exists>x. volume_info agent0 full_world =
    (Inr [\<lparr>in_name = ''C:'', in_value = x, in_color = Some ''red''\<rparr>], full_world)"
  by (simp add: volume_info_def full_world_def world1_def world0_def conf0_def full_disk_def agent0_def sizestr_def
      disk_color_def bnd_def)

lemma full_view:
  "\<exists>v. get_admin_view nat_str [] MANAGER_ADMIN STATE_STARTED (control_row ''Tableau Running'' started_actions ''green'')
      [known0] full_world = (Inr (Some v), full_world) \<and> vw_color v = ''red''"
proof -
  obtain x where x: "volume_info agent0 full_world =
    (Inr [\<lparr>in_name = ''C:'', in_value = x, in_color = Some ''red''\<rparr>], full_world)" using full_volumes by blast
  have k: "kn_agent known0 = agent0" "kn_last_disconnect_time known0 = None" by (simp_all add: known0_def)
  have t: "ag_agent_type agent0 = Some PRIMARY" "ag_enabled agent0" "ag_agentid agent0 = 1" by (simp_all add: agent0_def)
  have w: "w_licenses full_world = []" "w_ports full_world = []" "w_notifications full_world = []" "w_procs_db full_world = []"
    by (simp_all add: full_world_def world1_def world0_def)
  show ?thesis
    by (simp add: get_admin_view_def agent_part_def connection_part_def connected_part_def connected_def k t w x
        license_info_def num_of_def color_to_num_def out_ports_def cpu_info_def lowest_color_def firewall_info_def
        color_nums process_part_def stopped_part_def runs_tableau_def str_of_def color_to_str_def shown_def bnd_def
        control_num_def control_row_def)
qed

theorem overall_color_witness:
  "\<exists>v. get_admin_view nat_str [] MANAGER_ADMIN STATE_STARTED (control_row ''Tableau Running'' started_actions ''green'')
      [known0] full_world = (Inr (Some v), full_world) \<and> vw_color v = ''red'' \<and>
     (\<exists>n. color_to_num (vw_color v) = Some n \<and> (\<forall>a\<in>set (vw_agents v). \<exists>m. view_num a = Some m \<and> n \<le> m))"
proof -
  obtain v where v: "get_admin_view nat_str [] MANAGER_ADMIN STATE_STARTED
      (control_row ''Tableau Running'' started_actions ''green'') [known0] full_world = (Inr (Some v), full_world)"
    and r: "vw_color v = ''red''" using full_view by blast
  have "get_state_control_entry STATE_STARTED = Some (control_row ''Tableau Running'' started_actions ''green'')"
    by (simp add: get_state_control_entry_def state_control_def)
  from overall_color [OF v this] v r show ?thesis by (intro exI [of _ v]) auto
qed

section \<open>What publishers see\<close>

lemma control_total: "\<exists>sc. get_state_control_entry s = Some sc \<and> sc_color sc \<in> {''red'', ''yellow'', ''green''}"
  by (cases s) (simp_all add: get_state_control_entry_def state_control_def control_row_def)

lemma main_state_run: "\<exists>s. calculate_main_state agents w = (Inr s, w)"
  by (simp add: calculate_main_state_def bnd_def split: option.split)

text \<open>A publisher is always shown something: one of four states in one of three colours,
  without any action and without the agents; whatever state the environment is in.\<close>

theorem publisher_sees:
  "\<exists>v. handle_monitor show_time rows NO_ADMIN agents w = (Inr (Some v), w) \<and>
     vw_state v \<in> {STATE_DISCONNECTED, STATE_DEGRADED, STATE_STARTED, STATE_STOPPED} \<and>
     vw_color v \<in> {''red'', ''yellow'', ''green''} \<and> vw_allowable_actions v = [] \<and> vw_agents v = [] \<and> \<not> vw_admin v"
proof -
  obtain s where s: "calculate_main_state agents w = (Inr s, w)" using main_state_run by blast
  obtain sc where sc: "get_state_control_entry s = Some sc" using control_total by blast
  obtain pc where pc: "get_state_control_entry (publisher_state s) = Some pc"
    and c: "sc_color pc \<in> {''red'', ''yellow'', ''green''}" using control_total by blast
  have "\<exists>x. str_of (control_num pc) w = (Inr x, w) \<and> x \<in> {''red'', ''yellow'', ''green''}"
    using c by (auto simp: str_of_def control_num_def color_to_num_def color_to_str_def color_nums)
  then obtain x where x: "str_of (control_num pc) w = (Inr x, w)" "x \<in> {''red'', ''yellow'', ''green''}" by blast
  have p: "publisher_state s \<in> {STATE_DISCONNECTED, STATE_DEGRADED, STATE_STARTED, STATE_STOPPED}"
    by (simp add: publisher_state_def)
  have "get_publisher_view s w = (Inr (Some \<lparr>vw_state = publisher_state s, vw_allowable_actions = [], vw_text = sc_text pc,
      vw_color = x, vw_in_progress = False, vw_agents = [], vw_admin = False\<rparr>), w)"
    by (simp add: get_publisher_view_def pc bnd_def x)
  then show ?thesis
    using p x(2) by (simp add: handle_monitor_def s sc bnd_def NO_ADMIN_def)
qed

section \<open>The actions allowed\<close>

text \<open>The main states in which the handler of an action does not refuse it.\<close>

definition accepts :: "string \<Rightarrow> mstate list" where
  "accepts action =
     (if action = ''start'' then down_states
      else if action = ''stop'' then good_states ACTION_STOP
      else if action = ''restart'' then good_states ACTION_RESTART
      else if action \<in> {''backup'', ''restore'', ''ziplogs''} then up_states @ down_states
      else [])"

lemma split_actions:
  "split_on (CHR '' '') stopped_actions =
     [''start'', ''backup'', ''restore'', ''restart'', ''repair-license'', ''ziplogs'']"
  "split_on (CHR '' '') started_actions =
     [''stop'', ''backup'', ''restore'', ''restart'', ''repair-license'', ''ziplogs'', ''user-refresh'']"
  "split_on (CHR '' '') ''user-refresh'' = [''user-refresh'']"
  by (simp_all add: stopped_actions_def started_actions_def)

lemma control_actions:
  assumes "get_state_control_entry s = Some sc"
  shows "sc_allowable_actions sc =
    (if s \<in> {STATE_STARTED, STATE_DEGRADED} then started_actions
     else if s \<in> {STATE_STOPPED, STATE_STOPPED_UNEXPECTED} then stopped_actions
     else if s \<in> {STATE_STARTING, STATE_STARTED_BACKUP, STATE_STARTED_ZIPLOGS, STATE_STARTED_CLEANUP} then ''user-refresh''
     else [])"
  using assms by (cases s) (auto simp: get_state_control_entry_def state_control_def control_row_def)

lemma allowed_actions:
  assumes "get_state_control_entry s = Some sc"
  shows "allowed MANAGER_ADMIN sc =
    (if s \<in> {STATE_STARTED, STATE_DEGRADED} then
       [''stop'', ''backup'', ''restore'', ''restart'', ''repair-license'', ''ziplogs'', ''user-refresh'']
     else if s \<in> {STATE_STOPPED, STATE_STOPPED_UNEXPECTED} then
       [''start'', ''backup'', ''restore'', ''restart'', ''repair-license'', ''ziplogs'']
     else if s \<in> {STATE_STARTING, STATE_STARTED_BACKUP, STATE_STARTED_ZIPLOGS, STATE_STARTED_CLEANUP} then [''user-refresh'']
     else [])"
proof -
  have ne: "started_actions \<noteq> []" "stopped_actions \<noteq> []" by (simp_all add: started_actions_def stopped_actions_def)
  show ?thesis
    unfolding allowed_def control_actions [OF assms]
    by (simp only: split: if_split) (simp add: split_actions ne)
qed



text \<open>
  \<open>get_admin_view\<close> means an agent's colour only to get worse, but a stopped Tableau sets it
  to yellow whatever it was: a full disk, a failed port or a lost connection is no longer
  red.
\<close>

lemma stopped_hides_red:
  "runs_tableau k \<Longrightarrow> he_color h = RED_NUM \<Longrightarrow> he_color (stopped_part STATE_STOPPED k h) = YELLOW_NUM"
  by (simp add: stopped_part_def Let_def)

end
