(* ===== verification/Web.thy ===== *)
theory Web
  imports MonitorView
begin

text \<open>
  How the web application gives orders to the controller: the handlers of
  \<open>app/palette/manage.py\<close> and \<open>app/palette/backup.py\<close> with the decorators of
  \<open>app/palette/rest.py\<close>, the client side of the command port
  (\<open>controller/palapi.py\<close>), and what of it the controller reads.
\<close>

section \<open>Requests\<close>

text \<open>
  \<open>rq_post\<close> is \<open>req.POST\<close> and \<open>rq_params\<close> is \<open>req.params\<close>, which holds the query string too.
\<close>

record req =
  rq_method :: string
  rq_post :: "string \<rightharpoonup> string"
  rq_params :: "string \<rightharpoonup> string"
  rq_userid :: int
  rq_roleid :: nat

datatype http =
    HTTPMethodNotAllowed
  | HTTPBadRequest string
  | HTTPForbidden string

definition params_getbool :: "req \<Rightarrow> string \<Rightarrow> bool \<Rightarrow> bool" where
  "params_getbool r name d =
     (case rq_params r name of
        None \<Rightarrow> d
      | Some v \<Rightarrow>
          if lower v = ''true'' \<or> lower v = ''1'' then True
          else if lower v = ''false'' \<or> lower v = ''0'' then False
          else d)"

text \<open>The rows of \<open>roles\<close>.\<close>

definition role_names :: "(nat \<times> string) list" where
  "role_names = [(NO_ADMIN, ''None''), (READONLY_ADMIN, ''Read-Only Admin''),
     (MANAGER_ADMIN, ''Manager Admin''), (SUPER_ADMIN, ''Super Admin'')]"

definition role_name :: "nat \<Rightarrow> string" where
  "role_name i = (case map_of role_names i of Some n \<Rightarrow> n | None \<Rightarrow> [])"

text \<open>What a handler ends with: an order for the controller or an answer without one.\<close>

datatype 'a web = Fails http | Returns 'a

datatype action = Send string bool | Answer body

definition required_role :: "nat \<Rightarrow> req \<Rightarrow> 'a web io \<Rightarrow> 'a web io" where
  "required_role role r k =
     (if rq_roleid r < role then ret (Fails (HTTPForbidden (role_name role))) else k)"

fun required_parameters :: "string list \<Rightarrow> req \<Rightarrow> 'a web io \<Rightarrow> 'a web io" where
  "required_parameters names r k =
     (if rq_method r \<noteq> ''POST'' then ret (Fails HTTPMethodNotAllowed)
      else (case find (\<lambda>n. rq_post r n = None) names of
          Some n \<Rightarrow> ret (Fails (HTTPBadRequest n))
        | None \<Rightarrow> k))"

section \<open>The orders\<close>

definition order :: "string \<Rightarrow> req \<Rightarrow> action web io" where
  "order cmd r = ret (Returns (Send cmd (params_getbool r ''sync'' False)))"

definition unless_wanted :: "req \<Rightarrow> string \<Rightarrow> string \<Rightarrow> string \<Rightarrow> string" where
  "unless_wanted r name flag cmd = (if \<not> params_getbool r name False then flag @ cmd else cmd)"

definition handle_stop :: "req \<Rightarrow> action web io" where
  "handle_stop r = order
     (''/nomaint '' @ unless_wanted r ''license'' ''/nolicense '' (unless_wanted r ''backup'' ''/nobackup '' ''stop'')) r"

definition handle_restart :: "req \<Rightarrow> action web io" where
  "handle_restart r = order
     (unless_wanted r ''license'' ''/nolicense '' (unless_wanted r ''backup'' ''/nobackup '' ''restart'')) r"

definition wants_data_only :: "req \<Rightarrow> bool" where
  "wants_data_only r \<longleftrightarrow>
     (case rq_params r ''restore-type'' of
        Some t \<Rightarrow> lower t = ''data-only'' \<or> params_getbool r ''data-only'' False
      | None \<Rightarrow> params_getbool r ''data-only'' False)"

definition restore_order :: "req \<Rightarrow> string \<Rightarrow> action web io" where
  "restore_order r cmd =
     (let cmd1 = (case rq_params r ''password'' of None \<Rightarrow> cmd | Some [] \<Rightarrow> cmd | Some p \<Rightarrow> cmd @ '' '' @ quoted p);
          cmd2 = (if wants_data_only r then ''/noconfig '' @ cmd1 else cmd1)
      in order (unless_wanted r ''license'' ''/nolicense '' (unless_wanted r ''backup'' ''/nobackup '' cmd2)) r)"

definition handle_restore :: "req \<Rightarrow> action web io" where
  "handle_restore r =
     (case rq_post r ''url'' of
        Some url \<Rightarrow> restore_order r (''restore-url '' @ quoted url)
      | None \<Rightarrow>
          (case rq_post r ''filename'' of
             Some name \<Rightarrow> bnd (find_by_name name) (\<lambda>e. case e of
               None \<Rightarrow> ret (Returns (Answer [''status'' \<mapsto> JStr ''FAILED'', ''error'' \<mapsto> JStr (''Backup not found: '' @ name)]))
             | Some f \<Rightarrow> restore_order r (''restore '' @ quoted (fe_name f)))
           | None \<Rightarrow> ret (Fails (HTTPBadRequest ''url''))))"

text \<open>The actions without arguments; the last three never wait for the answer.\<close>

definition plain_orders :: "(string \<times> (req \<Rightarrow> action web io)) list" where
  "plain_orders =
     [(''start'', order ''start''), (''stop'', handle_stop), (''restart'', handle_restart),
      (''backup'', order ''backup''), (''restore'', handle_restore),
      (''repair-license'', order ''license repair''), (''ziplogs'', order ''ziplogs''),
      (''restart-webserver'', \<lambda>r. ret (Returns (Send ''apache restart'' False))),
      (''restart-controller'', \<lambda>r. ret (Returns (Send ''exit'' False))),
      (''manual-update'', \<lambda>r. ret (Returns (Send ''upgrade controller'' False)))]"

definition manage :: "req \<Rightarrow> action web io" where
  "manage r = required_parameters [''action''] r
     (case map_of plain_orders (lower (the (rq_post r ''action''))) of
        None \<Rightarrow> ret (Fails (HTTPBadRequest []))
      | Some h \<Rightarrow> required_role MANAGER_ADMIN r (h r))"

section \<open>The command port\<close>

text \<open>\<open>send_cmd\<close>: the line written, and what the two lines read back make of it.\<close>

definition full_command :: "string \<Rightarrow> int option \<Rightarrow> string \<Rightarrow> string" where
  "full_command preamble userid cmd =
     preamble @ (case userid of None \<Rightarrow> [] | Some u \<Rightarrow> '' /userid='' @ int_str u) @ '' '' @ cmd @ [newline]"

definition COMMAND_FAILED_TO_RUN :: nat where "COMMAND_FAILED_TO_RUN = 2"
definition COMMAND_RESULT_ERROR :: nat where "COMMAND_RESULT_ERROR = 3"

datatype comm = CommException nat string | Skipped | Result body

definition skippable :: "nat list" where
  "skippable = [ERROR_AGENT_NOT_FOUND, ERROR_AGENT_NOT_CONNECTED, ERROR_BUSY, ERROR_WRONG_STATE]"

definition bad_ack :: "string \<Rightarrow> string \<Rightarrow> bool \<Rightarrow> comm" where
  "bad_ack cmd ack_line skip_on_wrong_state =
     (case words ack_line of
        _ # n # _ \<Rightarrow>
          if isdigit n then
            (if skip_on_wrong_state \<and> digits_value 0 n \<in> set skippable then Skipped
             else CommException COMMAND_FAILED_TO_RUN (''Command '' @ cmd @ '' failed. Error: '' @ ack_line))
          else CommException COMMAND_FAILED_TO_RUN (''Command '' @ cmd @ '' failed: '' @ ack_line)
      | _ \<Rightarrow> CommException COMMAND_FAILED_TO_RUN (''Command '' @ cmd @ '' failed: '' @ ack_line))"

text \<open>\<open>None\<close> as a response is one that is not JSON.\<close>

definition result_of :: "string \<Rightarrow> body option \<Rightarrow> comm" where
  "result_of cmd response =
     (case response of
        None \<Rightarrow> CommException COMMAND_FAILED_TO_RUN (''Cannot decode json from command '' @ cmd)
      | Some b \<Rightarrow>
          if has_key b ''error'' then CommException COMMAND_RESULT_ERROR (''Error in command '' @ cmd @ '' response: '' @ jstr (b ''error''))
          else (case b ''status'' of
              None \<Rightarrow> CommException COMMAND_FAILED_TO_RUN (''Error in command '' @ cmd @ ''.  Missing status'')
            | Some s \<Rightarrow>
                if s \<noteq> JStr ''OK'' then CommException COMMAND_FAILED_TO_RUN (''Error in command '' @ cmd @ ''.  status not OK'')
                else Result b))"

definition send_cmd :: "string \<Rightarrow> bool \<Rightarrow> bool \<Rightarrow> string \<Rightarrow> body option \<Rightarrow> comm" where
  "send_cmd cmd read_response skip_on_wrong_state ack_line response =
     (if ack_line \<noteq> ''OK'' then bad_ack cmd ack_line skip_on_wrong_state
      else if \<not> read_response then Result Map.empty
      else result_of cmd response)"

text \<open>The lines that the main loop of the controller reads of what was written.\<close>

definition controller_lines :: "string \<Rightarrow> string list" where
  "controller_lines written = map strip (split_on newline written)"


section \<open>Words and quoted words on the line\<close>

definition plain_char :: "char \<Rightarrow> bool" where
  "plain_char c \<longleftrightarrow> \<not> lex_space c \<and> \<not> is_quote c \<and> c \<noteq> backslash"

text \<open>What may stand between double quotes and be read back: no double quote, no backslash.\<close>

definition quotable :: "string \<Rightarrow> bool" where
  "quotable t \<longleftrightarrow> CHR 0x22 \<notin> set t \<and> backslash \<notin> set t"

lemma lex_in_word: "list_all plain_char w \<Longrightarrow> lex InWord t q (w @ rest) = lex InWord (t @ w) q rest"
  by (induction w arbitrary: t) (simp_all add: plain_char_def)

lemma lex_in_quotes:
  "quotable t \<Longrightarrow> lex (InQuotes (CHR 0x22)) s True (t @ CHR 0x22 # rest) = lex InWord (s @ t) True rest"
  by (induction t arbitrary: s) (auto simp: quotable_def)

lemma lex_word:
  assumes "list_all plain_char w" and "w \<noteq> []"
  shows "lex Between [] False (w @ rest) = lex InWord w False rest"
  using assms by (cases w) (simp_all add: lex_in_word plain_char_def)

lemma lex_quoted: "quotable t \<Longrightarrow> lex Between [] False (quoted t @ rest) = lex InWord t True rest"
  by (simp add: quoted_def lex_in_quotes lex_space_def is_quote_def)

lemma lex_blank: "lex Between t q (CHR '' '' # rest) = lex Between [] False rest"
  by (simp add: lex_space_def)

lemma lex_word_blank:
  assumes "list_all plain_char w" and "w \<noteq> []"
  shows "lex Between [] False (w @ '' '' @ rest) = add_token w (lex Between [] False rest)"
  using lex_word [OF assms] assms(2) by (simp add: lex_space_def)

lemma lex_quoted_blank:
  "quotable t \<Longrightarrow> lex Between [] False (quoted t @ '' '' @ rest) = add_token t (lex Between [] False rest)"
  by (simp add: lex_quoted lex_space_def)

lemma lex_quoted_end: "quotable t \<Longrightarrow> lex Between [] False (quoted t) = Inr [t]"
  using lex_quoted [of t "[]"] by simp

text \<open>A flag with its blank, or nothing.\<close>

definition flags :: "(bool \<times> string) list \<Rightarrow> string list" where
  "flags fs = map snd (filter fst fs)"

lemma lex_flag:
  assumes "list_all plain_char w" and "w \<noteq> []"
  shows "lex Between [] False ((if b then w @ '' '' else []) @ rest) =
    (if b then add_token w (lex Between [] False rest) else lex Between [] False rest)"
  using lex_word_blank [OF assms, of rest] by simp

lemma split_on_none: "sep \<notin> set s \<Longrightarrow> split_on sep (s @ [sep]) = [s, []]"
  by (induction s) auto

text \<open>The arguments of \<open>restore\<close> on the line.\<close>

definition password_arg :: "string option \<Rightarrow> string" where
  "password_arg p = (case p of None \<Rightarrow> [] | Some [] \<Rightarrow> [] | Some p \<Rightarrow> '' '' @ quoted p)"

definition password_words :: "string option \<Rightarrow> string list" where
  "password_words p = (case p of None \<Rightarrow> [] | Some [] \<Rightarrow> [] | Some p \<Rightarrow> [p])"

lemma lex_restore:
  assumes "quotable name" and "\<And>x. p = Some x \<Longrightarrow> quotable x"
  shows "lex Between [] False (quoted name @ password_arg p) = Inr (name # password_words p)"
proof (cases "p = None \<or> p = Some []")
  case True
  then show ?thesis using lex_quoted_end [OF assms(1)] by (auto simp: password_arg_def password_words_def)
next
  case False
  then obtain c x where "p = Some (c # x)" by (cases p rule: option.exhaust) (auto simp: neq_Nil_conv)
  then show ?thesis
    using lex_quoted_blank [OF assms(1), of "quoted (c # x)"] lex_quoted_end [OF assms(2)]
    by (simp add: password_arg_def password_words_def)
qed

definition nolicense :: "req \<Rightarrow> bool" where "nolicense r \<longleftrightarrow> \<not> params_getbool r ''license'' False"
definition nobackup :: "req \<Rightarrow> bool" where "nobackup r \<longleftrightarrow> \<not> params_getbool r ''backup'' False"

definition flag :: "bool \<Rightarrow> string \<Rightarrow> string" where
  "flag b w = (if b then w @ '' '' else [])"

definition restore_line :: "req \<Rightarrow> string \<Rightarrow> string" where
  "restore_line r name =
     ''/userid='' @ int_str (rq_userid r) @ '' '' @ flag (nolicense r) ''/nolicense'' @ flag (nobackup r) ''/nobackup'' @
     flag (wants_data_only r) ''/noconfig'' @ ''restore '' @ quoted name @ password_arg (rq_params r ''password'')"

lemma restore_order_line:
  "restore_order r (''restore '' @ quoted name) w = (Inr (Returns (Send cmd sync)), w') \<Longrightarrow>
   full_command [] (Some (rq_userid r)) cmd = CHR '' '' # restore_line r name @ [newline] \<and> w' = w"
  by (auto simp: restore_order_def order_def unless_wanted_def full_command_def restore_line_def flag_def nolicense_def
      nobackup_def password_arg_def ret_def Let_def split: option.splits list.splits)


lemma strip_ends: "\<not> is_space c \<Longrightarrow> \<not> is_space d \<Longrightarrow> strip (CHR '' '' # c # x @ [d]) = c # x @ [d]"
  by (simp add: strip_def lstrip_def is_space_def)

lemma restore_line_ends: "\<exists>x. restore_line r name = CHR ''/'' # x @ [CHR 0x22]"
proof -
  have "\<exists>y. quoted name @ password_arg p = y @ [CHR 0x22]" for p
    by (auto simp: password_arg_def quoted_def split: option.split list.split)
  then obtain y where "quoted name @ password_arg (rq_params r ''password'') = y @ [CHR 0x22]" by blast
  then show ?thesis by (simp add: restore_line_def)
qed

lemma digit_plain: "is_digit c \<Longrightarrow> plain_char c \<and> \<not> is_space c \<and> c \<noteq> CHR ''=''"
  by (auto simp: is_digit_def plain_char_def lex_space_def is_quote_def is_space_def)

text \<open>The flag with the user's number, as it is read back.\<close>

lemma userid_word:
  assumes "0 \<le> u"
  shows "list_all plain_char (''/userid='' @ int_str u)" and "split_eq (tl (''/userid='' @ int_str u)) = (''userid'', Some (int_str u))"
proof -
  have i: "int_str u = nat_str (nat u)" using assms by (simp add: int_str_def)
  have d: "list_all is_digit (int_str u)" unfolding i by (rule nat_str_digits)
  have p: "list_all plain_char (int_str u)" "list_all (\<lambda>c. \<not> is_space c) (int_str u)" "CHR ''='' \<notin> set (int_str u)"
    using d digit_plain by (auto simp: list_all_iff)
  show "list_all plain_char (''/userid='' @ int_str u)"
    using p(1) by (simp add: plain_char_def lex_space_def is_quote_def)
  have s: "strip ''userid'' = ''userid''" by (rule strip_no_space) (simp add: is_space_def)
  show "split_eq (tl (''/userid='' @ int_str u)) = (''userid'', Some (int_str u))"
    using s strip_no_space [OF p(2)] by (simp add: split_eq_def)
qed


text \<open>The options that the controller is to find on the line.\<close>

definition put_flag :: "bool \<Rightarrow> string \<Rightarrow> (string \<rightharpoonup> string option) \<Rightarrow> (string \<rightharpoonup> string option)" where
  "put_flag b k d = (if b then d(k \<mapsto> None) else d)"

definition restore_opts :: "req \<Rightarrow> (string \<rightharpoonup> string option)" where
  "restore_opts r = put_flag (wants_data_only r) ''noconfig'' (put_flag (nobackup r) ''nobackup''
     (put_flag (nolicense r) ''nolicense'' (Map.empty(''userid'' \<mapsto> Some (int_str (rq_userid r))))))"

lemma restore_line_tokens:
  assumes "0 \<le> rq_userid r" and "quotable name" and "\<And>x. rq_params r ''password'' = Some x \<Longrightarrow> quotable x"
  shows "shlex_split (restore_line r name) =
    Inr ((''/userid='' @ int_str (rq_userid r)) # (if nolicense r then [''/nolicense''] else []) @
      (if nobackup r then [''/nobackup''] else []) @ (if wants_data_only r then [''/noconfig''] else []) @
      ''restore'' # name # password_words (rq_params r ''password''))"
proof -
  let ?u = "''/userid='' @ int_str (rq_userid r)"
  have pc: "list_all plain_char ''/nolicense''" "list_all plain_char ''/nobackup''" "list_all plain_char ''/noconfig''"
    "list_all plain_char ''restore''"
    by (simp_all add: plain_char_def lex_space_def is_quote_def)
  have fl: "lex Between [] False (flag b x @ rest) =
      (if b then add_token x (lex Between [] False rest) else lex Between [] False rest)"
    if "list_all plain_char x" "x \<noteq> []" for b x rest
    using lex_flag [OF that] by (simp add: flag_def)
  have u: "lex Between [] False (?u @ '' '' @ rest) = add_token ?u (lex Between [] False rest)" for rest
    by (rule lex_word_blank [OF userid_word(1) [OF assms(1)]]) simp
  have re: "lex Between [] False (''restore'' @ '' '' @ rest) = add_token ''restore'' (lex Between [] False rest)" for rest
    by (rule lex_word_blank [OF pc(4)]) simp
  have e: "restore_line r name = ?u @ '' '' @ flag (nolicense r) ''/nolicense'' @ flag (nobackup r) ''/nobackup'' @
      flag (wants_data_only r) ''/noconfig'' @ ''restore'' @ '' '' @ quoted name @ password_arg (rq_params r ''password'')"
    by (simp add: restore_line_def)
  have lr: "lex Between [] False (quoted name @ password_arg (rq_params r ''password'')) =
      Inr (name # password_words (rq_params r ''password''))"
    by (rule lex_restore [OF assms(2)]) (rule assms(3))
  have n: "''/nolicense'' \<noteq> []" "''/nobackup'' \<noteq> []" "''/noconfig'' \<noteq> []" by simp_all
  show ?thesis
    unfolding shlex_split_def e u fl [OF pc(1) n(1)] fl [OF pc(2) n(2)] fl [OF pc(3) n(3)] re
    by (simp add: lr)
qed


lemma take_restore_opts:
  assumes "0 \<le> rq_userid r"
  shows "take_opts Map.empty ((''/userid='' @ int_str (rq_userid r)) # (if nolicense r then [''/nolicense''] else []) @
      (if nobackup r then [''/nobackup''] else []) @ (if wants_data_only r then [''/noconfig''] else []) @
      ''restore'' # args) = (restore_opts r, ''restore'' # args)"
proof -
  have f: "split_eq ''nolicense'' = (''nolicense'', None)" "split_eq ''nobackup'' = (''nobackup'', None)"
    "split_eq ''noconfig'' = (''noconfig'', None)"
    using strip_no_space [of "''nolicense''"] strip_no_space [of "''nobackup''"] strip_no_space [of "''noconfig''"]
    by (simp_all add: split_eq_def is_space_def)
  show ?thesis
    using userid_word(2) [OF assms] f by (auto simp: restore_opts_def put_flag_def)
qed

lemma find_by_name_run: "find_by_name name w = (Inr (Some f), w') \<Longrightarrow> fe_name f = name \<and> w' = w"
  unfolding find_by_name_def
  by (auto simp: bnd_def ret_def split: list.splits if_splits dest: filter_eq_ConsD)

text \<open>C11: What a manager asks for is what the controller reads: the order to restore a known backup,
  written to the command port, is read as one line, and that line as the command \<open>restore\<close> with that name,
  the password if there is one, the user's number, and exactly the options asked for; provided the
  name and the password contain no double quote, no backslash and no newline.\<close>

theorem web_restore_roundtrip:
  assumes "handle_restore r w = (Inr (Returns (Send cmd sync)), w')"
    and "rq_post r ''url'' = None" and "rq_post r ''filename'' = Some name" and "0 \<le> rq_userid r"
    and "quotable name" and "newline \<notin> set name"
    and "rq_params r ''password'' \<in> {None} \<union> Some ` {p. quotable p \<and> newline \<notin> set p}"
  shows "\<exists>line. controller_lines (full_command [] (Some (rq_userid r)) cmd) = [line, []] \<and>
    parse_command line w = bnd (sanity (restore_opts r)) (\<lambda>d.
      ret \<lparr>cm_name = ''restore'', cm_dict = d, cm_args = map strip (name # password_words (rq_params r ''password''))\<rparr>) w"
proof -
  from assms(1-3) obtain f u where f: "find_by_name name w = (Inr (Some f), u)"
    and o: "restore_order r (''restore '' @ quoted (fe_name f)) u = (Inr (Returns (Send cmd sync)), w')"
    by (auto simp: handle_restore_def ret_def elim!: bnd_returnsE split: option.splits)
  from find_by_name_run [OF f] o have o: "restore_order r (''restore '' @ quoted name) w = (Inr (Returns (Send cmd sync)), w')"
    by simp
  have pw: "quotable x \<and> newline \<notin> set x" if "rq_params r ''password'' = Some x" for x
    using assms(7) that by auto
  let ?line = "restore_line r name"
  have full: "full_command [] (Some (rq_userid r)) cmd = (CHR '' '' # ?line) @ [newline]"
    using restore_order_line [OF o] by simp
  have nl: "newline \<notin> set (CHR '' '' # ?line)"
  proof -
    have "list_all is_digit (int_str (rq_userid r))"
      using assms(4) nat_str_digits by (simp add: int_str_def)
    then have "newline \<notin> set (int_str (rq_userid r))"
      by (auto simp: list_all_iff newline_def is_digit_def)
    moreover have "newline \<notin> set (password_arg (rq_params r ''password''))"
    proof (cases "rq_params r ''password''")
      case (Some x)
      with pw [OF Some] show ?thesis
        by (cases x) (auto simp: password_arg_def quoted_def newline_def)
    qed (simp add: password_arg_def)
    ultimately show ?thesis
      using assms(6) by (auto simp: restore_line_def flag_def quoted_def newline_def)
  qed
  obtain x where x: "?line = CHR ''/'' # x @ [CHR 0x22]" using restore_line_ends by blast
  have "strip (CHR '' '' # ?line) = ?line"
    unfolding x by (rule strip_ends) (simp_all add: is_space_def)
  then have lines: "controller_lines (full_command [] (Some (rq_userid r)) cmd) = [?line, []]"
    unfolding controller_lines_def full split_on_none [OF nl] by (simp add: strip_def lstrip_def)
  have tok: "shlex_split ?line =
    Inr ((''/userid='' @ int_str (rq_userid r)) # (if nolicense r then [''/nolicense''] else []) @
      (if nobackup r then [''/nobackup''] else []) @ (if wants_data_only r then [''/noconfig''] else []) @
      ''restore'' # name # password_words (rq_params r ''password''))"
    by (rule restore_line_tokens [OF assms(4,5)]) (rule pw [THEN conjunct1])
  have "parse_command ?line w = bnd (sanity (restore_opts r)) (\<lambda>d.
      ret \<lparr>cm_name = ''restore'', cm_dict = d, cm_args = map strip (name # password_words (rq_params r ''password''))\<rparr>) w"
    unfolding parse_command_def tok sum.case take_restore_opts [OF assms(4)]
    by (simp add: dashes_to_underscores_def)
  with lines show ?thesis by blast
qed


definition restore_req :: req where
  "restore_req = \<lparr>rq_method = ''POST'', rq_post = [''action'' \<mapsto> ''restore'', ''filename'' \<mapsto> ''b.tsbak''],
     rq_params = [''action'' \<mapsto> ''restore'', ''filename'' \<mapsto> ''b.tsbak'', ''password'' \<mapsto> ''top secret''],
     rq_userid = 3, rq_roleid = MANAGER_ADMIN\<rparr>"

definition backup_world :: world where
  "backup_world = world1\<lparr>w_files := [\<lparr>fe_fileid = 1, fe_name = ''b.tsbak'', fe_file_type = ''backup'',
     fe_storage_type = STORAGE_TYPE_VOL, fe_storageid = 1, fe_size = 0, fe_auto = True, fe_encrypted = False\<rparr>]\<rparr>"

theorem web_restore_roundtrip_witness:
  "\<exists>cmd line. handle_restore restore_req backup_world = (Inr (Returns (Send cmd False)), backup_world) \<and>
     controller_lines (full_command [] (Some 3) cmd) = [line, []] \<and>
     parse_command line backup_world = bnd (sanity (restore_opts restore_req)) (\<lambda>d.
       ret \<lparr>cm_name = ''restore'', cm_dict = d, cm_args = map strip [''b.tsbak'', ''top secret'']\<rparr>) backup_world"
proof -
  have "\<exists>cmd. handle_restore restore_req backup_world = (Inr (Returns (Send cmd False)), backup_world)"
    by (simp add: handle_restore_def restore_req_def find_by_name_def backup_world_def bnd_def restore_order_def order_def
        Let_def params_getbool_def)
  then obtain cmd where run: "handle_restore restore_req backup_world = (Inr (Returns (Send cmd False)), backup_world)"
    by blast
  have "\<exists>line. controller_lines (full_command [] (Some (rq_userid restore_req)) cmd) = [line, []] \<and>
    parse_command line backup_world = bnd (sanity (restore_opts restore_req)) (\<lambda>d.
      ret \<lparr>cm_name = ''restore'', cm_dict = d,
           cm_args = map strip (''b.tsbak'' # password_words (rq_params restore_req ''password''))\<rparr>) backup_world"
    by (rule web_restore_roundtrip [OF run]) (simp_all add: restore_req_def quotable_def newline_def)
  then show ?thesis using run by (auto simp: restore_req_def password_words_def)
qed

section \<open>What is not read as it was meant\<close>

text \<open>
  Nothing on the way from the form to the command port escapes anything: a newline in the URL of
  \<open>restore-url\<close> ends the line, and what follows is read as a command of its own, without the
  checks of the web application and under no user's number.
\<close>

lemma split_on_append: "sep \<notin> set s \<Longrightarrow> split_on sep (s @ sep # t) = s # split_on sep t"
  by (induction s) auto

lemma web_url_injects:
  assumes "newline \<notin> set evil" and "0 \<le> rq_userid r" and "rq_post r ''url'' = Some (url @ CHR 0x22 # newline # evil @ [newline])"
    and "newline \<notin> set url" and "rq_params r ''password'' = None"
    and "handle_restore r w = (Inr (Returns (Send cmd sync)), w')"
  shows "\<exists>first. controller_lines (full_command [] (Some (rq_userid r)) cmd) = [first, strip evil, [CHR 0x22], []]"
proof -
  let ?pre = "'' /userid='' @ int_str (rq_userid r) @ '' '' @ flag (nolicense r) ''/nolicense'' @ flag (nobackup r) ''/nobackup'' @
     flag (wants_data_only r) ''/noconfig'' @ ''restore-url '' @ CHR 0x22 # url @ [CHR 0x22]"
  have full: "full_command [] (Some (rq_userid r)) cmd = ?pre @ newline # evil @ newline # [CHR 0x22, newline]"
    using assms(3,5,6)
    by (auto simp: handle_restore_def restore_order_def order_def unless_wanted_def full_command_def flag_def nolicense_def
        nobackup_def ret_def Let_def quoted_def split: option.splits list.splits)
  have "list_all is_digit (int_str (rq_userid r))"
    using assms(2) nat_str_digits by (simp add: int_str_def)
  then have "newline \<notin> set (int_str (rq_userid r))"
    by (auto simp: list_all_iff newline_def is_digit_def)
  then have pre: "newline \<notin> set ?pre"
    using assms(4) by (auto simp: flag_def newline_def)
  have "split_on newline (?pre @ newline # evil @ newline # [CHR 0x22, newline]) = [?pre, evil, [CHR 0x22], []]"
    unfolding split_on_append [OF pre] split_on_append [OF assms(1)] by (simp add: newline_def)
  then show ?thesis
    unfolding controller_lines_def full by (simp add: strip_def lstrip_def is_space_def)
qed

end
