(* ===== verification/Levels.thy ===== *)
theory Levels
  imports Licensing
begin

text \<open>
  Notifications with more than two levels: the CPU load of an agent, the load of one of its
  processes, the space on one of its volumes.  Each keeps the colour it has told last and
  tells a colour only when it is another one.  The interface is the locale
  \<open>level_notifier\<close>; the components that notify in this way interpret it.
\<close>

section \<open>What changes in a sequence of levels\<close>

fun changes :: "'c \<Rightarrow> 'c list \<Rightarrow> 'c list" where
  "changes l [] = []"
| "changes l (c # cs) = (if c = l then changes l cs else c # changes c cs)"

lemma changes_successive: "successively (\<noteq>) (l # changes l cs)"
  by (induction cs arbitrary: l) (auto simp: successively_Cons)

lemma changes_last: "last (l # changes l cs) = last (l # cs)"
proof (induction cs arbitrary: l)
  case (Cons c cs)
  have skip: "last (x # y # zs) = last (y # zs)" for x y :: 'a and zs by simp
  show ?case
    using Cons [of c] Cons [of l] by (cases "c = l") (simp_all only: changes.simps if_True if_False simp_thms skip)
qed simp

lemma changes_nothing: "changes l cs = [] \<longleftrightarrow> (\<forall>c \<in> set cs. c = l)"
  by (induction cs) auto

lemma changes_append: "changes l (cs @ ds) = changes l cs @ changes (last (l # cs)) ds"
  by (induction cs arbitrary: l) auto

section \<open>The interface\<close>

text \<open>
  \<open>op x\<close> reports the level \<open>col x\<close>, a \<open>valid\<close> one; \<open>level\<close> is what the notifier takes the
  level to be and \<open>told\<close> are the levels it has told so far.
\<close>

locale level_notifier =
  fixes op :: "'x \<Rightarrow> unit io" and col :: "'x \<Rightarrow> 'c" and valid :: "'c \<Rightarrow> bool" and inv :: "world \<Rightarrow> bool"
    and level :: "world \<Rightarrow> 'c" and told :: "world \<Rightarrow> 'c list"
  assumes step: "inv w \<Longrightarrow> valid (col x) \<Longrightarrow> \<exists>w'. op x w = (Inr (), w') \<and> inv w' \<and> level w' = col x \<and>
      told w' = told w @ (if col x = level w then [] else [col x])"
begin

lemma report_step:
  assumes "inv w" and "valid (col x)"
  obtains w' where "op x w = (Inr (), w')" "inv w'" "level w' = col x" "told w' = told w @ changes (level w) [col x]"
  using step [OF assms] by auto

lemma reports_changes:
  "inv w \<Longrightarrow> list_all valid (map col xs) \<Longrightarrow> \<exists>w'. reports op xs w = (Inr (), w') \<and> inv w' \<and>
     level w' = last (level w # map col xs) \<and> told w' = told w @ changes (level w) (map col xs)"
proof (induction xs arbitrary: w)
  case Nil
  then show ?case by simp
next
  case (Cons x xs)
  then obtain v where v: "op x w = (Inr (), v)" "inv v" "level v = col x"
      "told v = told w @ changes (level w) [col x]"
    using report_step [of w x] by auto
  from Cons.IH [OF v(2)] Cons.prems(2) obtain w' where w': "reports op xs v = (Inr (), w')" "inv w'"
      "level w' = last (level v # map col xs)" "told w' = told v @ changes (level v) (map col xs)"
    by auto
  show ?case
    by (rule exI [of _ w']) (use v w' in \<open>auto simp: sq_def bnd_def\<close>)
qed

lemma told_apart:
  "inv w \<Longrightarrow> list_all valid (map col xs) \<Longrightarrow> told w = [] \<Longrightarrow> \<exists>w'. reports op xs w = (Inr (), w') \<and>
     successively (\<noteq>) (level w # told w')"
  using reports_changes [of w xs] changes_successive by (metis append_Nil)

end

text \<open>The row of a notification that belongs to an agent, and what is done to it.\<close>

definition own_row :: "string \<Rightarrow> nat \<Rightarrow> world \<Rightarrow> bool" where
  "own_row name i w \<longleftrightarrow> length (filter (nt_matches name (Some i)) (w_notifications w)) \<le> 1"

definition notified :: "string \<Rightarrow> nat \<Rightarrow> world \<Rightarrow> string option" where
  "notified name i w =
     (case filter (nt_matches name (Some i)) (w_notifications w) of [] \<Rightarrow> None | n # _ \<Rightarrow> nt_notified_color n)"

lemma nt_matches_new [simp]: "nt_matches name (Some i) (new_notification name (Some i))"
  by (simp add: nt_matches_def new_notification_def)

lemma own_notification_run:
  assumes "own_row name i w"
  obtains n ns where "get_notification name (Some i) w = (Inr n, w\<lparr>w_notifications := ns\<rparr>)"
    and "filter (nt_matches name (Some i)) ns = [n]" and "nt_notified_color n = notified name i w"
proof (cases "filter (nt_matches name (Some i)) (w_notifications w)")
  case Nil
  then show ?thesis
    by (intro that [of "new_notification name (Some i)" "w_notifications w @ [new_notification name (Some i)]"])
      (simp_all add: get_notification_def bnd_def sq_def notified_def, simp add: new_notification_def)
next
  case (Cons n ns)
  with assms have "ns = []" by (simp add: own_row_def)
  with Cons show ?thesis
    by (intro that [of n "w_notifications w"]) (simp_all add: get_notification_def bnd_def notified_def)
qed

lemma own_row_updated:
  assumes "filter (nt_matches name (Some i)) ns = [n]"
    and "\<And>m. nt_name (g m) = nt_name m" "\<And>m. nt_agentid (g m) = nt_agentid m"
  shows "filter (nt_matches name (Some i)) (map (\<lambda>m. if nt_matches name (Some i) m then g m else m) ns) = [g n]"
  using assms(1) by (rule filter_single_map) (simp add: nt_matches_def assms(2,3))

end
