(* ===== verification/Metrics.thy ===== *)
theory Metrics
  imports Levels Complex_Main "HOL-Library.Char_ord" "HOL-Library.List_Lexorder"
begin

text \<open>
  \<open>metrics.py\<close>: the CPU load of an agent and the CPU and memory use of single processes,
  averaged over a period and held against two thresholds; the colour that comes out of
  it is reported through the notification of that name and agent.  Loads are rational
  numbers here where the code has floating point numbers.
\<close>

section \<open>Rows\<close>

text \<open>
  A row of \<open>metrics\<close>, of \<open>alert_settings\<close>, and the rest of what a check reads: the time of
  an agent's last connection and the four values of the system table.
\<close>

record sample =
  sm_agentid :: nat
  sm_process :: string
  sm_cpu :: "rat option"
  sm_memory :: "rat option"
  sm_time :: int

record alert_setting =
  as_process :: string
  as_type :: string
  as_threshold_warning :: "int option"
  as_threshold_error :: "int option"
  as_period_warning :: "int option"
  as_period_error :: "int option"

record metrics_db =
  md_connected :: "nat \<Rightarrow> int option"
  md_samples :: "sample list"
  md_settings :: "alert_setting list"
  md_load_warn :: int
  md_load_error :: int
  md_period_warn :: int
  md_period_error :: int

definition add_sample :: "nat \<Rightarrow> string \<Rightarrow> rat option \<Rightarrow> rat option \<Rightarrow> int \<Rightarrow> metrics_db \<Rightarrow> metrics_db" where
  "add_sample i p cpu memory now db =
     db\<lparr>md_samples := md_samples db @
       [\<lparr>sm_agentid = i, sm_process = p, sm_cpu = cpu, sm_memory = memory, sm_time = now\<rparr>]\<rparr>"

text \<open>\<open>prune\<close>, and how many rows it removed.\<close>

definition prune_samples :: "int \<Rightarrow> int \<Rightarrow> metrics_db \<Rightarrow> metrics_db \<times> nat" where
  "prune_samples save_days now db =
     (let old = (\<lambda>s. sm_time s < now - save_days * 86400) in
      (db\<lparr>md_samples := filter (\<lambda>s. \<not> old s) (md_samples db)\<rparr>, length (filter old (md_samples db))))"

section \<open>Averages\<close>

text \<open>SQL's \<open>AVG\<close>: nulls do not count, and there is no average of no value.\<close>

definition values_of :: "'a option list \<Rightarrow> 'a list" where
  "values_of xs = concat (map (case_option [] (\<lambda>x. [x])) xs)"

definition avg :: "rat option list \<Rightarrow> rat option" where
  "avg xs = (let ys = values_of xs in if ys = [] then None else Some (sum_list ys / of_nat (length ys)))"

text \<open>\<open>round(x, 0)\<close> of Python 2, a tie away from zero, and \<open>int(x)\<close>.\<close>

definition round_away :: "rat \<Rightarrow> int" where
  "round_away x = (if x < 0 then - \<lfloor>1 / 2 - x\<rfloor> else \<lfloor>x + 1 / 2\<rfloor>)"

definition trunc :: "rat \<Rightarrow> int" where
  "trunc x = (if x < 0 then - \<lfloor>- x\<rfloor> else \<lfloor>x\<rfloor>)"

datatype above = Unknown | Below int | Above int

definition total_samples :: "metrics_db \<Rightarrow> nat \<Rightarrow> int \<Rightarrow> int \<Rightarrow> sample list" where
  "total_samples db i period now =
     filter (\<lambda>s. sm_agentid s = i \<and> sm_process s = ''_Total'' \<and> now - period \<le> sm_time s) (md_samples db)"

definition cpu_above_threshold :: "metrics_db \<Rightarrow> agent \<Rightarrow> int \<Rightarrow> int \<Rightarrow> int \<Rightarrow> above" where
  "cpu_above_threshold db a threshold period now =
     (case md_connected db (ag_agentid a) of
        None \<Rightarrow> Unknown
      | Some t \<Rightarrow>
          if now - t < period then Unknown
          else let v = (case avg (map sm_cpu (total_samples db (ag_agentid a) period now)) of
                          None \<Rightarrow> -1 | Some x \<Rightarrow> round_away x) in
               if v = -1 then Unknown
               else if v < threshold then Below v
               else Above v)"

section \<open>Reporting a colour\<close>

definition title :: "string \<Rightarrow> string" where
  "title s = (case s of [] \<Rightarrow> [] | c # cs \<Rightarrow> upper_char c # lower cs)"

definition color_key :: "string \<Rightarrow> string \<Rightarrow> ekey option" where
  "color_key prefix color =
     (if color = ''green'' then Some (EV (prefix @ ''-OKAY''))
      else if color = ''yellow'' then Some (EV (prefix @ ''-ABOVE-LOW-WATERMARK''))
      else if color = ''red'' then Some (EV (prefix @ ''-ABOVE-HIGH-WATERMARK''))
      else None)"

text \<open>The key of an event, or none for a colour or metric that there is no event for.\<close>

definition metric_key :: "string \<Rightarrow> string \<Rightarrow> string \<Rightarrow> ekey option" where
  "metric_key which process color =
     (if process = [] then color_key ''CPU-LOAD'' color
      else if which = ''cpu'' then color_key ''CPU-LOAD-PROCESS'' color
      else if which = ''memory'' then color_key ''MEMORY-PROCESS'' color
      else None)"

definition opt_int :: "int option \<Rightarrow> jval" where
  "opt_int x = (case x of None \<Rightarrow> JNull | Some i \<Rightarrow> JInt i)"

record limits =
  threshold_error :: "int option"
  threshold_warning :: "int option"
  period_error :: "int option"
  period_warning :: "int option"

definition event_value :: "string \<Rightarrow> string \<Rightarrow> rat \<Rightarrow> rat" where
  "event_value which process v = (if process \<noteq> [] \<and> which = ''memory'' then v / (1024 * 1024) else v)"

definition metric_data :: "string \<Rightarrow> agent \<Rightarrow> rat \<Rightarrow> string \<Rightarrow> limits \<Rightarrow> body" where
  "metric_data which a v process l =
     agent_todict a
       ++ (if process = [] then Map.empty else [''process_name'' \<mapsto> JStr process])
       ++ [''threshold_error'' \<mapsto> opt_int (threshold_error l), ''threshold_warning'' \<mapsto> opt_int (threshold_warning l),
           ''period_error'' \<mapsto> opt_int (period_error l), ''period_warning'' \<mapsto> opt_int (period_warning l),
           ''cpu'' \<mapsto> JInt (trunc (event_value which process v)),
           ''info'' \<mapsto> JStr (title which @ '': '' @ int_str (trunc (event_value which process v)))]"

definition metric_event :: "string \<Rightarrow> agent \<Rightarrow> string \<Rightarrow> rat \<Rightarrow> string \<Rightarrow> limits \<Rightarrow> unit io" where
  "metric_event which a color v process l =
     (case metric_key which process color of
        None \<Rightarrow> ret ()
      | Some k \<Rightarrow> gen k (metric_data which a v process l) None)"

definition metric_name :: "string \<Rightarrow> string \<Rightarrow> string" where
  "metric_name metric process = (if process = [] then metric else metric @ ''_'' @ process)"

text \<open>
  \<open>_report\<close>.  A row that \<open>get\<close> has just added has a number only once the session is flushed,
  which the event does unless the agent is disabled; the update without a number raises.
\<close>

definition report_color ::
    "string \<Rightarrow> agent \<Rightarrow> string \<Rightarrow> rat \<Rightarrow> string \<Rightarrow> string \<Rightarrow> limits \<Rightarrow> unit io" where
  "report_color metric a color v description process l =
     (let name = metric_name metric process; i = Some (ag_agentid a) in
      bnd (gets (\<lambda>w. filter (nt_matches name i) (w_notifications w) = [])) (\<lambda>is_new.
      bnd (get_notification name i) (\<lambda>n.
        when_m (nt_notified_color n \<noteq> Some color \<and> (color \<noteq> ''green'' \<or> truthy_str (nt_notified_color n) \<noteq> None))
          (seqs [
            metric_event metric a color v process l,
            when_m (is_new \<and> \<not> ag_enabled a) (raise (TypeError ''%d format: a number is required, not NoneType'')),
            set_notification name i
              (\<lambda>n. n\<lparr>nt_color := Some color, nt_notified_color := Some color, nt_description := Some description\<rparr>)]))))"

section \<open>The CPU load of an agent\<close>

definition no_data_text :: "metrics_db \<Rightarrow> string" where
  "no_data_text db = ''No data yet: error/warning '' @ int_str (md_period_error db) @ ''/'' @
     int_str (md_period_warn db) @ '' seconds''"

text \<open>The colour, the value and the description that the two thresholds give.\<close>

fun cpu_color :: "metrics_db \<Rightarrow> above \<Rightarrow> above \<Rightarrow> (string \<times> int \<times> string) option" where
  "cpu_color db (Above v) warn = Some (''red'', v, int_str v @ '' > '' @ int_str (md_load_error db))"
| "cpu_color db Unknown Unknown = None"
| "cpu_color db error (Above v) = Some (''yellow'', v, int_str v @ '' > '' @ int_str (md_load_warn db))"
| "cpu_color db (Below v) warn = Some (''green'', v, int_str v)"
| "cpu_color db Unknown (Below v) = Some (''green'', v, int_str v)"

definition cpu_limits :: "metrics_db \<Rightarrow> limits" where
  "cpu_limits db =
     \<lparr>threshold_error = Some (md_load_error db), threshold_warning = Some (md_load_warn db),
      period_error = Some (md_period_error db div 60), period_warning = Some (md_period_warn db div 60)\<rparr>"

definition opt_string :: "string option \<Rightarrow> jval" where
  "opt_string s = (case s of None \<Rightarrow> JNull | Some x \<Rightarrow> JStr x)"

definition cpu_check :: "metrics_db \<Rightarrow> agent \<Rightarrow> body io" where
  "cpu_check db a =
     bnd (gets (\<lambda>w. int (w_now w))) (\<lambda>now.
       case cpu_color db (cpu_above_threshold db a (md_load_error db) (md_period_error db) now)
                         (cpu_above_threshold db a (md_load_warn db) (md_period_warn db) now) of
         None \<Rightarrow> ret [''displayname'' \<mapsto> opt_string (ag_displayname a), ''status'' \<mapsto> JStr ''unknown'',
                      ''info'' \<mapsto> JStr (no_data_text db)]
       | Some (color, v, description) \<Rightarrow>
           sq (report_color ''cpu'' a color (of_int v) description [] (cpu_limits db))
              (ret [''displayname'' \<mapsto> opt_string (ag_displayname a), ''status'' \<mapsto> JStr color,
                    ''value'' \<mapsto> JInt v]))"

section \<open>Single processes\<close>

text \<open>A level of a setting counts only with a threshold and a positive period.\<close>

fun level_config :: "int option \<Rightarrow> int option \<Rightarrow> (int \<times> int) option" where
  "level_config (Some t) (Some p) = (if 0 < p then Some (t, p) else None)"
| "level_config _ _ = None"

definition process_samples :: "metrics_db \<Rightarrow> nat \<Rightarrow> string \<Rightarrow> int \<Rightarrow> int \<Rightarrow> sample list" where
  "process_samples db i process minutes now =
     filter (\<lambda>s. sm_process s = process \<and> now - minutes * 60 \<le> sm_time s \<and> sm_agentid s = i) (md_samples db)"

definition level_average :: "metrics_db \<Rightarrow> string \<Rightarrow> nat \<Rightarrow> string \<Rightarrow> int \<Rightarrow> (int \<times> int) option \<Rightarrow> rat option" where
  "level_average db metric i process now c =
     Option.bind c (\<lambda>(t, p). avg (map (if metric = ''cpu'' then sm_cpu else sm_memory) (process_samples db i process p now)))"

text \<open>
  \<open>value is not None and int(round(value, 0)) or None\<close>: a threshold of 0 becomes no threshold.
\<close>

definition int_or_none :: "int option \<Rightarrow> int option" where
  "int_or_none x = (if x = Some 0 then None else x)"

definition is_over :: "int option \<Rightarrow> int option \<Rightarrow> rat option \<Rightarrow> bool" where
  "is_over period threshold v =
     (case (period, threshold, v) of (Some _, Some t, Some x) \<Rightarrow> of_int t \<le> x | _ \<Rightarrow> False)"

text \<open>SQL's \<open>min\<close> over the colours of the notifications of that name, of all agents.\<close>

definition current_color :: "string \<Rightarrow> notification list \<Rightarrow> string option" where
  "current_color name ns =
     (case values_of (map nt_color (filter (\<lambda>n. nt_name n = name) ns)) of [] \<Rightarrow> None | c # cs \<Rightarrow> Some (fold min cs c))"

definition process_color :: "bool \<Rightarrow> bool \<Rightarrow> string option \<Rightarrow> string option" where
  "process_color over_error over_warning current =
     (if over_error \<and> current \<noteq> Some ''red'' then Some ''red''
      else if over_warning \<and> \<not> over_error \<and> current \<noteq> Some ''yellow'' then Some ''yellow''
      else if \<not> over_warning \<and> \<not> over_error \<and> current \<noteq> Some ''green'' then Some ''green''
      else None)"

definition over_text :: "rat option \<Rightarrow> int option \<Rightarrow> string" where
  "over_text v t =
     (case (v, t) of (Some x, Some n) \<Rightarrow> int_str (trunc x) @ '' > '' @ int_str n | _ \<Rightarrow> [])"

definition process_check :: "string \<Rightarrow> agent \<Rightarrow> metrics_db \<Rightarrow> alert_setting \<Rightarrow> unit io" where
  "process_check metric a db s =
     bnd (gets (\<lambda>w. (int (w_now w), current_color (metric @ ''_'' @ as_process s) (w_notifications w)))) (\<lambda>(now, current).
       let warning = level_config (as_threshold_warning s) (as_period_warning s);
           error = level_config (as_threshold_error s) (as_period_error s);
           value_warning = level_average db metric (ag_agentid a) (as_process s) now warning;
           value_error = level_average db metric (ag_agentid a) (as_process s) now error;
           l = \<lparr>threshold_error = int_or_none (map_option fst error), threshold_warning = int_or_none (map_option fst warning),
                period_error = int_or_none (map_option snd error), period_warning = int_or_none (map_option snd warning)\<rparr>;
           over_error = is_over (period_error l) (threshold_error l) value_error;
           over_warning = is_over (period_warning l) (threshold_warning l) value_warning in
       if warning = None \<and> error = None then ret ()
       else case process_color over_error over_warning current of
           None \<Rightarrow> ret ()
         | Some color \<Rightarrow>
             (case (if color = ''red'' then (value_error, over_text value_error (threshold_error l))
                    else if color = ''yellow'' then (value_warning, over_text value_warning (threshold_warning l))
                    else (if value_warning \<noteq> None \<and> value_warning \<noteq> Some 0 then value_warning else value_error, [])) of
                (None, _) \<Rightarrow> ret ()
              | (Some v, description) \<Rightarrow> report_color metric a color v description (as_process s) l))"

definition process_level_check :: "metrics_db \<Rightarrow> agent \<Rightarrow> string \<Rightarrow> unit io" where
  "process_level_check db a metric =
     for_each (filter (\<lambda>s. as_type s = metric) (md_settings db)) (process_check metric a db)"

section \<open>The whole check\<close>

definition check_agent :: "metrics_db \<Rightarrow> agent \<Rightarrow> body io" where
  "check_agent db a =
     sq (process_level_check db a ''cpu'') (sq (process_level_check db a ''memory'') (cpu_check db a))"

definition check_metrics :: "metrics_db \<Rightarrow> string \<Rightarrow> body io" where
  "check_metrics db metric =
     (if metric \<noteq> ''cpu'' then ret (error_body (''Unknown metric: '' @ metric))
      else
        bnd all_agents (\<lambda>agents.
        bnd (fold_m (\<lambda>(k, a) results. bnd (check_agent db a) (\<lambda>r. ret (results @ [JDict r]))) agents []) (\<lambda>results.
          ret [''status'' \<mapsto> JStr ''OK'',
               ''info'' \<mapsto> (if results = [] then JStr ''No agents connected.'' else JList results)])))"

section \<open>What is told about a load\<close>

definition is_color :: "string \<Rightarrow> bool" where
  "is_color c \<longleftrightarrow> c \<in> {''green'', ''yellow'', ''red''}"

text \<open>The colour that an event of this metric, agent and process tells.\<close>

definition key_color :: "string \<Rightarrow> string \<Rightarrow> ekey \<Rightarrow> string option" where
  "key_color which process k = find (\<lambda>c. metric_key which process c = Some k) [''green'', ''yellow'', ''red'']"

definition load_color :: "string \<Rightarrow> string \<Rightarrow> agent \<Rightarrow> event \<Rightarrow> string option" where
  "load_color which process a e =
     (case e of Event k d u \<Rightarrow>
        if d ''agentid'' = Some (JInt (int (ag_agentid a))) \<and>
           d ''process_name'' = (if process = [] then None else Some (JStr process))
        then key_color which process k else None)"

definition told_loads :: "string \<Rightarrow> string \<Rightarrow> agent \<Rightarrow> world \<Rightarrow> string list" where
  "told_loads which process a w = values_of (map (load_color which process a) (w_events w))"

definition load_level :: "string \<Rightarrow> string \<Rightarrow> agent \<Rightarrow> world \<Rightarrow> string" where
  "load_level which process a w =
     (case truthy_str (notified (metric_name which process) (ag_agentid a) w) of None \<Rightarrow> ''green'' | Some c \<Rightarrow> c)"

text \<open>There are events for the metric, none is switched off, and there is at most one row.\<close>

definition load_told :: "string \<Rightarrow> string \<Rightarrow> agent \<Rightarrow> world \<Rightarrow> bool" where
  "load_told which process a w \<longleftrightarrow>
     which \<in> {''cpu'', ''memory''} \<and> ag_enabled a \<and> own_row (metric_name which process) (ag_agentid a) w \<and>
     (\<forall>c \<in> {''green'', ''yellow'', ''red''}. \<forall>k. metric_key which process c = Some k \<longrightarrow> cf_event_known (w_conf w) k)"

lemma values_of_append [simp]: "values_of (xs @ ys) = values_of xs @ values_of ys"
  by (simp add: values_of_def)

lemma values_of_single [simp]: "values_of [x] = (case x of None \<Rightarrow> [] | Some y \<Rightarrow> [y])"
  by (simp add: values_of_def split: option.split)

lemma metric_key_colors:
  "which \<in> {''cpu'', ''memory''} \<Longrightarrow> is_color c \<Longrightarrow> \<exists>k. metric_key which process c = Some k \<and> key_color which process k = Some c"
  by (auto simp: is_color_def metric_key_def color_key_def key_color_def)

lemma metric_data_fields:
  "metric_data which a v process l ''enabled'' = Some (JBool (ag_enabled a))"
  "metric_data which a v process l ''agentid'' = Some (JInt (int (ag_agentid a)))"
  "metric_data which a v process l ''process_name'' = (if process = [] then None else Some (JStr process))"
  by (simp_all add: metric_data_def agent_todict_def map_add_def)

lemma report_color_step:
  assumes "load_told which process a w" and "is_color c"
  shows "\<exists>w'. report_color which a c v d process l w = (Inr (), w') \<and> load_told which process a w' \<and>
     load_level which process a w' = c \<and>
     told_loads which process a w' = told_loads which process a w @ (if c = load_level which process a w then [] else [c])"
proof -
  let ?name = "metric_name which process" and ?i = "ag_agentid a"
  from assms(1) have own: "own_row ?name ?i w" by (simp add: load_told_def)
  from own obtain n ns where n: "get_notification ?name (Some ?i) w = (Inr n, w\<lparr>w_notifications := ns\<rparr>)"
      and ns: "filter (nt_matches ?name (Some ?i)) ns = [n]" and told: "nt_notified_color n = notified ?name ?i w"
    by (rule own_notification_run)
  from assms metric_key_colors [of which c process] obtain k
    where k: "metric_key which process c = Some k" "key_color which process k = Some c"
    by (auto simp: load_told_def)
  with assms have known: "cf_event_known (w_conf w) k" by (auto simp: load_told_def is_color_def)
  have enabled: "ag_enabled a" using assms(1) by (simp add: load_told_def)
  note row = own_row_updated [OF ns, of "\<lambda>n. n\<lparr>nt_color := Some c, nt_notified_color := Some c, nt_description := Some d\<rparr>"]
  have c: "c \<noteq> []" using assms(2) by (auto simp: is_color_def)
  show ?thesis
  proof (cases "c = load_level which process a w")
    case True
    then have "\<not> (nt_notified_color n \<noteq> Some c \<and> (c \<noteq> ''green'' \<or> truthy_str (nt_notified_color n) \<noteq> None))"
      by (auto simp: load_level_def told truthy_str_def split: option.splits list.splits)
    then have "report_color which a c v d process l w = (Inr (), w\<lparr>w_notifications := ns\<rparr>)"
      using n by (auto simp: report_color_def bnd_def Let_def)
    then show ?thesis
      using True assms(1) ns told
      by (simp add: load_told_def own_row_def load_level_def told_loads_def notified_def)
  next
    case False
    then have "nt_notified_color n \<noteq> Some c \<and> (c \<noteq> ''green'' \<or> truthy_str (nt_notified_color n) \<noteq> None)"
      using c by (auto simp: load_level_def told truthy_str_def split: option.splits list.splits)
    then show ?thesis
      using False assms(1) n row known k enabled c
      by (simp add: report_color_def bnd_def sq_def Let_def metric_event_def gen_run metric_data_fields set_notification_def
          load_told_def own_row_def load_level_def told_loads_def load_color_def notified_def truthy_str_def
          split: list.split)
  qed
qed

interpretation loads: level_notifier "\<lambda>(c, v, d). report_color which a c v d process l" fst is_color
    "load_told which process a" "load_level which process a" "told_loads which process a" for which a process l
  by unfold_locales (simp only: case_prod_beta, rule report_color_step)

section \<open>The load of an agent over time\<close>

text \<open>
  Checks of one agent, each some seconds after the one before and on the rows that the
  metrics table holds by then; \<open>reported\<close> are the colours in their answers.
\<close>

fun cpu_checks :: "agent \<Rightarrow> (nat \<times> metrics_db) list \<Rightarrow> body list io" where
  "cpu_checks a [] = ret []"
| "cpu_checks a ((d, db) # rest) =
     bnd (sq (sleep d) (cpu_check db a)) (\<lambda>b. bnd (cpu_checks a rest) (\<lambda>bs. ret (b # bs)))"

definition reported :: "body list \<Rightarrow> string list" where
  "reported bs = filter is_color (map (\<lambda>b. jstr (b ''status'')) bs)"

lemma cpu_color_is_color: "cpu_color db e w = Some (c, v, d) \<Longrightarrow> is_color c"
  by (cases "(db, e, w)" rule: cpu_color.cases) (auto simp: is_color_def)

lemma reported_Cons: "reported (b # bs) = reported [b] @ reported bs"
  by (simp add: reported_def)

lemma asleep:
  "load_told which process a (w\<lparr>w_now := n\<rparr>) = load_told which process a w"
  "load_level which process a (w\<lparr>w_now := n\<rparr>) = load_level which process a w"
  "told_loads which process a (w\<lparr>w_now := n\<rparr>) = told_loads which process a w"
  by (simp_all add: load_told_def load_level_def told_loads_def own_row_def notified_def)

lemma cpu_check_told:
  assumes "load_told ''cpu'' [] a w"
  obtains b w' where "cpu_check db a w = (Inr b, w')" "load_told ''cpu'' [] a w'"
    "load_level ''cpu'' [] a w' = last (load_level ''cpu'' [] a w # reported [b])"
    "told_loads ''cpu'' [] a w' = told_loads ''cpu'' [] a w @ changes (load_level ''cpu'' [] a w) (reported [b])"
proof (cases "cpu_color db (cpu_above_threshold db a (md_load_error db) (md_period_error db) (int (w_now w)))
    (cpu_above_threshold db a (md_load_warn db) (md_period_warn db) (int (w_now w)))")
  case None
  then show ?thesis
    using assms by (intro that) (auto simp: cpu_check_def bnd_def reported_def is_color_def)
next
  case (Some r)
  obtain c v d where r: "r = (c, v, d)" by (cases r)
  with Some have c: "is_color c" by (auto dest: cpu_color_is_color)
  from loads.report_step [OF assms, of "(c, of_int v, d)"] c obtain w'
    where "report_color ''cpu'' a c (of_int v) d [] (cpu_limits db) w = (Inr (), w')" "load_told ''cpu'' [] a w'"
      "load_level ''cpu'' [] a w' = c"
      "told_loads ''cpu'' [] a w' = told_loads ''cpu'' [] a w @ changes (load_level ''cpu'' [] a w) [c]"
    by auto
  with Some r c show ?thesis
    by (intro that) (auto simp: cpu_check_def bnd_def sq_def reported_def)
qed

lemma cpu_checks_told:
  "load_told ''cpu'' [] a w \<Longrightarrow> \<exists>bs w'. cpu_checks a xs w = (Inr bs, w') \<and>
     told_loads ''cpu'' [] a w' = told_loads ''cpu'' [] a w @ changes (load_level ''cpu'' [] a w) (reported bs)"
proof (induction xs arbitrary: w)
  case Nil
  then show ?case by (simp add: reported_def)
next
  case (Cons x xs)
  obtain d db where x: "x = (d, db)" by (cases x)
  let ?v = "w\<lparr>w_now := w_now w + d\<rparr>"
  have "load_told ''cpu'' [] a ?v" using Cons.prems by (simp add: asleep)
  then obtain b u where b: "cpu_check db a ?v = (Inr b, u)" "load_told ''cpu'' [] a u"
      "load_level ''cpu'' [] a u = last (load_level ''cpu'' [] a w # reported [b])"
      "told_loads ''cpu'' [] a u = told_loads ''cpu'' [] a w @ changes (load_level ''cpu'' [] a w) (reported [b])"
    by (rule cpu_check_told) (auto simp: asleep)
  from Cons.IH [OF b(2)] obtain bs w' where "cpu_checks a xs u = (Inr bs, w')"
      "told_loads ''cpu'' [] a w' = told_loads ''cpu'' [] a u @ changes (load_level ''cpu'' [] a u) (reported bs)"
    by blast
  with b x show ?case
    by (intro exI [of _ "b # bs"] exI [of _ w'])
      (simp add: sleep_def sq_def bnd_def reported_Cons [of b bs] changes_append)
qed

text \<open>
  C22: however often the CPU load of an agent is checked, at whatever times and with whatever
  samples and thresholds, the CPU events of that agent tell exactly the changes in the
  sequence of colours that the checks have answered, so never the same colour twice in a row
  and never an unknown load.
\<close>

theorem cpu_events_are_changes:
  assumes "load_told ''cpu'' [] a w" and "told_loads ''cpu'' [] a w = []"
  shows "\<exists>bs w'. cpu_checks a xs w = (Inr bs, w') \<and>
     told_loads ''cpu'' [] a w' = changes (load_level ''cpu'' [] a w) (reported bs) \<and>
     successively (\<noteq>) (load_level ''cpu'' [] a w # told_loads ''cpu'' [] a w')"
  using cpu_checks_told [OF assms(1), of xs] assms(2) changes_successive [of "load_level ''cpu'' [] a w"] by auto

text \<open>The answer of a check, and that a check takes no time.\<close>

definition cpu_answer :: "metrics_db \<Rightarrow> agent \<Rightarrow> int \<Rightarrow> string" where
  "cpu_answer db a now =
     (case cpu_color db (cpu_above_threshold db a (md_load_error db) (md_period_error db) now)
                        (cpu_above_threshold db a (md_load_warn db) (md_period_warn db) now) of
        None \<Rightarrow> ''unknown'' | Some (c, _) \<Rightarrow> c)"

lemma keeps_now_report: "keeps w_now (report_color metric a c v d process l)"
  unfolding report_color_def get_notification_def metric_event_def set_notification_def Let_def
  by (rule frame keeps_gen | simp)+

lemma cpu_check_answer:
  "cpu_check db a w = (Inr b, w') \<Longrightarrow> jstr (b ''status'') = cpu_answer db a (int (w_now w)) \<and> w_now w' = w_now w"
  by (auto simp: cpu_check_def cpu_answer_def bnd_def sq_def split: option.splits prod.splits sum.splits
      dest: keepsD [OF keeps_now_report])

fun answers :: "agent \<Rightarrow> nat \<Rightarrow> (nat \<times> metrics_db) list \<Rightarrow> string list" where
  "answers a t [] = []"
| "answers a t ((d, db) # rest) = cpu_answer db a (int (t + d)) # answers a (t + d) rest"

lemma cpu_checks_answers:
  "cpu_checks a xs w = (Inr bs, w') \<Longrightarrow> map (\<lambda>b. jstr (b ''status'')) bs = answers a (w_now w) xs"
proof (induction xs arbitrary: w bs)
  case (Cons x xs)
  obtain d db where x: "x = (d, db)" by (cases x)
  from Cons.prems obtain b u cs where "cpu_check db a (w\<lparr>w_now := w_now w + d\<rparr>) = (Inr b, u)"
      "cpu_checks a xs u = (Inr cs, w')" "bs = b # cs"
    by (auto simp: x sq_def sleep_def elim!: bnd_returnsE)
  with Cons.IH [of u cs] show ?case by (auto simp: x dest!: cpu_check_answer)
qed simp

definition db_load :: "rat \<Rightarrow> int \<Rightarrow> metrics_db" where
  "db_load v t =
     \<lparr>md_connected = (\<lambda>_. Some 0),
      md_samples = [\<lparr>sm_agentid = 1, sm_process = ''_Total'', sm_cpu = Some v, sm_memory = None, sm_time = t\<rparr>],
      md_settings = [], md_load_warn = 50, md_load_error = 80, md_period_warn = 60, md_period_error = 60\<rparr>"

lemma db_load_answers:
  "answers agent0 0 [(10, db_load 90 5), (90, db_load (85 + 1 / 4) 95), (60, db_load 20 155)] = [''unknown'', ''red'', ''green'']"
proof -
  have "\<lfloor>343 / 4 :: rat\<rfloor> = 85" "\<lfloor>41 / 2 :: rat\<rfloor> = 20" by (simp_all add: floor_eq_iff)
  then show ?thesis
    by (simp add: cpu_answer_def cpu_above_threshold_def db_load_def total_samples_def agent0_def avg_def values_of_def
        round_away_def)
qed

theorem cpu_events_are_changes_witness:
  "\<exists>bs w'. cpu_checks agent0 [(10, db_load 90 5), (90, db_load (85 + 1 / 4) 95), (60, db_load 20 155)] world1 = (Inr bs, w') \<and>
     reported bs = [''red'', ''green''] \<and> told_loads ''cpu'' [] agent0 w' = [''red'', ''green'']"
proof -
  let ?xs = "[(10, db_load 90 5), (90, db_load (85 + 1 / 4) 95), (60, db_load 20 155)]"
  have inv: "load_told ''cpu'' [] agent0 world1" "told_loads ''cpu'' [] agent0 world1 = []"
    "load_level ''cpu'' [] agent0 world1 = ''green''" "w_now world1 = 0"
    by (simp_all add: load_told_def told_loads_def values_of_def load_level_def own_row_def notified_def
        truthy_str_def world1_def world0_def conf0_def agent0_def)
  obtain bs w' where run: "cpu_checks agent0 ?xs world1 = (Inr bs, w')"
      "told_loads ''cpu'' [] agent0 w' = changes ''green'' (reported bs)"
    using cpu_events_are_changes [OF inv(1,2), of ?xs] unfolding inv(3) by blast
  have "reported bs = [''red'', ''green'']"
    unfolding reported_def cpu_checks_answers [OF run(1)] inv(4) db_load_answers by (simp add: is_color_def)
  with run show ?thesis by auto
qed

section \<open>Single processes of several agents\<close>

text \<open>
  The colour that a process check starts from is taken over all agents: once some other agent's
  notification of the same process is green, the recovery of this one is never told.
\<close>

lemma min_string_le: "fold min cs (c :: string) \<le> c"
proof (induction cs arbitrary: c)
  case (Cons d cs)
  from Cons [of "min d c"] show ?case by (auto elim: order.trans)
qed simp

lemma min_string_in: "x \<in> set cs \<Longrightarrow> fold min cs (c :: string) \<le> x"
  by (induction cs arbitrary: c) (auto intro: order.trans [OF min_string_le])

lemma current_is_min:
  assumes "current_color name ns = Some c" and "n \<in> set ns" "nt_name n = name" "nt_color n = Some d"
  shows "c \<le> d"
proof -
  have "d \<in> set (values_of (map nt_color (filter (\<lambda>n. nt_name n = name) ns)))"
    using assms(2-4) by (force simp: values_of_def)
  with assms(1) show ?thesis
    by (auto simp: current_color_def split: list.splits intro: min_string_le min_string_in)
qed

lemma fold_min_in: "fold min cs (c :: string) \<in> insert c (set cs)"
  by (induction cs arbitrary: c) (fastforce simp: min_def)+

lemma green_least: "is_color c \<Longrightarrow> ''green'' \<le> c"
  by (auto simp: is_color_def less_eq_char_def less_char_def list_less_def list_le_def lexordp_simps)

text \<open>No level of the setting is exceeded.\<close>

definition load_fine :: "string \<Rightarrow> agent \<Rightarrow> metrics_db \<Rightarrow> alert_setting \<Rightarrow> int \<Rightarrow> bool" where
  "load_fine metric a db s now \<longleftrightarrow>
     (\<forall>(threshold, period) \<in> set (values_of
         [level_config (as_threshold_warning s) (as_period_warning s), level_config (as_threshold_error s) (as_period_error s)]).
       case level_average db metric (ag_agentid a) (as_process s) now (Some (threshold, period)) of
         None \<Rightarrow> True | Some v \<Rightarrow> v < of_int threshold)"

lemma current_green:
  assumes "n \<in> set ns" "nt_name n = name" "nt_color n = Some ''green''"
    and "\<And>m c. m \<in> set ns \<Longrightarrow> nt_name m = name \<Longrightarrow> nt_color m = Some c \<Longrightarrow> is_color c"
  shows "current_color name ns = Some ''green''"
proof -
  let ?cs = "values_of (map nt_color (filter (\<lambda>n. nt_name n = name) ns))"
  have colors: "is_color c" if "c \<in> set ?cs" for c
    using that assms(4) by (auto simp: values_of_def split: option.splits)
  have "''green'' \<in> set ?cs" using assms(1-3) by (force simp: values_of_def)
  then obtain c cs where cs: "?cs = c # cs" by (cases ?cs) auto
  then have now: "current_color name ns = Some (fold min cs c)" by (simp add: current_color_def)
  have "''green'' \<le> fold min cs c"
    using fold_min_in [of cs c] colors cs by (intro green_least) auto
  moreover have "fold min cs c \<le> ''green''" by (rule current_is_min [OF now assms(1-3)])
  ultimately show ?thesis using now by simp
qed

lemma fine_not_over:
  assumes "load_fine metric a db s now"
  shows "\<not> is_over p (int_or_none (map_option fst (level_config (as_threshold_error s) (as_period_error s))))
        (level_average db metric (ag_agentid a) (as_process s) now (level_config (as_threshold_error s) (as_period_error s)))"
    and "\<not> is_over p (int_or_none (map_option fst (level_config (as_threshold_warning s) (as_period_warning s))))
        (level_average db metric (ag_agentid a) (as_process s) now (level_config (as_threshold_warning s) (as_period_warning s)))"
  using assms
  by (auto simp: load_fine_def is_over_def int_or_none_def values_of_def level_average_def split: option.splits if_splits)

text \<open>
  The colour a process check starts from is the least one over all agents.  While the
  notification of any agent for the process is green, the check of an agent whose load is
  below its thresholds does nothing: a red notification of that agent stays red, and its
  recovery is never told.
\<close>

theorem recovery_missed:
  assumes "n \<in> set (w_notifications w)" and "nt_name n = metric @ ''_'' @ as_process s" and "nt_color n = Some ''green''"
    and "\<And>m c. m \<in> set (w_notifications w) \<Longrightarrow> nt_name m = metric @ ''_'' @ as_process s \<Longrightarrow> nt_color m = Some c \<Longrightarrow> is_color c"
    and "load_fine metric a db s (int (w_now w))"
  shows "process_check metric a db s w = (Inr (), w)"
  using current_green [OF assms(1-4)] fine_not_over [OF assms(5)]
  by (simp add: process_check_def bnd_def Let_def process_color_def)

definition two_agents :: world where
  "two_agents = world1\<lparr>w_now := 600, w_notifications :=
     [\<lparr>nt_name = ''cpu_tabsvc'', nt_agentid = Some 1, nt_color = Some ''red'', nt_notified_color = Some ''red'', nt_description = None\<rparr>,
      \<lparr>nt_name = ''cpu_tabsvc'', nt_agentid = Some 2, nt_color = Some ''green'', nt_notified_color = Some ''green'', nt_description = None\<rparr>]\<rparr>"

definition tabsvc_setting :: alert_setting where
  "tabsvc_setting = \<lparr>as_process = ''tabsvc'', as_type = ''cpu'', as_threshold_warning = None, as_threshold_error = Some 50,
     as_period_warning = None, as_period_error = Some 5\<rparr>"

theorem recovery_missed_witness:
  "process_check ''cpu'' agent0 (db_load 10 0) tabsvc_setting two_agents = (Inr (), two_agents) \<and>
   notified ''cpu_tabsvc'' 1 two_agents = Some ''red''"
proof
  show "process_check ''cpu'' agent0 (db_load 10 0) tabsvc_setting two_agents = (Inr (), two_agents)"
    by (rule recovery_missed [of "w_notifications two_agents ! 1"])
      (auto simp: two_agents_def tabsvc_setting_def is_color_def load_fine_def values_of_def level_average_def
        process_samples_def db_load_def avg_def)
  show "notified ''cpu_tabsvc'' 1 two_agents = Some ''red''"
    by (simp add: notified_def two_agents_def nt_matches_def)
qed

end
