(* ===== verification/Ports.thy ===== *)
theory Ports
  imports Storage Licensing
begin

text \<open>
  \<open>ports.py\<close>: from an agent to a host and port, whether a connection can be made and how
  fast.  The agent runs \<open>pok\<close> and answers with JSON text on its standard output; what
  \<open>json.loads\<close> makes of a text is a parameter (\<open>None\<close>: ValueError).  Connection times are
  kept in milliseconds, where the code divides by 1000.
\<close>

section \<open>What Python does with a value that need not be a dictionary\<close>

text \<open>\<open>key in v\<close> and \<open>v[key]\<close> for a string \<open>key\<close>.\<close>

fun key_in :: "string \<Rightarrow> jval \<Rightarrow> bool io" where
  "key_in k (JDict d) = ret (d k \<noteq> None)"
| "key_in k (JStr s) = ret (contains k s)"
| "key_in k (JList xs) = ret (JStr k \<in> set xs)"
| "key_in k _ = raise (TypeError ''argument is not iterable'')"

fun item :: "string \<Rightarrow> jval \<Rightarrow> jval io" where
  "item k (JDict d) = (case d k of Some v \<Rightarrow> ret v | None \<Rightarrow> raise (KeyError k))"
| "item k _ = raise (TypeError ''indices must be integers'')"

text \<open>\<open>v / 1000.\<close>, in milliseconds.\<close>

fun number :: "jval \<Rightarrow> int io" where
  "number (JInt i) = ret i"
| "number (JBool b) = ret (if b then 1 else 0)"
| "number _ = raise (TypeError ''unsupported operand type(s) for /'')"

definition is_type_error :: "pyexn \<Rightarrow> bool" where
  "is_type_error e = (case e of TypeError _ \<Rightarrow> True | _ \<Rightarrow> False)"

section \<open>The answer of the agent\<close>

text \<open>
  \<open>"%.1f" % (ms / 1000.)\<close> for \<open>ms > 0\<close>: the quotient is the nearest number of 53 significant
  bits, and that number is rounded to tenths, a tie to the even one.
\<close>

fun bits :: "nat \<Rightarrow> nat" where
  "bits n = (if n = 0 then 0 else Suc (bits (n div 2)))"

declare bits.simps [simp del]

definition rounded_quotient :: "nat \<Rightarrow> nat" where
  "rounded_quotient ms =
     (let n = ms * 2 ^ 64 div 1000; shift = bits n - 53 in div_half_even (ms * 2 ^ 64) (1000 * 2 ^ shift) * 2 ^ shift)"

definition seconds_text :: "int \<Rightarrow> string" where
  "seconds_text ms =
     (if ms < 0 then ''-'' else []) @ tenths (div_half_even (10 * rounded_quotient (nat \<bar>ms\<bar>)) (2 ^ 64))"

definition quoted_text :: "string \<Rightarrow> string" where
  "quoted_text s = CHR 0x27 # s @ [CHR 0x27]"

definition host_text :: "port \<Rightarrow> string" where
  "host_text p = '': host '' @ quoted_text (po_dest_host p) @ '', port '' @ int_str (po_dest_port p)"

definition failed_text :: "port \<Rightarrow> string" where
  "failed_text p = ''Connection to '' @ quoted_text (po_service_name p) @ '' failed'' @ host_text p"

definition okay_text :: "port \<Rightarrow> string" where
  "okay_text p = ''Connection to '' @ quoted_text (po_service_name p) @ '' is now okay'' @ host_text p"

definition slow_text :: "port \<Rightarrow> int \<Rightarrow> string" where
  "slow_text p ms = ''Connection time ('' @ seconds_text ms @ '') exceeded maximum allowed ('' @
     int_str (po_max_time p) @ ''.0) to '' @ quoted_text (po_service_name p) @ host_text p"

definition port_details :: "port \<Rightarrow> body" where
  "port_details p =
     [''service_name'' \<mapsto> JStr (po_service_name p), ''dest_port'' \<mapsto> JInt (po_dest_port p),
      ''dest_hostname'' \<mapsto> JStr (po_dest_host p)]
       ++ (if po_max_time p \<noteq> 0 then [''max_time'' \<mapsto> JInt (po_max_time p)] else Map.empty)"

text \<open>The time of the connection, the address and an error from the standard output.\<close>

definition take_time :: "jval \<Rightarrow> body \<Rightarrow> body io" where
  "take_time out details =
     bnd (key_in ''milliseconds'' out) (\<lambda>here.
       if here then
         catch (bnd (item ''milliseconds'' out) (\<lambda>v. bnd (number v) (\<lambda>ms. ret (details(''connect_time'' \<mapsto> JInt ms)))))
           is_type_error (\<lambda>e. ret details)
       else ret details)"

definition take_item :: "string \<Rightarrow> jval \<Rightarrow> body \<Rightarrow> body io" where
  "take_item k out details =
     bnd (key_in k out) (\<lambda>here. if here then bnd (item k out) (\<lambda>v. ret (details(k \<mapsto> v))) else ret details)"

definition take_stdout :: "(string \<Rightarrow> jval option) \<Rightarrow> body \<Rightarrow> body \<Rightarrow> body io" where
  "take_stdout loads b details =
     (case b ''stdout'' of
        None \<Rightarrow> ret details
      | Some (JStr s) \<Rightarrow>
          (let out = (case loads s of Some v \<Rightarrow> v | None \<Rightarrow> JDict Map.empty) in
           bnd (take_time out details) (\<lambda>d. bnd (take_item ''ip'' out d) (take_item ''error'' out)))
      | Some v \<Rightarrow> raise (TypeError ''expected string or buffer''))"

definition port_error :: "port \<Rightarrow> jval \<Rightarrow> body \<Rightarrow> body" where
  "port_error p exit_status details =
     (if truthy exit_status \<or> failed details then
        (if failed details then details else details(''error'' \<mapsto> JStr (failed_text p)))
      else (case details ''connect_time'' of
          Some (JInt ms) \<Rightarrow>
            if po_max_time p \<noteq> 0 \<and> 1000 * po_max_time p < ms
            then details(''error'' \<mapsto> JStr (slow_text p ms)) else details
        | _ \<Rightarrow> details))"

section \<open>Colour, event and row\<close>

definition update_port :: "nat \<Rightarrow> (port \<Rightarrow> port) \<Rightarrow> unit io" where
  "update_port i f = modify (\<lambda>w. w\<lparr>w_ports := map (\<lambda>p. if po_portid p = i then f p else p) (w_ports w)\<rparr>)"

definition port_row :: "string \<Rightarrow> body \<Rightarrow> port \<Rightarrow> port" where
  "port_row color details p =
     p\<lparr>po_color := Some color, po_notified_color := Some color,
       po_connect_ms := (case details ''connect_time'' of Some (JInt ms) \<Rightarrow> Some ms | _ \<Rightarrow> po_connect_ms p),
       po_ip_address := (case details ''ip'' of Some v \<Rightarrow> Some v | None \<Rightarrow> po_ip_address p)\<rparr>"

definition port_eventit :: "agent \<Rightarrow> port \<Rightarrow> body \<Rightarrow> unit io" where
  "port_eventit a p details =
     (let color = (if failed details then ''red'' else ''green'') in
      seqs [
        (if color = ''red'' \<and> po_notified_color p \<noteq> Some ''red''
         then gen EV_PORT_CONNECTION_FAILED (agent_todict a ++ details) None
         else if po_notified_color p = Some ''red'' \<and> color = ''green''
         then gen EV_PORT_CONNECTION_OKAY ((agent_todict a)(''info'' \<mapsto> JStr (okay_text p)) ++ details) None
         else ret ()),
        update_port (po_portid p) (port_row color details),
        commit])"

section \<open>The check\<close>

definition pok_command :: "port \<Rightarrow> string" where
  "pok_command p = ''pok '' @ po_dest_host p @ '' '' @ int_str (po_dest_port p)"

definition check_port :: "(string \<Rightarrow> jval option) \<Rightarrow> port \<Rightarrow> body io" where
  "check_port loads p =
     bnd (agent_by_agentid (po_agentid p)) (\<lambda>found. case found of
       None \<Rightarrow> ret ((port_details p)(''error'' \<mapsto>
         JStr (''agent '' @ nat_str (po_agentid p) @ '' not connected.  Can't do port check.'')))
     | Some a \<Rightarrow>
         bnd (cli_cmd (pok_command p) a Map.empty False 300) (\<lambda>b.
           let details = (if failed b then (port_details p)(''error'' := b ''error'') else port_details p) in
           case b ''exit-status'' of
             None \<Rightarrow> ret (agent_todict a ++ details(''error'' \<mapsto> JStr ''Missing exit-status from port check.''))
           | Some ex \<Rightarrow>
               bnd (take_stdout loads b details) (\<lambda>d.
                 sq (port_eventit a p (port_error p ex d)) (ret (port_error p ex d)))))"

text \<open>\<open>find_by_envid\<close>: by agent, then by port number.\<close>

definition find_ports :: "port list \<Rightarrow> port list" where
  "find_ports ps = sort_key po_agentid (sort_key po_dest_port ps)"

definition check_one :: "(string \<Rightarrow> jval option) \<Rightarrow> port \<Rightarrow> jval list \<Rightarrow> jval list io" where
  "check_one loads p report =
     (if \<not> po_active p then
        sq (seqs [update_port (po_portid p) (\<lambda>p. p\<lparr>po_color := None, po_notified_color := None\<rparr>), commit]) (ret report)
      else bnd (check_port loads p) (\<lambda>r. ret (report @ [JDict r])))"

definition check_ports :: "(string \<Rightarrow> jval option) \<Rightarrow> body io" where
  "check_ports loads =
     bnd (gets (\<lambda>w. find_ports (w_ports w))) (\<lambda>ps.
     bnd (fold_m (check_one loads) ps []) (\<lambda>report.
       ret [''status'' \<mapsto> JStr ''OK'', ''ports'' \<mapsto> JList report]))"

section \<open>What a check tells\<close>

text \<open>The port events, in order.\<close>

definition told_ports :: "world \<Rightarrow> ekey list" where
  "told_ports = seen EV_PORT_CONNECTION_FAILED EV_PORT_CONNECTION_OKAY"

lemma keeps_told_ports_gen:
  "k \<noteq> EV_PORT_CONNECTION_FAILED \<Longrightarrow> k \<noteq> EV_PORT_CONNECTION_OKAY \<Longrightarrow> keeps told_ports (gen k d u)"
  by (simp add: gen_def keeps_def bnd_def told_ports_def seen_def)

lemma told_ports_fields [simp]:
  "told_ports (w\<lparr>w_disconnect_sent := ns\<rparr>) = told_ports w" "told_ports (w\<lparr>w_agents := ags\<rparr>) = told_ports w"
  "told_ports (w\<lparr>w_state := s\<rparr>) = told_ports w" "told_ports (w\<lparr>w_sent := rs\<rparr>) = told_ports w"
  "told_ports (w\<lparr>w_net := net\<rparr>) = told_ports w" "told_ports (w\<lparr>w_now := t\<rparr>) = told_ports w"
  "told_ports (w\<lparr>w_next_xid := x\<rparr>) = told_ports w" "told_ports (w\<lparr>w_procs := p, w_procs_db := p'\<rparr>) = told_ports w"
  by (simp_all add: told_ports_def seen_def)

text \<open>The command to the agent changes neither the rows nor what has been told.\<close>

lemma keeps_told_command: "keeps told_ports (cli_cmd cmd a env im t)"
proof -
  have "keeps told_ports (lose_agent b r)" for b r
    unfolding lose_agent_def remove_agent_def update_state_def by (rule frame keeps_told_ports_gen | simp)+
  then show ?thesis
    by (intro keeps_requests keeps_exchange) (simp_all add: sleep_def next_xid_def keeps_def bnd_def sq_def)
qed

lemma keeps_ports_command: "keeps w_ports (cli_cmd cmd a env im t)" "keeps w_conf (cli_cmd cmd a env im t)"
  by (intro keeps_requests keeps_exchange keeps_lose_agent; simp add: sleep_def next_xid_def keeps_def bnd_def sq_def)+

lemma keeps_take [frame]: "keeps f (take_stdout loads b d)"
proof -
  have key: "keeps f (key_in k v)" "keeps f (item k v)" "keeps f (number v)" for k v
    by (cases v; simp add: frame; fail | cases v, simp_all add: frame, intro keeps_option frame)+
  show ?thesis
    unfolding take_stdout_def take_time_def take_item_def
    by (cases "b ''stdout''", simp_all add: frame)
       (rename_tac v, case_tac v, simp_all add: frame Let_def, (rule frame key)+)
qed

text \<open>\<open>details\<close> never speak of \<open>enabled\<close>: the agent decides whether the event is written.\<close>

lemma port_eventit_told:
  assumes "d ''enabled'' = None" and "cf_event_known (w_conf w) EV_PORT_CONNECTION_FAILED"
    and "cf_event_known (w_conf w) EV_PORT_CONNECTION_OKAY"
  shows "wp (port_eventit a p d) (\<lambda>r w'. r = Inr () \<and>
     w_ports w' = map (\<lambda>q. if po_portid q = po_portid p
           then port_row (if failed d then ''red'' else ''green'') d q else q) (w_ports w) \<and>
     told_ports w' = told_ports w @
           (if ag_enabled a \<and> failed d \<noteq> (po_notified_color p = Some ''red'')
            then [if failed d then EV_PORT_CONNECTION_FAILED else EV_PORT_CONNECTION_OKAY] else [])) w"
  using assms
  by (auto simp: wp_def port_eventit_def sq_def bnd_def gen_def update_port_def commit_def told_ports_def seen_def
      agent_todict_def map_add_def)

lemma port_error_enabled: "d ''enabled'' = None \<Longrightarrow> port_error p ex d ''enabled'' = None"
  by (simp add: port_error_def split: option.split jval.split)

lemma take_stdout_enabled:
  assumes "d ''enabled'' = None"
  shows "returns (\<lambda>d. d ''enabled'' = None) (take_stdout loads b d)"
proof -
  have t: "returns (\<lambda>d. d ''enabled'' = None) (take_time out d)" if "d ''enabled'' = None" for out d
    using that by (auto simp: take_time_def returns_def catch_def elim!: bnd_returnsE split: if_splits prod.splits sum.splits)
  have i: "returns (\<lambda>d. d ''enabled'' = None) (take_item k out d)" if "d ''enabled'' = None" "k \<noteq> ''enabled''" for k out d
    using that by (auto simp: take_item_def returns_def elim!: bnd_returnsE split: if_splits)
  have "returns (\<lambda>d. d ''enabled'' = None)
      (bnd (take_time out d) (\<lambda>d. bnd (take_item ''ip'' out d) (take_item ''error'' out)))" for out
    by (intro returns_bnd [where Q = "\<lambda>d. d ''enabled'' = None"] t i assms) simp_all
  then show ?thesis
    using assms by (auto simp: take_stdout_def Let_def post split: option.split jval.split)
qed


definition port_row0 :: port where
  "port_row0 = \<lparr>po_portid = 7, po_service_name = ''db'', po_dest_host = ''h'', po_dest_port = 80, po_agentid = 1,
     po_max_time = 60, po_active = True, po_color = None, po_notified_color = None, po_connect_ms = None, po_ip_address = None\<rparr>"

definition world_port :: world where
  "world_port = world1\<lparr>w_ports := [port_row0],
     w_net := [(1, Resp 200 ''OK'' (JsonBody [''xid'' \<mapsto> JInt 1, ''run-status'' \<mapsto> JStr ''finished'', ''exit-status'' \<mapsto> JInt 1]))]\<rparr>"

lemma world_port_run: "\<exists>d w'. check_port (\<lambda>_. None) port_row0 world_port = (Inr d, w') \<and> failed d \<and> told_ports w' \<noteq> []"
  by (simp add: check_port_def agent_by_agentid_def all_agents_run world_port_def world1_def world0_def agent0_def
      port_row0_def get_by_uuid_def row_enabled_def bnd_def sq_def cli_cmd_def send_cli_def next_xid_def post_start_def
      checked_exchange_def exchange_def json_loads_def check_started_def take_stdout_def port_error_def port_details_def
      map_add_def port_eventit_def gen_def conf0_def agent_todict_def update_port_def commit_def failed_def Let_def told_ports_def seen_def)


end
