(* ===== verification/EmailLimit.thy ===== *)
theory EmailLimit
  imports Prelude
begin

text \<open>
  The state behind mail alerts (\<open>event_control.py\<close>, \<open>alert_email.py\<close>, \<open>email_limit.py\<close>) and
  the limit on error mails: each one is counted in the table \<open>email_sent\<close>, and when more than
  \<open>email-max-count\<close> have come up in the last \<open>email-lookback-minutes\<close> no mail goes out, an
  event says so, and alerts are switched off.
\<close>

section \<open>Rows and state\<close>

text \<open>
  A row of \<open>event_control\<close>; \<open>ee_labels\<close> holds the six descriptive columns under the names
  they have in templates.
\<close>

record event_entry =
  ee_key :: string
  ee_level :: char
  ee_send_email :: bool
  ee_subject :: string
  ee_description :: "string option"
  ee_email_subject :: "string option"
  ee_email_message :: "string option"
  ee_admin_visibility :: bool
  ee_publisher_visibility :: bool
  ee_labels :: body

text \<open>A row of \<open>users\<close>.\<close>

record user =
  us_userid :: int
  us_roleid :: int
  us_display_name :: string
  us_email :: "string option"
  us_email_level :: int

text \<open>Values of the system table and of the configuration file.\<close>

record mail_conf =
  mc_envid :: nat
  mc_environment :: string
  mc_alerts_enabled :: bool
  mc_admin_enabled :: bool
  mc_publisher_enabled :: bool
  mc_spike_disabled :: bool
  mc_lookback_minutes :: int
  mc_max_count :: int
  mc_mute_seconds :: int
  mc_max_silence :: int
  mc_alert_level :: int
  mc_debug :: bool
  mc_server_url :: string
  mc_public_url :: "string option"

text \<open>When an agent connected and disconnected last.\<close>

record seen_agent =
  sa_connection_time :: int
  sa_disconnect_time :: "int option"

text \<open>What is handed to \<open>Mailer.send\<close>, and a mail that waits for a disconnected agent.\<close>

record mail =
  ml_to :: "string list"
  ml_bcc :: "string list option"
  ml_subject :: string
  ml_message :: string

record waiting =
  wt_wake :: int
  wt_agentid :: nat
  wt_old_disconnect :: "int option"
  wt_mail :: mail

text \<open>A row of \<open>email_sent\<close> and one of \<open>events\<close>.\<close>

record email_sent =
  es_envid :: nat
  es_eventid :: nat
  es_time :: int

record event_row =
  er_eventid :: nat
  er_key :: string
  er_complete :: bool
  er_title :: string
  er_description :: string
  er_level :: char
  er_userid :: "int option"

record mail_state =
  ms_now :: int
  ms_conf :: mail_conf
  ms_controls :: "event_entry list"
  ms_users :: "user list"
  ms_system :: body
  ms_sites :: "jval \<Rightarrow> string option"
  ms_projects :: "jval \<Rightarrow> string option"
  ms_expiration :: "int option"
  ms_contact :: "int option"
  ms_agents :: "nat \<Rightarrow> seen_agent option"
  ms_sent :: "email_sent list"
  ms_events :: "event_row list"
  ms_next_eventid :: nat
  ms_waiting :: "waiting list"
  ms_outbox :: "mail list"

type_synonym 'a mio = "(mail_state, 'a) M"

section \<open>The limit\<close>

text \<open>Errors count, but not the test mail nor the mail that says mail is switched off.\<close>

definition counted :: "event_entry \<Rightarrow> bool" where
  "counted e \<longleftrightarrow> ee_level e = CHR ''E'' \<and> ee_key e \<notin> {''EMAIL-TEST'', ''EMAIL-SPIKE''}"

definition log_email :: "nat \<Rightarrow> unit mio" where
  "log_email eventid = modify (\<lambda>s. s\<lparr>ms_sent := ms_sent s @
     [\<lparr>es_envid = mc_envid (ms_conf s), es_eventid = eventid, es_time = ms_now s\<rparr>]\<rparr>)"

definition recent :: "mail_state \<Rightarrow> int \<Rightarrow> bool" where
  "recent s t \<longleftrightarrow> ms_now s - mc_lookback_minutes (ms_conf s) * 60 \<le> t"

definition prune_emails :: "unit mio" where
  "prune_emails = modify (\<lambda>s. s\<lparr>ms_sent := filter (\<lambda>e. recent s (es_time e)) (ms_sent s)\<rparr>)"

definition recent_count :: "mail_state \<Rightarrow> int" where
  "recent_count s = int (length (filter (\<lambda>e. es_envid e = mc_envid (ms_conf s)) (ms_sent s)))"

definition disable_alerts :: "unit mio" where
  "disable_alerts = modify (\<lambda>s. s\<lparr>ms_conf := (ms_conf s)
     \<lparr>mc_admin_enabled := False, mc_publisher_enabled := False, mc_spike_disabled := True\<rparr>,
     ms_system := (ms_system s)(''alerts_admin_enabled'' \<mapsto> JBool False,
       ''alerts_publisher_enabled'' \<mapsto> JBool False, ''email_spike_disabled_alerts'' \<mapsto> JBool True)\<rparr>)"

text \<open>
  \<open>email_limit_reached\<close>: 0 is Python's \<open>False\<close>; \<open>eventit\<close> is what sends the event about the
  spike.
\<close>

definition email_limit_reached :: "unit mio \<Rightarrow> event_entry \<Rightarrow> nat \<Rightarrow> int mio" where
  "email_limit_reached eventit e eventid =
     (if \<not> counted e then ret 0
      else sq (log_email eventid) (sq prune_emails
        (bnd (gets recent_count) (\<lambda>n.
         bnd (gets (\<lambda>s. mc_max_count (ms_conf s))) (\<lambda>max_count.
           if max_count < n then sq eventit (sq disable_alerts (ret n))
           else ret 0)))))"

section \<open>The limit is a sliding window\<close>

text \<open>
  What counts, from the calls alone: the counted ones, up to this one, in the window that ends
  now.  \<open>past\<close> are the times of the counted calls so far.
\<close>

definition window :: "int \<Rightarrow> int \<Rightarrow> int list \<Rightarrow> int" where
  "window lookback now past = int (length (filter (\<lambda>t. now - lookback * 60 \<le> t) past))"

fun verdicts :: "int \<Rightarrow> int \<Rightarrow> int list \<Rightarrow> (int \<times> event_entry) list \<Rightarrow> bool list" where
  "verdicts lookback max_count past [] = []"
| "verdicts lookback max_count past ((now, e) # rest) =
     (if counted e then
        (max_count < window lookback now (past @ [now])) # verdicts lookback max_count (past @ [now]) rest
      else False # verdicts lookback max_count past rest)"

text \<open>The calls of the limiter, each at its time, and whether each has reached the limit.\<close>

fun limit_calls :: "unit mio \<Rightarrow> (int \<times> event_entry) list \<Rightarrow> bool list mio" where
  "limit_calls eventit [] = ret []"
| "limit_calls eventit ((now, e) # rest) =
     sq (modify (\<lambda>s. s\<lparr>ms_now := now\<rparr>))
       (bnd (gets ms_next_eventid) (\<lambda>i. bnd (email_limit_reached eventit e i) (\<lambda>n.
        bnd (limit_calls eventit rest) (\<lambda>bs. ret ((n \<noteq> 0) # bs)))))"

text \<open>The table holds the counted calls of the window, and perhaps older ones.\<close>

definition own_times :: "nat \<Rightarrow> email_sent list \<Rightarrow> int list" where
  "own_times env es = map es_time (filter (\<lambda>e. es_envid e = env) es)"

definition table :: "int \<Rightarrow> int list \<Rightarrow> mail_state \<Rightarrow> bool" where
  "table t0 past s \<longleftrightarrow> (\<forall>now \<ge> t0. window (mc_lookback_minutes (ms_conf s)) now past =
     window (mc_lookback_minutes (ms_conf s)) now (own_times (mc_envid (ms_conf s)) (ms_sent s)))"

lemma window_append: "window l now (xs @ ys) = window l now xs + window l now ys"
  by (simp add: window_def)

lemma window_pruned:
  "t \<le> now \<Longrightarrow> window l now (filter (\<lambda>x. t - l * 60 \<le> x) xs) = window l now xs"
  by (auto simp: window_def intro!: arg_cong [where f = length] filter_cong)

lemma own_times_filter: "own_times env (filter (\<lambda>e. P (es_time e)) es) = filter P (own_times env es)"
  by (induction es) (auto simp: own_times_def)

lemma count_own: "int (length (filter (\<lambda>e. es_envid e = env) es)) = int (length (own_times env es))"
  by (simp add: own_times_def)

text \<open>
  The event about the spike writes neither the table nor the two settings, and in the states
  \<open>ok\<close> it returns.
\<close>

definition limits :: "mail_state \<Rightarrow> email_sent list \<times> nat \<times> int \<times> int" where
  "limits s = (ms_sent s, mc_envid (ms_conf s), mc_lookback_minutes (ms_conf s), mc_max_count (ms_conf s))"

locale spike_event =
  fixes eventit :: "unit mio" and ok :: "mail_state \<Rightarrow> bool"
  assumes quiet: "keeps limits eventit" and comes_back: "ok s \<Longrightarrow> \<exists>s'. eventit s = (Inr (), s') \<and> ok s'"
    and ok_later: "ok s \<Longrightarrow> ok (s\<lparr>ms_now := t\<rparr>)" and ok_counted: "ok s \<Longrightarrow> ok (s\<lparr>ms_sent := es\<rparr>)"
    and ok_disabled: "ok s \<Longrightarrow> ok (snd (disable_alerts s))"
begin

lemma keeps_disable: "keeps limits disable_alerts"
  by (simp add: disable_alerts_def keeps_def limits_def)

lemma limiter_step:
  assumes "table t0 past s" and "t0 \<le> now" and "0 \<le> mc_lookback_minutes (ms_conf s)" and "counted e"
    and "0 \<le> mc_max_count (ms_conf s)" and "ok s"
  obtains n s' where "email_limit_reached eventit e i (s\<lparr>ms_now := now\<rparr>) = (Inr n, s')"
    and "(n \<noteq> 0) = (mc_max_count (ms_conf s) < window (mc_lookback_minutes (ms_conf s)) now (past @ [now]))"
    and "table now (past @ [now]) s'" and "mc_lookback_minutes (ms_conf s') = mc_lookback_minutes (ms_conf s)"
    and "mc_max_count (ms_conf s') = mc_max_count (ms_conf s)" and "ok s'"
proof -
  let ?c = "ms_conf s" and ?new = "\<lparr>es_envid = mc_envid (ms_conf s), es_eventid = i, es_time = now\<rparr>"
  let ?l = "mc_lookback_minutes ?c" and ?env = "mc_envid ?c"
  let ?es = "filter (\<lambda>e. now - ?l * 60 \<le> es_time e) (ms_sent s @ [?new])"
  let ?s = "s\<lparr>ms_now := now, ms_sent := ?es\<rparr>"
  let ?n = "recent_count ?s"
  have own: "own_times ?env ?es = filter (\<lambda>t. now - ?l * 60 \<le> t) (own_times ?env (ms_sent s) @ [now])"
    unfolding own_times_filter by (simp add: own_times_def)
  have win: "window ?l t (past @ [now]) = window ?l t (own_times ?env ?es)" if "now \<le> t" for t
    using assms(1-3) that unfolding own by (simp add: table_def window_append window_pruned)
  have n: "?n = window ?l now (past @ [now])"
  proof -
    have "?n = int (length (own_times ?env ?es))" by (simp add: recent_count_def own_times_def)
    also have "\<dots> = window ?l now (own_times ?env ?es)" unfolding own window_def by simp
    finally show ?thesis unfolding win [OF order_refl] .
  qed
  have pos: "0 < ?n" unfolding n using assms(3) by (simp add: window_def)
  have new: "table now (past @ [now]) t" if "limits t = limits ?s" for t
    using that win by (simp add: table_def limits_def)
  have run: "email_limit_reached eventit e i (s\<lparr>ms_now := now\<rparr>) =
      (if mc_max_count ?c < ?n then sq eventit (sq disable_alerts (ret ?n)) ?s else (Inr 0, ?s))"
    using assms(4) by (simp add: email_limit_reached_def log_email_def prune_emails_def recent_def sq_def bnd_def)
  have ok: "ok ?s" using ok_counted [OF ok_later [OF assms(6), of now], of ?es] by simp
  show ?thesis
  proof (cases "mc_max_count ?c < ?n")
    case True
    from comes_back [OF ok] obtain u where u: "eventit ?s = (Inr (), u)" "ok u" by blast
    let ?t = "snd (disable_alerts u)"
    have "limits ?t = limits ?s"
      using keepsD [OF quiet u(1)] keeps_disable by (simp add: keeps_def)
    with u(1) ok_disabled [OF u(2)] True run n pos show ?thesis
      by (intro that [of ?n ?t]) (auto simp: sq_def bnd_def disable_alerts_def limits_def intro: new)
  next
    case False
    with run n new [of ?s] ok show ?thesis by (intro that [of 0 ?s]) simp_all
  qed
qed

lemma limit_calls_window:
  assumes "table t0 past s" and "sorted (t0 # map fst calls)"
    and "0 \<le> mc_lookback_minutes (ms_conf s)" and "0 \<le> mc_max_count (ms_conf s)" and "ok s"
  shows "\<exists>s'. limit_calls eventit calls s =
     (Inr (verdicts (mc_lookback_minutes (ms_conf s)) (mc_max_count (ms_conf s)) past calls), s')"
  using assms
proof (induction calls arbitrary: t0 past s)
  case (Cons call calls)
  obtain now e where call: "call = (now, e)" by (cases call)
  from Cons.prems(2) have time: "t0 \<le> now" "sorted (now # map fst calls)" by (auto simp: call)
  let ?i = "ms_next_eventid s"
  show ?case
  proof (cases "counted e")
    case True
    obtain n s' where n: "email_limit_reached eventit e ?i (s\<lparr>ms_now := now\<rparr>) = (Inr n, s')"
        "(n \<noteq> 0) = (mc_max_count (ms_conf s) < window (mc_lookback_minutes (ms_conf s)) now (past @ [now]))"
        "table now (past @ [now]) s'" "mc_lookback_minutes (ms_conf s') = mc_lookback_minutes (ms_conf s)"
        "mc_max_count (ms_conf s') = mc_max_count (ms_conf s)" "ok s'"
      by (rule limiter_step [OF Cons.prems(1) time(1) Cons.prems(3) True Cons.prems(4,5), of ?i])
    from Cons.IH [OF n(3) time(2)] n(4-6) Cons.prems(3,4) obtain t where
      "limit_calls eventit calls s' = (Inr (verdicts (mc_lookback_minutes (ms_conf s)) (mc_max_count (ms_conf s)) (past @ [now]) calls), t)"
      by auto
    with n(1) True have "limit_calls eventit (call # calls) s = (Inr ((n \<noteq> 0) #
        verdicts (mc_lookback_minutes (ms_conf s)) (mc_max_count (ms_conf s)) (past @ [now]) calls), t)"
      by (simp add: call sq_def bnd_def)
    then show ?thesis unfolding n(2) call using True by simp
  next
    case False
    have "table now past (s\<lparr>ms_now := now\<rparr>)" using Cons.prems(1) time(1) by (auto simp: table_def)
    from Cons.IH [OF this time(2)] Cons.prems(3,4) ok_later [OF Cons.prems(5), of now] False show ?thesis
      by (auto simp: call sq_def bnd_def email_limit_reached_def)
  qed
qed simp

end

end
