(* ===== verification/Alerts.thy ===== *)
theory Alerts
  imports EmailLimit
begin

text \<open>
  Events and the mails they send: \<open>gen\<close> of \<open>event_control.py\<close> writes a row of the event log
  and hands it to \<open>alert_email.py\<close>, which decides who gets a mail and whether it goes out now,
  later or not at all.  What Python's \<open>%\<close>, the template engine, \<open>str\<close> of a dictionary, its
  sorted keys and \<open>strftime\<close> make of their arguments are the fields of a parameter.
\<close>

section \<open>Texts\<close>

datatype rendered = Rendered string | MakoException string | Raised pyexn

record texts =
  tx_fmt :: "string \<Rightarrow> body \<Rightarrow> pyexn + string"
  tx_render :: "string \<Rightarrow> body \<Rightarrow> rendered"
  tx_dump :: "body \<Rightarrow> string"
  tx_keys :: "body \<Rightarrow> string list"
  tx_stamp :: "int \<Rightarrow> string"

definition nl :: string where "nl = [CHR 0x0A]"

text \<open>\<open>indented\<close>: a section title, and the lines of a value below it.\<close>

definition indented :: "string \<Rightarrow> jval \<Rightarrow> bool \<Rightarrow> pyexn + string" where
  "indented sec v always =
     (case v of
        JInt i \<Rightarrow> Inr (sec @ '': '' @ int_str i @ nl)
      | _ \<Rightarrow>
          if \<not> truthy v \<and> \<not> always then Inr []
          else (case v of
              JStr s \<Rightarrow> Inr (sec @ '':'' @ nl @ concat (map (\<lambda>l. ''    '' @ l @ nl) (split_on (CHR 0x0A) s)))
            | _ \<Rightarrow> Inl (AttributeError ''split'')))"

text \<open>One piece after the other, up to the first that raises.\<close>

fun pieces :: "(pyexn + string) list \<Rightarrow> pyexn + string" where
  "pieces [] = Inr []"
| "pieces (Inl e # ps) = Inl e"
| "pieces (Inr s # ps) = (case pieces ps of Inl e \<Rightarrow> Inl e | Inr t \<Rightarrow> Inr (s @ t))"

text \<open>\<open>"%s" % v\<close> for the values that come up here.\<close>

fun show_value :: "jval \<Rightarrow> string" where
  "show_value (JStr s) = s"
| "show_value (JInt i) = int_str i"
| "show_value (JBool b) = (if b then ''True'' else ''False'')"
| "show_value _ = ''None''"

definition line_if :: "body \<Rightarrow> string \<Rightarrow> string \<Rightarrow> pyexn + string" where
  "line_if d k label = (case d k of None \<Rightarrow> Inr [] | Some v \<Rightarrow> Inr (label @ show_value v @ nl))"

definition section_if :: "body \<Rightarrow> string \<Rightarrow> string \<Rightarrow> pyexn + string" where
  "section_if d k label = (case d k of None \<Rightarrow> Inr [] | Some v \<Rightarrow> indented label v False)"

definition then_nl :: "pyexn + string \<Rightarrow> pyexn + string" where
  "then_nl p = pieces [p, Inr nl]"

text \<open>What both default texts have: the error, further information, and the two outputs.\<close>

definition error_piece :: "body \<Rightarrow> string \<Rightarrow> pyexn + string" where
  "error_piece d label = (if has_key d ''error'' then then_nl (section_if d ''error'' label) else Inr [])"

definition info_piece :: "body \<Rightarrow> pyexn + string" where
  "info_piece d = (case d ''info'' of
     Some v \<Rightarrow> if truthy v then then_nl (indented ''Additional information'' v False) else Inr []
   | None \<Rightarrow> Inr [])"

definition stderr_piece :: "body \<Rightarrow> pyexn + string" where
  "stderr_piece d = (case d ''stderr'' of
     None \<Rightarrow> Inr []
   | Some v \<Rightarrow> if d ''error'' = Some v then Inr [] else indented ''Error'' v False)"

definition default_description :: "body \<Rightarrow> pyexn + string" where
  "default_description d = pieces
     [line_if d ''username'' ''Requested by user: '', line_if d ''displayname'' ''Agent: '',
      error_piece d ''Error'', info_piece d, stderr_piece d, section_if d ''stdout'' ''Output'']"

definition level_string :: "char \<Rightarrow> pyexn + string" where
  "level_string c =
     (if c = CHR ''E'' then Inr ''Error'' else if c = CHR ''W'' then Inr ''Warning''
      else if c = CHR ''I'' then Inr ''Info'' else Inl (KeyError [c]))"

definition number_if :: "body \<Rightarrow> string \<Rightarrow> string \<Rightarrow> pyexn + string" where
  "number_if d k label = (case d k of
     None \<Rightarrow> Inr []
   | Some (JInt i) \<Rightarrow> Inr (label @ int_str i @ nl)
   | Some (JBool b) \<Rightarrow> Inr (label @ (if b then ''1'' else ''0'') @ nl)
   | Some _ \<Rightarrow> Inl (TypeError ''%d format: a number is required''))"

definition all_pieces :: "texts \<Rightarrow> body \<Rightarrow> (pyexn + string) list" where
  "all_pieces tx d = map (\<lambda>k. indented k (case d k of Some v \<Rightarrow> v | None \<Rightarrow> JNull) True) (tx_keys tx d)"

definition severity_piece :: "event_entry \<Rightarrow> pyexn + string" where
  "severity_piece e = pieces [Inr ''Severity level: '', level_string (ee_level e), Inr nl]"

definition some_pieces :: "int \<Rightarrow> event_entry \<Rightarrow> string \<Rightarrow> body \<Rightarrow> (pyexn + string) list" where
  "some_pieces level e subject d =
     [Inr (''Event: '' @ subject @ nl), severity_piece e,
      line_if d ''displayname'' ''Agent: '', line_if d ''agent_type'' ''Agent type: '',
      error_piece d ''Issue'', info_piece d, stderr_piece d, section_if d ''stdout'' ''Output''] @
     (if level = 2 then [number_if d ''xid'' ''XID: '', number_if d ''exit-status'' ''Exit status: ''] else [])"

definition default_message :: "texts \<Rightarrow> int \<Rightarrow> event_entry \<Rightarrow> string \<Rightarrow> body \<Rightarrow> pyexn + string" where
  "default_message tx level e subject d =
     (if level < 1 then Inr subject
      else pieces (if 3 \<le> level then all_pieces tx d else some_pieces level e subject d))"

text \<open>\<open>re.sub("(\n|\r\n){3,}", "\n\n", s)\<close>: \<open>n\<close> line ends have been read since the last other character.\<close>

fun line_end :: "string \<Rightarrow> string option" where
  "line_end (c # cs) = (if c = CHR 0x0A then Some cs
     else if c = CHR 0x0D then (case cs of d # ds \<Rightarrow> if d = CHR 0x0A then Some ds else None | [] \<Rightarrow> None) else None)"
| "line_end [] = None"

lemma line_end_shorter: "line_end s = Some t \<Longrightarrow> length t < length s"
  by (cases s) (auto split: if_splits list.splits)

function squeeze :: "string list \<Rightarrow> string \<Rightarrow> string" where
  "squeeze ends s =
     (let out = (if 3 \<le> length ends then nl @ nl else concat (rev ends)) in
      case line_end s of
        Some t \<Rightarrow> squeeze (take (length s - length t) s # ends) t
      | None \<Rightarrow> (case s of [] \<Rightarrow> out | c # cs \<Rightarrow> out @ c # squeeze [] cs))"
  by pat_completeness auto
termination
  by (relation "measure (\<lambda>(ends, s). length s)") (auto dest: line_end_shorter)

declare squeeze.simps [simp del]

definition ends_with_nl :: "string \<Rightarrow> bool" where
  "ends_with_nl s \<longleftrightarrow> s \<noteq> [] \<and> last s = CHR 0x0A"

definition finish_description :: "texts \<Rightarrow> bool \<Rightarrow> body \<Rightarrow> string \<Rightarrow> string" where
  "finish_description tx debug d s =
     (let t = squeeze [] s; u = (if ends_with_nl t then t else t @ nl) in
      if debug then u @ ''--------'' @ nl @ tx_dump tx d else u)"

section \<open>Who gets a mail\<close>

definition mails_wanted :: "user \<Rightarrow> bool" where
  "mails_wanted u \<longleftrightarrow> us_email u \<noteq> None \<and> 0 < us_email_level u"

definition emails_of :: "user list \<Rightarrow> string list" where
  "emails_of us = concat (map (\<lambda>u. case us_email u of None \<Rightarrow> [] | Some m \<Rightarrow> [m]) us)"

definition admin_emails :: "mail_conf \<Rightarrow> user list \<Rightarrow> event_entry \<Rightarrow> string list" where
  "admin_emails c us e =
     (if \<not> mc_admin_enabled c \<and> ee_key e \<noteq> ''EMAIL-DISABLED-REMINDER'' then []
      else emails_of (filter (\<lambda>u. 0 < us_roleid u \<and> mails_wanted u \<and> us_userid u \<noteq> 0) us))"

definition publisher_email :: "mail_conf \<Rightarrow> user list \<Rightarrow> body \<Rightarrow> string list" where
  "publisher_email c us d =
     (case d ''userid'' of
        None \<Rightarrow> []
      | Some v \<Rightarrow>
          if \<not> mc_publisher_enabled c then []
          else (case filter (\<lambda>u. v = JInt (us_userid u) \<and> mails_wanted u) us of [] \<Rightarrow> [] | u # _ \<Rightarrow> emails_of [u]))"

definition recipients :: "mail_conf \<Rightarrow> user list \<Rightarrow> event_entry \<Rightarrow> body \<Rightarrow> string list" where
  "recipients c us e d =
     remdups ((if ee_publisher_visibility e then publisher_email c us d else []) @
              (if ee_admin_visibility e then admin_emails c us e else []))"

text \<open>The user with the number 0 gets a blind copy.\<close>

definition diagnostics :: "mail_conf \<Rightarrow> user list \<Rightarrow> string list option" where
  "diagnostics c us =
     (if mc_admin_enabled c then
        (case find (\<lambda>u. us_userid u = 0) us of
           Some u \<Rightarrow> (case us_email u of Some m \<Rightarrow> if m = [] then None else Some [m] | None \<Rightarrow> None)
         | None \<Rightarrow> None)
      else None)"

section \<open>Whether it goes out\<close>

definition always_mailed :: "string list" where
  "always_mailed = [''PHONE-HOME-FAILED'', ''PHONE-HOME-OK'', ''EMAIL-TEST'']"

definition license_silent :: "mail_state \<Rightarrow> event_entry \<Rightarrow> bool" where
  "license_silent s e \<longleftrightarrow> ee_key e \<notin> set always_mailed \<and>
     ((case ms_expiration s of Some t \<Rightarrow> t < ms_now s | None \<Rightarrow> False) \<or>
      (case ms_contact s of
         Some t \<Rightarrow> mc_max_silence (ms_conf s) < ms_now s - t \<and> mc_max_silence (ms_conf s) \<noteq> -1
       | None \<Rightarrow> False))"

definition do_send :: "mail \<Rightarrow> unit mio" where
  "do_send m = modify (\<lambda>s. s\<lparr>ms_outbox := ms_outbox s @ [m]\<rparr>)"

definition sa_connected :: "seen_agent \<Rightarrow> bool" where
  "sa_connected a \<longleftrightarrow> (case sa_disconnect_time a of None \<Rightarrow> True | Some t \<Rightarrow> t < sa_connection_time a)"

text \<open>The row of an agent whose number an event's data holds.\<close>

definition data_agent :: "mail_state \<Rightarrow> body \<Rightarrow> (nat \<times> seen_agent) option" where
  "data_agent s d = (case d ''agentid'' of
     Some (JInt i) \<Rightarrow> if 0 \<le> i then map_option (\<lambda>a. (nat i, a)) (ms_agents s (nat i)) else None
   | _ \<Rightarrow> None)"

definition mute_reconn_check :: "mail_state \<Rightarrow> body \<Rightarrow> bool" where
  "mute_reconn_check s d =
     (case data_agent s d of
        None \<Rightarrow> True
      | Some (i, a) \<Rightarrow> (case sa_disconnect_time a of
          None \<Rightarrow> True
        | Some t \<Rightarrow> \<not> ms_now s - t \<le> mc_mute_seconds (ms_conf s)))"

text \<open>
  \<open>_mute_dis_check\<close> starts a thread that reads the agent's row, sleeps, and looks again;
  it waits in \<open>ms_waiting\<close> meanwhile.  \<open>dis_thread\<close> is what it does when it wakes up.
\<close>

definition mute_dis_check :: "body \<Rightarrow> mail \<Rightarrow> unit mio" where
  "mute_dis_check d m =
     modify (\<lambda>s. case data_agent s d of
        None \<Rightarrow> s
      | Some (i, a) \<Rightarrow> s\<lparr>ms_waiting := ms_waiting s @
          [\<lparr>wt_wake = ms_now s + mc_mute_seconds (ms_conf s), wt_agentid = i,
            wt_old_disconnect = sa_disconnect_time a, wt_mail = m\<rparr>]\<rparr>)"

definition dis_thread :: "waiting \<Rightarrow> unit mio" where
  "dis_thread t =
     bnd (gets (\<lambda>s. ms_agents s (wt_agentid t))) (\<lambda>a. case a of
       None \<Rightarrow> ret ()
     | Some a \<Rightarrow>
         if sa_connected a then ret ()
         else if wt_old_disconnect t \<noteq> sa_disconnect_time a then ret ()
         else do_send (wt_mail t))"

definition reconnect_keys :: "string list" where
  "reconnect_keys = [''AGENT-COMMUNICATION'', ''INIT-STATE-STARTED'', ''INIT-STATE-STOPPED'', ''INIT-STATE-DEGRADED'']"

definition mute_or_send :: "event_entry \<Rightarrow> body \<Rightarrow> mail \<Rightarrow> unit mio" where
  "mute_or_send e d m =
     bnd (gets id) (\<lambda>s.
       if mc_mute_seconds (ms_conf s) = 0 then do_send m
       else if ee_key e = ''AGENT-DISCONNECT'' then mute_dis_check d m
       else if ee_key e \<in> set reconnect_keys \<and> \<not> mute_reconn_check s d then ret ()
       else do_send m)"

section \<open>\<open>send\<close>\<close>

definition lift :: "pyexn + 'a \<Rightarrow> ('s, 'a) M" where
  "lift r = (case r of Inl e \<Rightarrow> raise e | Inr x \<Rightarrow> ret x)"

definition is_value_or_key :: "pyexn \<Rightarrow> bool" where
  "is_value_or_key e = (case e of ValueError _ \<Rightarrow> True | KeyError _ \<Rightarrow> True | _ \<Rightarrow> False)"

definition exn_text :: "pyexn \<Rightarrow> string" where
  "exn_text e = (case e of ValueError s \<Rightarrow> s | KeyError s \<Rightarrow> s | TypeError s \<Rightarrow> s | _ \<Rightarrow> [])"

text \<open>\<open>subject % data\<close>, and what stands there when the template does not fit.\<close>

definition subst_or_say :: "texts \<Rightarrow> string \<Rightarrow> string \<Rightarrow> body \<Rightarrow> string mio" where
  "subst_or_say tx complaint subject d =
     catch (lift (tx_fmt tx subject d)) is_value_or_key
       (\<lambda>e. ret (complaint @ exn_text e @ ''subject: '' @ subject @ '', data: '' @ tx_dump tx d))"

definition mail_subject :: "texts \<Rightarrow> event_entry \<Rightarrow> body \<Rightarrow> string mio" where
  "mail_subject tx e d =
     (let subject = (case ee_email_subject e of None \<Rightarrow> ee_subject e | Some s \<Rightarrow> s) in
      if CHR ''%'' \<in> set subject
      then subst_or_say tx ''Email Template subject conversion failure: '' subject d else ret subject)"

definition template_failed :: "texts \<Rightarrow> string \<Rightarrow> string \<Rightarrow> string \<Rightarrow> body \<Rightarrow> string" where
  "template_failed tx complaint what template d =
     complaint @ what @ nl @ ''template: '' @ template @ nl @ ''data: '' @ tx_dump tx d"

text \<open>
  A template that does not compile raises an exception outside \<open>StandardError\<close>, which \<open>send\<close>
  lets pass; \<open>DBError\<close> stands for it.
\<close>

definition mail_message :: "texts \<Rightarrow> int \<Rightarrow> event_entry \<Rightarrow> string \<Rightarrow> body \<Rightarrow> string mio" where
  "mail_message tx level e subject d =
     bnd (case ee_email_message e of
            Some (c # cs) \<Rightarrow>
              (case tx_render tx (c # cs) d of
                 Rendered s \<Rightarrow> ret s
               | MakoException x \<Rightarrow> raise (DBError x)
               | Raised x \<Rightarrow>
                   if is_standard_error x
                   then ret (template_failed tx ''Email mako template message conversion failure: '' (exn_text x) (c # cs) d)
                   else raise x)
          | _ \<Rightarrow> lift (default_message tx level e subject d))
       (\<lambda>m. ret (if m = [] then subject else m))"

definition send_mail :: "texts \<Rightarrow> unit mio \<Rightarrow> event_entry \<Rightarrow> body \<Rightarrow> string option \<Rightarrow> nat \<Rightarrow> unit mio" where
  "send_mail tx eventit e d recipient eventid =
     bnd (gets id) (\<lambda>s. let c = ms_conf s in
     bnd (mail_subject tx e d) (\<lambda>subject.
     bnd (mail_message tx (mc_alert_level c) e subject d) (\<lambda>message.
       if recipient = None \<and> \<not> mc_alerts_enabled c then ret ()
       else
         let to = (case recipient of Some r \<Rightarrow> [r] | None \<Rightarrow> recipients c (ms_users s) e d);
             bcc = (if recipient = None then diagnostics c (ms_users s) else None) in
         if to = [] \<and> bcc = None then ret ()
         else if license_silent s e then ret ()
         else bnd (email_limit_reached eventit e eventid) (\<lambda>reached.
           if reached \<noteq> 0 then ret ()
           else mute_or_send e d \<lparr>ml_to = to, ml_bcc = bcc, ml_subject = subject, ml_message = message\<rparr>))))"

section \<open>\<open>gen\<close>\<close>

definition get_control :: "mail_state \<Rightarrow> string \<Rightarrow> event_entry option" where
  "get_control s key = find (\<lambda>e. ee_key e = key) (ms_controls s)"

text \<open>Who asked for it: the user of that number, unless the data name one.\<close>

definition user_data :: "user list \<Rightarrow> int option \<Rightarrow> body \<Rightarrow> body" where
  "user_data us userid d =
     (let profile = (if has_key d ''username'' then None else Option.bind userid (\<lambda>i. find (\<lambda>u. us_userid u = i) us));
          d1 = (case profile of
                  None \<Rightarrow> d
                | Some u \<Rightarrow> d(''username'' \<mapsto> JStr (us_display_name u), ''userid'' \<mapsto> JInt (us_userid u))
                    ++ (case us_email u of Some (c # cs) \<Rightarrow> [''email'' \<mapsto> JStr (c # cs)] | _ \<Rightarrow> Map.empty));
          d2 = (case userid of Some i \<Rightarrow> if i \<noteq> 0 then d1(''userid'' \<mapsto> JInt i) else d1 | None \<Rightarrow> d1) in
      if has_key d2 ''username'' then d2 else d2(''username'' \<mapsto> JStr ''NONE''))"

definition name_data :: "(jval \<Rightarrow> string option) \<Rightarrow> string \<Rightarrow> string \<Rightarrow> body \<Rightarrow> body" where
  "name_data names i k d =
     (case d i of
        Some v \<Rightarrow> if has_key d k then d else (case names v of Some x \<Rightarrow> d(k \<mapsto> JStr x) | None \<Rightarrow> d)
      | None \<Rightarrow> d)"

definition default_to :: "string \<Rightarrow> string \<Rightarrow> body \<Rightarrow> body" where
  "default_to k v d = (if has_key d k then d else d(k \<mapsto> JStr v))"

definition renamed :: "string \<Rightarrow> string \<Rightarrow> body \<Rightarrow> body" where
  "renamed old new d = (case d old of None \<Rightarrow> d | Some v \<Rightarrow> (d(new \<mapsto> v))(old := None))"

definition gen_data :: "texts \<Rightarrow> mail_state \<Rightarrow> event_entry \<Rightarrow> body \<Rightarrow> int option \<Rightarrow> int option \<Rightarrow> body" where
  "gen_data tx s e data userid timestamp =
     (let c = ms_conf s;
          d1 = renamed ''exit-status'' ''exit_status'' (data ++ ms_system s);
          d2 = d1(''timestamp'' \<mapsto> JStr (tx_stamp tx (case timestamp of None \<Rightarrow> ms_now s | Some t \<Rightarrow> t)));
          d3 = user_data (ms_users s) userid d2 ++ ee_labels e;
          d4 = d3(''server_url'' \<mapsto> JStr (mc_server_url c));
          d5 = (case mc_public_url c of Some (x # xs) \<Rightarrow> d4(''tableau_server_url'' \<mapsto> JStr (x # xs)) | _ \<Rightarrow> d4);
          d6 = default_to ''environment'' (mc_environment c) d5 in
      name_data (ms_projects s) ''project_id'' ''project'' (name_data (ms_sites s) ''site_id'' ''site'' d6))"

definition add_event :: "nat mio" where
  "add_event =
     bnd (gets ms_next_eventid) (\<lambda>i.
       sq (modify (\<lambda>s. s\<lparr>ms_next_eventid := i + 1, ms_events := ms_events s @
             [\<lparr>er_eventid = i, er_key = ''incomplete'', er_complete = False, er_title = [], er_description = [],
               er_level = CHR ''I'', er_userid = None\<rparr>]\<rparr>))
          (ret i))"

definition complete_event :: "nat \<Rightarrow> event_entry \<Rightarrow> string \<Rightarrow> string \<Rightarrow> int option \<Rightarrow> unit mio" where
  "complete_event i e title description userid =
     modify (\<lambda>s. s\<lparr>ms_events := map (\<lambda>r. if er_eventid r = i
        then r\<lparr>er_complete := True, er_key := ee_key e, er_title := title, er_description := description,
               er_level := ee_level e, er_userid := userid\<rparr> else r) (ms_events s)\<rparr>)"

definition event_description :: "texts \<Rightarrow> event_entry \<Rightarrow> body \<Rightarrow> string mio" where
  "event_description tx e d =
     (case ee_description e of
        Some (c # cs) \<Rightarrow>
          (let bad = (\<lambda>x. ret (template_failed tx ''Mako template message conversion failure: '' x (c # cs) d)) in
           case tx_render tx (c # cs) d of
             Rendered s \<Rightarrow> ret s
           | MakoException x \<Rightarrow> bad x
           | Raised (TypeError x) \<Rightarrow> bad x
           | Raised x \<Rightarrow> raise x)
      | _ \<Rightarrow> lift (default_description d))"

definition spike_data :: "mail_conf \<Rightarrow> body" where
  "spike_data c = [''email_lookback_minutes'' \<mapsto> JInt (mc_lookback_minutes c), ''email_max_count'' \<mapsto> JInt (mc_max_count c)]"

text \<open>
  \<open>gen\<close>: \<open>eventit\<close> is what the limit on mails sends when it is reached.
\<close>

definition gen_with :: "unit mio \<Rightarrow> texts \<Rightarrow> string \<Rightarrow> body \<Rightarrow> int option \<Rightarrow> int option \<Rightarrow> unit mio" where
  "gen_with eventit tx key data userid timestamp =
     (if (case data ''enabled'' of Some v \<Rightarrow> \<not> truthy v | None \<Rightarrow> False) then ret ()
      else bnd (gets id) (\<lambda>s. case get_control s key of
        None \<Rightarrow> ret ()
      | Some e \<Rightarrow>
          bnd add_event (\<lambda>i.
            let d = (gen_data tx s e data userid timestamp)(''eventid'' \<mapsto> JInt (int i)) in
            bnd (subst_or_say tx ''Template subject conversion failure: '' (ee_subject e) d) (\<lambda>subject.
            bnd (event_description tx e d) (\<lambda>description.
              sq (complete_event i e subject (finish_description tx (mc_debug (ms_conf s)) d description) userid)
                 (if \<not> ee_send_email e then ret ()
                  else catch (send_mail tx eventit e d None i) is_standard_error (\<lambda>x. ret ())))))))"

text \<open>
  The limit's event is a \<open>gen\<close> of its own: the first argument is fuel, spent on each \<open>gen\<close>
  inside a \<open>gen\<close>.
\<close>

fun gen_event :: "nat \<Rightarrow> texts \<Rightarrow> string \<Rightarrow> body \<Rightarrow> int option \<Rightarrow> int option \<Rightarrow> unit mio" where
  "gen_event 0 tx = (\<lambda>key data userid timestamp. raise Blocked)"
| "gen_event (Suc fuel) tx =
     gen_with (bnd (gets ms_conf) (\<lambda>c. gen_event fuel tx ''EMAIL-SPIKE'' (spike_data c) None None)) tx"

definition gen_fuel :: nat where "gen_fuel = 2"

definition gen_alert :: "texts \<Rightarrow> string \<Rightarrow> body \<Rightarrow> int option \<Rightarrow> int option \<Rightarrow> unit mio" where
  "gen_alert = gen_event gen_fuel"

section \<open>One event inside another\<close>

text \<open>A mail that does not count does not look at what the limit would send.\<close>

lemma send_mail_uncounted:
  assumes "\<not> counted e"
  shows "send_mail tx x e d r i = send_mail tx y e d r i"
proof -
  have eq: "email_limit_reached x e j = email_limit_reached y e j" for j
    using assms by (simp add: email_limit_reached_def)
  show ?thesis unfolding send_mail_def eq ..
qed

lemma get_control_key: "get_control s key = Some e \<Longrightarrow> ee_key e = key"
  by (auto simp: get_control_def find_Some_iff)

lemma spike_uncounted: "get_control s ''EMAIL-SPIKE'' = Some e \<Longrightarrow> \<not> counted e"
  by (drule get_control_key) (simp add: counted_def)

lemma gen_spike_alone: "gen_with x tx ''EMAIL-SPIKE'' d u t = gen_with y tx ''EMAIL-SPIKE'' d u t"
proof (rule ext)
  fix s
  show "gen_with x tx ''EMAIL-SPIKE'' d u t s = gen_with y tx ''EMAIL-SPIKE'' d u t s"
  proof (cases "get_control s ''EMAIL-SPIKE''")
    case None
    then show ?thesis by (simp add: gen_with_def bnd_def)
  next
    case (Some e)
    note eq = send_mail_uncounted [OF spike_uncounted [OF this], of tx x _ None _ y]
    have get: "bnd (gets id) k s = k s s" for k :: "mail_state \<Rightarrow> 'b mio" by (simp add: bnd_def)
    show ?thesis unfolding gen_with_def get if_distribR Some option.case eq ..
  qed
qed

lemma spike_fuel: "gen_event (Suc n) tx ''EMAIL-SPIKE'' d u t = gen_event (Suc 0) tx ''EMAIL-SPIKE'' d u t"
  unfolding gen_event.simps(2) by (rule gen_spike_alone)

lemma gen_fuel_enough: "gen_event (Suc (Suc n)) tx key d u t = gen_alert tx key d u t"
proof -
  have two: "gen_alert = gen_event (Suc (Suc 0))" by (simp add: gen_alert_def gen_fuel_def numeral_2_eq_2)
  show ?thesis unfolding two gen_event.simps(2) [of "Suc n"] gen_event.simps(2) [of "Suc 0"] spike_fuel [of n] ..
qed

text \<open>Texts that raise no more than the code catches.\<close>

definition tame :: "texts \<Rightarrow> bool" where
  "tame tx \<longleftrightarrow>
     (\<forall>s d e. tx_fmt tx s d = Inl e \<longrightarrow> is_value_or_key e) \<and> (\<forall>s d. \<exists>t. tx_render tx s d = Rendered t)"

text \<open>The default texts raise nothing but what \<open>gen\<close> catches around a mail.\<close>

lemma pieces_raises: "pieces ps = Inl e \<Longrightarrow> Inl e \<in> set ps"
  by (induction ps rule: pieces.induct) (auto split: sum.splits)

lemma pieces_standard:
  "list_all (\<lambda>p. \<forall>e. p = Inl e \<longrightarrow> is_standard_error e) ps \<Longrightarrow> pieces ps = Inl e \<Longrightarrow> is_standard_error e"
  by (drule pieces_raises) (auto simp: list_all_iff)

lemma indented_standard: "indented x v a = Inl e \<Longrightarrow> is_standard_error e"
  by (auto simp: indented_def split: jval.splits if_splits)

lemma piece_standard:
  "section_if d k l = Inl e \<Longrightarrow> is_standard_error e" "line_if d k l = Inl e \<Longrightarrow> is_standard_error e"
  "then_nl p = Inl e \<Longrightarrow> p = Inl e"
  "info_piece d = Inl e \<Longrightarrow> is_standard_error e" "stderr_piece d = Inl e \<Longrightarrow> is_standard_error e"
  "error_piece d l = Inl e \<Longrightarrow> is_standard_error e" "number_if d k l = Inl e \<Longrightarrow> is_standard_error e"
  by (auto simp: section_if_def line_if_def info_piece_def stderr_piece_def error_piece_def number_if_def then_nl_def
      dest: indented_standard indented_standard [OF sym] dest!: pieces_raises split: option.splits jval.splits if_splits)

lemma severity_standard: "severity_piece e = Inl x \<Longrightarrow> is_standard_error x"
  by (auto simp: severity_piece_def level_string_def split: if_splits)

lemma some_pieces_standard: "list_all (\<lambda>p. \<forall>x. p = Inl x \<longrightarrow> is_standard_error x) (some_pieces l e s d)"
  unfolding some_pieces_def
  by (simp only: list_all_append list.pred_inject if_distrib [of "list_all _"])
     (auto dest: piece_standard(1,2,4,5,6,7) severity_standard)

lemma default_message_standard: "default_message tx l e s d = Inl x \<Longrightarrow> is_standard_error x"
proof -
  have "list_all (\<lambda>p. \<forall>x. p = Inl x \<longrightarrow> is_standard_error x) (all_pieces tx d)"
    by (auto simp: all_pieces_def list_all_iff dest: indented_standard)
  then show "default_message tx l e s d = Inl x \<Longrightarrow> is_standard_error x"
    using some_pieces_standard [of l e s d] unfolding default_message_def
    by (cases "l < 1"; cases "3 \<le> l"; simp only: if_True if_False) (simp | erule pieces_standard [rotated], assumption)+
qed

section \<open>What an event changes\<close>

text \<open>
  A component of the state that neither the event log, the mails sent nor the waiting ones
  belong to; what the limit does to it is for the user of the rules to say.
\<close>

locale beside_mail =
  fixes f :: "mail_state \<Rightarrow> 'b"
  assumes logged: "f (s\<lparr>ms_events := es\<rparr>) = f s" "f (s\<lparr>ms_next_eventid := i\<rparr>) = f s"
    and waiting: "f (s\<lparr>ms_waiting := ws\<rparr>) = f s" and mailed: "f (s\<lparr>ms_outbox := ms\<rparr>) = f s"
begin

lemma keeps_lift: "keeps f (lift r)"
  by (simp add: lift_def frame split: sum.split)

lemma keeps_texts: "keeps f (subst_or_say tx c s d)" "keeps f (mail_subject tx e d)"
  "keeps f (mail_message tx l e s d)" "keeps f (event_description tx e d)"
proof -
  show s: "keeps f (subst_or_say tx c s d)" for c s d
    unfolding subst_or_say_def by (rule frame keeps_lift)+
  show "keeps f (mail_subject tx e d)"
    unfolding mail_subject_def Let_def by (rule frame s)+
  show "keeps f (mail_message tx l e s d)" "keeps f (event_description tx e d)"
    unfolding mail_message_def event_description_def Let_def
    by (auto intro!: frame keeps_lift split: option.split list.split rendered.split pyexn.split)
qed

lemma keeps_out: "keeps f (mute_or_send e d m)" "keeps f (dis_thread t)"
proof -
  have d: "keeps f (do_send m)" for m by (simp add: do_send_def keeps_def mailed)
  show "keeps f (mute_or_send e d m)"
    unfolding mute_or_send_def mute_dis_check_def
    by (intro frame d) (simp add: waiting split: option.split prod.split)
  show "keeps f (dis_thread t)" unfolding dis_thread_def by (intro frame d)
qed

lemma keeps_send:
  assumes "keeps f (email_limit_reached x e i)"
  shows "keeps f (send_mail tx x e d r i)"
  unfolding send_mail_def Let_def by (rule frame keeps_texts keeps_out assms)+

lemma keeps_gen_with:
  assumes "\<And>s e i. get_control s key = Some e \<Longrightarrow> keeps f (email_limit_reached x e i)"
  shows "keeps f (gen_with x tx key data u t)"
proof -
  have get: "bnd (gets id) k s = k s s" for k :: "mail_state \<Rightarrow> unit mio" and s by (simp add: bnd_def)
  have add: "keeps f add_event" by (simp add: add_event_def keeps_def bnd_def sq_def logged)
  have complete: "keeps f (complete_event i e s d u)" for i e s d by (simp add: complete_event_def keeps_def logged)
  have "f (snd (bnd (gets id) (\<lambda>s. case get_control s key of None \<Rightarrow> ret () | Some e \<Rightarrow> k s e) s)) = f s"
    if "\<And>s e. get_control s key = Some e \<Longrightarrow> keeps f (k s e)" for k :: "mail_state \<Rightarrow> event_entry \<Rightarrow> unit mio" and s
    using that [of s] unfolding get by (cases "get_control s key") (simp_all add: keeps_snd)
  note step = this
  have body: "keeps f (bnd add_event (k :: nat \<Rightarrow> unit mio))" if "\<And>i. keeps f (k i)" for k
    by (intro frame add that)
  show ?thesis
    unfolding gen_with_def Let_def
    by (intro keeps_if keeps_ret, unfold keeps_def, intro allI step)
      (rule frame add keeps_texts complete keeps_send assms | assumption)+
qed

end

interpretation mail_limits: beside_mail limits
  by unfold_locales (simp_all add: limits_def)

definition mail_tables :: "mail_state \<Rightarrow> body \<times> event_entry list" where
  "mail_tables s = (ms_system s, ms_controls s)"

interpretation mail_tables: beside_mail mail_tables
  by unfold_locales (simp_all add: mail_tables_def)

lemma keeps_uncounted: "\<not> counted e \<Longrightarrow> keeps f (email_limit_reached x e i)"
  by (simp add: email_limit_reached_def frame)

section \<open>The event about too many mails comes back\<close>

definition gen_spike :: "texts \<Rightarrow> unit mio" where
  "gen_spike tx = bnd (gets ms_conf) (\<lambda>c. gen_event 1 tx ''EMAIL-SPIKE'' (spike_data c) None None)"

text \<open>No column of the system table and no label of an event is named like an output.\<close>

definition outputs :: "string set" where
  "outputs = {''error'', ''info'', ''stderr'', ''stdout''}"

definition plain_tables :: "texts \<Rightarrow> mail_state \<Rightarrow> bool" where
  "plain_tables tx s \<longleftrightarrow> tame tx \<and> dom (ms_system s) \<inter> outputs = {} \<and>
     (\<forall>e \<in> set (ms_controls s). dom (ee_labels e) \<inter> outputs = {})"

lemma keeps_spike: "beside_mail f \<Longrightarrow> keeps f (gen_spike tx)"
  unfolding gen_spike_def One_nat_def gen_event.simps(2)
  by (intro frame beside_mail.keeps_gen_with keeps_uncounted) (auto dest: spike_uncounted)

lemma data_steps:
  "x \<noteq> k \<Longrightarrow> name_data names i k d x = d x" "x \<noteq> k \<Longrightarrow> default_to k v d x = d x"
  "x \<noteq> old \<Longrightarrow> x \<noteq> new \<Longrightarrow> renamed old new d x = d x" "x \<noteq> ''username'' \<Longrightarrow> user_data us None d x = d x"
  by (simp_all add: name_data_def default_to_def renamed_def user_data_def split: option.split)

lemma gen_data_plain:
  assumes "dom data \<inter> outputs = {}" and "dom (ms_system s) \<inter> outputs = {}" and "dom (ee_labels e) \<inter> outputs = {}"
    and "k \<in> outputs"
  shows "gen_data tx s e data None t k = None"
proof -
  have k: "k \<noteq> ''exit-status''" "k \<noteq> ''exit_status''" "k \<noteq> ''timestamp''" "k \<noteq> ''username''" "k \<noteq> ''server_url''"
      "k \<noteq> ''tableau_server_url''" "k \<noteq> ''environment''" "k \<noteq> ''site''" "k \<noteq> ''project''"
    using assms(4) by (auto simp: outputs_def)
  have none: "data k = None" "ms_system s k = None" "ee_labels e k = None" using assms by (auto simp: dom_def)
  have url: "(case c of Some (x # xs) \<Rightarrow> d(''tableau_server_url'' \<mapsto> v x xs) | _ \<Rightarrow> d) k = d k" for c d and v :: "char \<Rightarrow> string \<Rightarrow> jval"
    using k(6) by (simp split: option.split list.split)
  show ?thesis
    unfolding gen_data_def Let_def by (simp add: data_steps k url none map_add_def)
qed

lemma tame_subst: "tame tx \<Longrightarrow> \<exists>x. subst_or_say tx c s d w = (Inr x, w)"
  by (auto simp: subst_or_say_def lift_def catch_def tame_def split: sum.split)

lemma tame_mail:
  assumes "tame tx" and "\<not> counted e"
  shows "\<exists>s'. catch (send_mail tx x e d r i) is_standard_error (\<lambda>x. ret ()) s = (Inr (), s')"
proof -
  obtain sub where sub: "mail_subject tx e d s = (Inr sub, s)"
    using tame_subst [OF assms(1)] by (fastforce simp: mail_subject_def Let_def)
  let ?l = "mc_alert_level (ms_conf s)"
  obtain q t where q: "mail_message tx ?l e sub d s = (q, t)" by fastforce
  have t: "t = s \<and> (\<forall>x. q = Inl x \<longrightarrow> is_standard_error x)"
  proof (cases "ee_email_message e")
    case None
    with q default_message_standard [of tx ?l e sub d] show ?thesis
      by (cases "default_message tx ?l e sub d") (auto simp: mail_message_def bnd_def lift_def)
  next
    case (Some m)
    show ?thesis
    proof (cases m)
      case Nil
      with Some q default_message_standard [of tx ?l e sub d] show ?thesis
        by (cases "default_message tx ?l e sub d") (auto simp: mail_message_def bnd_def lift_def)
    next
      case (Cons c cs)
      obtain y where "tx_render tx (c # cs) d = Rendered y" using assms(1) unfolding tame_def by blast
      with Some Cons q show ?thesis by (auto simp: mail_message_def bnd_def)
    qed
  qed
  have m: "\<exists>s'. mute_or_send e d mail s = (Inr (), s')" for mail
    by (simp add: mute_or_send_def bnd_def do_send_def mute_dis_check_def)
  have m': "\<exists>s'. (case mute_or_send e d mail s of (Inl e, s') \<Rightarrow> if is_standard_error e then ret () s' else (Inl e, s')
      | (Inr x, s') \<Rightarrow> (Inr x, s')) = (Inr (), s')" for mail
    using m [of mail] by auto
  show ?thesis
    using sub q t m' assms(2)
    by (cases q) (auto simp: send_mail_def Let_def bnd_def catch_def email_limit_reached_def)
qed

lemma spike_comes_back:
  assumes "plain_tables tx s"
  shows "\<exists>s'. gen_spike tx s = (Inr (), s')"
proof (cases "get_control s ''EMAIL-SPIKE''")
  case None
  then show ?thesis by (auto simp: gen_spike_def gen_with_def bnd_def spike_data_def)
next
  case (Some e)
  from assms have tame: "tame tx" by (simp add: plain_tables_def)
  have e: "e \<in> set (ms_controls s)"
    using Some unfolding get_control_def by (auto simp: find_Some_iff)
  define s1 where "s1 = snd (add_event s)"
  have s1: "add_event s = (Inr (ms_next_eventid s), s1)" by (simp add: s1_def add_event_def bnd_def sq_def)
  define d where "d = (gen_data tx s e (spike_data (ms_conf s)) None None)(''eventid'' \<mapsto> JInt (int (ms_next_eventid s)))"
  have plain: "d k = None" if "k \<in> outputs" for k
  proof -
    have "dom (spike_data (ms_conf s)) \<inter> outputs = {}" by (auto simp: spike_data_def outputs_def)
    with assms e that have "gen_data tx s e (spike_data (ms_conf s)) None None k = None"
      by (intro gen_data_plain) (auto simp: plain_tables_def)
    moreover have "k \<noteq> ''eventid''" using that by (auto simp: outputs_def)
    ultimately show ?thesis by (simp add: d_def)
  qed
  obtain sub where sub: "subst_or_say tx ''Template subject conversion failure: '' (ee_subject e) d s1 = (Inr sub, s1)"
    using tame_subst [OF tame] by blast
  have pieces: "\<exists>t. default_description d = Inr t"
    using plain [of "''error''"] plain [of "''info''"] plain [of "''stderr''"] plain [of "''stdout''"]
    by (auto simp: default_description_def line_if_def error_piece_def info_piece_def stderr_piece_def section_if_def
        outputs_def has_key_def split: option.split)
  obtain desc where desc: "event_description tx e d s1 = (Inr desc, s1)"
  proof (cases "ee_description e")
    case None
    then show ?thesis using pieces by (auto simp: event_description_def lift_def intro: that)
  next
    case (Some m)
    show ?thesis
    proof (cases m)
      case Nil
      with Some show ?thesis using pieces by (auto simp: event_description_def lift_def intro: that)
    next
      case (Cons c cs)
      obtain y where "tx_render tx (c # cs) d = Rendered y" using tame unfolding tame_def by blast
      with Some Cons show ?thesis by (intro that) (simp add: event_description_def)
    qed
  qed
  define x where "x = bnd (gets ms_conf) (\<lambda>c. gen_event 0 tx ''EMAIL-SPIKE'' (spike_data c) None None)"
  define s2 where "s2 = snd (complete_event (ms_next_eventid s) e sub (finish_description tx (mc_debug (ms_conf s)) d desc) None s1)"
  obtain s3 where s3: "catch (send_mail tx x e d None (ms_next_eventid s)) is_standard_error (\<lambda>x. ret ()) s2 = (Inr (), s3)"
    using tame_mail [OF tame spike_uncounted [OF Some]] by blast
  have "gen_spike tx s = gen_with x tx ''EMAIL-SPIKE'' (spike_data (ms_conf s)) None None s"
    by (simp add: gen_spike_def bnd_def x_def)
  also have "\<dots> = (Inr (), if ee_send_email e then s3 else s2)"
  proof -
    have "spike_data c ''enabled'' = None" for c by (simp add: spike_data_def)
    moreover have "complete_event (ms_next_eventid s) e sub (finish_description tx (mc_debug (ms_conf s)) d desc) None s1 = (Inr (), s2)"
      by (simp add: s2_def complete_event_def)
    ultimately show ?thesis
      using s1 sub desc s3 Some by (simp add: gen_with_def bnd_def sq_def Let_def d_def [symmetric])
  qed
  finally show ?thesis by blast
qed

interpretation spike: spike_event "gen_spike tx" "plain_tables tx" for tx
proof
  show "keeps limits (gen_spike tx)" by (rule keeps_spike) (rule mail_limits.beside_mail_axioms)
  fix s
  assume plain: "plain_tables tx s"
  then obtain s' where run: "gen_spike tx s = (Inr (), s')" using spike_comes_back by blast
  have "mail_tables s' = mail_tables s"
    by (rule keepsD [OF keeps_spike run]) (rule mail_tables.beside_mail_axioms)
  with plain run show "\<exists>s'. gen_spike tx s = (Inr (), s') \<and> plain_tables tx s'"
    by (auto simp: mail_tables_def plain_tables_def)
  show "plain_tables tx (s\<lparr>ms_now := t\<rparr>)" "plain_tables tx (s\<lparr>ms_sent := es\<rparr>)" for t es
    using plain by (simp_all add: plain_tables_def)
  show "plain_tables tx (snd (disable_alerts s))"
    using plain by (auto simp: plain_tables_def disable_alerts_def outputs_def)
qed


definition plain_texts :: texts where
  "plain_texts = \<lparr>tx_fmt = (\<lambda>s d. Inr s), tx_render = (\<lambda>s d. Rendered s), tx_dump = (\<lambda>d. []), tx_keys = (\<lambda>d. []),
     tx_stamp = (\<lambda>t. int_str t)\<rparr>"

definition control0 :: "string \<Rightarrow> char \<Rightarrow> event_entry" where
  "control0 key level = \<lparr>ee_key = key, ee_level = level, ee_send_email = True, ee_subject = ''s'', ee_description = None,
     ee_email_subject = None, ee_email_message = Some ''m'', ee_admin_visibility = True, ee_publisher_visibility = False,
     ee_labels = Map.empty\<rparr>"

definition mail_conf0 :: mail_conf where
  "mail_conf0 = \<lparr>mc_envid = 1, mc_environment = ''env'', mc_alerts_enabled = True, mc_admin_enabled = True,
     mc_publisher_enabled = False, mc_spike_disabled = False, mc_lookback_minutes = 10, mc_max_count = 1, mc_mute_seconds = 0,
     mc_max_silence = -1, mc_alert_level = 1, mc_debug = False, mc_server_url = ''u'', mc_public_url = None\<rparr>"

definition mail_state0 :: mail_state where
  "mail_state0 = \<lparr>ms_now = 0, ms_conf = mail_conf0,
     ms_controls = [control0 ''EMAIL-SPIKE'' CHR ''E'', control0 ''BACKUP-FAILED'' CHR ''E''],
     ms_users = [\<lparr>us_userid = 1, us_roleid = 3, us_display_name = ''a'', us_email = Some ''a@b'', us_email_level = 1\<rparr>],
     ms_system = Map.empty, ms_sites = (\<lambda>_. None), ms_projects = (\<lambda>_. None), ms_expiration = None, ms_contact = None,
     ms_agents = Map.empty, ms_sent = [], ms_events = [], ms_next_eventid = 1, ms_waiting = [], ms_outbox = []\<rparr>"


section \<open>When no mail goes out\<close>

text \<open>Once a mail is silent because of the license, nothing of the mails changes.\<close>

definition mails :: "mail_state \<Rightarrow> mail list \<times> waiting list \<times> email_sent list" where
  "mails s = (ms_outbox s, ms_waiting s, ms_sent s)"

lemma texts_keep: "keeps id (subst_or_say tx c s d)" "keeps id (mail_subject tx e d)"
  "keeps id (mail_message tx l e s d)" "keeps id (event_description tx e d)"
proof -
  have l: "keeps id (lift r)" for r :: "pyexn + 'a" by (simp add: lift_def frame split: sum.split)
  show s: "keeps id (subst_or_say tx c s d)" for c s d
    unfolding subst_or_say_def by (rule frame l)+
  show "keeps id (mail_subject tx e d)"
    unfolding mail_subject_def Let_def by (rule frame s)+
  show "keeps id (mail_message tx l e s d)" "keeps id (event_description tx e d)"
    unfolding mail_message_def event_description_def Let_def
    by (auto intro!: frame l split: option.split list.split rendered.split pyexn.split)
qed

lemma texts_leave: "mail_subject tx e d s = (r, t) \<Longrightarrow> t = s" "mail_message tx l e sub d s = (q, u) \<Longrightarrow> u = s"
  "subst_or_say tx c sub d s = (r, t) \<Longrightarrow> t = s" "event_description tx e d s = (r, t) \<Longrightarrow> t = s"
  using keepsD [OF texts_keep(2)] keepsD [OF texts_keep(3)] keepsD [OF texts_keep(1)] keepsD [OF texts_keep(4)]
  by (metis id_apply)+

lemma silent_send:
  assumes "license_silent s e"
  shows "snd (send_mail tx x e d r i s) = s"
proof -
  obtain q t where q: "mail_subject tx e d s = (q, t)" by fastforce
  note t = texts_leave(1) [OF q]
  show ?thesis
  proof (cases q)
    case (Inl a)
    with q t show ?thesis by (simp add: send_mail_def bnd_def Let_def)
  next
    case (Inr sub)
    obtain p u where p: "mail_message tx (mc_alert_level (ms_conf s)) e sub d s = (p, u)" by fastforce
    with q t Inr texts_leave(2) [OF p] assms show ?thesis
      by (cases p) (simp_all add: send_mail_def bnd_def Let_def)
  qed
qed

text \<open>
  While the license has expired, or the licensing server has been silent for too long, an
  event other than those about the licensing server and the test mail sends no mail, counts no
  mail and leaves none waiting, whatever its texts and whoever would get it.
\<close>

theorem unlicensed_is_silent:
  assumes "key \<notin> set always_mailed"
    and "(\<exists>t. ms_expiration s = Some t \<and> t < ms_now s) \<or>
      (\<exists>t. ms_contact s = Some t \<and> mc_max_silence (ms_conf s) < ms_now s - t \<and> mc_max_silence (ms_conf s) \<noteq> -1)"
  shows "mails (snd (gen_alert tx key data u t s)) = mails s"
proof -
  define same where "same s' \<longleftrightarrow> mails s' = mails s \<and> ms_expiration s' = ms_expiration s \<and> ms_contact s' = ms_contact s \<and>
      ms_now s' = ms_now s \<and> ms_conf s' = ms_conf s" for s'
  have silent: "mails (snd (catch (send_mail tx x e d None i) is_standard_error (\<lambda>x. ret ()) s')) = mails s"
    if "same s'" "ee_key e = key" for s' x e d i
  proof -
    have "license_silent s' e" using assms that by (auto simp: license_silent_def same_def)
    from silent_send [OF this, of tx x d None i] that show ?thesis
      by (auto simp: catch_def same_def split: prod.splits sum.splits)
  qed
  have "mails (snd (gen_with x tx key data u t s)) = mails s" for x
  proof (cases "get_control s key")
    case None
    then show ?thesis by (simp add: gen_with_def bnd_def)
  next
    case (Some e)
    obtain s1 where s1: "add_event s = (Inr (ms_next_eventid s), s1)" "same s1"
      by (simp add: add_event_def bnd_def sq_def same_def mails_def)
    define d where "d = (gen_data tx s e data u t)(''eventid'' \<mapsto> JInt (int (ms_next_eventid s)))"
    obtain p t1 where p: "subst_or_say tx ''Template subject conversion failure: '' (ee_subject e) d s1 = (p, t1)" by fastforce
    obtain q t2 where q: "event_description tx e d s1 = (q, t2)" by fastforce
    have kept: "same (snd (complete_event i e a b c s1))" for i a b c
      using s1(2) by (simp add: complete_event_def same_def mails_def)
    have finish: "mails (snd (sq (complete_event i e a b c) (if \<not> ee_send_email e then ret ()
        else catch (send_mail tx x e d None i) is_standard_error (\<lambda>x. ret ())) s1)) = mails s" for i a b c
      using silent [OF kept get_control_key [OF Some]] kept [of i a b c]
      by (simp add: sq_def bnd_def complete_event_def same_def)
    show ?thesis
      using s1 p q texts_leave(3) [OF p] texts_leave(4) [OF q] Some finish
      by (cases p; cases q) (auto simp: gen_with_def bnd_def Let_def d_def [symmetric] same_def)
  qed
  then show ?thesis by (simp add: gen_alert_def gen_fuel_def numeral_2_eq_2)
qed

theorem unlicensed_is_silent_witness:
  "mails (snd (gen_alert plain_texts ''BACKUP-FAILED'' Map.empty None None
     (mail_state0\<lparr>ms_now := 5, ms_expiration := Some 3\<rparr>))) = ([], [], [])"
  using unlicensed_is_silent [of "''BACKUP-FAILED''" "mail_state0\<lparr>ms_now := 5, ms_expiration := Some 3\<rparr>" plain_texts]
  by (simp add: always_mailed_def mails_def mail_state0_def)

section \<open>Muted disconnections\<close>

text \<open>The row of an agent changes, at a time.\<close>

definition at :: "int \<Rightarrow> nat \<Rightarrow> seen_agent \<Rightarrow> mail_state \<Rightarrow> mail_state" where
  "at t i a s = s\<lparr>ms_now := t, ms_agents := (ms_agents s)(i \<mapsto> a)\<rparr>"

text \<open>The threads that have started after \<open>n\<close> others wake up.\<close>

definition wake_up :: "nat \<Rightarrow> unit mio" where
  "wake_up n = bnd (gets ms_waiting) (\<lambda>ws. for_each (drop n ws) dis_thread)"

text \<open>
  C25: with muting on, an agent that disconnects and is back within the muting time causes no
  mail: the mail about its disconnection waits and is dropped when its thread wakes up, if by
  then the agent is connected or has disconnected again, and the mail about its reconnection is
  not sent.
\<close>

theorem short_disconnect_is_silent:
  assumes mute: "mc_mute_seconds (ms_conf s) = m" "0 < m"
    and dis: "ee_key e = ''AGENT-DISCONNECT''" and rec: "ee_key e' \<in> set reconnect_keys"
    and data: "d ''agentid'' = Some (JInt (int i))" "d' ''agentid'' = Some (JInt (int i))"
    and down: "sa_disconnect_time a = Some t0" and up: "sa_disconnect_time b = Some t0" "t0 < t1" "t1 \<le> t0 + m"
    and later: "sa_connected c \<or> sa_disconnect_time c \<noteq> Some t0"
  shows "ms_outbox (snd (sq (mute_or_send e d mail) (sq (modify (at t1 i b)) (sq (mute_or_send e' d' mail')
     (sq (modify (at t2 i c)) (wake_up (length (ms_waiting s)))))) (at t0 i a s))) = ms_outbox s"
proof -
  have "ee_key e \<notin> set reconnect_keys" using dis by (simp add: reconnect_keys_def)
  moreover have "ee_key e' \<noteq> ''AGENT-DISCONNECT''" using rec by (auto simp: reconnect_keys_def)
  ultimately show ?thesis
    using mute dis rec data down up later
    by (auto simp: at_def sq_def bnd_def mute_or_send_def mute_dis_check_def data_agent_def mute_reconn_check_def
        wake_up_def dis_thread_def)
qed

definition mail0 :: "string \<Rightarrow> mail" where
  "mail0 text = \<lparr>ml_to = [''admin''], ml_bcc = None, ml_subject = text, ml_message = text\<rparr>"

theorem short_disconnect_is_silent_witness:
  "ms_outbox (snd (sq (mute_or_send (control0 ''AGENT-DISCONNECT'' CHR ''E'') [''agentid'' \<mapsto> JInt 1] (mail0 ''down''))
     (sq (modify (at 130 1 \<lparr>sa_connection_time = 130, sa_disconnect_time = Some 100\<rparr>))
     (sq (mute_or_send (control0 ''AGENT-COMMUNICATION'' CHR ''I'') [''agentid'' \<mapsto> JInt 1] (mail0 ''up''))
     (sq (modify (at 160 1 \<lparr>sa_connection_time = 130, sa_disconnect_time = Some 100\<rparr>)) (wake_up 0))))
     (at 100 1 \<lparr>sa_connection_time = 5, sa_disconnect_time = Some 100\<rparr>
       (mail_state0\<lparr>ms_conf := mail_conf0\<lparr>mc_mute_seconds := 60\<rparr>\<rparr>)))) = []"
  using short_disconnect_is_silent [of "mail_state0\<lparr>ms_conf := mail_conf0\<lparr>mc_mute_seconds := 60\<rparr>\<rparr>" 60
      "control0 ''AGENT-DISCONNECT'' CHR ''E''" "control0 ''AGENT-COMMUNICATION'' CHR ''I''"
      "[''agentid'' \<mapsto> JInt 1]" 1 "[''agentid'' \<mapsto> JInt 1]"
      "\<lparr>sa_connection_time = 5, sa_disconnect_time = Some 100\<rparr>" 100
      "\<lparr>sa_connection_time = 130, sa_disconnect_time = Some 100\<rparr>" 130
      "\<lparr>sa_connection_time = 130, sa_disconnect_time = Some 100\<rparr>" "mail0 ''down''" "mail0 ''up''" 160]
  by (simp add: mail_state0_def mail_conf0_def control0_def reconnect_keys_def sa_connected_def)

section \<open>Events end\<close>

lemma default_description_standard: "default_description d = Inl x \<Longrightarrow> is_standard_error x"
  unfolding default_description_def
  by (erule pieces_standard [rotated]) (auto dest: piece_standard(1,2,4,5,6))

lemma avoids_lift: "r \<noteq> Inl e \<Longrightarrow> avoids e (lift r)"
  by (auto simp: lift_def avoids_def split: sum.split)

lemma avoids_catch: "avoids e m \<Longrightarrow> (\<And>x. avoids e (h x)) \<Longrightarrow> avoids e (catch m p h)"
  by (simp add: avoids_def catch_def split: prod.splits sum.splits) (metis fst_conv)

lemma avoids_texts:
  assumes "tame tx"
  shows "avoids Blocked (subst_or_say tx c s d)" "avoids Blocked (mail_subject tx e d)"
    "avoids Blocked (mail_message tx l e s d)" "avoids Blocked (event_description tx e d)"
proof -
  have "tx_fmt tx s d \<noteq> Inl Blocked" for s d
    using assms by (auto simp: tame_def is_value_or_key_def split: pyexn.splits)
  then show s: "avoids Blocked (subst_or_say tx c s d)" for c s d
    unfolding subst_or_say_def by (intro avoids_catch avoids_lift total)
  show "avoids Blocked (mail_subject tx e d)"
    unfolding mail_subject_def Let_def by (intro total s)
  have m: "default_message tx l e s d \<noteq> Inl Blocked" using default_message_standard by fastforce
  have d: "default_description d \<noteq> Inl Blocked" using default_description_standard by fastforce
  have r: "\<exists>y. tx_render tx s d = Rendered y" for s d using assms unfolding tame_def by blast
  show "avoids Blocked (mail_message tx l e s d)"
    unfolding mail_message_def
    by (intro total, cases "ee_email_message e"; simp add: avoids_lift [OF m] split: list.split)
       (metis (no_types, lifting) r rendered.simps(10) avoids_ret)
  show "avoids Blocked (event_description tx e d)"
    unfolding event_description_def Let_def
    by (cases "ee_description e"; simp add: avoids_lift [OF d] split: list.split)
       (metis (no_types, lifting) r rendered.simps(10) avoids_ret)
qed

lemma avoids_send:
  assumes "tame tx" and "avoids Blocked x"
  shows "avoids Blocked (send_mail tx x e d r i)"
proof -
  have l: "avoids Blocked (email_limit_reached x e i)"
    unfolding email_limit_reached_def log_email_def prune_emails_def disable_alerts_def by (intro total assms)
  have m: "avoids Blocked (mute_or_send e d mail)" for mail
    unfolding mute_or_send_def do_send_def mute_dis_check_def by (intro total)
  show ?thesis unfolding send_mail_def Let_def by (intro total avoids_texts assms l m)
qed

lemma avoids_gen_with: "tame tx \<Longrightarrow> avoids Blocked x \<Longrightarrow> avoids Blocked (gen_with x tx key data u t)"
  unfolding gen_with_def add_event_def complete_event_def Let_def
  by (intro total avoids_texts avoids_send avoids_catch) simp_all

text \<open>
  C26: an event, and the one about too many mails that it may cause, always come to an end: two
  levels of events inside one another are all there are, so that more fuel changes nothing, and
  with texts that raise only what the code catches no event waits for ever.
\<close>

theorem events_end:
  "gen_event (Suc (Suc n)) tx key data u t = gen_alert tx key data u t \<and>
   (tame tx \<longrightarrow> fst (gen_alert tx key data u t s) \<noteq> Inl Blocked)"
proof -
  have spike: "gen_event (Suc 0) tx ''EMAIL-SPIKE'' d u t = gen_with (ret ()) tx ''EMAIL-SPIKE'' d u t" for d u t
    unfolding gen_event.simps(2) by (rule gen_spike_alone)
  have "avoids Blocked (gen_alert tx key data u t)" if "tame tx"
    unfolding gen_alert_def gen_fuel_def numeral_2_eq_2 gen_event.simps(2) [of "Suc 0"] spike
    by (intro avoids_gen_with that total)
  then show ?thesis using gen_fuel_enough by (simp add: avoids_def)
qed

theorem events_end_witness:
  "gen_event 9 plain_texts ''BACKUP-FAILED'' Map.empty None None = gen_alert plain_texts ''BACKUP-FAILED'' Map.empty None None \<and>
   fst (gen_alert plain_texts ''BACKUP-FAILED'' Map.empty None None mail_state0) \<noteq> Inl Blocked"
  using events_end [of 7 plain_texts "''BACKUP-FAILED''" Map.empty None None mail_state0]
  by (simp add: tame_def plain_texts_def)

end
