(* ===== verification/Volumes.thy ===== *)
theory Volumes
  imports Levels Storage "HOL-Library.Char_ord" "HOL-Library.List_Lexorder"
begin

text \<open>
  What an agent reports about itself (\<open>pinfo\<close>) and its volumes: the rows of \<open>agent_volumes\<close>
  that \<open>update_agent_pinfo_vols\<close> of \<open>agentmanager.py\<close> keeps, the volume that is chosen for
  archives, the events about the space on a volume, and the default destination of backups.
\<close>

section \<open>Reports and rows\<close>

text \<open>A volume in the report, \<open>None\<close> for a key that is missing; the report itself.\<close>

record reported_volume =
  rv_name :: "string option"
  rv_path :: "string option"
  rv_type :: "string option"
  rv_size :: "int option"
  rv_space :: "int option"
  rv_label :: "string option"
  rv_format :: "string option"

record pinfo =
  pi_install_dir :: "string option"
  pi_tableau_data_dir :: "string option"
  pi_ip_address :: "string option"
  pi_volumes :: "reported_volume list option"

text \<open>A row of \<open>agent_volumes\<close>, with its nulls.\<close>

record vrow =
  vr_agentid :: nat
  vr_name :: "string option"
  vr_path :: "string option"
  vr_type :: "string option"
  vr_label :: "string option"
  vr_format :: "string option"
  vr_size :: "int option"
  vr_space :: "int option"
  vr_color :: "char option"
  vr_archive :: bool
  vr_archive_limit :: "int option"
  vr_active :: bool

text \<open>\<open>AgentVolumesEntry.build\<close>\<close>

definition holds_data :: "agent \<Rightarrow> string option \<Rightarrow> bool" where
  "holds_data a name = (case name of None \<Rightarrow> False | Some n \<Rightarrow> common_prefix (ag_data_dir a) n = n)"

definition is_archive :: "agent \<Rightarrow> reported_volume \<Rightarrow> string option \<Rightarrow> bool" where
  "is_archive a v name =
     (case rv_type v of
        None \<Rightarrow> False
      | Some t \<Rightarrow> if ag_iswin a then t = ''Fixed'' else take 7 t = ''/dev/sd'' \<and> holds_data a name)"

definition volume_name :: "agent \<Rightarrow> reported_volume \<Rightarrow> string option" where
  "volume_name a v = (if ag_iswin a then map_option upper (rv_name v) else rv_name v)"

definition build_volume :: "agent \<Rightarrow> reported_volume \<Rightarrow> string \<Rightarrow> vrow" where
  "build_volume a v install_data_dir =
     (let name = volume_name a v; archive = is_archive a v name in
      \<lparr>vr_agentid = ag_agentid a, vr_name = name,
       vr_path = (if archive then Some install_data_dir else rv_path v), vr_type = rv_type v,
       vr_label = rv_label v, vr_format = rv_format v, vr_size = rv_size v, vr_space = rv_space v, vr_color = None,
       vr_archive = archive,
       vr_archive_limit = (case rv_size v of Some n \<Rightarrow> if archive \<and> n \<noteq> 0 then Some n else None | None \<Rightarrow> None),
       vr_active = True\<rparr>)"

text \<open>What the volume selection of the backup code reads of a row, when nothing of it is null.\<close>

definition known_volume :: "vrow \<Rightarrow> nat \<Rightarrow> int \<Rightarrow> volume option" where
  "known_volume r volid priority =
     (case (vr_name r, vr_path r, vr_type r, vr_size r, vr_space r, vr_archive_limit r) of
        (Some n, Some p, Some t, Some s, Some sp, Some l) \<Rightarrow>
          Some \<lparr>vol_volid = volid, vol_agentid = vr_agentid r, vol_name = n, vol_path = p, vol_type = t, vol_size = s,
                vol_available_space = sp, vol_archive = vr_archive r, vol_archive_limit = l, vol_active = vr_active r,
                vol_system = False, vol_priority = priority, vol_color = vr_color r\<rparr>
      | _ \<Rightarrow> None)"

section \<open>The space on a volume\<close>

definition space_color :: "int \<Rightarrow> int \<Rightarrow> int \<Rightarrow> int \<Rightarrow> char" where
  "space_color used cap low high =
     (if high * cap < 100 * used then CHR ''r'' else if low * cap < 100 * used then CHR ''y'' else CHR ''g'')"

definition space_key :: "char \<Rightarrow> ekey option" where
  "space_key c =
     (if c = CHR ''g'' then Some (EV ''DISK-USAGE-OKAY'')
      else if c = CHR ''y'' then Some (EV ''DISK-USAGE-ABOVE-LOW-WATERMARK'')
      else if c = CHR ''r'' then Some (EV ''DISK-USAGE-ABOVE-HIGH-WATERMARK'')
      else None)"

definition opt_text :: "string option \<Rightarrow> string" where
  "opt_text s = (case s of None \<Rightarrow> ''None'' | Some x \<Rightarrow> x)"

text \<open>The share that is used, as \<open>%2.1f%%\<close> writes it: a division by the size.\<close>

definition percent_used :: "int \<Rightarrow> int \<Rightarrow> string io" where
  "percent_used used cap =
     (if cap = 0 then raise (ZeroDivisionError ''float division by zero'')
      else ret (tenths (div_half_even (nat \<bar>1000 * used\<bar>) (nat \<bar>cap\<bar>)) @ ''%''))"

definition gen_disk_event :: "agent \<Rightarrow> char \<Rightarrow> vrow \<Rightarrow> int \<Rightarrow> int \<Rightarrow> string \<Rightarrow> unit io" where
  "gen_disk_event a color r cap space percent =
     (case space_key color of
        None \<Rightarrow> ret ()
      | Some k \<Rightarrow>
          bnd (sizestr cap) (\<lambda>sz. bnd (sizestr (cap - space)) (\<lambda>used. bnd (sizestr space) (\<lambda>avail.
            let line = (\<lambda>l s. l @ '': '' @ s @ [CHR 0x0A]) in
            gen k ((agent_todict a)(''info'' \<mapsto> JStr (line ''Volume name'' (opt_text (vr_name r)) @ line ''Size'' sz @
                line ''Used'' used @ line ''Available'' avail @ line ''Percent used'' percent),
              ''volume_name'' \<mapsto> (case vr_name r of None \<Rightarrow> JNull | Some n \<Rightarrow> JStr n))) None))))"

text \<open>Both branches: tell the colour and remember it, if it is news.\<close>

definition is_news :: "char \<Rightarrow> char option \<Rightarrow> bool" where
  "is_news color told \<longleftrightarrow> Some color \<noteq> told \<and> (color = CHR ''g'' \<longrightarrow> told \<noteq> None)"

definition tell_space :: "agent \<Rightarrow> reported_volume \<Rightarrow> vrow \<Rightarrow> vrow io" where
  "tell_space a v r =
     (case (ag_displayname a, rv_size v, rv_space v, vr_size r, vr_space r) of
        (Some _, Some _, Some _, Some cap, Some space) \<Rightarrow>
          bnd (gets w_conf) (\<lambda>c.
            let color = space_color (cap - space) cap (cf_disk_watermark_low c) (cf_disk_watermark_high c) in
            if is_news color (vr_color r) then
              bnd (percent_used (cap - space) cap) (\<lambda>p.
                sq (gen_disk_event a color r cap space p) (ret (r\<lparr>vr_color := Some color\<rparr>)))
            else ret r)
      | _ \<Rightarrow> ret r)"

section \<open>Merging a report\<close>

definition or_old :: "'a option \<Rightarrow> 'a option \<Rightarrow> 'a option" where
  "or_old new old = (case new of None \<Rightarrow> old | Some x \<Rightarrow> Some x)"

definition merge_volume :: "agent \<Rightarrow> reported_volume \<Rightarrow> string \<Rightarrow> vrow \<Rightarrow> vrow" where
  "merge_volume a v data_dir r =
     (let r1 = r\<lparr>vr_size := or_old (rv_size v) (vr_size r), vr_type := or_old (rv_type v) (vr_type r)\<rparr>;
          r2 = (if vr_type r1 = Some ''Fixed'' \<or> \<not> ag_iswin a then
                  r1\<lparr>vr_archive_limit := vr_size r1, vr_archive := True,
                     vr_path := (case truthy_str (vr_path r1) of
                         Some p \<Rightarrow> Some p | None \<Rightarrow> (case rv_path v of Some p \<Rightarrow> Some p | None \<Rightarrow> Some data_dir))\<rparr>
                else r1) in
      r2\<lparr>vr_label := or_old (rv_label v) (vr_label r), vr_format := or_old (rv_format v) (vr_format r),
         vr_space := or_old (rv_space v) (vr_space r)\<rparr>)"

definition own :: "agent \<Rightarrow> string option \<Rightarrow> vrow \<Rightarrow> bool" where
  "own a name r \<longleftrightarrow> vr_agentid r = ag_agentid a \<and> vr_name r = name \<and> name \<noteq> None"

text \<open>
  One volume of the report: \<open>found\<close> tells whether a Linux archive volume was added before.
\<close>

definition update_volume :: "agent \<Rightarrow> string \<Rightarrow> reported_volume \<Rightarrow> vrow list \<times> bool \<Rightarrow> (vrow list \<times> bool) io" where
  "update_volume a data_dir v = (\<lambda>(rows, found).
     let name = volume_name a v in
     case filter (own a name) rows of
       r # rest \<Rightarrow>
         if rest \<noteq> [] then raise (DBError ''MultipleResultsFound'')
         else bnd (tell_space a v (merge_volume a v data_dir r)) (\<lambda>r'.
           ret (map (\<lambda>x. if own a name x then r'\<lparr>vr_active := True\<rparr> else x) rows, found))
     | [] \<Rightarrow>
         if rv_type v = None then ret (rows, found)
         else
           (let r = build_volume a v data_dir;
                linux = vr_archive r \<and> \<not> ag_iswin a;
                r1 = (if linux \<and> found then r\<lparr>vr_archive := False\<rparr> else r) in
            bnd (tell_space a v r1) (\<lambda>r'. ret (rows @ [r'], found \<or> linux))))"

text \<open>The directory for data, unless a path has no drive letter.\<close>

definition after_colon :: "string \<Rightarrow> string option" where
  "after_colon s = (case split_on (CHR '':'') s of [d, p] \<Rightarrow> Some p | _ \<Rightarrow> None)"

definition palette_data_dir :: "agent \<Rightarrow> pinfo \<Rightarrow> string option" where
  "palette_data_dir a pinfo =
     (if ag_iswin a then
        (if ag_agent_type a = Some PRIMARY \<and> Option.bind (pi_tableau_data_dir pinfo) after_colon = None then None
         else map_option (\<lambda>p. path_join True p ''Data'') (after_colon (ag_data_dir a)))
      else Some (path_join False (ag_data_dir a) ''Data''))"

definition sorted_volumes :: "reported_volume list \<Rightarrow> reported_volume list" where
  "sorted_volumes vs = rev (sort_key (\<lambda>v. the (rv_name v)) (rev vs))"

definition update_agent_pinfo_vols :: "agent \<Rightarrow> pinfo \<Rightarrow> vrow list \<Rightarrow> (bool \<times> vrow list) io" where
  "update_agent_pinfo_vols a pinfo rows =
     (if ag_agent_type a = None then
        (case ag_displayname a of None \<Rightarrow> raise (TypeError ''cannot concatenate str and NoneType objects'') | Some _ \<Rightarrow> ret (False, rows))
      else
        let idle = map (\<lambda>r. if vr_agentid r = ag_agentid a then r\<lparr>vr_active := False\<rparr> else r) rows in
        case palette_data_dir a pinfo of
          None \<Rightarrow> ret (False, idle)
        | Some d \<Rightarrow>
            (case pi_volumes pinfo of
               None \<Rightarrow> ret (True, idle)
             | Some vs \<Rightarrow>
                 if list_ex (\<lambda>v. rv_name v = None) vs then raise (KeyError ''name'')
                 else bnd (fold_m (update_volume a d) (sorted_volumes vs) (idle, False)) (\<lambda>(rows', found).
                   ret (True, rows'))))"

section \<open>What a report does to the rows\<close>

lemma returns_fold_m:
  "P acc \<Longrightarrow> (\<And>x acc. x \<in> set xs \<Longrightarrow> P acc \<Longrightarrow> returns P (f x acc)) \<Longrightarrow> returns P (fold_m f xs acc)"
proof (induction xs arbitrary: acc)
  case Nil
  show ?case unfolding fold_m.simps using Nil(1) by (rule returns_ret)
next
  case (Cons x xs)
  have "returns P (f x acc)" using Cons.prems by simp
  moreover have "returns P (fold_m f xs b)" if "P b" for b
    using that Cons.prems(2) by (rule Cons.IH) simp_all
  ultimately show ?case unfolding fold_m.simps by (rule returns_bnd)
qed

lemma tell_space_row: "returns (\<lambda>r'. \<exists>c. r' = r\<lparr>vr_color := c\<rparr>) (tell_space a v r)"
proof -
  have "\<exists>c. r = r\<lparr>vr_color := c\<rparr>" by (rule exI [of _ "vr_color r"]) simp
  then show ?thesis
    unfolding tell_space_def Let_def
    by (auto split: option.split intro!: returns_ret returns_bnd_any returns_sq)
qed

text \<open>One row for each name of each agent, as the table's constraint says.\<close>

definition one_row_each :: "vrow list \<Rightarrow> bool" where
  "one_row_each rows \<longleftrightarrow>
     distinct (map (\<lambda>r. (vr_agentid r, vr_name r)) (filter (\<lambda>r. vr_name r \<noteq> None) rows))"

definition others :: "agent \<Rightarrow> vrow list \<Rightarrow> vrow list" where
  "others a = filter (\<lambda>r. vr_agentid r \<noteq> ag_agentid a)"

text \<open>
  What holds of the rows all through a report: \<open>old\<close> are the names the agent had rows for,
  \<open>new\<close> those that the report names.
\<close>

definition report_inv :: "agent \<Rightarrow> vrow list \<Rightarrow> string option set \<Rightarrow> string option set \<Rightarrow> vrow list \<times> bool \<Rightarrow> bool" where
  "report_inv a rest old new s \<longleftrightarrow> one_row_each (fst s) \<and> others a (fst s) = rest \<and>
     (\<forall>n \<in> old. \<exists>r \<in> set (fst s). own a n r) \<and>
     (\<forall>r \<in> set (fst s). vr_agentid r = ag_agentid a \<longrightarrow> vr_active r \<longrightarrow>
        vr_name r \<in> new \<and> (\<not> ag_iswin a \<longrightarrow> vr_name r \<in> old \<longrightarrow> vr_archive r))"

lemma own_name: "own a n r \<Longrightarrow> vr_name r = n \<and> vr_agentid r = ag_agentid a \<and> n \<noteq> None"
  by (simp add: own_def)

lemma merge_volume_key [simp]:
  "vr_agentid (merge_volume a v d r) = vr_agentid r" "vr_name (merge_volume a v d r) = vr_name r"
  by (simp_all add: merge_volume_def Let_def)

lemma merge_volume_linux: "\<not> ag_iswin a \<Longrightarrow> vr_archive (merge_volume a v d r)"
  by (simp add: merge_volume_def Let_def)

lemma build_volume_key [simp]:
  "vr_agentid (build_volume a v d) = ag_agentid a" "vr_name (build_volume a v d) = volume_name a v"
  by (simp_all add: build_volume_def Let_def)

lemma one_row_each_map:
  "(\<And>r. vr_agentid (f r) = vr_agentid r \<and> vr_name (f r) = vr_name r) \<Longrightarrow> one_row_each (map f rows) = one_row_each rows"
  by (simp add: one_row_each_def filter_map o_def cong: filter_cong)

lemma others_map:
  "(\<And>r. vr_agentid (f r) = vr_agentid r) \<Longrightarrow> (\<And>r. vr_agentid r \<noteq> ag_agentid a \<Longrightarrow> f r = r) \<Longrightarrow>
     others a (map f rows) = others a rows"
  by (induction rows) (auto simp: others_def)

lemma one_row_each_snoc:
  "one_row_each rows \<Longrightarrow> filter (own a (vr_name r)) rows = [] \<Longrightarrow> vr_agentid r = ag_agentid a \<Longrightarrow> one_row_each (rows @ [r])"
  by (auto simp: one_row_each_def own_def filter_empty_conv)

lemma report_inv_known:
  assumes "report_inv a rest old new (rows, found)" and "volume_name a v \<in> new"
  shows "report_inv a rest old new
    (map (\<lambda>x. if own a (volume_name a v) x then (merge_volume a v d x)\<lparr>vr_color := c, vr_active := True\<rparr> else x) rows, found')"
  (is "report_inv a rest old new (map ?f rows, found')")
proof -
  have key: "vr_agentid (?f r) = vr_agentid r \<and> vr_name (?f r) = vr_name r" for r by simp
  have other: "?f r = r" if "vr_agentid r \<noteq> ag_agentid a" for r using that by (simp add: own_def)
  have own: "own a n (?f r) = own a n r" for n r using key [of r] unfolding own_def by presburger
  have "one_row_each (map ?f rows)" "others a (map ?f rows) = others a rows"
    by (rule one_row_each_map [THEN iffD2], rule key) (use assms(1) others_map [of ?f a rows] key other in \<open>auto simp: report_inv_def\<close>)
  moreover have "\<forall>n \<in> old. \<exists>r \<in> set (map ?f rows). own a n r"
    using assms(1) own unfolding report_inv_def by (simp only: fst_conv set_map bex_simps(7)) blast
  moreover have "vr_name s \<in> new \<and> (\<not> ag_iswin a \<longrightarrow> vr_name s \<in> old \<longrightarrow> vr_archive s)"
    if "s \<in> set (map ?f rows)" "vr_agentid s = ag_agentid a" "vr_active s" for s
  proof -
    from that(1) obtain r where r: "r \<in> set rows" "s = ?f r" by auto
    show ?thesis
    proof (cases "own a (volume_name a v) r")
      case True
      with r own_name [OF True] assms(2) show ?thesis by (auto simp: merge_volume_linux)
    next
      case False
      with r that assms(1) show ?thesis by (auto simp: report_inv_def)
    qed
  qed
  ultimately show ?thesis using assms(1) by (simp add: report_inv_def)
qed

lemma report_inv_added:
  assumes "report_inv a rest old new (rows, found)" and "filter (own a (volume_name a v)) rows = []"
    and "volume_name a v \<in> new" "None \<notin> new" and "vr_agentid r = ag_agentid a" "vr_name r = volume_name a v"
  shows "report_inv a rest old new (rows @ [r], found')"
proof -
  have "volume_name a v \<notin> old"
    using assms(1,2) by (auto simp: report_inv_def filter_empty_conv)
  moreover have "one_row_each (rows @ [r])"
    using assms by (intro one_row_each_snoc [of _ a]) (auto simp: report_inv_def)
  ultimately show ?thesis
    using assms by (auto simp: report_inv_def others_def)
qed

lemma single_own:
  assumes "one_row_each rows" and "filter (own a n) rows = r # rest"
  shows "own a n x \<Longrightarrow> x \<in> set rows \<Longrightarrow> x = r"
proof -
  assume x: "own a n x" "x \<in> set rows"
  have n: "own a n r" "r \<in> set rows" using assms(2) by (auto simp: filter_eq_Cons_iff)
  with x assms(1) show "x = r"
    unfolding one_row_each_def distinct_map inj_on_def own_def by auto
qed

lemma report_inv_update:
  assumes "report_inv a rest old new s" and "volume_name a v \<in> new" "None \<notin> new"
  shows "returns (report_inv a rest old new) (update_volume a d v s)"
proof -
  obtain rows found where s: "s = (rows, found)" by (cases s)
  show ?thesis
  proof (cases "filter (own a (volume_name a v)) rows")
    case Nil
    then show ?thesis
      using report_inv_added [OF assms(1) [unfolded s] Nil assms(2,3)] assms(1) [unfolded s]
      by (auto simp: update_volume_def s Let_def intro!: returns_ret returns_bnd [OF tell_space_row] assms(1))
  next
    case (Cons r more)
    have one: "one_row_each rows" using assms(1) by (simp add: report_inv_def s)
    have same: "map (\<lambda>x. if own a (volume_name a v) x then (merge_volume a v d r)\<lparr>vr_color := c, vr_active := True\<rparr> else x) rows =
        map (\<lambda>x. if own a (volume_name a v) x then (merge_volume a v d x)\<lparr>vr_color := c, vr_active := True\<rparr> else x) rows" for c
      using single_own [OF one Cons] by (intro map_cong) auto
    note merged = report_inv_known [OF assms(1) [unfolded s] assms(2), where d = d and found' = found, folded same]
    show ?thesis
      using Cons by (auto simp: update_volume_def s Let_def intro!: merged returns_ret returns_raise returns_bnd [OF tell_space_row])
  qed
qed

lemma report_inv_idle:
  assumes "one_row_each rows"
  shows "report_inv a (others a rows) {n. \<exists>r \<in> set rows. own a n r} new
    (map (\<lambda>r. if vr_agentid r = ag_agentid a then r\<lparr>vr_active := False\<rparr> else r) rows, found)"
proof -
  let ?f = "\<lambda>r. if vr_agentid r = ag_agentid a then r\<lparr>vr_active := False\<rparr> else r"
  have "one_row_each (map ?f rows)" "others a (map ?f rows) = others a rows"
    by (rule one_row_each_map [THEN iffD2, OF _ assms]) (simp_all add: others_map)
  moreover have "\<exists>s \<in> set (map ?f rows). own a n s" if "r \<in> set rows" "own a n r" for n r
    using that by (intro bexI [of _ "?f r"]) (auto simp: own_def)
  ultimately show ?thesis by (fastforce simp: report_inv_def)
qed

definition reported_names :: "agent \<Rightarrow> pinfo \<Rightarrow> string option set" where
  "reported_names a pinfo = (case pi_volumes pinfo of None \<Rightarrow> {} | Some vs \<Rightarrow> volume_name a ` set vs)"

lemma update_vols_inv:
  assumes "one_row_each rows"
  shows "returns (\<lambda>(ok, rows'). ok \<longrightarrow> (\<exists>found. report_inv a (others a rows) {n. \<exists>r \<in> set rows. own a n r}
      (reported_names a pinfo) (rows', found))) (update_agent_pinfo_vols a pinfo rows)"
proof -
  let ?old = "{n. \<exists>r \<in> set rows. own a n r}"
    and ?idle = "map (\<lambda>r. if vr_agentid r = ag_agentid a then r\<lparr>vr_active := False\<rparr> else r) rows"
  have "returns (report_inv a (others a rows) ?old (volume_name a ` set vs))
      (fold_m (update_volume a d) (sorted_volumes vs) (?idle, False))"
    if "\<not> list_ex (\<lambda>v. rv_name v = None) vs" for vs d
  proof (rule returns_fold_m)
    show "report_inv a (others a rows) ?old (volume_name a ` set vs) (?idle, False)"
      by (rule report_inv_idle [OF assms])
    fix v s assume "v \<in> set (sorted_volumes vs)" "report_inv a (others a rows) ?old (volume_name a ` set vs) s"
    then show "returns (report_inv a (others a rows) ?old (volume_name a ` set vs)) (update_volume a d v s)"
      using that by (intro report_inv_update) (auto simp: sorted_volumes_def list_ex_iff volume_name_def split: if_splits)
  qed
  note merged = returns_bnd [OF this]
  show ?thesis
    unfolding update_agent_pinfo_vols_def Let_def reported_names_def
    by (auto split: option.split intro!: returns_ret returns_raise merged report_inv_idle [OF assms] exI)
qed


definition linux_agent :: agent where
  "linux_agent = agent0\<lparr>ag_iswin := False, ag_data_dir := ''/var/palette''\<rparr>"

definition disk_at :: "string \<Rightarrow> string \<Rightarrow> reported_volume" where
  "disk_at name dev = \<lparr>rv_name = Some name, rv_path = None, rv_type = Some dev, rv_size = Some 100, rv_space = Some 90,
     rv_label = None, rv_format = None\<rparr>"

definition two_disks :: pinfo where
  "two_disks = \<lparr>pi_install_dir = None, pi_tableau_data_dir = None, pi_ip_address = None,
     pi_volumes = Some [disk_at ''/'' ''/dev/sda1'', disk_at ''/home'' ''/dev/sdb1'']\<rparr>"

fun reports_of :: "agent \<Rightarrow> pinfo \<Rightarrow> nat \<Rightarrow> vrow list \<Rightarrow> vrow list io" where
  "reports_of a p 0 rows = ret rows"
| "reports_of a p (Suc n) rows = bnd (update_agent_pinfo_vols a p rows) (\<lambda>(ok, rows'). reports_of a p n rows')"

definition disk_row :: "string \<Rightarrow> string \<Rightarrow> bool \<Rightarrow> vrow" where
  "disk_row name dev arch = \<lparr>vr_agentid = 1, vr_name = Some name, vr_path = (if arch then Some ''/var/palette/Data'' else None),
     vr_type = Some dev, vr_label = None, vr_format = None, vr_size = Some 100, vr_space = Some 90, vr_color = None,
     vr_archive = arch, vr_archive_limit = (if arch then Some 100 else None), vr_active = True\<rparr>"

lemmas report_defs = update_agent_pinfo_vols_def Let_def linux_agent_def two_disks_def disk_at_def agent0_def
   palette_data_dir_def sorted_volumes_def update_volume_def volume_name_def tell_space_def space_color_def world1_def world0_def conf0_def
   is_news_def build_volume_def is_archive_def holds_data_def path_join_def split_drive_def own_def disk_row_def bnd_def
   merge_volume_def or_old_def truthy_str_def is_sep_def

lemma first_report: "update_agent_pinfo_vols linux_agent two_disks [] world1 =
   (Inr (True, [disk_row ''/home'' ''/dev/sdb1'' False, disk_row ''/'' ''/dev/sda1'' True]), world1)"
  by (simp add: report_defs)
lemma second_report: "\<exists>rows'. update_agent_pinfo_vols linux_agent two_disks [disk_row ''/home'' ''/dev/sdb1'' False, disk_row ''/'' ''/dev/sda1'' True] world1 =
   (Inr (True, rows'), world1) \<and> map vr_name rows' = [Some ''/home'', Some ''/''] \<and> map vr_active rows' = [True,True] \<and> map vr_agentid rows' = [1,1]"
  by (simp add: report_defs)


section \<open>Events about the space on a volume\<close>

text \<open>The events about space, as the colours they stand for; the colour a row stands for.\<close>

fun space_event :: "event \<Rightarrow> char option" where
  "space_event (Event k d u) =
     (if k = EV ''DISK-USAGE-OKAY'' then Some CHR ''g''
      else if k = EV ''DISK-USAGE-ABOVE-LOW-WATERMARK'' then Some CHR ''y''
      else if k = EV ''DISK-USAGE-ABOVE-HIGH-WATERMARK'' then Some CHR ''r''
      else None)"

definition told_space :: "world \<Rightarrow> char list" where
  "told_space w = List.map_filter space_event (w_events w)"

definition space_level :: "vrow \<Rightarrow> char" where
  "space_level r = (case vr_color r of None \<Rightarrow> CHR ''g'' | Some c \<Rightarrow> c)"

definition heard :: "agent \<Rightarrow> world \<Rightarrow> bool" where
  "heard a w \<longleftrightarrow> ag_enabled a \<and> ag_displayname a \<noteq> None \<and> (\<forall>c k. space_key c = Some k \<longrightarrow> cf_event_known (w_conf w) k)"

text \<open>The space that a report tells of a drive that is not empty.\<close>

definition sane :: "reported_volume \<Rightarrow> bool" where
  "sane v \<longleftrightarrow> (\<exists>s f. rv_size v = Some s \<and> rv_space v = Some f \<and> 0 < s \<and> 0 \<le> f \<and> f \<le> s)"

definition reported_color :: "conf \<Rightarrow> reported_volume \<Rightarrow> char" where
  "reported_color c v =
     space_color (the (rv_size v) - the (rv_space v)) (the (rv_size v)) (cf_disk_watermark_low c) (cf_disk_watermark_high c)"

lemma is_news_level: "is_news c t \<longleftrightarrow> c \<noteq> (case t of None \<Rightarrow> CHR ''g'' | Some x \<Rightarrow> x)"
  by (auto simp: is_news_def split: option.splits)

lemma space_color_cases: "space_color u c l h \<in> {CHR ''r'', CHR ''y'', CHR ''g''}"
  by (simp add: space_color_def)

lemma merge_volume_space:
  "rv_size v = Some s \<Longrightarrow> vr_size (merge_volume a v d r) = Some s"
  "rv_space v = Some f \<Longrightarrow> vr_space (merge_volume a v d r) = Some f"
  "vr_color (merge_volume a v d r) = vr_color r"
  by (simp_all add: merge_volume_def Let_def or_old_def)

lemma tell_space_step:
  assumes "heard a w" and "sane v"
  shows "\<exists>r' w'. tell_space a v (merge_volume a v d r) w = (Inr r', w') \<and> w_conf w' = w_conf w \<and>
     space_level r' = reported_color (w_conf w) v \<and>
     told_space w' = told_space w @ changes (space_level r) [reported_color (w_conf w) v]"
proof -
  obtain s f where v: "rv_size v = Some s" "rv_space v = Some f" "0 < s" "0 \<le> f" "f \<le> s"
    using assms(2) by (auto simp: sane_def)
  obtain n where n: "ag_displayname a = Some n" and "ag_enabled a" using assms(1) by (auto simp: heard_def)
  let ?c = "reported_color (w_conf w) v"
  have c: "?c = space_color (s - f) s (cf_disk_watermark_low (w_conf w)) (cf_disk_watermark_high (w_conf w))"
    using v by (simp add: reported_color_def)
  have size: "sizestr x u = (Inr (scaled SYMBOLS (nat x)), u)" if "0 \<le> x" for x u
    using that by (simp add: sizestr_def)
  obtain p where p: "percent_used (s - f) s = ret p" using v(3) by (simp add: percent_used_def)
  obtain k where k: "space_key ?c = Some k" "space_event (Event k d u) = Some ?c" for d u
    using space_color_cases [of "s - f" s "cf_disk_watermark_low (w_conf w)" "cf_disk_watermark_high (w_conf w)"]
    unfolding c [symmetric] by (auto simp: space_key_def)
  have known: "cf_event_known (w_conf w) k" using assms(1) k by (auto simp: heard_def)
  show ?thesis
  proof (cases "is_news ?c (vr_color r)")
    case True
    then have "?c \<noteq> space_level r" by (simp add: is_news_level space_level_def)
    with True show ?thesis
      using n v p k known \<open>ag_enabled a\<close>
      by (simp add: tell_space_def merge_volume_space Let_def bnd_def sq_def c [symmetric] gen_disk_event_def size gen_def
          agent_todict_def told_space_def List.map_filter_def space_level_def)
  next
    case False
    then have "?c = space_level r" by (simp add: is_news_level space_level_def)
    with False show ?thesis
      using n v 
      by (simp add: tell_space_def merge_volume_space Let_def bnd_def c [symmetric] space_level_def)
  qed
qed

text \<open>One volume in several reports, in order.\<close>

definition space_reports :: "agent \<Rightarrow> string \<Rightarrow> reported_volume list \<Rightarrow> vrow \<Rightarrow> vrow io" where
  "space_reports a d = fold_m (\<lambda>v r. tell_space a v (merge_volume a v d r))"

lemma space_reports_run:
  "heard a w \<Longrightarrow> list_all sane vs \<Longrightarrow> \<exists>r' w'. space_reports a d vs r w = (Inr r', w') \<and>
     told_space w' = told_space w @ changes (space_level r) (map (reported_color (w_conf w)) vs)"
proof (induction vs arbitrary: r w)
  case Nil
  then show ?case by (simp add: space_reports_def)
next
  case (Cons v vs)
  then obtain r1 w1 where one: "tell_space a v (merge_volume a v d r) w = (Inr r1, w1)" "w_conf w1 = w_conf w"
      "space_level r1 = reported_color (w_conf w) v"
      "told_space w1 = told_space w @ changes (space_level r) [reported_color (w_conf w) v]"
    using tell_space_step [of a w v d r] by auto
  have "heard a w1" using Cons.prems(1) one(2) by (simp add: heard_def)
  with Cons.IH [of w1 r1] Cons.prems(2) obtain r' w' where rest: "space_reports a d vs r1 w1 = (Inr r', w')"
      "told_space w' = told_space w1 @ changes (space_level r1) (map (reported_color (w_conf w1)) vs)"
    by auto
  then show ?case
    using one by (intro exI [of _ r'] exI [of _ w']) (auto simp: space_reports_def bnd_def)
qed

text \<open>
  C28: over any sequence of reports of a drive that is not empty, the events about its space tell
  exactly the changes in the sequence of the colours green, yellow and red that its shares in use
  have: no event for a drive that is green from the start, none that repeats the one before.
\<close>

theorem space_events_are_changes:
  assumes "heard a w" and "list_all sane vs" and "told_space w = []"
  shows "\<exists>r' w'. space_reports a d vs r w = (Inr r', w') \<and>
     told_space w' = changes (space_level r) (map (reported_color (w_conf w)) vs) \<and>
     successively (\<noteq>) (space_level r # told_space w')"
  using space_reports_run [OF assms(1,2), of d r] assms(3) changes_successive [of "space_level r"] by auto

definition filled :: "int \<Rightarrow> reported_volume" where
  "filled n = (disk_at ''/'' ''/dev/sda1'')\<lparr>rv_space := Some (100 - n)\<rparr>"

definition watched_world :: world where
  "watched_world = world1\<lparr>w_conf := conf0\<lparr>cf_disk_watermark_low := 80, cf_disk_watermark_high := 90\<rparr>\<rparr>"

theorem space_events_are_changes_witness:
  "\<exists>r' w'. space_reports linux_agent ''/d'' (map filled [10, 85, 86, 95, 40]) (disk_row ''/'' ''/dev/sda1'' True) watched_world =
     (Inr r', w') \<and> told_space w' = ''yrg''"
proof -
  have hyps: "heard linux_agent watched_world" "list_all sane (map filled [10, 85, 86, 95, 40])" "told_space watched_world = []"
    by (simp_all add: heard_def linux_agent_def agent0_def watched_world_def world1_def world0_def conf0_def sane_def filled_def
        disk_at_def told_space_def List.map_filter_def)
  have "changes (space_level (disk_row ''/'' ''/dev/sda1'' True)) (map (reported_color (w_conf watched_world)) (map filled [10, 85, 86, 95, 40])) = ''yrg''"
    by (simp add: space_level_def disk_row_def reported_color_def filled_def disk_at_def watched_world_def space_color_def)
  then show ?thesis using space_events_are_changes [OF hyps, of "''/d''" "disk_row ''/'' ''/dev/sda1'' True"] by auto
qed

text \<open>
  A drive whose size is zero once an event about it has been sent, an emptied card reader for
  one, makes the next report of the agent fail with a division by zero, before any row is written.
\<close>

theorem empty_drive_divides_by_zero:
  assumes "pi_volumes pinfo = Some [v]" and "rv_name v \<noteq> None" and "rv_size v = Some 0" "rv_space v = Some 0"
    and "ag_agent_type a \<noteq> None" "ag_displayname a \<noteq> None" "palette_data_dir a pinfo \<noteq> None"
    and "filter (own a (volume_name a v)) rows = [r]" and "vr_color r = Some CHR ''y'' \<or> vr_color r = Some CHR ''r''"
  shows "update_agent_pinfo_vols a pinfo rows w = (Inl (ZeroDivisionError ''float division by zero''), w)"
proof -
  let ?idle = "map (\<lambda>r. if vr_agentid r = ag_agentid a then r\<lparr>vr_active := False\<rparr> else r) rows"
  have f: "filter (own a n) (map (\<lambda>r. if vr_agentid r = ag_agentid a then r\<lparr>vr_active := False\<rparr> else r) xs) =
      map (\<lambda>r. r\<lparr>vr_active := False\<rparr>) (filter (own a n) xs)" for n xs
  proof (induction xs)
    case (Cons x xs)
    have "own a n (x\<lparr>vr_active := False\<rparr>) = own a n x" "own a n x \<Longrightarrow> vr_agentid x = ag_agentid a" by (simp_all add: own_def)
    with Cons show ?case by (cases "own a n x") simp_all
  qed simp
  have idle: "filter (own a (volume_name a v)) ?idle = [r\<lparr>vr_active := False\<rparr>]" using assms(8) by (simp add: f)
  show ?thesis
    using assms idle
    by (auto simp: update_agent_pinfo_vols_def Let_def sorted_volumes_def update_volume_def tell_space_def merge_volume_space
        space_color_def is_news_def percent_used_def bnd_def)
qed

theorem empty_drive_divides_by_zero_witness:
  "fst (update_agent_pinfo_vols linux_agent (two_disks\<lparr>pi_volumes := Some [(disk_at ''/'' ''/dev/sda1'')\<lparr>rv_size := Some 0, rv_space := Some 0\<rparr>]\<rparr>)
     [(disk_row ''/'' ''/dev/sda1'' True)\<lparr>vr_color := Some CHR ''r''\<rparr>] watched_world) = Inl (ZeroDivisionError ''float division by zero'')"
  by (subst empty_drive_divides_by_zero)
    (auto simp: two_disks_def disk_at_def linux_agent_def agent0_def palette_data_dir_def own_def volume_name_def disk_row_def)

end
