(* ===== verification/SystemTable.thy ===== *)
theory SystemTable
  imports Maint "HOL-Library.AList"
begin

text \<open>
  The system table of \<open>system/__init__.py\<close>, \<open>keys.py\<close> and \<open>defaults.py\<close>: a table of key and text
  in which every value is stored as text, the type of a key being read off its default.
\<close>

section \<open>Keys and defaults\<close>

datatype ptype = PyInt | PyBool | PyStr

text \<open>A default is a plain value, or a dictionary that may hold a value, a type and a flag.\<close>

datatype setting = Plain jval | Detailed "jval option" "ptype option" "bool option"

definition UNDEFINED_INTEGER :: setting where "UNDEFINED_INTEGER = Detailed (Some JNull) (Some PyInt) None"
definition UNPOPULATED_TRUE :: setting where "UNPOPULATED_TRUE = Detailed (Some (JBool True)) None (Some False)"
definition UNPOPULATED_FALSE :: setting where "UNPOPULATED_FALSE = Detailed (Some (JBool False)) None (Some False)"

definition HTTP_LOAD_RE :: string where
  "HTTP_LOAD_RE = ''.+('' @ CHR 0x5C # ''.(xml|png|pdf)('' @ CHR 0x5C # ''Z|'' @ CHR 0x5C # ''?)|format=(xml|png|pdf))''"

definition SYSTEM_KEYS :: "(string \<times> string) list" where
  "SYSTEM_KEYS =
    [(''STORAGE_ENCRYPT'', ''storage-encrypt''), (''BACKUP_AUTO_RETAIN_COUNT'', ''backup-auto-retain-count''),
     (''BACKUP_USER_RETAIN_COUNT'', ''backup-user-retain-count''), (''BACKUP_DEST_TYPE'', ''backup-dest-type''),
     (''BACKUP_DEST_ID'', ''backup-dest-id''), (''BACKUP_SCHEDULED_PERIOD'', ''backup-scheduled-period''),
     (''BACKUP_SCHEDULED_HOUR'', ''backup-scheduled-hour''),
     (''BACKUP_SCHEDULED_MINUTE'', ''backup-scheduled-minute''),
     (''BACKUP_SCHEDULED_AMPM'', ''backup-scheuled-ampm''),
     (''BACKUP_SCHEDULED_ENABLED'', ''backup-scheduled-enabled''),
     (''ZIPLOG_AUTO_RETAIN_COUNT'', ''ziplog-auto-retain-count''),
     (''ZIPLOG_USER_RETAIN_COUNT'', ''ziplog-user-retain-count''), (''ZIPLOG_ENABLED'', ''ziplog-enabled''),
     (''ZIPLOG_SCHEDULED_ENABLED'', ''ziplog-scheduled-enabled''), (''ARCHIVE_SAVE_TWBX'', ''archive-save-twbx''),
     (''WORKBOOKS_AS_TWB'', ''workbooks-as-twb''), (''WORKBOOK_ARCHIVE_ENABLED'', ''workbook-archive-enabled''),
     (''WORKBOOK_RETAIN_COUNT'', ''workbook-retain-count''), (''WORKBOOK_LOAD_WARN'', ''workbook-load-warn''),
     (''WORKBOOK_LOAD_ERROR'', ''workbook-load-error''),
     (''DATASOURCE_ARCHIVE_ENABLED'', ''datasource-archive-enabled''),
     (''DATASOURCE_RETAIN_COUNT'', ''datasource-retain-count''),
     (''DATASOURCE_SAVE_TDSX'', ''datasource-save-tdsx''),
     (''LOG_ARCHIVE_RETAIN_COUNT'', ''log-archive-retain-count''), (''WATERMARK_LOW'', ''disk-watermark-low''),
     (''WATERMARK_HIGH'', ''disk-watermark-high''), (''EXTRACT_DURATION_WARN'', ''extract-duration-warn''),
     (''EXTRACT_DURATION_ERROR'', ''extract-duration-error''), (''EXTRACT_DELAY_WARN'', ''extract-delay-warn''),
     (''EXTRACT_DELAY_ERROR'', ''extract-delay-error''),
     (''EXTRACT_REFRESH_WB_RETAIN_COUNT'', ''extract-refresh-wb-retain-count''),
     (''EXTRACT_REFRESH_DS_RETAIN_COUNT'', ''extract-refresh-ds-retain-count''),
     (''EXTRACT_RETAIN_COUNT'', ''extract-refresh-wb-retain-count''), (''HTTP_LOAD_WARN'', ''http-load-warn''),
     (''HTTP_LOAD_ERROR'', ''http-load-error''), (''HTTP_LOAD_RE'', ''http-load-re''),
     (''CPU_LOAD_WARN'', ''cpu-load-warn''), (''CPU_LOAD_ERROR'', ''cpu-load-error''),
     (''CPU_PERIOD_WARN'', ''cpu-period-warn''), (''CPU_PERIOD_ERROR'', ''cpu-period-error''),
     (''METRIC_SAVE_DAYS'', ''metric-save-days''), (''ALERTS_ENABLED'', ''alerts-enabled''),
     (''ALERTS_ADMIN_ENABLED'', ''alerts-admin-enabled''),
     (''ALERTS_PUBLISHER_ENABLED'', ''alerts-publisher-enabled''),
     (''ALERTS_NEW_USER_ENABLED'', ''alerts-new-user-enabled''),
     (''EMAIL_LOOKBACK_MINUTES'', ''email-lookback-minutes''), (''EMAIL_MAX_COUNT'', ''email-max-count''),
     (''EMAIL_SPIKE_DISABLED_ALERTS'', ''email-spike-disabled-alerts''),
     (''EMAIL_MUTE_RECONNECT_SECONDS'', ''email-mute-reconnect-seconds''),
     (''PALETTE_VERSION'', ''palette-version''), (''PALETTE_LOGIN'', ''palette-login''),
     (''UPGRADING'', ''upgrading''), (''STATE'', ''state''), (''DEBUG_LEVEL'', ''debug-level''),
     (''FROM_EMAIL'', ''from-email''), (''EVENT_DEGRADED_MIN'', ''event-degraded-min''),
     (''MAIL_SERVER_TYPE'', ''mail-server-type''), (''MAIL_DOMAIN'', ''mail-domain''),
     (''MAIL_ENABLE_TLS'', ''mail-enable-tls''), (''MAIL_SMTP_SERVER'', ''mail-smtp-server''),
     (''MAIL_SMTP_PORT'', ''mail-smtp-port''), (''MAIL_USERNAME'', ''mail-username''),
     (''MAIL_PASSWORD'', ''mail-password''), (''SERVER_URL'', ''server-url''),
     (''TABLEAU_SERVER_URL'', ''tableau-server-url''),
     (''TABLEAU_INTERNAL_SERVER_URL'', ''tableau-internal-server-url''),
     (''AUTHENTICATION_TYPE'', ''authentication-type''), (''ACTIVE_DIRECTORY_AGENT'', ''active-directory-agent''),
     (''COMPANY_NAME'', ''company-name''), (''SOCKET_TIMEOUT'', ''socket-timeout''),
     (''PING_REQUEST_INTERVAL'', ''ping-request-interval''), (''SSL_HANDSHAKE_TIMEOUT'', ''ssl-handshake-timeout''),
     (''TIMEZONE'', ''timezone''), (''CONTROLLER_INITIAL_START'', ''controller-initial-start''),
     (''STATUS_REQUEST_INTERVAL'', ''status-request-interval''), (''STATUS_SYSTEMINFO'', ''status-systeminfo''),
     (''STATUS_SYSTEMINFO_ONLY'', ''status-systeminfo-only''),
     (''STATUS_SYSTEMINFO_SEND_ALERTS'', ''status-systeminfo-send-alerts''),
     (''STATUS_SYSTEMINFO_TIMEOUT_MS'', ''status-systeminfo-timeout-ms''), (''TABCMD_TIMEOUT'', ''tabcmd-timeout''),
     (''PROXY_HTTPS'', ''proxy-https''), (''MAX_SILENCE_TIME'', ''max-silence-time''),
     (''SUPPORT_ENABLED'', ''support-enabled''), (''AUTO_UPDATE_ENABLED'', ''auto-update-enabled''),
     (''S3_ID'', ''s3-id''), (''GCS_ID'', ''gcs-id''), (''SUPPORT_CASE_BUCKET'', ''support-case-bucket''),
     (''SUPPORT_CASE_EMAIL'', ''support-case-email''), (''ANONYMOUS_ACCESS_KEY'', ''anonymous-access-key''),
     (''ANONYMOUS_SECRET_KEY'', ''anonymous-secret-key''), (''PLATFORM_PRODUCT'', ''platform-product''),
     (''PLATFORM_IMAGE'', ''platform-image''), (''PLATFORM_LOCATION'', ''platform-location''),
     (''AUTH_TIMESTAMP'', ''auth-timestamp''), (''YML_TIMESTAMP'', ''yml-timestamp''),
     (''YML_LOCATION'', ''yml-location'')]"

definition DEFAULTS :: "(string \<times> setting) list" where
  "DEFAULTS =
    [(''disk-watermark-low'', Plain (JInt 101)), (''disk-watermark-high'', Plain (JInt 101)),
     (''storage-encrypt'', Plain (JBool False)), (''archive-save-twbx'', Plain (JBool True)),
     (''workbooks-as-twb'', Plain (JBool False)), (''workbook-archive-enabled'', Plain (JBool False)),
     (''workbook-load-warn'', Plain (JInt 0)), (''workbook-load-error'', Plain (JInt 0)),
     (''workbook-retain-count'', Plain (JInt 0)), (''backup-user-retain-count'', Plain (JInt 1)),
     (''backup-auto-retain-count'', Plain (JInt 1)), (''backup-scheduled-period'', Plain (JInt 24)),
     (''backup-scheduled-hour'', Plain (JInt 12)), (''backup-scheduled-minute'', Plain (JStr ''00'')),
     (''backup-scheuled-ampm'', Plain (JStr ''AM'')), (''backup-scheduled-enabled'', Plain (JBool True)),
     (''backup-dest-type'', Plain (JStr ''vol'')), (''backup-dest-id'', UNDEFINED_INTEGER),
     (''ziplog-enabled'', UNPOPULATED_TRUE), (''ziplog-scheduled-enabled'', UNPOPULATED_TRUE),
     (''ziplog-user-retain-count'', Plain (JInt 1)), (''ziplog-auto-retain-count'', Plain (JInt 1)),
     (''log-archive-retain-count'', Plain (JInt 1)), (''extract-duration-warn'', Plain (JInt 0)),
     (''extract-duration-error'', Plain (JInt 0)), (''extract-delay-warn'', Plain (JInt 0)),
     (''extract-delay-error'', Plain (JInt 0)), (''extract-refresh-wb-retain-count'', Plain (JInt 0)),
     (''extract-refresh-ds-retain-count'', Plain (JInt 0)), (''http-load-warn'', Plain (JInt 0)),
     (''http-load-error'', Plain (JInt 0)), (''http-load-re'', Plain (JStr HTTP_LOAD_RE)),
     (''datasource-archive-enabled'', Plain (JBool False)), (''datasource-retain-count'', Plain (JInt 0)),
     (''datasource-save-tdsx'', Plain (JBool True)), (''ping-request-interval'', Plain (JInt 30)),
     (''socket-timeout'', Plain (JInt 60)), (''ssl-handshake-timeout'', Plain (JInt 5)),
     (''event-degraded-min'', Plain (JInt 30)), (''status-request-interval'', Plain (JInt 30)),
     (''status-systeminfo'', Plain (JBool True)), (''status-systeminfo-only'', Plain (JBool False)),
     (''status-systeminfo-send-alerts'', Plain (JBool False)),
     (''status-systeminfo-timeout-ms'', Plain (JInt 15000)), (''tabcmd-timeout'', Plain (JInt 600)),
     (''alerts-enabled'', Plain (JBool True)), (''alerts-admin-enabled'', Plain (JBool False)),
     (''alerts-publisher-enabled'', Plain (JBool False)), (''alerts-new-user-enabled'', Plain (JBool False)),
     (''cpu-load-warn'', Plain (JInt 101)), (''cpu-load-error'', Plain (JInt 101)),
     (''cpu-period-warn'', Plain (JInt 60)), (''cpu-period-error'', Plain (JInt 60)),
     (''metric-save-days'', Plain (JInt 735)), (''max-silence-time'', Plain (JInt (72 * 60 * 60))),
     (''upgrading'', Plain (JBool False)), (''debug-level'', Plain (JStr ''DEBUG'')),
     (''controller-initial-start'', UNPOPULATED_FALSE), (''palette-version'', Plain JNull),
     (''authentication-type'', Plain (JInt 1)), (''active-directory-agent'', Plain JNull),
     (''palette-login'', Plain (JBool True)), (''support-enabled'', Plain (JBool False)),
     (''auto-update-enabled'', Plain (JBool True)), (''from-email'', Plain (JStr '''')),
     (''email-max-count'', Plain (JInt 10)), (''email-spike-disabled-alerts'', UNPOPULATED_FALSE),
     (''email-lookback-minutes'', Plain (JInt 10)), (''email-mute-reconnect-seconds'', Plain (JInt 0)),
     (''mail-server-type'', Plain (JInt 3)), (''mail-smtp-server'', Plain JNull),
     (''mail-smtp-port'', UNDEFINED_INTEGER), (''mail-username'', Plain JNull), (''mail-password'', Plain JNull),
     (''mail-domain'', Plain JNull), (''mail-enable-tls'', UNPOPULATED_FALSE),
     (''server-url'', Plain (JStr ''https://localhost'')), (''tableau-server-url'', Plain JNull),
     (''tableau-internal-server-url'', Plain JNull), (''timezone'', Plain (JStr ''US/Pacific'')),
     (''proxy-https'', Plain JNull), (''company-name'', Plain JNull), (''state'', Plain (JStr ''DISCONNECTED'')),
     (''s3-id'', UNDEFINED_INTEGER), (''gcs-id'', UNDEFINED_INTEGER),
     (''support-case-bucket'', Plain (JStr ''palette-support-case'')),
     (''support-case-email'', Plain (JStr ''support@tableau.com'')), (''anonymous-access-key'', Plain (JStr '''')),
     (''anonymous-secret-key'', Plain (JStr '''')),
     (''platform-product'', Detailed (Some (JStr ''enterprise'')) None (Some False)),
     (''platform-image'', Detailed (Some (JStr ''vmware'')) None (Some False)),
     (''platform-location'', Detailed (Some (JStr ''customer'')) None (Some False)),
     (''auth-timestamp'', Plain JNull), (''yml-location'', Plain JNull), (''yml-timestamp'', Plain JNull)]"

section \<open>Types of keys\<close>

text \<open>\<open>base_data_type\<close>: \<open>None\<close> is \<open>dict\<close>.\<close>

fun base_data_type :: "setting \<Rightarrow> ptype option" where
  "base_data_type (Plain JNull) = Some PyStr"
| "base_data_type (Plain (JStr s)) = Some PyStr"
| "base_data_type (Plain (JBool b)) = Some PyBool"
| "base_data_type (Plain (JInt i)) = Some PyInt"
| "base_data_type _ = None"

definition setting_type :: "setting \<Rightarrow> pyexn + ptype" where
  "setting_type value =
     (case base_data_type value of
        Some t \<Rightarrow> Inr t
      | None \<Rightarrow>
          (case value of
             Detailed v (Some t) p \<Rightarrow> Inr t
           | Detailed (Some v) None p \<Rightarrow>
               (case base_data_type (Plain v) of Some t \<Rightarrow> Inr t | None \<Rightarrow> Inl (TypeError ''dict object is not callable''))
           | _ \<Rightarrow> Inl (KeyError ''value'')))"

definition data_type :: "string \<Rightarrow> pyexn + ptype" where
  "data_type key = (case map_of DEFAULTS key of None \<Rightarrow> Inl (KeyError key) | Some value \<Rightarrow> setting_type value)"

text \<open>\<open>DEFAULTS.default\<close>, and what \<open>__getitem__\<close> reads of a default\<close>

definition default_value :: "setting \<Rightarrow> jval" where
  "default_value s = (case s of Plain v \<Rightarrow> v | Detailed (Some v) t p \<Rightarrow> v | Detailed None t p \<Rightarrow> JNull)"

section \<open>Casts\<close>

text \<open>\<open>jshow\<close> is \<open>str(value)\<close> of a number, a truth value, a text or \<open>None\<close>; no other value is stored.\<close>

definition str2bool :: "jval \<Rightarrow> bool" where
  "str2bool v \<longleftrightarrow> truthy v \<and> lower (jshow v) \<in> {''true'', ''1'', ''yes''}"

fun to_int :: "jval \<Rightarrow> pyexn + int" where
  "to_int (JInt i) = Inr i"
| "to_int (JBool b) = Inr (if b then 1 else 0)"
| "to_int (JStr s) = (case parse_int s of Some i \<Rightarrow> Inr i | None \<Rightarrow> Inl (ValueError (''invalid literal for int() with base 10: '' @ s)))"
| "to_int _ = Inl (TypeError ''int() argument must be a string or a number'')"

definition cast :: "string \<Rightarrow> jval \<Rightarrow> pyexn + jval" where
  "cast key value =
     (if value = JNull then Inr JNull
      else
        (case data_type key of
           Inl e \<Rightarrow> Inl e
         | Inr PyBool \<Rightarrow> Inr (JBool (str2bool value))
         | Inr PyInt \<Rightarrow> (case to_int value of Inl e \<Rightarrow> Inl e | Inr i \<Rightarrow> Inr (JInt i))
         | Inr PyStr \<Rightarrow> Inr (JStr (jshow value))))"

section \<open>The table\<close>

type_synonym systab = "(string \<times> string) list"

definition sys_get :: "systab \<Rightarrow> string \<Rightarrow> pyexn + jval" where
  "sys_get t key =
     (case map_of t key of
        Some v \<Rightarrow> cast key (JStr v)
      | None \<Rightarrow>
          (case map_of DEFAULTS key of
             None \<Rightarrow> Inl (KeyError (''Invalid system key : '' @ key))
           | Some (Plain v) \<Rightarrow> Inr v
           | Some (Detailed (Some v) ty p) \<Rightarrow> Inr v
           | Some (Detailed None ty p) \<Rightarrow> Inl (KeyError ''value'')))"

definition sys_set :: "string \<Rightarrow> jval \<Rightarrow> systab \<Rightarrow> pyexn + systab" where
  "sys_set key value t =
     (case cast key value of Inl e \<Rightarrow> Inl e | Inr v \<Rightarrow> Inr (AList.update key (jshow v) t))"

definition sys_delete :: "string \<Rightarrow> systab \<Rightarrow> systab" where
  "sys_delete key t = AList.delete key t"

text \<open>\<open>populate\<close>; each default that is a dictionary has a value.\<close>

definition populated :: "setting \<Rightarrow> bool" where
  "populated s = (case s of Detailed v ty (Some p) \<Rightarrow> p | _ \<Rightarrow> True)"

definition populate :: "systab \<Rightarrow> systab" where
  "populate t =
     (if t \<noteq> [] then t
      else map (\<lambda>(key, s). (key, jshow (default_value s)))
        (filter (\<lambda>(key, s). populated s \<and> default_value s \<noteq> JNull) DEFAULTS))"

definition validate :: bool where
  "validate = list_all (\<lambda>(name, key). map_of DEFAULTS key \<noteq> None) SYSTEM_KEYS"

text \<open>\<open>todict\<close>: the keys with underscores or dashes.\<close>

definition prettyify :: "string \<Rightarrow> string" where
  "prettyify = map (\<lambda>c. if c = CHR ''_'' then CHR ''-'' else c)"

definition uglyify :: "string \<Rightarrow> string" where
  "uglyify = map (\<lambda>c. if c = CHR ''-'' then CHR ''_'' else c)"

definition translate_key :: "bool \<Rightarrow> string \<Rightarrow> string" where
  "translate_key pretty key = (if pretty then prettyify key else uglyify key)"

definition defaults_todict :: "bool \<Rightarrow> body" where
  "defaults_todict pretty = map_of (rev (map (\<lambda>(k, s). (translate_key pretty k, default_value s)) DEFAULTS))"

fun sys_todict :: "bool \<Rightarrow> (string \<times> string) list \<Rightarrow> body \<Rightarrow> pyexn + body" where
  "sys_todict pretty [] data = Inr data"
| "sys_todict pretty ((key, v) # rest) data =
     (case cast key (JStr v) of
        Inl e \<Rightarrow> Inl e
      | Inr x \<Rightarrow> sys_todict pretty rest (data(translate_key pretty key \<mapsto> x)))"

section \<open>Reading back\<close>

text \<open>A value of the type of a key.\<close>

fun of_type :: "ptype \<Rightarrow> jval \<Rightarrow> bool" where
  "of_type PyInt (JInt i) = True"
| "of_type PyBool (JBool b) = True"
| "of_type PyStr (JStr s) = True"
| "of_type _ _ = False"

lemma lower_bool: "lower ''True'' = ''true''" "lower ''False'' = ''false''"
  by code_simp+

lemma none_no_number: "parse_int ''None'' = None"
  by code_simp

lemma cast_back: "data_type key = Inr t \<Longrightarrow> of_type t v \<Longrightarrow> cast key (JStr (jshow v)) = Inr v"
  by (cases "(t, v)" rule: of_type.cases) (auto simp: cast_def parse_int_str str2bool_def lower_bool)

lemma cast_same: "data_type key = Inr t \<Longrightarrow> of_type t v \<Longrightarrow> cast key v = Inr v"
  by (cases "(t, v)" rule: of_type.cases) (auto simp: cast_def str2bool_def lower_bool)

lemma cast_typed: "cast key v = Inr x \<Longrightarrow> v \<noteq> JNull \<Longrightarrow> \<exists>t. data_type key = Inr t \<and> of_type t x"
  by (auto simp: cast_def split: sum.splits ptype.splits if_splits)


definition setting_ok :: "setting \<Rightarrow> bool" where
  "setting_ok s \<longleftrightarrow> (\<exists>t. setting_type s = Inr t \<and> (default_value s = JNull \<or> of_type t (default_value s))) \<and>
     (\<forall>ty p. s \<noteq> Detailed None ty p)"

lemma defaults_ok: "(key, s) \<in> set DEFAULTS \<Longrightarrow> setting_ok s"
proof -
  have "list_all setting_ok (map snd DEFAULTS)"
    by (simp add: DEFAULTS_def setting_ok_def setting_type_def UNDEFINED_INTEGER_def UNPOPULATED_TRUE_def
        UNPOPULATED_FALSE_def default_value_def)
  then show "(key, s) \<in> set DEFAULTS \<Longrightarrow> setting_ok s" by (force simp: list_all_iff)
qed

lemma distinct_defaults: "distinct (map fst DEFAULTS)"
  unfolding DEFAULTS_def by (simp only: list.map fst_conv distinct.simps list.set insert_iff empty_iff) simp

lemma validate_defaults: "validate"
proof -
  have "\<forall>k \<in> set (map snd SYSTEM_KEYS). k \<in> set (map fst DEFAULTS)"
    unfolding SYSTEM_KEYS_def DEFAULTS_def by (simp only: list.map fst_conv snd_conv list.set ball_simps insert_iff empty_iff simp_thms)
  then show ?thesis by (simp add: validate_def list_all_iff map_of_eq_None_iff case_prod_beta)
qed

text \<open>Setting up the table changes no value: what a key reads is its default, before and after.\<close>

lemma map_of_filtered:
  "distinct (map fst xs) \<Longrightarrow>
     map_of (map (\<lambda>(k, s). (k, f s)) (filter (\<lambda>(k, s). P s) xs)) k = (case map_of xs k of None \<Rightarrow> None | Some s \<Rightarrow> if P s then Some (f s) else None)"
  by (induction xs) (auto split: option.splits dest: map_of_SomeD simp: image_iff)

lemma populate_defaults: "sys_get (populate []) key = sys_get [] key"
proof (cases "map_of DEFAULTS key")
  case None
  then show ?thesis
    by (simp add: sys_get_def populate_def map_of_filtered [OF distinct_defaults])
next
  case (Some s)
  then have "(key, s) \<in> set DEFAULTS" by (rule map_of_SomeD)
  then have "setting_ok s" by (rule defaults_ok)
  then obtain t where t: "setting_type s = Inr t" "default_value s = JNull \<or> of_type t (default_value s)"
      and d: "\<forall>ty p. s \<noteq> Detailed None ty p"
    by (auto simp: setting_ok_def)
  have type: "data_type key = Inr t" using Some t(1) by (simp add: data_type_def)
  have default: "sys_get [] key = Inr (default_value s)"
    using Some d by (auto simp: sys_get_def default_value_def split: setting.splits option.splits)
  show ?thesis
    using Some t(2) default cast_back [OF type]
    by (auto simp: sys_get_def populate_def map_of_filtered [OF distinct_defaults] split: if_splits)
qed

text \<open>\<open>None\<close> is stored as the text \<open>None\<close>: it does not come back.\<close>

lemma none_does_not_come_back:
  "data_type key = Inr PyInt \<Longrightarrow> sys_set key JNull t = Inr t' \<Longrightarrow> \<exists>e. sys_get t' key = Inl (ValueError e)"
  "data_type key = Inr PyStr \<Longrightarrow> sys_set key JNull t = Inr t' \<Longrightarrow> sys_get t' key = Inr (JStr ''None'')"
  by (auto simp: sys_set_def cast_def sys_get_def update_conv' none_no_number)


text \<open>
  C37: whatever texts the table holds, a value that is read under a key has the type of that key's
  default, or is the \<open>None\<close> of a default; a text that is no such value raises, and so does an unknown key.
\<close>

theorem sys_get_typed:
  assumes "sys_get t key = Inr v"
  shows "\<exists>ty. data_type key = Inr ty \<and> (of_type ty v \<or> v = JNull \<and> map_of t key = None)"
proof (cases "map_of t key")
  case (Some s)
  then have "cast key (JStr s) = Inr v" using assms by (simp add: sys_get_def)
  then show ?thesis using cast_typed by blast
next
  case None
  then obtain s where s: "map_of DEFAULTS key = Some s" and v: "v = default_value s"
    using assms by (auto simp: sys_get_def default_value_def split: option.splits setting.splits)
  from defaults_ok [OF map_of_SomeD [OF s]] obtain ty where "setting_type s = Inr ty" "v = JNull \<or> of_type ty v"
    by (auto simp: setting_ok_def v)
  then show ?thesis using None s by (auto simp: data_type_def)
qed

theorem sys_get_typed_witness:
  "sys_get [(''workbook-retain-count'', ''3'')] ''workbook-retain-count'' = Inr (JInt 3) \<and>
   (\<exists>ty. data_type ''workbook-retain-count'' = Inr ty \<and> of_type ty (JInt 3))"
proof -
  have "parse_int ''3'' = Some 3" by code_simp
  then have "sys_get [(''workbook-retain-count'', ''3'')] ''workbook-retain-count'' = Inr (JInt 3)"
    by (simp add: sys_get_def cast_def data_type_def DEFAULTS_def setting_type_def)
  with sys_get_typed [OF this] show ?thesis by simp
qed

end
