(* ===== verification/Odbc.thy ===== *)
theory Odbc
  imports Volumes SystemTable
begin

text \<open>
  Queries to the Tableau repository (\<open>odbc.py\<close>) and the tables of the controller that are
  copies of Tableau's: sites, projects and data connections (\<open>sites.py\<close>, \<open>projects.py\<close>,
  \<open>data_connections.py\<close>, \<open>sync_cmd\<close> of \<open>controller.py\<close>).  A query is a request to the agent;
  what the parser of dates makes of a text is the parameter \<open>dt\<close>, in microseconds.
\<close>

section \<open>The controller with its tables\<close>

text \<open>A row is its primary key and its columns; a null column is missing or \<open>JNull\<close>.\<close>

record table =
  tb_rows :: "(nat \<times> body) list"
  tb_next :: nat

definition empty_table :: table where
  "empty_table = \<lparr>tb_rows = [], tb_next = 1\<rparr>"

record repo =
  rp_world :: world
  rp_system :: systab
  rp_volumes :: "vrow list"
  rp_busy :: "string list"
  rp_sites :: table
  rp_projects :: table
  rp_connections :: table
  rp_users :: table
  rp_extracts :: table
  rp_workbooks :: table
  rp_workbook_updates :: table
  rp_workbook_extracts :: table
  rp_datasources :: table
  rp_datasource_updates :: table
  rp_datasource_extracts :: table
  rp_sample_project :: jval
  rp_requests :: table
  rp_http_control :: table
  rp_firewall :: table

type_synonym 'a rio = "(repo, 'a) M"

definition on_world :: "'a io \<Rightarrow> 'a rio" where
  "on_world m = (\<lambda>r. case m (rp_world r) of (x, w) \<Rightarrow> (x, r\<lparr>rp_world := w\<rparr>))"

definition lift_repo :: "pyexn + 'a \<Rightarrow> 'a rio" where
  "lift_repo x = (\<lambda>r. (x, r))"

definition system_get :: "string \<Rightarrow> jval rio" where
  "system_get key = (\<lambda>r. (sys_get (rp_system r) key, r))"

definition system_set :: "string \<Rightarrow> jval \<Rightarrow> unit rio" where
  "system_set key v =
     (\<lambda>r. case sys_set key v (rp_system r) of Inl e \<Rightarrow> (Inl e, r) | Inr t \<Rightarrow> (Inr (), r\<lparr>rp_system := t\<rparr>))"

text \<open>\<open>@synchronized(label)\<close>: another thread that holds the manager's lock makes the call fail.\<close>

definition synchronized :: "string \<Rightarrow> body rio \<Rightarrow> body rio" where
  "synchronized label m =
     bnd (gets rp_busy) (\<lambda>busy. if label \<in> set busy then ret (error_body (label @ '': busy'')) else m)"

section \<open>Rows\<close>

text \<open>\<open>row[i]\<close>, and \<open>obj.column\<close>\<close>

definition cell :: "jval \<Rightarrow> nat \<Rightarrow> pyexn + jval" where
  "cell row i =
     (case row of
        JList xs \<Rightarrow> if i < length xs then Inr (xs ! i) else Inl (IndexError ''list index out of range'')
      | JStr s \<Rightarrow> if i < length s then Inr (JStr [s ! i]) else Inl (IndexError ''string index out of range'')
      | _ \<Rightarrow> Inl (TypeError ''object has no attribute __getitem__''))"

definition col :: "body \<Rightarrow> string \<Rightarrow> jval" where
  "col r c = (case r c of None \<Rightarrow> JNull | Some v \<Rightarrow> v)"

definition find_row :: "string \<Rightarrow> jval \<Rightarrow> table \<Rightarrow> (nat \<times> body) option" where
  "find_row c v t = find (\<lambda>(k, r). col r c = v) (tb_rows t)"

definition set_row :: "nat \<Rightarrow> body \<Rightarrow> table \<Rightarrow> table" where
  "set_row k r t = t\<lparr>tb_rows := map (\<lambda>(k', r'). if k' = k then (k, r) else (k', r')) (tb_rows t)\<rparr>"

definition add_row :: "body \<Rightarrow> table \<Rightarrow> table" where
  "add_row r t = t\<lparr>tb_rows := tb_rows t @ [(tb_next t, r)], tb_next := tb_next t + 1\<rparr>"

text \<open>The rows of an answer: \<open>data['']\<close>.\<close>

definition answer_rows :: "body \<Rightarrow> pyexn + jval list" where
  "answer_rows data =
     (case data '''' of
        None \<Rightarrow> Inl (KeyError '''')
      | Some (JList rows) \<Rightarrow> Inr rows
      | Some _ \<Rightarrow> Inl (TypeError ''object is not iterable''))"

section \<open>\<open>ODBC\<close>\<close>

definition READONLY_ERROR_TEXT :: string where
  "READONLY_ERROR_TEXT = ''The Tableau database readonly user access is disabled.''"

definition or_default :: "'a \<Rightarrow> 'a option \<Rightarrow> 'a" where
  "or_default d x = (case x of None \<Rightarrow> d | Some y \<Rightarrow> y)"

definition odbc_host :: "(string \<Rightarrow> string option) \<Rightarrow> string" where
  "odbc_host yml =
     (case yml ''pgsql.worker_id'' of
        None \<Rightarrow> ''127.0.0.1''
      | Some worker \<Rightarrow> or_default ''127.0.0.1'' (yml (''pgsql'' @ worker @ ''.host'')))"

text \<open>The default of the port is a number: a text and a number cannot be joined.\<close>

definition odbc_connection :: "(string \<Rightarrow> string option) \<Rightarrow> pyexn + string" where
  "odbc_connection yml =
     (let port = (case yml ''pgsql.worker_id'' of
                    None \<Rightarrow> Some ''8060''
                  | Some worker \<Rightarrow> yml (''pgsql'' @ worker @ ''.port'')) in
      if yml ''pgsql.readonly.enabled'' \<noteq> Some ''true'' then Inl (RuntimeError READONLY_ERROR_TEXT)
      else (case port of
              None \<Rightarrow> Inl (TypeError ''cannot concatenate str and int objects'')
            | Some p \<Rightarrow> Inr (''DRIVER={PostgreSQL Unicode(x64)}; Server='' @ odbc_host yml @ ''; Port='' @ p @
                ''; Database=workgroup; sslmode=preferred;'')))"

definition odbc_execute :: "agent \<Rightarrow> string \<Rightarrow> body io" where
  "odbc_execute a stmt =
     bnd (gets w_yml) (\<lambda>yml. case odbc_connection yml of
       Inl (RuntimeError s) \<Rightarrow> ret (error_body s)
     | Inl e \<Rightarrow> raise e
     | Inr c \<Rightarrow> send_immediate a ''POST'' ''/sql'' [''connection'' \<mapsto> JStr c, ''select-statement'' \<mapsto> JStr stmt])"

text \<open>
  \<open>get_db_now_utc\<close>: the time in microseconds, or the answer itself when it is an error.
\<close>

definition get_db_now_utc :: "(string \<Rightarrow> int option) \<Rightarrow> agent \<Rightarrow> (body + int) io" where
  "get_db_now_utc strptime a =
     bnd (odbc_execute a ''select now()'') (\<lambda>d.
       if failed d \<or> d '''' = None then ret (Inl d)
       else bnd (gets w_now) (\<lambda>now.
         case d '''' of
           Some (JList (JList (JStr time # _) # _)) \<Rightarrow>
             (case strptime (hd (split_on (CHR ''.'') time)) of
                Some t \<Rightarrow> ret (Inr t)
              | None \<Rightarrow> ret (Inr (int now * 1000000)))
         | Some (JList []) \<Rightarrow> ret (Inr (int now * 1000000))
         | Some (JList (JList [] # _)) \<Rightarrow> ret (Inr (int now * 1000000))
         | Some (JList (JStr _ # _)) \<Rightarrow> ret (Inr (int now * 1000000))
         | Some (JList (JList _ # _)) \<Rightarrow> raise (AttributeError ''find'')
         | _ \<Rightarrow> raise (TypeError ''object has no len()'')))"

text \<open>The columns and their types; a column that is named twice keeps its first place.\<close>

fun schema_from :: "jval list \<Rightarrow> (string \<times> string) list \<Rightarrow> pyexn + (string \<times> string) list" where
  "schema_from [] d = Inr d"
| "schema_from (x # JStr c # JStr ty # rest) d =
     schema_from rest (AList.update c (if starts_with ''System.'' ty then drop 7 ty else ty) d)"
| "schema_from (x # c # ty # rest) d = Inl (AttributeError ''startswith'')"
| "schema_from _ d = Inl (IndexError ''list index out of range'')"

definition odbc_schema :: "body \<Rightarrow> pyexn + (string \<times> string) list" where
  "odbc_schema data =
     (case data ''$schema'' of
        Some (JDict s) \<Rightarrow>
          (case s ''Info'' of
             Some (JList info) \<Rightarrow> schema_from info []
           | Some _ \<Rightarrow> Inl (TypeError ''object has no len()'')
           | None \<Rightarrow> Inl (KeyError ''Info''))
      | Some _ \<Rightarrow> Inl (TypeError ''string indices must be integers'')
      | None \<Rightarrow> Inl (KeyError ''$schema''))"

definition ends_with :: "string \<Rightarrow> string \<Rightarrow> bool" where
  "ends_with p s = starts_with (rev p) (rev s)"

definition odbc2dt :: "(string \<Rightarrow> int option) \<Rightarrow> jval \<Rightarrow> pyexn + jval" where
  "odbc2dt dt v =
     (case v of
        JNull \<Rightarrow> Inr JNull
      | JStr s \<Rightarrow> (case dt s of Some t \<Rightarrow> Inr (JInt t) | None \<Rightarrow> Inl (ValueError ''Unknown string format''))
      | _ \<Rightarrow> Inl (AttributeError ''read''))"

definition iso_date :: "string \<Rightarrow> string" where
  "iso_date s =
     (if s \<noteq> [] \<and> ends_with ''Z'' s then map (\<lambda>c. if c = CHR '' '' then CHR ''T'' else c) s else s)"

fun odbc_cells :: "(string \<Rightarrow> int option) \<Rightarrow> (string \<times> string) list \<Rightarrow> nat \<Rightarrow> jval \<Rightarrow> pyexn + (string \<times> jval) list" where
  "odbc_cells dt [] i row = Inr []"
| "odbc_cells dt ((c, ty) # rest) i row =
     (case cell row i of
        Inl e \<Rightarrow> Inl e
      | Inr v \<Rightarrow>
          (case (if ty \<noteq> ''DateTime'' then Inr v
                 else (case v of
                     JStr s \<Rightarrow> odbc2dt dt (JStr (iso_date s))
                   | x \<Rightarrow> if truthy x then Inl (AttributeError ''endswith'') else odbc2dt dt x)) of
             Inl e \<Rightarrow> Inl e
           | Inr x \<Rightarrow>
               (case odbc_cells dt rest (i + 1) row of
                  Inl e \<Rightarrow> Inl e
                | Inr d \<Rightarrow> Inr ((c, x) # d))))"

fun traverse :: "('a \<Rightarrow> pyexn + 'b) \<Rightarrow> 'a list \<Rightarrow> pyexn + 'b list" where
  "traverse f [] = Inr []"
| "traverse f (x # xs) =
     (case f x of
        Inl e \<Rightarrow> Inl e
      | Inr y \<Rightarrow> (case traverse f xs of Inl e \<Rightarrow> Inl e | Inr ys \<Rightarrow> Inr (y # ys)))"

definition odbc_load :: "(string \<Rightarrow> int option) \<Rightarrow> body \<Rightarrow> pyexn + (string \<times> jval) list list" where
  "odbc_load dt data =
     (case odbc_schema data of
        Inl e \<Rightarrow> Inl e
      | Inr schema \<Rightarrow>
          (case answer_rows data of
             Inl e \<Rightarrow> Inl e
           | Inr rows \<Rightarrow> traverse (odbc_cells dt schema 0) rows))"

definition copyto :: "string list \<Rightarrow> (string \<times> jval) list \<Rightarrow> body \<Rightarrow> body" where
  "copyto excludes d r = r ++ map_of (filter (\<lambda>(c, v). c \<notin> set excludes) d)"

section \<open>Copies of Tableau's tables\<close>

text \<open>
  One row of an answer: the row with the same \<open>id\<close> is changed, or a new one added.  The key of
  each row is noted for the clean-up; a new row has none yet, since the session has not been
  flushed when its key is read.
\<close>

fun assign_cells :: "string list \<Rightarrow> nat \<Rightarrow> jval \<Rightarrow> body \<Rightarrow> pyexn + body" where
  "assign_cells [] i row r = Inr r"
| "assign_cells (c # cs) i row r =
     (case cell row i of Inl e \<Rightarrow> Inl e | Inr v \<Rightarrow> assign_cells cs (i + 1) row (r(c \<mapsto> v)))"

definition sync_row :: "('a \<Rightarrow> pyexn + jval) \<Rightarrow> ('a \<Rightarrow> body \<Rightarrow> pyexn + body) \<Rightarrow> 'a \<Rightarrow> table \<times> nat option list \<Rightarrow>
    pyexn + table \<times> nat option list" where
  "sync_row key assign x = (\<lambda>(t, ids).
     case key x of
       Inl e \<Rightarrow> Inl e
     | Inr v \<Rightarrow>
         (case find_row ''id'' v t of
            Some (k, r) \<Rightarrow> (case assign x r of Inl e \<Rightarrow> Inl e | Inr r' \<Rightarrow> Inr (set_row k r' t, ids @ [Some k]))
          | None \<Rightarrow> (case assign x [''id'' \<mapsto> v] of Inl e \<Rightarrow> Inl e | Inr r' \<Rightarrow> Inr (add_row r' t, ids @ [None]))))"

fun sync_rows :: "('a \<Rightarrow> pyexn + jval) \<Rightarrow> ('a \<Rightarrow> body \<Rightarrow> pyexn + body) \<Rightarrow> 'a list \<Rightarrow> table \<times> nat option list \<Rightarrow>
    pyexn + table \<times> nat option list" where
  "sync_rows key assign [] s = Inr s"
| "sync_rows key assign (x # xs) s =
     (case sync_row key assign x s of Inl e \<Rightarrow> Inl e | Inr s' \<Rightarrow> sync_rows key assign xs s')"

text \<open>
  \<open>delete ... where key not in (ids)\<close>: in SQL the test is not true of any row when a null is
  among the ids.
\<close>

definition delete_others :: "nat option list \<Rightarrow> table \<Rightarrow> table" where
  "delete_others ids t =
     (if None \<in> set ids then t else t\<lparr>tb_rows := filter (\<lambda>(k, r). Some k \<in> set ids) (tb_rows t)\<rparr>)"

definition sync_table :: "('a \<Rightarrow> pyexn + jval) \<Rightarrow> ('a \<Rightarrow> body \<Rightarrow> pyexn + body) \<Rightarrow> 'a list \<Rightarrow> table \<Rightarrow> pyexn + table" where
  "sync_table key assign xs t =
     (case sync_rows key assign xs (t, []) of Inl e \<Rightarrow> Inl e | Inr (t', ids) \<Rightarrow> Inr (delete_others ids t'))"

definition sync_done :: "nat \<Rightarrow> body" where
  "sync_done n = [''status'' \<mapsto> JStr ''OK'', ''count'' \<mapsto> JInt (int n)]"

definition MISSING_ROWS :: string where
  "MISSING_ROWS = ''Missing '' @ [CHR 0x27, CHR 0x27] @ '' key in query response.''"

definition SITE_COLUMNS :: "string list" where
  "SITE_COLUMNS = [''name'', ''status'', ''created_at'', ''updated_at'', ''user_quota'', ''content_admin_mode'',
     ''storage_quota'', ''metrics_level'', ''status_reason'', ''subscriptions_enabled'', ''custom_subscription_footer'',
     ''custom_subscription_email'', ''luid'', ''query_limit'', ''url_namespace'']"

definition site_sync :: "agent \<Rightarrow> body rio" where
  "site_sync a =
     bnd (on_world (odbc_execute a
       (''SELECT id, name, status, created_at, updated_at, user_quota, content_admin_mode, storage_quota, metrics_level, '' @
        ''status_reason, subscriptions_enabled, custom_subscription_footer, custom_subscription_email, luid, '' @
        ''query_limit, url_namespace FROM sites''))) (\<lambda>data.
       if failed data then ret data
       else if data '''' = None then ret (with_error MISSING_ROWS data)
       else bnd (lift_repo (answer_rows data)) (\<lambda>rows. bnd (gets rp_sites) (\<lambda>t.
         bnd (lift_repo (sync_table (\<lambda>row. cell row 0) (assign_cells SITE_COLUMNS 1) rows t)) (\<lambda>t'.
           sq (modify (\<lambda>r. r\<lparr>rp_sites := t'\<rparr>)) (ret (sync_done (length rows)))))))"

definition PROJECT_COLUMNS :: "string list" where
  "PROJECT_COLUMNS = [''name'', ''owner_id'', ''created_at'', ''updated_at'', ''state'', ''description'', ''site_id'', ''special'']"

text \<open>Here an answer without rows is not returned: reading them raises.\<close>

definition project_sync :: "agent \<Rightarrow> body rio" where
  "project_sync a =
     bnd (on_world (odbc_execute a
       (''SELECT id, name, owner_id, created_at, updated_at, state, description, site_id, special FROM projects''))) (\<lambda>data.
       if failed data then ret data
       else bnd (lift_repo (answer_rows data)) (\<lambda>rows. bnd (gets rp_projects) (\<lambda>t.
         bnd (lift_repo (sync_table (\<lambda>row. cell row 0) (assign_cells PROJECT_COLUMNS 1) rows t)) (\<lambda>t'.
           sq (modify (\<lambda>r. r\<lparr>rp_projects := t'\<rparr>)) (ret (sync_done (length rows)))))))"

definition data_key :: "(string \<times> jval) list \<Rightarrow> pyexn + jval" where
  "data_key d = (case map_of d ''id'' of None \<Rightarrow> Inl (KeyError ''id'') | Some v \<Rightarrow> Inr v)"

definition data_connection_sync :: "(string \<Rightarrow> int option) \<Rightarrow> agent \<Rightarrow> body rio" where
  "data_connection_sync dt a =
     bnd (on_world (odbc_execute a ''SELECT * FROM data_connections'')) (\<lambda>data.
       if failed data then ret data
       else if data '''' = None then ret (with_error MISSING_ROWS data)
       else bnd (lift_repo (odbc_load dt data)) (\<lambda>rows. bnd (gets rp_connections) (\<lambda>t.
         bnd (lift_repo (sync_table data_key (\<lambda>d r. Inr (copyto [] d r)) rows t)) (\<lambda>t'.
           sq (modify (\<lambda>r. r\<lparr>rp_connections := t'\<rparr>)) (ret (sync_done (length rows)))))))"

text \<open>\<open>sync_cmd\<close>\<close>

definition sync_part :: "string \<Rightarrow> string \<Rightarrow> body \<Rightarrow> string \<times> body \<Rightarrow> pyexn + string \<times> body" where
  "sync_part name key b = (\<lambda>(msg, d).
     case b ''error'' of
       Some (JStr e) \<Rightarrow> Inr ((if msg = [] then [] else msg @ '', '') @ name @ '' sync failure: '' @ e, d)
     | Some _ \<Rightarrow> Inl (TypeError ''cannot concatenate str and other objects'')
     | None \<Rightarrow> (case b ''count'' of None \<Rightarrow> Inl (KeyError ''count'') | Some n \<Rightarrow> Inr (msg, d(key \<mapsto> n))))"

definition sync_result :: "string \<times> body \<Rightarrow> body" where
  "sync_result = (\<lambda>(msg, d).
     let d' = (if msg = [] then d else d(''error'' \<mapsto> JStr msg)) in
     d'(''status'' \<mapsto> JStr (if failed d' then ''FAILED'' else ''OK'')))"

definition sync_cmd :: "(string \<Rightarrow> int option) \<Rightarrow> agent \<Rightarrow> bool \<Rightarrow> body rio" where
  "sync_cmd dt a check_odbc_state =
     bnd (on_world odbc_ok) (\<lambda>ok. bnd (gets (cur_state \<circ> rp_world)) (\<lambda>st.
       if check_odbc_state \<and> \<not> ok then raise (InvalidStateError (''Cannot run command while in state: '' @ state_name st))
       else bnd (site_sync a) (\<lambda>b1. bnd (lift_repo (sync_part ''Site'' ''sites'' b1 ([], Map.empty))) (\<lambda>s1.
         bnd (project_sync a) (\<lambda>b2. bnd (lift_repo (sync_part ''Project'' ''projects'' b2 s1)) (\<lambda>s2.
         bnd (data_connection_sync dt a) (\<lambda>b3. bnd (lift_repo (sync_part ''DataConnection'' ''data-connections'' b3 s2)) (\<lambda>s3.
           ret (sync_result s3)))))))))"

section \<open>What a copy holds\<close>

definition id_map :: "table \<Rightarrow> (nat \<times> jval) list" where
  "id_map t = map (\<lambda>(k, r). (k, col r ''id'')) (tb_rows t)"

definition row_ids :: "table \<Rightarrow> jval set" where
  "row_ids t = snd ` set (id_map t)"

definition table_wf :: "table \<Rightarrow> bool" where
  "table_wf t \<longleftrightarrow> distinct (map fst (id_map t)) \<and> distinct (map snd (id_map t)) \<and> (\<forall>k \<in> fst ` set (id_map t). k < tb_next t)"

lemma id_map_set_row:
  "(k, r) \<in> set (tb_rows t) \<Longrightarrow> distinct (map fst (tb_rows t)) \<Longrightarrow> col r' ''id'' = col r ''id'' \<Longrightarrow> id_map (set_row k r' t) = id_map t"
  by (auto simp: id_map_def set_row_def dest: eq_key_imp_eq_value)

lemma id_map_add_row: "id_map (add_row r t) = id_map t @ [(tb_next t, col r ''id'')]"
  by (simp add: id_map_def add_row_def)

lemma tb_next_add_row: "tb_next (add_row r t) = tb_next t + 1"
  by (simp add: add_row_def)

lemma find_row_Some: "find_row c v t = Some (k, r) \<Longrightarrow> (k, r) \<in> set (tb_rows t) \<and> col r c = v"
  by (auto simp: find_row_def find_Some_iff in_set_conv_nth case_prod_beta intro!: exI) (metis fst_conv snd_conv)+

lemma find_row_None: "find_row ''id'' v t = None \<longleftrightarrow> v \<notin> row_ids t"
  by (fastforce simp: find_row_def find_None_iff row_ids_def id_map_def image_iff)

lemma fst_id_map: "map fst (id_map t) = map fst (tb_rows t)"
  by (simp add: id_map_def case_prod_beta)

lemma id_map_others: "None \<notin> set ids \<Longrightarrow> id_map (delete_others ids t) = filter (\<lambda>(k, v). Some k \<in> set ids) (id_map t)"
proof -
  have "filter (\<lambda>(k, r). Some k \<in> set ids) (tb_rows t) = filter (\<lambda>x. Some (fst x) \<in> set ids) (tb_rows t)"
    by (rule filter_cong) auto
  then show "None \<notin> set ids \<Longrightarrow> ?thesis"
    by (simp add: delete_others_def id_map_def filter_map o_def case_prod_beta)
qed

text \<open>One row: \<open>keeps_id\<close> is what the two ways of writing a row have in common.\<close>

definition keeps_id :: "('a \<Rightarrow> pyexn + jval) \<Rightarrow> ('a \<Rightarrow> body \<Rightarrow> pyexn + body) \<Rightarrow> bool" where
  "keeps_id key assign \<longleftrightarrow> (\<forall>x r r'. key x = Inr (col r ''id'') \<longrightarrow> assign x r = Inr r' \<longrightarrow> col r' ''id'' = col r ''id'')"

lemma sync_row_ids:
  assumes "sync_row key assign x (t, ids) = Inr (t', ids')" and "keeps_id key assign" and "table_wf t"
  obtains v where "key x = Inr v" "table_wf t'" "row_ids t' = insert v (row_ids t)"
    "v \<notin> row_ids t \<longrightarrow> None \<in> set ids'" "set ids \<subseteq> set ids'"
    "v \<in> row_ids t \<longrightarrow> id_map t' = id_map t \<and> (\<exists>k. (k, v) \<in> set (id_map t) \<and> ids' = ids @ [Some k])"
proof -
  obtain v where v: "key x = Inr v"
    using assms(1) by (auto simp: sync_row_def split: sum.splits)
  show ?thesis
  proof (cases "find_row ''id'' v t")
    case None
    then obtain r where r: "assign x [''id'' \<mapsto> v] = Inr r" "t' = add_row r t" "ids' = ids @ [None]"
      using assms(1) v by (auto simp: sync_row_def split: sum.splits)
    have v': "v \<notin> row_ids t" using None by (simp add: find_row_None)
    have start: "col [''id'' \<mapsto> v] ''id'' = v" by (simp add: col_def)
    have id: "col r ''id'' = v" using assms(2) r(1) v start unfolding keeps_id_def by metis
    show ?thesis
    proof (rule that [OF v])
      show "table_wf t'" using assms(3) v' id
        by (auto simp: table_wf_def r id_map_add_row row_ids_def tb_next_add_row)
    qed (use r id v' in \<open>auto simp: row_ids_def id_map_add_row\<close>)
  next
    case (Some kr)
    obtain k r where kr: "kr = (k, r)" by (cases kr)
    with Some have row: "(k, r) \<in> set (tb_rows t)" "col r ''id'' = v" using find_row_Some by blast+
    obtain r' where r': "assign x r = Inr r'" "t' = set_row k r' t" "ids' = ids @ [Some k]"
      using assms(1) v Some kr by (auto simp: sync_row_def split: sum.splits)
    have "col r' ''id'' = v" using assms(2) r'(1) v row(2) by (auto simp: keeps_id_def)
    then have same: "id_map t' = id_map t"
      using row assms(3) by (simp add: r' id_map_set_row table_wf_def fst_id_map)
    have v': "(k, v) \<in> set (id_map t)" using row by (force simp: id_map_def)
    then have "v \<in> row_ids t" by (force simp: row_ids_def)
    then show ?thesis
      using same assms(3) r' v' by (intro that [OF v]) (auto simp: row_ids_def table_wf_def set_row_def insert_absorb)
  qed
qed

lemma sync_rows_ids:
  assumes "sync_rows key assign xs (t, ids) = Inr (t', ids')" and "keeps_id key assign" and "table_wf t"
    and "traverse key xs = Inr vs"
  shows "table_wf t' \<and> row_ids t' = row_ids t \<union> set vs \<and> set ids \<subseteq> set ids' \<and> (\<not> set vs \<subseteq> row_ids t \<longrightarrow> None \<in> set ids') \<and>
    (set vs \<subseteq> row_ids t \<longrightarrow> id_map t' = id_map t \<and> set ids' = set ids \<union> {Some k |k. \<exists>v \<in> set vs. (k, v) \<in> set (id_map t)})"
  using assms(1,3,4)
proof (induction xs arbitrary: t ids vs)
  case Nil
  then show ?case by auto
next
  case (Cons x xs)
  from Cons.prems(1) obtain t1 ids1 where one: "sync_row key assign x (t, ids) = Inr (t1, ids1)"
    and rest: "sync_rows key assign xs (t1, ids1) = Inr (t', ids')"
    by (auto split: sum.splits)
  from sync_row_ids [OF one assms(2) Cons.prems(2)] obtain v where v: "key x = Inr v" "table_wf t1"
    "row_ids t1 = insert v (row_ids t)" "v \<notin> row_ids t \<longrightarrow> None \<in> set ids1" "set ids \<subseteq> set ids1"
    "v \<in> row_ids t \<longrightarrow> id_map t1 = id_map t \<and> (\<exists>k. (k, v) \<in> set (id_map t) \<and> ids1 = ids @ [Some k])" by blast
  from Cons.prems(3) v(1) obtain us where us: "traverse key xs = Inr us" "vs = v # us"
    by (auto split: sum.splits)
  have only: "k' = k" if "(k, v) \<in> set (id_map t)" "(k', v) \<in> set (id_map t)" for k k'
    using that Cons.prems(2) unfolding table_wf_def distinct_map inj_on_def by (metis fst_conv snd_conv)
  note IH = Cons.IH [OF rest v(2) us(1)]
  have "set vs \<subseteq> row_ids t \<longrightarrow> id_map t' = id_map t \<and>
      set ids' = set ids \<union> {Some k |k. \<exists>v \<in> set vs. (k, v) \<in> set (id_map t)}"
  proof
    assume "set vs \<subseteq> row_ids t"
    then have old: "v \<in> row_ids t" "set us \<subseteq> row_ids t1" using us(2) v(3) by auto
    then obtain k where k: "id_map t1 = id_map t" "(k, v) \<in> set (id_map t)" "ids1 = ids @ [Some k]" using v(6) by blast
    have "{Some j |j. \<exists>u \<in> set vs. (j, u) \<in> set (id_map t)} =
        insert (Some k) {Some j |j. \<exists>u \<in> set us. (j, u) \<in> set (id_map t)}"
      using k(2) only unfolding us(2) by auto
    with IH old k show "id_map t' = id_map t \<and> set ids' = set ids \<union> {Some k |k. \<exists>v \<in> set vs. (k, v) \<in> set (id_map t)}"
      by simp
  qed
  moreover have "None \<in> set ids'" if "\<not> set vs \<subseteq> row_ids t"
  proof (cases "v \<in> row_ids t")
    case True
    with that us(2) v(3) have "\<not> set us \<subseteq> row_ids t1" by auto
    with IH show ?thesis by blast
  next
    case False
    with v(4) IH show ?thesis by blast
  qed
  ultimately show ?case using IH v(3,5) us(2) by auto
qed

lemma assign_cells_id: "assign_cells cs i row r = Inr r' \<Longrightarrow> ''id'' \<notin> set cs \<Longrightarrow> col r' ''id'' = col r ''id''"
  by (induction cs i row r rule: assign_cells.induct) (auto split: sum.splits simp: col_def)

lemma keeps_id_cells: "''id'' \<notin> set cs \<Longrightarrow> keeps_id (\<lambda>row. cell row 0) (assign_cells cs 1)"
  by (auto simp: keeps_id_def dest: assign_cells_id)

lemma keeps_id_data: "keeps_id data_key (\<lambda>d r. Inr (copyto [] d r))"
  by (auto simp: keeps_id_def data_key_def copyto_def col_def map_add_def split: option.splits)

text \<open>
  C30: after a table of Tableau has been copied, each \<open>id\<close> has one row, and the ids are those of the
  answer, provided all of them had rows before.  When the answer brings a new one, the rows that
  have vanished from Tableau stay for this time.
\<close>

theorem sync_ids:
  assumes "sync_table key assign xs t = Inr t'" and "keeps_id key assign" and "table_wf t" and "traverse key xs = Inr vs"
  shows "table_wf t' \<and> row_ids t' = (if set vs \<subseteq> row_ids t then set vs else row_ids t \<union> set vs)"
proof -
  from assms(1) obtain t1 ids where run: "sync_rows key assign xs (t, []) = Inr (t1, ids)" "t' = delete_others ids t1"
    by (auto simp: sync_table_def split: sum.splits)
  note s = sync_rows_ids [OF run(1) assms(2-4)]
  show ?thesis
  proof (cases "set vs \<subseteq> row_ids t")
    case True
    with s have ids: "set ids = {Some k |k. \<exists>v \<in> set vs. (k, v) \<in> set (id_map t)}" "id_map t1 = id_map t" by auto
    have only: "v' = v" if "(k, v) \<in> set (id_map t)" "(k, v') \<in> set (id_map t)" for k v v'
      using that assms(3) by (auto simp: table_wf_def dest: eq_key_imp_eq_value)
    have "id_map t' = filter (\<lambda>(k, v). v \<in> set vs) (id_map t)"
    proof -
      have "id_map t' = filter (\<lambda>(k, v). Some k \<in> set ids) (id_map t1)"
        using ids(1) by (auto simp: run(2) id_map_others)
      also have "\<dots> = filter (\<lambda>(k, v). v \<in> set vs) (id_map t)"
        unfolding ids(2)
      proof (rule filter_cong [OF refl])
        fix x assume "x \<in> set (id_map t)"
        then show "(case x of (k, v) \<Rightarrow> Some k \<in> set ids) = (case x of (k, v) \<Rightarrow> v \<in> set vs)"
          using only unfolding ids(1) by (cases x) auto
      qed
      finally show ?thesis .
    qed
    then have filtered: "id_map t' = filter (\<lambda>(k, v). v \<in> set vs) (id_map t)" .
    have "row_ids t' = set vs" using True unfolding row_ids_def filtered by force
    moreover have "tb_next t' = tb_next t1" by (simp add: run(2) delete_others_def)
    then have "table_wf t'"
      using s ids(2) unfolding table_wf_def filtered by (auto simp: distinct_map_filter)
    ultimately show ?thesis using True by simp
  next
    case False
    with s show ?thesis by (auto simp: run(2) delete_others_def)
  qed
qed

theorem sync_ids_witness:
  "\<exists>t'. sync_table (\<lambda>row. cell row 0) (assign_cells PROJECT_COLUMNS 1) [JList (JInt 2 # replicate 8 JNull)]
     (add_row [''id'' \<mapsto> JInt 1] empty_table) = Inr t' \<and> row_ids t' = {JInt 1, JInt 2}"
proof -
  let ?t = "add_row [''id'' \<mapsto> JInt 1] empty_table" and ?row = "JList (JInt 2 # replicate 8 JNull)"
  have wf: "table_wf ?t" "row_ids ?t = {JInt 1}"
    by (simp_all add: table_wf_def row_ids_def id_map_def add_row_def empty_table_def col_def)
  have key: "keeps_id (\<lambda>row. cell row 0) (assign_cells PROJECT_COLUMNS 1)"
    by (rule keeps_id_cells) (simp add: PROJECT_COLUMNS_def)
  have "traverse (\<lambda>row. cell row 0) [?row] = Inr [JInt 2]" by (simp add: cell_def)
  moreover obtain t' where "sync_table (\<lambda>row. cell row 0) (assign_cells PROJECT_COLUMNS 1) [?row] ?t = Inr t'"
    by (simp add: sync_table_def sync_row_def cell_def find_row_def add_row_def empty_table_def col_def PROJECT_COLUMNS_def
        eval_nat_numeral)
  ultimately show ?thesis using sync_ids [OF _ key wf(1)] wf(2) by fastforce
qed

end
