(* ===== verification/Auth.thy ===== *)
theory Auth
  imports Odbc
begin

text \<open>
  \<open>auth.py\<close>: the import of Tableau's users into the table \<open>users\<close>, and the events about the
  read-only user of Tableau's database.
\<close>

section \<open>What Tableau tells of its users\<close>

definition UNLICENSED :: int where "UNLICENSED = 3"
definition INTERACTOR :: int where "INTERACTOR = 2"
definition VIEWER :: int where "VIEWER = 1"

text \<open>\<open>TableauUserEntry\<close>\<close>

record tuser =
  tu_login_at :: jval
  tu_admin_level :: int
  tu_licensing_role_id :: int
  tu_publisher :: bool

definition update_login_at :: "jval \<Rightarrow> tuser \<Rightarrow> tuser" where
  "update_login_at t u =
     (case (t, tu_login_at u) of
        (JInt n, JInt old) \<Rightarrow> if old < n then u\<lparr>tu_login_at := t\<rparr> else u
      | (JInt n, _) \<Rightarrow> u\<lparr>tu_login_at := t\<rparr>
      | _ \<Rightarrow> u)"

definition update_licensing_role :: "int \<Rightarrow> tuser \<Rightarrow> tuser" where
  "update_licensing_role i u =
     (if i = INTERACTOR then u\<lparr>tu_licensing_role_id := INTERACTOR\<rparr>
      else if i = VIEWER \<and> tu_licensing_role_id u \<noteq> INTERACTOR then u\<lparr>tu_licensing_role_id := VIEWER\<rparr>
      else u)"

definition load_user :: "(string \<Rightarrow> int option) \<Rightarrow> jval \<Rightarrow> (int \<rightharpoonup> tuser) \<Rightarrow> pyexn + (int \<rightharpoonup> tuser)" where
  "load_user dt row cache =
     (case cell row 0 of Inl e \<Rightarrow> Inl e | Inr c0 \<Rightarrow>
      case to_int c0 of Inl e \<Rightarrow> Inl e | Inr sysid \<Rightarrow>
      case cell row 1 of Inl e \<Rightarrow> Inl e | Inr c1 \<Rightarrow>
      case odbc2dt dt c1 of Inl e \<Rightarrow> Inl e | Inr login_at \<Rightarrow>
      case cell row 2 of Inl e \<Rightarrow> Inl e | Inr c2 \<Rightarrow>
      case (if c2 = JNull then Inr 0 else to_int c2) of Inl e \<Rightarrow> Inl e | Inr admin_level \<Rightarrow>
      case cell row 3 of Inl e \<Rightarrow> Inl e | Inr c3 \<Rightarrow>
      case (if c3 = JNull then Inr UNLICENSED else to_int c3) of Inl e \<Rightarrow> Inl e | Inr role \<Rightarrow>
      (case cache sysid of
         Some u \<Rightarrow>
           let u1 = update_login_at login_at u;
               u2 = (if tu_admin_level u1 < admin_level then u1\<lparr>tu_admin_level := admin_level\<rparr> else u1) in
           Inr (cache(sysid \<mapsto> update_licensing_role role u2))
       | None \<Rightarrow> Inr (cache(sysid \<mapsto> \<lparr>tu_login_at = login_at, tu_admin_level = admin_level, tu_licensing_role_id = role,
                                 tu_publisher = False\<rparr>))))"

fun fold_sum :: "('a \<Rightarrow> 'b \<Rightarrow> pyexn + 'b) \<Rightarrow> 'a list \<Rightarrow> 'b \<Rightarrow> pyexn + 'b" where
  "fold_sum f [] acc = Inr acc"
| "fold_sum f (x # xs) acc = (case f x acc of Inl e \<Rightarrow> Inl e | Inr acc' \<Rightarrow> fold_sum f xs acc')"

definition load_users :: "(string \<Rightarrow> int option) \<Rightarrow> agent \<Rightarrow> (int \<rightharpoonup> tuser) rio" where
  "load_users dt a =
     bnd (on_world (odbc_execute a
       (''SELECT system_user_id, login_at, system_users.admin_level, seat_licensing_role_id as licensing_role_id '' @
        ''FROM system_users INNER JOIN users on system_users.id = users.system_user_id''))) (\<lambda>data.
       if failed data \<or> data '''' = None then ret Map.empty
       else bnd (lift_repo (answer_rows data)) (\<lambda>rows. lift_repo (fold_sum (load_user dt) rows Map.empty)))"

section \<open>The password of the read-only user\<close>

definition EV_READONLY_OKAY :: ekey where "EV_READONLY_OKAY = EV ''READONLY-DBPASSWORD-OKAY''"
definition EV_READONLY_FAILED :: ekey where "EV_READONLY_FAILED = EV ''READONLY-DBPASSWORD-FAILED''"

definition password_error :: "string \<Rightarrow> bool" where
  "password_error e \<longleftrightarrow> contains ''A password is required for this connection.'' e \<or> contains READONLY_ERROR_TEXT e \<or>
     contains ''password authentication failed'' e"

definition tell_readonly :: "agent \<Rightarrow> ekey \<Rightarrow> string \<Rightarrow> unit io" where
  "tell_readonly a key color =
     seqs [gen key (agent_todict a) None,
       set_notification ''dbreadonly'' None (\<lambda>n. n\<lparr>nt_color := Some color, nt_description := None\<rparr>), commit]"

definition readonly_eventit :: "agent \<Rightarrow> body \<Rightarrow> unit io" where
  "readonly_eventit a data =
     bnd (get_notification ''dbreadonly'' None) (\<lambda>n.
       if success data then when_m (nt_color n = Some ''red'') (tell_readonly a EV_READONLY_OKAY ''green'')
       else if nt_color n = Some ''red'' then ret ()
       else (case data ''error'' of
           Some (JStr e) \<Rightarrow> when_m (password_error e) (tell_readonly a EV_READONLY_FAILED ''red'')
         | _ \<Rightarrow> raise (AttributeError ''find'')))"

text \<open>\<open>_eventit\<close>: only once the first user has a password, that is after the setup.\<close>

definition auth_eventit :: "agent \<Rightarrow> body \<Rightarrow> unit rio" where
  "auth_eventit a data =
     bnd (gets rp_users) (\<lambda>t.
       case map_of (tb_rows t) 0 of
         None \<Rightarrow> raise (AttributeError ''hashed_password'')
       | Some r \<Rightarrow> when_m (truthy (col r ''hashed_password'')) (on_world (readonly_eventit a data)))"

section \<open>The import\<close>

definition py_lower :: "jval \<Rightarrow> pyexn + string" where
  "py_lower v = (case v of JStr s \<Rightarrow> Inr (lower s) | _ \<Rightarrow> Inl (AttributeError ''lower''))"

text \<open>\<open>get_by_name\<close>: the only row whose name is the same without regard to case.\<close>

definition same_name :: "string \<Rightarrow> body \<Rightarrow> bool" where
  "same_name name r = (case r ''name'' of Some (JStr s) \<Rightarrow> lower s = lower name | _ \<Rightarrow> False)"

definition user_by_name :: "string \<Rightarrow> table \<Rightarrow> pyexn + (nat \<times> body) option" where
  "user_by_name name t =
     (case filter (\<lambda>(k, r). same_name name r) (tb_rows t) of
        [] \<Rightarrow> Inr None
      | [x] \<Rightarrow> Inr (Some x)
      | _ \<Rightarrow> Inl (DBError ''MultipleResultsFound''))"

text \<open>The defaults of the columns of a new row.\<close>

definition new_user :: "string \<Rightarrow> int \<Rightarrow> body" where
  "new_user name level = [''name'' \<mapsto> JStr name, ''email_level'' \<mapsto> JInt level, ''active'' \<mapsto> JBool True, ''roleid'' \<mapsto> JInt 0]"

definition USER_CELLS :: "(string \<times> nat) list" where
  "USER_CELLS = [(''email'', 1), (''hashed_password'', 2), (''salt'', 3), (''friendly_name'', 4), (''system_admin_level'', 5),
     (''system_created_at'', 6), (''system_user_id'', 7)]"

definition with_tuser :: "tuser option \<Rightarrow> body \<Rightarrow> body" where
  "with_tuser u r =
     (case u of
        None \<Rightarrow> r
      | Some x \<Rightarrow> r(''login_at'' \<mapsto> tu_login_at x, ''user_admin_level'' \<mapsto> JInt (tu_admin_level x),
          ''licensing_role_id'' \<mapsto> JInt (tu_licensing_role_id x), ''publisher'' \<mapsto> JBool (tu_publisher x)))"

definition SUPER_ADMIN :: int where "SUPER_ADMIN = 3"

definition import_columns :: "(int \<rightharpoonup> tuser) \<Rightarrow> bool \<Rightarrow> jval \<Rightarrow> body \<Rightarrow> pyexn + body" where
  "import_columns cache first_load row r =
     (case fold_sum (\<lambda>(c, i) r. case cell row i of Inl e \<Rightarrow> Inl e | Inr v \<Rightarrow> Inr (r(c \<mapsto> v))) USER_CELLS r of
        Inl e \<Rightarrow> Inl e
      | Inr r1 \<Rightarrow>
          let r2 = with_tuser (case col r1 ''system_user_id'' of JInt i \<Rightarrow> cache i | _ \<Rightarrow> None) r1 in
          Inr (if first_load \<and> col r2 ''system_admin_level'' = JInt 10 then r2(''roleid'' \<mapsto> JInt SUPER_ADMIN) else r2))"

definition import_user :: "(int \<rightharpoonup> tuser) \<Rightarrow> bool \<Rightarrow> int \<Rightarrow> jval \<Rightarrow> table \<times> string list \<Rightarrow> pyexn + table \<times> string list" where
  "import_user cache first_load level row = (\<lambda>(t, names).
     case cell row 0 of Inl e \<Rightarrow> Inl e | Inr c0 \<Rightarrow>
     case py_lower c0 of Inl e \<Rightarrow> Inl e | Inr low \<Rightarrow>
     if low \<in> {''guest'', ''_system''} then Inr (t, names)
     else
       let name = jstr (Some c0) in
       (case user_by_name name t of
          Inl e \<Rightarrow> Inl e
        | Inr (Some (k, r)) \<Rightarrow>
            (case import_columns cache first_load row r of
               Inl e \<Rightarrow> Inl e | Inr r' \<Rightarrow> Inr (set_row k r' t, names @ [name]))
        | Inr None \<Rightarrow>
            (case import_columns cache first_load row (new_user name level) of
               Inl e \<Rightarrow> Inl e | Inr r' \<Rightarrow> Inr (add_row r' t, names @ [name]))))"

text \<open>Users whose name, as it is stored, is not among the names of the answer.\<close>

definition deactivate :: "string list \<Rightarrow> table \<Rightarrow> table" where
  "deactivate names t =
     t\<lparr>tb_rows := map (\<lambda>(k, r). (k, case r ''name'' of
         Some (JStr s) \<Rightarrow> if s \<in> set names then r else r(''active'' \<mapsto> JBool False)
       | _ \<Rightarrow> r)) (tb_rows t)\<rparr>"

definition import_users :: "(int \<rightharpoonup> tuser) \<Rightarrow> int \<Rightarrow> jval list \<Rightarrow> table \<Rightarrow> pyexn + table" where
  "import_users cache level rows t =
     (case fold_sum (import_user cache (length (tb_rows t) \<le> 1) level) rows (t, [''palette'']) of
        Inl e \<Rightarrow> Inl e
      | Inr (t', names) \<Rightarrow> Inr (deactivate names t'))"

definition default_email_level :: "jval \<Rightarrow> int" where
  "default_email_level v = (if v = JStr ''yes'' then 1 else 0)"

definition auth_load :: "(string \<Rightarrow> int option) \<Rightarrow> (nat \<Rightarrow> string) \<Rightarrow> agent \<Rightarrow> bool \<Rightarrow> body rio" where
  "auth_load dt stamp a check_odbc_state =
     synchronized ''auth''
       (bnd (on_world odbc_ok) (\<lambda>ok. bnd (gets (cur_state \<circ> rp_world)) (\<lambda>st.
         if check_odbc_state \<and> \<not> ok then ret (error_body (''Cannot run command while in state: '' @ state_name st))
         else bnd (on_world (odbc_execute a
           (''SELECT system_users.name, system_users.email,  system_users.hashed_password, system_users.salt,  '' @
            ''system_users.friendly_name, system_users.admin_level,  system_users.created_at, system_users.id FROM system_users'')))
           (\<lambda>data. sq (auth_eventit a data)
             (if failed data then ret data
              else bnd (load_users dt a) (\<lambda>cache.
                bnd (system_get ''alerts-new-user-enabled'') (\<lambda>v.
                bnd (lift_repo (answer_rows data)) (\<lambda>rows. bnd (gets rp_users) (\<lambda>t.
                bnd (lift_repo (import_users cache (default_email_level v) rows t)) (\<lambda>t'.
                  sq (modify (\<lambda>r. r\<lparr>rp_users := t'\<rparr>))
                  (bnd (gets (w_now \<circ> rp_world)) (\<lambda>now.
                    sq (system_set ''auth-timestamp'' (JStr (stamp now))) (ret (sync_done (length rows)))))))))))))))"

section \<open>What the import does\<close>

text \<open>
  The events about the read-only user, while the queries answer, or fail for its password: the
  text of the failure around the marker that \<open>password_error\<close> looks for is arbitrary.
\<close>

definition sql_answer :: "(string \<times> string) option \<Rightarrow> body" where
  "sql_answer x = (case x of None \<Rightarrow> Map.empty | Some (p, q) \<Rightarrow> error_body (p @ READONLY_ERROR_TEXT @ q))"

lemma readonly_eventit_edge:
  assumes "one_row ''dbreadonly'' w" and "audible EV_READONLY_FAILED EV_READONLY_OKAY a w"
  shows "\<exists>w'. readonly_eventit a (sql_answer x) w = (Inr (), w') \<and>
     (one_row ''dbreadonly'' w' \<and> audible EV_READONLY_FAILED EV_READONLY_OKAY a w') \<and>
     red_row ''dbreadonly'' w' = (\<not> (x = None)) \<and>
     seen EV_READONLY_FAILED EV_READONLY_OKAY w' = seen EV_READONLY_FAILED EV_READONLY_OKAY w @
       (if (x = None) = red_row ''dbreadonly'' w then [if x = None then EV_READONLY_OKAY else EV_READONLY_FAILED] else [])"
proof -
  obtain n ns where n: "get_notification ''dbreadonly'' None w = (Inr n, w\<lparr>w_notifications := ns\<rparr>)"
      and ns: "filter (\<lambda>n. nt_name n = ''dbreadonly'') ns = [n]"
      and red: "(nt_color n = Some ''red'') = red_row ''dbreadonly'' w"
    using assms(1) by (rule get_notification_run)
  note row = ns red_of_row [OF ns] row_updated [OF ns] red_of_row [OF row_updated [OF ns]]
  have failed: "failed (sql_answer x) = (x \<noteq> None)"
    by (simp add: sql_answer_def failed_def error_body_def split: option.split)
  have known: "cf_event_known (w_conf w) EV_READONLY_FAILED" "cf_event_known (w_conf w) EV_READONLY_OKAY" "ag_enabled a"
    using assms(2) by (simp_all add: audible_def)
  show ?thesis
  proof (cases x)
    case None
    have "\<not> failed (sql_answer None)" by (simp add: sql_answer_def)
    then show ?thesis
      using n red known None
      by (auto simp: readonly_eventit_def tell_readonly_def bnd_def sq_def failed gen_run todict_enabled audible_def
          set_notification_def commit_def one_row_def red_row_def row seen_def)
  next
    case (Some pq)
    obtain e where e: "sql_answer x ''error'' = Some (JStr e)" "password_error e"
      by (cases pq) (simp add: Some sql_answer_def error_body_def password_error_def)
    have "failed (sql_answer x)" using failed Some by simp
    then show ?thesis
      using n red known e Some
      by (auto simp: readonly_eventit_def tell_readonly_def bnd_def sq_def failed gen_run todict_enabled audible_def
          set_notification_def commit_def one_row_def red_row_def row seen_def)
  qed
qed

interpretation dbreadonly: edge_notifier "\<lambda>x. readonly_eventit a (sql_answer x)" "\<lambda>x. x = None"
    "\<lambda>w. one_row ''dbreadonly'' w \<and> audible EV_READONLY_FAILED EV_READONLY_OKAY a w" "red_row ''dbreadonly''"
    EV_READONLY_FAILED EV_READONLY_OKAY for a
  by unfold_locales (elim conjE, rule readonly_eventit_edge)

lemma readonly_events_alternate:
  assumes "one_row ''dbreadonly'' w" and "audible EV_READONLY_FAILED EV_READONLY_OKAY a w"
  shows "\<exists>w' ks. reports (\<lambda>x. readonly_eventit a (sql_answer x)) xs w = (Inr (), w') \<and>
     seen EV_READONLY_FAILED EV_READONLY_OKAY w' = seen EV_READONLY_FAILED EV_READONLY_OKAY w @ ks \<and>
     (if red_row ''dbreadonly'' w then alternates EV_READONLY_OKAY EV_READONLY_FAILED ks
      else alternates EV_READONLY_FAILED EV_READONLY_OKAY ks)"
  using dbreadonly.reports_alternate [of w a xs] assms by blast

text \<open>
  The switch for mails to new users is a truth value, but it is compared with the text \<open>yes\<close>: a
  new user never starts with mails switched on.
\<close>

lemma new_users_unmailed: "sys_get t ''alerts-new-user-enabled'' = Inr v \<Longrightarrow> default_email_level v = 0"
proof -
  have s: "map_of DEFAULTS ''alerts-new-user-enabled'' = Some (Plain (JBool False))" by (simp add: DEFAULTS_def)
  then have "data_type ''alerts-new-user-enabled'' = Inr PyBool" by (simp add: data_type_def setting_type_def)
  with s show "sys_get t ''alerts-new-user-enabled'' = Inr v \<Longrightarrow> default_email_level v = 0"
    by (auto simp: sys_get_def cast_def default_email_level_def split: option.splits)
qed

text \<open>Rows under the import: names stay, and nobody becomes active.\<close>

definition inactive :: "nat \<Rightarrow> table \<Rightarrow> bool" where
  "inactive k t \<longleftrightarrow> (\<exists>r. (k, r) \<in> set (tb_rows t)) \<and> (\<forall>r. (k, r) \<in> set (tb_rows t) \<longrightarrow> r ''active'' = Some (JBool False))"

lemma fold_cells_other:
  "fold_sum (\<lambda>(c, i) r. case cell row i of Inl e \<Rightarrow> Inl e | Inr v \<Rightarrow> Inr (r(c \<mapsto> v))) cs r = Inr r' \<Longrightarrow>
     c \<notin> fst ` set cs \<Longrightarrow> r' c = r c"
  by (induction cs arbitrary: r) (auto split: sum.splits prod.splits)

lemma import_columns_other:
  assumes "import_columns cache fl row r = Inr r'" and "c = ''name'' \<or> c = ''active''"
  shows "r' c = r c"
proof -
  from assms(1) obtain r1 where r1: "fold_sum (\<lambda>(c, i) r. case cell row i of Inl e \<Rightarrow> Inl e | Inr v \<Rightarrow> Inr (r(c \<mapsto> v))) USER_CELLS r = Inr r1"
    by (auto simp: import_columns_def split: sum.splits)
  have "c \<notin> fst ` set USER_CELLS" using assms(2) by (auto simp: USER_CELLS_def)
  from fold_cells_other [OF r1 this] have "r1 c = r c" .
  moreover have "r' c = r1 c"
    using assms r1 by (auto simp: import_columns_def Let_def with_tuser_def split: option.splits if_splits)
  ultimately show ?thesis by simp
qed

lemma fold_sum_inv:
  "fold_sum f xs s = Inr s' \<Longrightarrow> P s \<Longrightarrow> (\<And>x s s'. x \<in> set xs \<Longrightarrow> P s \<Longrightarrow> f x s = Inr s' \<Longrightarrow> P s') \<Longrightarrow> P s'"
proof (induction xs arbitrary: s)
  case (Cons x xs)
  then obtain s1 where s1: "f x s = Inr s1" "fold_sum f xs s1 = Inr s'" by (auto split: sum.splits)
  have "P s1" by (rule Cons.prems(3) [OF _ Cons.prems(2) s1(1)]) simp
  with s1(2) show ?case by (rule Cons.IH) (rule Cons.prems(3), simp_all)
qed simp

definition keys_wf :: "table \<Rightarrow> bool" where
  "keys_wf t \<longleftrightarrow> distinct (map fst (tb_rows t)) \<and> (\<forall>k \<in> fst ` set (tb_rows t). k < tb_next t)"

definition answered_names :: "jval list \<Rightarrow> string set" where
  "answered_names rows = insert ''palette'' {s. \<exists>row \<in> set rows. cell row 0 = Inr (JStr s)}"

definition import_inv :: "table \<Rightarrow> jval list \<Rightarrow> table \<times> string list \<Rightarrow> bool" where
  "import_inv t rows s \<longleftrightarrow> keys_wf (fst s) \<and> tb_next t \<le> tb_next (fst s) \<and> set (snd s) \<subseteq> answered_names rows \<and>
     (\<forall>k r r'. (k, r) \<in> set (tb_rows t) \<longrightarrow> (k, r') \<in> set (tb_rows (fst s)) \<longrightarrow> r' ''active'' = r ''active'')"

lemma import_user_inv:
  assumes "import_user cache fl level row (t1, names) = Inr s'" and "import_inv t rows (t1, names)" and "row \<in> set rows"
    and "keys_wf t"
  shows "import_inv t rows s'"
proof -
  from assms(1) obtain c0 low where c0: "cell row 0 = Inr c0" "py_lower c0 = Inr low"
    by (auto simp: import_user_def split: sum.splits)
  then obtain s where s: "c0 = JStr s" by (auto simp: py_lower_def split: jval.splits)
  show ?thesis
  proof (cases "low \<in> {''guest'', ''_system''}")
    case True
    with assms(1,2) c0 show ?thesis by (auto simp: import_user_def)
  next
    case False
    have named: "s \<in> answered_names rows" using assms(3) c0(1) s by (auto simp: answered_names_def)
    from assms(1) c0 s False obtain found where found: "user_by_name s t1 = Inr found"
      by (auto simp: import_user_def Let_def split: sum.splits)
    show ?thesis
    proof (cases found)
      case None
      then obtain r' where r': "import_columns cache fl row (new_user s level) = Inr r'" "s' = (add_row r' t1, names @ [s])"
        using assms(1) c0 s False found by (auto simp: import_user_def Let_def split: sum.splits)
      have "k < tb_next t1" if "(k, r) \<in> set (tb_rows t)" for k r
        using that assms(2,4) by (force simp: import_inv_def keys_wf_def)
      with assms(2) named show ?thesis
        by (auto simp: r' import_inv_def keys_wf_def add_row_def)
    next
      case (Some kr)
      obtain k r where kr: "kr = (k, r)" by (cases kr)
      with Some found have row: "(k, r) \<in> set (tb_rows t1)"
        by (auto simp: user_by_name_def split: list.splits) (metis (no_types, lifting) filter_eq_Cons_iff in_set_conv_decomp)
      from Some kr obtain r' where r': "import_columns cache fl row r = Inr r'" "s' = (set_row k r' t1, names @ [s])"
        using assms(1) c0 s False found by (auto simp: import_user_def Let_def split: sum.splits)
      have act: "r' ''active'' = r ''active''" using import_columns_other [OF r'(1)] by simp
      have "map fst (tb_rows (set_row k r' t1)) = map fst (tb_rows t1)" "tb_next (set_row k r' t1) = tb_next t1"
        by (auto simp: set_row_def)
      then have "keys_wf (set_row k r' t1)" using assms(2) by (simp add: import_inv_def keys_wf_def flip: set_map)
      with assms(2) named row act show ?thesis
        by (auto simp: r' import_inv_def set_row_def split: if_splits)
    qed
  qed
qed


text \<open>A user of whom Tableau now says \<open>Ann\<close>, where the table has \<open>ann\<close>.\<close>

definition users0 :: table where
  "users0 = \<lparr>tb_rows = [(0, new_user ''palette'' 1), (1, new_user ''ann'' 0)], tb_next = 2\<rparr>"

definition ann_row :: jval where
  "ann_row = JList [JStr ''Ann'', JNull, JStr ''h'', JStr ''s'', JNull, JInt 0, JNull, JInt 7]"

lemma lower_names: "lower ''Ann'' = ''ann''" "lower ''ann'' = ''ann''" "lower ''palette'' = ''palette''"
  by code_simp+


end
