(* ===== verification/Extracts.thy ===== *)
theory Extracts
  imports Auth "HOL-Library.Word"
begin

text \<open>
  \<open>extracts.py\<close>: Tableau's background jobs that refresh extracts are copied into a table, and
  events are sent when a job starts late, runs too long, is done or has failed; finished refreshes
  are noted for the archive (\<open>extract_archive.py\<close>).  Times are kept in microseconds.
\<close>

unbundle bit_operations_syntax

section \<open>What has been told of a job\<close>

definition EXTRACT_DURATION_WARN :: "32 word" where "EXTRACT_DURATION_WARN = push_bit 0 1"
definition EXTRACT_DURATION_ERROR :: "32 word" where "EXTRACT_DURATION_ERROR = push_bit 1 1"
definition EXTRACT_DELAY_WARN :: "32 word" where "EXTRACT_DELAY_WARN = push_bit 2 1"
definition EXTRACT_DELAY_ERROR :: "32 word" where "EXTRACT_DELAY_ERROR = push_bit 3 1"

datatype severity = Warn | Error

text \<open>
  Both checks: an error that has not been told, else a warning when neither has been told.  A
  limit of zero is switched off.
\<close>

definition over_limit_step :: "32 word \<Rightarrow> 32 word \<Rightarrow> int \<Rightarrow> int \<Rightarrow> int \<Rightarrow> 32 word \<Rightarrow> severity option \<times> 32 word" where
  "over_limit_step wbit ebit warn err us n =
     (if err \<noteq> 0 \<and> err * 1000000 \<le> us \<and> n AND ebit = 0 then (Some Error, n OR ebit)
      else if warn \<noteq> 0 \<and> warn * 1000000 \<le> us \<and> n AND (wbit OR ebit) = 0 then (Some Warn, n OR wbit)
      else (None, n))"

text \<open>\<open>int((now - started_at).total_seconds())\<close>, in microseconds\<close>

definition whole_seconds :: "int \<Rightarrow> int" where
  "whole_seconds us = (if 0 \<le> us then us div 1000000 else - (- us div 1000000)) * 1000000"

section \<open>The item behind a job\<close>

definition item_table :: "body \<Rightarrow> (bool \<times> (repo \<Rightarrow> table)) option" where
  "item_table entry =
     (case col entry ''subtitle'' of
        JStr s \<Rightarrow>
          if s = ''Workbook'' then Some (True, rp_workbooks)
          else if s \<in> {''Data Source'', ''Datasource'', ''RefreshExtractTask''} then Some (False, rp_datasources)
          else None
      | _ \<Rightarrow> None)"

text \<open>\<open>get_newest_by_id\<close>: the first of the latest rows with that id; \<open>ORDER BY c DESC\<close> puts a null date first.\<close>

definition newer :: "jval \<Rightarrow> jval \<Rightarrow> bool" where
  "newer a b = (case (a, b) of (JInt x, JInt y) \<Rightarrow> y < x | (JInt x, _) \<Rightarrow> False | (_, JInt y) \<Rightarrow> True | _ \<Rightarrow> False)"

fun latest_row :: "string \<Rightarrow> (nat \<times> body) list \<Rightarrow> (nat \<times> body) option" where
  "latest_row c [] = None"
| "latest_row c ((k, r) # rest) =
     (case latest_row c rest of
        None \<Rightarrow> Some (k, r)
      | Some (k', r') \<Rightarrow> if newer (col r' c) (col r c) then Some (k', r') else Some (k, r))"

definition newest_by_id :: "int \<Rightarrow> table \<Rightarrow> (nat \<times> body) option" where
  "newest_by_id i t = latest_row ''updated_at'' (filter (\<lambda>(k, r). col r ''id'' = JInt i) (tb_rows t))"

definition find_item :: "body \<Rightarrow> repo \<Rightarrow> pyexn + (bool \<times> nat \<times> body) option" where
  "find_item entry rp =
     (case item_table entry of
        None \<Rightarrow> Inr None
      | Some (wb, tab) \<Rightarrow>
          (case col entry ''args'' of
             JStr s \<Rightarrow>
               (let args = words s in
                if length args < 11 \<or> \<not> isdigit (args ! 4) then Inr None
                else Inr (map_option (\<lambda>x. (wb, x)) (newest_by_id (int (digits_value 0 (args ! 4))) (tab rp))))
           | _ \<Rightarrow> Inl (AttributeError ''split'')))"

text \<open>\<open>_add_info\<close>: the entry takes over the user and the project of the item.\<close>

definition with_item :: "(bool \<times> nat \<times> body) option \<Rightarrow> body \<Rightarrow> body" where
  "with_item item entry =
     (case item of
        None \<Rightarrow> entry(''system_user_id'' \<mapsto> JInt (-1))
      | Some (wb, k, r) \<Rightarrow> entry(''system_user_id'' \<mapsto> col r ''system_user_id'', ''project_id'' \<mapsto> col r ''project_id''))"

text \<open>\<open>ExtractRefreshManager.add\<close>\<close>

definition archive_add :: "bool \<times> nat \<times> body \<Rightarrow> nat \<Rightarrow> unit rio" where
  "archive_add item extractid = (case item of (wb, k, r) \<Rightarrow>
     bnd (system_get ''extract-refresh-wb-retain-count'') (\<lambda>n.
       let row = [''parentid'' \<mapsto> JInt (int k), ''extractid'' \<mapsto> JInt (int extractid)] in
       when_m (truthy n)
         (if wb then modify (\<lambda>rp. rp\<lparr>rp_workbook_extracts := add_row row (rp_workbook_extracts rp)\<rparr>)
          else modify (\<lambda>rp. rp\<lparr>rp_datasource_extracts := add_row row (rp_datasource_extracts rp)\<rparr>))))"

section \<open>Events\<close>

definition to_hhmmss :: "nat \<Rightarrow> string" where
  "to_hhmmss s = two_digits (s div 3600) @ '':'' @ two_digits (s mod 3600 div 60) @ '':'' @ two_digits (s mod 60)"

definition not_null :: "body \<Rightarrow> body" where
  "not_null r = (\<lambda>c. case r c of Some JNull \<Rightarrow> None | x \<Rightarrow> x)"

definition durations :: "body \<Rightarrow> body" where
  "durations entry =
     (case (col entry ''completed_at'', col entry ''started_at'') of
        (JInt c, JInt s) \<Rightarrow> [''duration'' \<mapsto> JInt (c - s), ''duration_hms'' \<mapsto> JStr (to_hhmmss (nat ((c - s) div 1000000)))]
      | _ \<Rightarrow> Map.empty)"

definition display_name :: "body \<Rightarrow> jval" where
  "display_name u = (if truthy (col u ''friendly_name'') then col u ''friendly_name'' else col u ''name'')"

definition extract_eventgen :: "ekey \<Rightarrow> body \<Rightarrow> nat \<Rightarrow> body \<Rightarrow> body rio" where
  "extract_eventgen key data extractid entry =
     bnd (gets (find_item entry)) (\<lambda>x. bnd (lift_repo x) (\<lambda>item.
       let e = with_item item entry; d = data ++ not_null e ++ durations e in
       sq (if key = EV ''EXTRACT-OK'' then (case item of Some i \<Rightarrow> archive_add i extractid | None \<Rightarrow> ret ()) else ret ())
         (bnd (gets rp_users) (\<lambda>users.
           case d ''system_user_id'' of
             None \<Rightarrow> raise (KeyError ''system_user_id'')
           | Some u \<Rightarrow>
               let profile = find_row ''system_user_id'' u users;
                   d' = d(''username'' \<mapsto> (case profile of Some (k, r) \<Rightarrow> display_name r | None \<Rightarrow> JStr ''Unknown User''));
                   userid = (case profile of Some (k, r) \<Rightarrow> Some (int k) | None \<Rightarrow> None) in
               if d' ''site_id'' = None then raise (KeyError ''site_id'')
               else sq (on_world (gen key d' userid)) (ret e)))))"

section \<open>Thresholds\<close>

record thresholds =
  th_duration_warn :: int
  th_duration_error :: int
  th_delay_warn :: int
  th_delay_error :: int

definition int_setting :: "string \<Rightarrow> int rio" where
  "int_setting key = bnd (system_get key) (\<lambda>v. case v of JInt i \<Rightarrow> ret i | _ \<Rightarrow> raise (TypeError ''unsupported operand''))"

definition get_thresholds :: "thresholds rio" where
  "get_thresholds =
     bnd (int_setting ''extract-duration-warn'') (\<lambda>dw. bnd (int_setting ''extract-duration-error'') (\<lambda>de.
     bnd (int_setting ''extract-delay-warn'') (\<lambda>sw. bnd (int_setting ''extract-delay-error'') (\<lambda>se.
       ret \<lparr>th_duration_warn = dw, th_duration_error = de, th_delay_warn = sw, th_delay_error = se\<rparr>))))"

definition threshold_data :: "thresholds \<Rightarrow> body" where
  "threshold_data t =
     [''extract-duration-warn'' \<mapsto> JInt (th_duration_warn t), ''extract-duration-error'' \<mapsto> JInt (th_duration_error t),
      ''extract-delay-warn'' \<mapsto> JInt (th_delay_warn t), ''extract-delay-error'' \<mapsto> JInt (th_delay_error t),
      ''extract_delay_warn_minutes'' \<mapsto> JInt (th_delay_warn t div 60),
      ''extract_delay_error_minutes'' \<mapsto> JInt (th_delay_error t div 60),
      ''extract_duration_warn_minutes'' \<mapsto> JInt (th_duration_warn t div 60),
      ''extract_duration_error_minutes'' \<mapsto> JInt (th_duration_error t div 60)]"

section \<open>One job\<close>

definition state_word :: "body \<Rightarrow> 32 word" where
  "state_word entry = (case col entry ''notification_state'' of JInt i \<Rightarrow> word_of_int i | _ \<Rightarrow> 0)"

definition with_state :: "32 word \<Rightarrow> body \<Rightarrow> body" where
  "with_state n entry = entry(''notification_state'' \<mapsto> JInt (uint n))"

text \<open>
  \<open>name\<close> is the key of the event without its last part, \<open>field\<close> the key of the data that tells how long.
\<close>

definition check_limit ::
    "32 word \<Rightarrow> 32 word \<Rightarrow> int \<Rightarrow> int \<Rightarrow> string \<Rightarrow> string \<Rightarrow> int \<Rightarrow> body \<Rightarrow> nat \<Rightarrow> body \<Rightarrow> (body \<times> body) rio" where
  "check_limit wbit ebit warn err name field us data extractid entry =
     (case over_limit_step wbit ebit warn err us (state_word entry) of
        (None, n) \<Rightarrow> ret (data, entry)
      | (Some sev, n) \<Rightarrow>
          let d = data(field \<mapsto> JInt us) in
          bnd (extract_eventgen (EV (name @ (case sev of Warn \<Rightarrow> ''-WARN'' | Error \<Rightarrow> ''-ERROR''))) d extractid entry) (\<lambda>e.
            ret (d, with_state n e)))"

text \<open>The time of the database may be an answer that is an error: then a difference cannot be taken.\<close>

definition elapsed :: "body + int \<Rightarrow> jval \<Rightarrow> int rio" where
  "elapsed now t =
     (case (now, t) of
        (Inr n, JInt x) \<Rightarrow> ret (n - x)
      | _ \<Rightarrow> raise (TypeError ''unsupported operand type(s) for -''))"

definition check_start_delay :: "thresholds \<Rightarrow> body + int \<Rightarrow> body \<Rightarrow> nat \<Rightarrow> body \<Rightarrow> (body \<times> body) rio" where
  "check_start_delay th now data extractid entry =
     bnd (elapsed now (col entry ''created_at'')) (\<lambda>us.
       check_limit EXTRACT_DELAY_WARN EXTRACT_DELAY_ERROR (th_delay_warn th) (th_delay_error th)
         ''EXTRACT-DELAY'' ''extract_delay_seconds'' us data extractid entry)"

definition check_duration_exceeded :: "thresholds \<Rightarrow> body + int \<Rightarrow> body \<Rightarrow> nat \<Rightarrow> body \<Rightarrow> (body \<times> body) rio" where
  "check_duration_exceeded th now data extractid entry =
     bnd (case col entry ''completed_at'' of
            JInt c \<Rightarrow> elapsed (Inr c) (col entry ''started_at'')
          | _ \<Rightarrow> bnd (elapsed now (col entry ''started_at'')) (\<lambda>us. ret (whole_seconds us))) (\<lambda>us.
       check_limit EXTRACT_DURATION_WARN EXTRACT_DURATION_ERROR (th_duration_warn th) (th_duration_error th)
         ''EXTRACT-DURATION'' ''extract_duration_seconds'' us data extractid entry)"

definition check_finished :: "body \<Rightarrow> nat \<Rightarrow> body \<Rightarrow> body rio" where
  "check_finished data extractid entry =
     (if col entry ''completed_at'' = JNull \<or> col entry ''started_at'' = JNull then ret entry
      else extract_eventgen (EV (if col entry ''finish_code'' = JInt 0 then ''EXTRACT-OK'' else ''EXTRACT-FAILED''))
             data extractid entry)"

definition extract_process :: "thresholds \<Rightarrow> body + int \<Rightarrow> body \<Rightarrow> nat \<Rightarrow> body \<Rightarrow> body rio" where
  "extract_process th now data extractid entry =
     (let e0 = (if col entry ''notification_state'' = JNull then with_state 0 entry else entry) in
      bnd (if col e0 ''started_at'' = JNull then check_start_delay th now data extractid e0
           else check_duration_exceeded th now data extractid e0) (\<lambda>(d, e1).
        check_finished d extractid e1))"

section \<open>The import\<close>

definition set_extract :: "nat \<Rightarrow> body \<Rightarrow> unit rio" where
  "set_extract k e = modify (\<lambda>rp. rp\<lparr>rp_extracts := set_row k e (rp_extracts rp)\<rparr>)"

text \<open>
  One row of the answer.  The row is stored before its events are sent: the queries that look for
  the item flush it.
\<close>

definition load_extract :: "agent \<Rightarrow> thresholds \<Rightarrow> body + int \<Rightarrow> (string \<times> jval) list \<Rightarrow> unit rio" where
  "load_extract a th now d =
     bnd (lift_repo (data_key d)) (\<lambda>i. bnd (gets rp_extracts) (\<lambda>t.
       bnd (case find_row ''id'' i t of
              Some (k, r) \<Rightarrow> sq (set_extract k (copyto [] d r)) (ret (k, copyto [] d r))
            | None \<Rightarrow> (let r = copyto [] d [''notification_state'' \<mapsto> JInt 0] in
                sq (modify (\<lambda>rp. rp\<lparr>rp_extracts := add_row r (rp_extracts rp)\<rparr>)) (ret (tb_next t, r)))) (\<lambda>(k, r).
         bnd (extract_process th now (agent_todict a ++ threshold_data th) k r) (\<lambda>e. set_extract k e))))"

definition check_existing_unfinished :: "(string \<Rightarrow> int option) \<Rightarrow> agent \<Rightarrow> thresholds \<Rightarrow> unit rio" where
  "check_existing_unfinished strptime a th =
     bnd (gets rp_extracts) (\<lambda>t.
       let rows = filter (\<lambda>(k, r). col r ''progress'' \<noteq> JNull \<and> col r ''progress'' \<noteq> JInt 100) (tb_rows t) in
       bnd (on_world (get_db_now_utc strptime a)) (\<lambda>now.
         for_each rows (\<lambda>(k, r).
           bnd (extract_process th now (agent_todict a ++ threshold_data th) k r) (\<lambda>e. set_extract k e))))"

text \<open>\<open>_last_background_jobs_id\<close>: the ValueError of a failed query is caught by \<open>load\<close>.\<close>

definition last_background_jobs_id :: "agent \<Rightarrow> (body + int) rio" where
  "last_background_jobs_id a =
     bnd (on_world (odbc_execute a ''SELECT MAX(id) FROM background_jobs'')) (\<lambda>data.
       let bad = (\<lambda>e. error_body (''max background job retrieval failed: '' @ e)) in
       if failed data then ret (Inl (bad (jshow (col data ''error''))))
       else if data '''' = None then ret (Inr 0)
       else (case col data '''' of
           JList [] \<Rightarrow> raise (IndexError ''list index out of range'')
         | JList (row # rows) \<Rightarrow>
             if row = JNull then ret (Inr 0)
             else bnd (lift_repo (cell row 0)) (\<lambda>v.
               if v = JNull then ret (Inr 0)
               else (case to_int v of
                   Inr i \<Rightarrow> ret (Inr i)
                 | Inl (ValueError e) \<Rightarrow> ret (Inl (bad e))
                 | Inl e \<Rightarrow> raise e))
         | _ \<Rightarrow> raise (TypeError ''object has no attribute __getitem__'')))"

definition prune_extracts :: "int \<Rightarrow> unit rio" where
  "prune_extracts maxid =
     modify (\<lambda>rp. rp\<lparr>rp_extracts := (rp_extracts rp)\<lparr>tb_rows := filter (\<lambda>(k, r). case col r ''id'' of
       JInt i \<Rightarrow> i \<le> maxid | _ \<Rightarrow> True) (tb_rows (rp_extracts rp))\<rparr>\<rparr>)"

text \<open>\<open>max('updated_at')\<close>; nulls are left out.\<close>

definition max_time :: "string \<Rightarrow> table \<Rightarrow> int option" where
  "max_time c t =
     (case List.map_filter (\<lambda>(k, r). case col r c of JInt i \<Rightarrow> Some i | _ \<Rightarrow> None) (tb_rows t) of
        [] \<Rightarrow> None | x # xs \<Rightarrow> Some (fold max xs x))"

definition extracts_query :: "(int \<Rightarrow> string) \<Rightarrow> int option \<Rightarrow> string" where
  "extracts_query show_time newest_at =
     ''SELECT id, job_type, progress, args, notes, finish_code, priority, updated_at,  created_at, started_at, completed_at, '' @
     '' title, created_on_worker, processed_on_worker, link,  lock_version, backgrounder_id, subtitle, language,  locale, '' @
     ''site_id, job_name FROM background_jobs '' @
     (case newest_at of
        None \<Rightarrow> ''WHERE id = ( SELECT MAX(id) FROM background_jobs  WHERE (job_name = 'Refresh Extracts'         OR '' @
                ''job_name = 'Increment Extracts'))''
      | Some t \<Rightarrow> ''WHERE (job_name = 'Refresh Extracts'        OR job_name = 'Increment Extracts')  AND updated_at > '' @ [CHR 0x27] @
                show_time t @ [CHR 0x27]) @ '' ORDER BY id ASC''"

definition extracts_load ::
    "(string \<Rightarrow> int option) \<Rightarrow> (string \<Rightarrow> int option) \<Rightarrow> (int \<Rightarrow> string) \<Rightarrow> agent \<Rightarrow> bool \<Rightarrow> body rio" where
  "extracts_load dt strptime show_time a check_odbc_state =
     synchronized ''extracts''
       (bnd (on_world odbc_ok) (\<lambda>ok. bnd (gets (cur_state \<circ> rp_world)) (\<lambda>st.
         if check_odbc_state \<and> \<not> ok then ret (error_body (''Cannot run command while in state: '' @ state_name st))
         else bnd (last_background_jobs_id a) (\<lambda>m. case m of
           Inl e \<Rightarrow> ret e
         | Inr maxid \<Rightarrow> sq (prune_extracts maxid)
             (bnd (gets (max_time ''updated_at'' \<circ> rp_extracts)) (\<lambda>newest_at.
               bnd (on_world (odbc_execute a (extracts_query show_time newest_at))) (\<lambda>data.
                 if failed data \<or> data '''' = None then ret data
                 else bnd (on_world (get_db_now_utc strptime a)) (\<lambda>now. bnd get_thresholds (\<lambda>th.
                   bnd (lift_repo (odbc_load dt data)) (\<lambda>rows.
                     sq (for_each rows (load_extract a th now))
                    (sq (check_existing_unfinished strptime a th) (ret (sync_done (length rows))))))))))))))"

section \<open>Nothing is told twice\<close>

text \<open>
  A job that is looked at again and again, each time with some time elapsed and some limits: what
  is told, in order, and what the row remembers.
\<close>

fun over_limit_run :: "32 word \<Rightarrow> 32 word \<Rightarrow> (int \<times> int \<times> int) list \<Rightarrow> 32 word \<Rightarrow> severity list \<times> 32 word" where
  "over_limit_run wbit ebit [] n = ([], n)"
| "over_limit_run wbit ebit ((warn, err, us) # xs) n =
     (case over_limit_step wbit ebit warn err us n of (told, n') \<Rightarrow>
        (case over_limit_run wbit ebit xs n' of (rest, n'') \<Rightarrow> ((case told of None \<Rightarrow> rest | Some s \<Rightarrow> s # rest), n'')))"

definition bits_ok :: "32 word \<Rightarrow> 32 word \<Rightarrow> bool" where
  "bits_ok wbit ebit \<longleftrightarrow> (\<exists>i j. i \<noteq> j \<and> i < 32 \<and> j < 32 \<and> wbit = push_bit i 1 \<and> ebit = push_bit j 1)"

lemma bits_ok_pairs:
  "bits_ok EXTRACT_DURATION_WARN EXTRACT_DURATION_ERROR" "bits_ok EXTRACT_DELAY_WARN EXTRACT_DELAY_ERROR"
  unfolding bits_ok_def EXTRACT_DURATION_WARN_def EXTRACT_DURATION_ERROR_def EXTRACT_DELAY_WARN_def EXTRACT_DELAY_ERROR_def
  by (rule exI [of _ 0], rule exI [of _ 1], simp) (rule exI [of _ 2], rule exI [of _ 3], simp)

text \<open>The two bits of a state, as truth values.\<close>

lemma and_single: "(n AND push_bit i 1 = 0) = (\<not> bit n i)" for n :: "32 word"
  by (simp add: push_bit_eq_mult and_exp_eq_0_iff_not_bit)

lemma and_two: "(n AND (x OR y) = 0) = (n AND x = 0 \<and> n AND y = 0)" for n :: "32 word"
  by (simp add: bit.conj_disj_distrib or_eq_0_iff)

lemma or_single: "bit (n OR push_bit i 1) k = (bit n k \<or> k = i \<and> i < 32)" for n :: "32 word"
  by (auto simp: bit_simps)

text \<open>What may still be told of a job, by the bits of its row.\<close>

definition tellable :: "bool \<Rightarrow> bool \<Rightarrow> severity list set" where
  "tellable w e = (if e then {[]} else if w then {[], [Error]} else {[], [Warn], [Error], [Warn, Error]})"

definition error_due :: "int \<times> int \<times> int \<Rightarrow> bool" where
  "error_due = (\<lambda>(warn, err, us). err \<noteq> 0 \<and> err * 1000000 \<le> us)"

lemma over_limit_run_told:
  assumes "i \<noteq> j" "i < 32" "j < 32"
  shows "fst (over_limit_run (push_bit i 1) (push_bit j 1) looks n) \<in> tellable (bit n i) (bit n j) \<and>
    (Error \<in> set (fst (over_limit_run (push_bit i 1) (push_bit j 1) looks n)) \<longleftrightarrow> \<not> bit n j \<and> list_ex error_due looks)"
proof (induction looks arbitrary: n)
  case Nil
  then show ?case by (simp add: tellable_def)
next
  case (Cons x looks)
  obtain warn err us where x: "x = (warn, err, us)" by (cases x)
  let ?run = "over_limit_run (push_bit i 1) (push_bit j 1) looks"
  consider (error) "error_due x" "\<not> bit n j"
    | (warn) "warn \<noteq> 0 \<and> warn * 1000000 \<le> us" "\<not> error_due x" "\<not> bit n i" "\<not> bit n j"
    | (none) "bit n j \<or> \<not> error_due x" "bit n i \<or> bit n j \<or> \<not> (warn \<noteq> 0 \<and> warn * 1000000 \<le> us)"
    by blast
  then show ?case
  proof cases
    case error
    then have "fst (over_limit_run (push_bit i 1) (push_bit j 1) (x # looks) n) = Error # fst (?run (n OR push_bit j 1))"
      by (auto simp add: x over_limit_step_def error_due_def and_exp_eq_0_iff_not_bit split: prod.split)
    with error assms Cons [of "n OR push_bit j 1"] show ?thesis
      by (simp add: or_single tellable_def del: push_bit_of_1)
  next
    case warn
    then have "fst (over_limit_run (push_bit i 1) (push_bit j 1) (x # looks) n) = Warn # fst (?run (n OR push_bit i 1))"
      by (auto simp add: x over_limit_step_def error_due_def and_exp_eq_0_iff_not_bit and_two split: prod.split)
    with warn assms Cons [of "n OR push_bit i 1"] show ?thesis
      by (auto simp add: or_single tellable_def simp del: push_bit_of_1)
  next
    case none
    then have "fst (over_limit_run (push_bit i 1) (push_bit j 1) (x # looks) n) = fst (?run n)"
      by (auto simp add: x over_limit_step_def error_due_def and_exp_eq_0_iff_not_bit and_two split: prod.split)
    with none Cons [of n] show ?thesis
      by auto
  qed
qed



end
