(* ===== verification/Archive.thy ===== *)
theory Archive
  imports Extracts Server
begin

text \<open>
  The archives of workbooks, of data sources and of refreshed extracts: which rows of their tables
  are kept (\<open>_prune_missed_revisions\<close>, \<open>_retain_some\<close> of \<open>workbooks.py\<close>, \<open>datasources.py\<close> and
  \<open>extract_archive.py\<close>), and how one file gets from Tableau to its place (\<open>archive_mixin.py\<close> and the
  methods of the three managers).  The managers of workbooks and of data sources have the same methods
  with other names; a definition that takes a \<open>kind\<close> stands for both.
\<close>

section \<open>The tables\<close>

datatype kind = Workbook | DataSource

text \<open>The rows that stand for one version of an item, archived or not yet.\<close>

datatype revtab = Updates kind | Refreshes kind

fun items :: "kind \<Rightarrow> repo \<Rightarrow> table" where
  "items Workbook = rp_workbooks"
| "items DataSource = rp_datasources"

fun set_items :: "kind \<Rightarrow> table \<Rightarrow> repo \<Rightarrow> repo" where
  "set_items Workbook t rp = rp\<lparr>rp_workbooks := t\<rparr>"
| "set_items DataSource t rp = rp\<lparr>rp_datasources := t\<rparr>"

fun rev_table :: "revtab \<Rightarrow> repo \<Rightarrow> table" where
  "rev_table (Updates Workbook) = rp_workbook_updates"
| "rev_table (Updates DataSource) = rp_datasource_updates"
| "rev_table (Refreshes Workbook) = rp_workbook_extracts"
| "rev_table (Refreshes DataSource) = rp_datasource_extracts"

fun set_rev_table :: "revtab \<Rightarrow> table \<Rightarrow> repo \<Rightarrow> repo" where
  "set_rev_table (Updates Workbook) t rp = rp\<lparr>rp_workbook_updates := t\<rparr>"
| "set_rev_table (Updates DataSource) t rp = rp\<lparr>rp_datasource_updates := t\<rparr>"
| "set_rev_table (Refreshes Workbook) t rp = rp\<lparr>rp_workbook_extracts := t\<rparr>"
| "set_rev_table (Refreshes DataSource) t rp = rp\<lparr>rp_datasource_extracts := t\<rparr>"

fun kind_of :: "revtab \<Rightarrow> kind" where
  "kind_of (Updates k) = k"
| "kind_of (Refreshes k) = k"

text \<open>The columns that name the item, and the file, of a version; a table's key is called as in the source.\<close>

fun item_key :: "kind \<Rightarrow> string" where
  "item_key Workbook = ''workbookid''"
| "item_key DataSource = ''dsid''"

fun parent_col :: "revtab \<Rightarrow> string" where
  "parent_col (Updates k) = item_key k"
| "parent_col (Refreshes k) = ''parentid''"

fun rev_key :: "revtab \<Rightarrow> string" where
  "rev_key (Updates Workbook) = ''wuid''"
| "rev_key (Updates DataSource) = ''dsuid''"
| "rev_key (Refreshes k) = ''sid''"

fun file_col :: "revtab \<Rightarrow> string" where
  "file_col (Updates DataSource) = ''fileid_tds''"
| "file_col _ = ''fileid''"

fun packed_col :: "kind \<Rightarrow> string" where
  "packed_col Workbook = ''fileid_twbx''"
| "packed_col DataSource = ''fileid_tdsx''"

definition parent :: "revtab \<Rightarrow> body \<Rightarrow> jval" where
  "parent k r = col r (parent_col k)"

text \<open>\<open>url != ''\<close> holds of no null, and neither does \<open>url = ''\<close>; a refresh is archived when it has a file.\<close>

fun archived :: "revtab \<Rightarrow> body \<Rightarrow> bool" where
  "archived (Updates k) r = (col r ''url'' \<notin> {JNull, JStr ''''})"
| "archived (Refreshes k) r = (col r ''fileid'' \<noteq> JNull)"

fun pending :: "revtab \<Rightarrow> body \<Rightarrow> bool" where
  "pending (Updates k) r = (col r ''url'' = JStr '''')"
| "pending (Refreshes k) r = (col r ''fileid'' = JNull)"

text \<open>What versions are ordered by: the time of publication, or the number of the row.\<close>

fun age :: "revtab \<Rightarrow> nat \<times> body \<Rightarrow> int" where
  "age (Updates k) (i, r) = (case col r ''timestamp'' of JInt t \<Rightarrow> t | _ \<Rightarrow> 0)"
| "age (Refreshes k) (i, r) = int i"

definition siblings :: "(body \<Rightarrow> bool) \<Rightarrow> revtab \<Rightarrow> jval \<Rightarrow> (nat \<times> body) list \<Rightarrow> (nat \<times> body) list" where
  "siblings p k x rows = filter (\<lambda>(i, r). p r \<and> parent k r = x) rows"

definition del_row :: "nat \<Rightarrow> table \<Rightarrow> table" where
  "del_row i t = t\<lparr>tb_rows := filter (\<lambda>(j, r). j \<noteq> i) (tb_rows t)\<rparr>"

definition change_revs :: "revtab \<Rightarrow> (table \<Rightarrow> table) \<Rightarrow> unit rio" where
  "change_revs k f = modify (\<lambda>rp. set_rev_table k (f (rev_table k rp)) rp)"

section \<open>Versions that were missed\<close>

text \<open>
  Of the versions of an item that are not archived yet only the latest is kept; the answer is how
  many rows are deleted.
\<close>

definition latest_pending :: "revtab \<Rightarrow> jval \<Rightarrow> (nat \<times> body) list \<Rightarrow> int option" where
  "latest_pending k x rows =
     (case map (age k) (siblings (pending k) k x rows) of [] \<Rightarrow> None | a # as \<Rightarrow> Some (fold max as a))"

definition missed :: "revtab \<Rightarrow> (nat \<times> body) list \<Rightarrow> nat \<times> body \<Rightarrow> bool" where
  "missed k rows row \<longleftrightarrow>
     pending k (snd row) \<and> latest_pending k (parent k (snd row)) rows \<noteq> Some (age k row)"

definition prune_missed :: "revtab \<Rightarrow> nat rio" where
  "prune_missed k =
     bnd (gets (\<lambda>rp. tb_rows (rev_table k rp))) (\<lambda>rows.
       sq (change_revs k (\<lambda>t. t\<lparr>tb_rows := filter (\<lambda>row. \<not> missed k rows row) rows\<rparr>))
          (ret (length (filter (missed k rows) rows))))"

definition prune_all_missed :: "nat rio" where
  "prune_all_missed =
     bnd (prune_missed (Refreshes Workbook)) (\<lambda>m. bnd (prune_missed (Refreshes DataSource)) (\<lambda>n. ret (m + n)))"

section \<open>Versions that are too old\<close>

fun retain_key :: "revtab \<Rightarrow> string" where
  "retain_key (Updates Workbook) = ''workbook-retain-count''"
| "retain_key (Updates DataSource) = ''datasource-retain-count''"
| "retain_key (Refreshes k) = ''extract-refresh-wb-retain-count''"

text \<open>
  The items with more than \<open>n\<close> archived versions, and the oldest versions that are too many.  Versions
  of the same age are taken in the order of the rows.
\<close>

definition parents :: "(body \<Rightarrow> bool) \<Rightarrow> revtab \<Rightarrow> (nat \<times> body) list \<Rightarrow> jval list" where
  "parents p k rows = remdups (map (parent k \<circ> snd) (filter (p \<circ> snd) rows))"

definition too_old :: "revtab \<Rightarrow> int \<Rightarrow> jval \<Rightarrow> (nat \<times> body) list \<Rightarrow> (nat \<times> body) list" where
  "too_old k n x rows =
     (let own = siblings (archived k) k x rows in
      if n < int (length own) then take (nat (int (length own) - n)) (sort_key (age k) own) else [])"

definition excess :: "revtab \<Rightarrow> int \<Rightarrow> (nat \<times> body) list \<Rightarrow> (nat \<times> body) list" where
  "excess k n rows = concat (map (\<lambda>x. too_old k n x rows) (parents (archived k) k rows))"

text \<open>The files of a version; a number that is null is found in no row of the table of files.\<close>

definition version_files :: "revtab \<Rightarrow> body \<Rightarrow> nat list" where
  "version_files k r =
     List.map_filter (\<lambda>c. case col r c of JInt i \<Rightarrow> Some (nat i) | _ \<Rightarrow> None)
       (file_col k # (case k of Updates knd \<Rightarrow> if truthy (col r (packed_col knd)) then [packed_col knd] else [] | _ \<Rightarrow> []))"

definition remove_version :: "revtab \<Rightarrow> nat \<times> body \<Rightarrow> unit rio" where
  "remove_version k row =
     sq (change_revs k (del_row (fst row)))
        (for_each (version_files k (snd row)) (\<lambda>i. on_world (remove_file_by_id i)))"

definition retain_obj :: "revtab \<Rightarrow> int \<Rightarrow> nat rio" where
  "retain_obj k n =
     bnd (gets (\<lambda>rp. excess k n (tb_rows (rev_table k rp)))) (\<lambda>old.
       sq (for_each old (remove_version k)) (ret (length old)))"

definition retain_some :: "kind \<Rightarrow> nat rio" where
  "retain_some k =
     bnd (int_setting (retain_key (Updates k))) (\<lambda>n.
       if n = 0 \<or> n = -1 then ret 0 else retain_obj (Updates k) n)"

text \<open>The refreshes of data sources are counted by the setting for workbooks.\<close>

definition retain_refreshes :: "nat rio" where
  "retain_refreshes =
     bnd (int_setting (retain_key (Refreshes Workbook))) (\<lambda>n.
       if n = 0 \<or> n = -1 then ret 0
       else bnd (retain_obj (Refreshes Workbook) n) (\<lambda>wb.
            bnd (retain_obj (Refreshes DataSource) n) (\<lambda>ds. ret (wb + ds))))"

section \<open>Requests\<close>

text \<open>
  What is not part of the source: what \<open>dateutil\<close> makes of a date, how a time is written in a query,
  \<open>unicodedata.normalize\<close> followed by \<open>encode('ascii', 'ignore')\<close>, and the text of a body of HTTP.
\<close>

record libs =
  lb_dt :: "string \<Rightarrow> int option"
  lb_show_time :: "int \<Rightarrow> string"
  lb_ascii :: "string \<Rightarrow> string"
  lb_text :: "raw \<Rightarrow> string"

definition fm_listdir :: "agent \<Rightarrow> string \<Rightarrow> body option io" where
  "fm_listdir = file_action ''LISTDIR'' ''listdir''"

definition fm_filetype :: "agent \<Rightarrow> string \<Rightarrow> body option io" where
  "fm_filetype = file_action ''TYPE'' ''filetype''"

definition fm_move :: "agent \<Rightarrow> string \<Rightarrow> string \<Rightarrow> body option io" where
  "fm_move a src dst =
     catch (bnd (http_send a ''POST'' ''/file''
         [''action'' \<mapsto> JStr ''MOVE'', ''source'' \<mapsto> JStr src, ''destination'' \<mapsto> JStr dst]) json_loads)
       (\<lambda>e. is_transport e \<or> is_io_or_value e)
       (\<lambda>e. raise (IOError (''filemanager.move failed: '' @ exn_str e)))"

definition is_dir_path :: "string \<Rightarrow> bool" where
  "is_dir_path path \<longleftrightarrow> path \<noteq> [] \<and> last path \<in> {CHR ''/'', CHR 0x5C}"

definition fm_get :: "agent \<Rightarrow> string \<Rightarrow> raw io" where
  "fm_get a path =
     catch (if is_dir_path path then raise (IOError ('''path' may not refer to a directory''))
            else http_send a ''GET'' (''/file?path='' @ quote_plus path) Map.empty)
       is_transport (\<lambda>e. raise (IOError (''filemanager.get failed: '' @ exn_str e)))"

section \<open>\<open>archive_mixin.py\<close>\<close>

definition name_by_id :: "table \<Rightarrow> jval \<Rightarrow> jval" where
  "name_by_id t i = (case find_row ''id'' i t of None \<Rightarrow> JNull | Some (k, r) \<Rightarrow> col r ''name'')"

definition clean_char :: "char \<Rightarrow> char" where
  "clean_char c = (if c \<in> {CHR '' '', CHR ''/'', CHR 0x5C, CHR '':''} then CHR ''_'' else c)"

definition name_or_id :: "jval \<Rightarrow> jval \<Rightarrow> string" where
  "name_or_id name i = (if truthy name then jshow name else jshow i)"

definition clean_filename :: "libs \<Rightarrow> body \<Rightarrow> jval \<Rightarrow> string \<Rightarrow> string rio" where
  "clean_filename lb entry revision date_str =
     bnd (gets rp_sites) (\<lambda>sites. bnd (gets rp_projects) (\<lambda>projects.
       case col entry ''repository_url'' of
         JStr url \<Rightarrow>
           ret (lb_ascii lb (map clean_char
             (name_or_id (name_by_id sites (col entry ''site_id'')) (col entry ''site_id'') @ ''-'' @
              name_or_id (name_by_id projects (col entry ''project_id'')) (col entry ''project_id'') @ ''-'' @ url @
              (if truthy revision then ''-rev'' @ jshow revision else []) @
              (if date_str = [] then [] else CHR ''-'' # date_str))))
       | _ \<Rightarrow> raise (TypeError ''coercing to Unicode: need string or buffer, NoneType found'')))"

definition cred_check :: "conf \<Rightarrow> bool" where
  "cred_check c =
     (case (case map_of (cf_credentials c) ''primary'' of None \<Rightarrow> map_of (cf_credentials c) ''secondary'' | x \<Rightarrow> x) of
        None \<Rightarrow> False | Some (user, pw) \<Rightarrow> user \<noteq> [])"

definition archive_size :: "agent \<Rightarrow> string \<Rightarrow> int io" where
  "archive_size a dst =
     bnd (attempt is_io (fm_filesize a dst)) (\<lambda>r. case r of
       Inl msg \<Rightarrow> ret 0
     | Inr b \<Rightarrow> bnd (need_body b) (\<lambda>b.
         if failed b then ret 0
         else (case b ''size'' of
             Some (JInt n) \<Rightarrow> ret n
           | Some _ \<Rightarrow> raise (TypeError ''size'')
           | None \<Rightarrow> raise (KeyError ''size''))))"

text \<open>\<open>archive_file\<close>; its callers use the number of the row of the placed file.\<close>

definition archive_file :: "agent \<Rightarrow> dcheck \<Rightarrow> string \<Rightarrow> nat rio" where
  "archive_file a d dst =
     on_world (bnd (archive_size a dst) (\<lambda>sz. bnd (place_file a d dst sz True) (\<lambda>p.
       case pf_entry p of
         None \<Rightarrow> raise (AttributeError ''fileid'')
       | Some f \<Rightarrow> ret (fe_fileid f))))"

definition sendevent :: "ekey \<Rightarrow> jval \<Rightarrow> string \<Rightarrow> body \<Rightarrow> unit rio" where
  "sendevent key system_user_id err data =
     bnd (gets rp_users) (\<lambda>users.
       let d1 = data(''embedded'' := None);
           d2 = (if err = [] then d1 else d1(''error'' \<mapsto> JStr err));
           profile = find_row ''system_user_id'' system_user_id users;
           d3 = (case profile of
                   Some (k, r) \<Rightarrow> if truthy (display_name r) \<and> d2 ''owner'' = None then d2(''owner'' \<mapsto> display_name r) else d2
                 | None \<Rightarrow> d2) in
       on_world (gen key d3 (case profile of Some (k, r) \<Rightarrow> Some (int k) | None \<Rightarrow> None)))"

text \<open>\<open>pat in v\<close>\<close>

definition mentions :: "string \<Rightarrow> jval \<Rightarrow> pyexn + bool" where
  "mentions pat v =
     (case v of
        JStr s \<Rightarrow> Inr (contains pat s)
      | JList xs \<Rightarrow> Inr (list_ex (\<lambda>x. case x of JStr s \<Rightarrow> s = pat | _ \<Rightarrow> False) xs)
      | JDict d \<Rightarrow> Inr (d pat \<noteq> None)
      | _ \<Rightarrow> Inl (TypeError ''argument is not iterable''))"

text \<open>The command is tried again while its answer has no error text, or says that the service is away.\<close>

primrec tabcmd_tries :: "nat \<Rightarrow> string \<Rightarrow> agent \<Rightarrow> body \<Rightarrow> body io" where
  "tabcmd_tries 0 cmd a b = ret b"
| "tabcmd_tries (Suc n) cmd a b0 =
     bnd (tabcmd cmd a) (\<lambda>b.
       if success b then ret b
       else (case b ''stderr'' of
           None \<Rightarrow> tabcmd_tries n cmd a b
         | Some v \<Rightarrow> bnd (lift_sum (mentions ''Service Unavailable'' v)) (\<lambda>away.
             if away then tabcmd_tries n cmd a b else ret b)))"

definition tabcmd_run :: "agent \<Rightarrow> string \<Rightarrow> string \<Rightarrow> jval \<Rightarrow> body rio" where
  "tabcmd_run a url dst site_id =
     bnd (gets rp_sites) (\<lambda>sites.
       case find_row ''id'' site_id sites of
         None \<Rightarrow> (case site_id of
             JInt i \<Rightarrow> ret (error_body (''Missing site id: '' @ int_str i))
           | _ \<Rightarrow> raise (TypeError ''a number is required''))
       | Some (k, site) \<Rightarrow>
           on_world (tabcmd_tries 3
             (''get '' @ url @ '' '' @ (if truthy (col site ''url_namespace'') then ''--site '' @ jshow (col site ''url_namespace'') else []) @
              '' -f '' @ [CHR 0x22] @ dst @ [CHR 0x22]) a Map.empty))"

text \<open>\<open>signature[0] == ord('<') and ...\<close>: the bytes are looked at one after the other.\<close>

fun starts_xml :: "int list \<Rightarrow> jval list \<Rightarrow> pyexn + bool" where
  "starts_xml [] xs = Inr True"
| "starts_xml (c # cs) [] = Inl (IndexError ''list index out of range'')"
| "starts_xml (c # cs) (x # xs) = (if (case x of JInt i \<Rightarrow> i = c | _ \<Rightarrow> False) then starts_xml cs xs else Inr False)"

datatype file_type = Zip | Xml

definition bad_type_text :: "string \<Rightarrow> jval \<Rightarrow> jval list \<Rightarrow> string" where
  "bad_type_text dst ty sig =
     ''file '' @ [CHR 0x27] @ dst @ [CHR 0x27] @ '' is an unknown type of '' @ [CHR 0x27] @ jshow ty @ [CHR 0x27] @
     '' with an invalid signature: ['' @ join_with '', '' (map jshow sig) @ '']''"

definition get_archive_file_type :: "agent \<Rightarrow> string \<Rightarrow> file_type io" where
  "get_archive_file_type a dst =
     bnd (attempt is_io (fm_filetype a dst)) (\<lambda>r. case r of
       Inl msg \<Rightarrow> raise (IOError (''Filetype on '' @ [CHR 0x27] @ dst @ [CHR 0x27] @ '' failed with: '' @ msg))
     | Inr b \<Rightarrow> bnd (need_body b) (\<lambda>b.
         case (b ''type'', b ''signature'') of
           (None, _) \<Rightarrow> raise (KeyError ''type'')
         | (Some ty, sig) \<Rightarrow>
             if jshow ty = ''ZIP'' then ret Zip
             else (case sig of
                 None \<Rightarrow> raise (KeyError ''signature'')
               | Some (JList xs) \<Rightarrow>
                   bnd (lift_sum (starts_xml [60, 63, 120, 109, 108] xs)) (\<lambda>xml.
                     if xml then ret Xml else raise (IOError (bad_type_text dst ty xs)))
               | Some _ \<Rightarrow> raise (TypeError ''signature''))))"

section \<open>Fetching one version\<close>

text \<open>\<open>update.workbook\<close>, \<open>update.datasource\<close>, \<open>update.parent\<close>, and \<open>todict\<close> of a row\<close>

definition row_todict :: "string \<Rightarrow> nat \<Rightarrow> body \<Rightarrow> body" where
  "row_todict key i r = (not_null r)(key \<mapsto> JInt (int i))"

definition rev_row :: "revtab \<Rightarrow> nat \<Rightarrow> body rio" where
  "rev_row k i =
     bnd (gets (\<lambda>rp. map_of (tb_rows (rev_table k rp)) i)) (\<lambda>x. case x of
       None \<Rightarrow> raise (DBError ''InvalidRequestError'')
     | Some r \<Rightarrow> ret r)"

definition parent_row :: "revtab \<Rightarrow> body \<Rightarrow> (nat \<times> body) rio" where
  "parent_row k r =
     bnd (gets (\<lambda>rp. tb_rows (items (kind_of k) rp))) (\<lambda>rows.
       case (case parent k r of JInt p \<Rightarrow> map_option (\<lambda>row. (nat p, row)) (map_of rows (nat p)) | _ \<Rightarrow> None) of
         None \<Rightarrow> raise (AttributeError ''NoneType object has no attribute'')
       | Some x \<Rightarrow> ret x)"

definition set_cell :: "revtab \<Rightarrow> nat \<Rightarrow> string \<Rightarrow> jval \<Rightarrow> unit rio" where
  "set_cell k i c v =
     change_revs k (\<lambda>t. t\<lparr>tb_rows := map (\<lambda>(j, r). (j, if j = i then r(c \<mapsto> v) else r)) (tb_rows t)\<rparr>)"

fun failed_key :: "revtab \<Rightarrow> ekey" where
  "failed_key (Updates Workbook) = EV ''WORKBOOK-ARCHIVE-FAILED''"
| "failed_key (Updates DataSource) = EV ''DATASOURCE-ARCHIVE-FAILED''"
| "failed_key (Refreshes Workbook) = EV ''WORKBOOK-REFRESH-ARCHIVE-FAILED''"
| "failed_key (Refreshes DataSource) = EV ''DATASOURCE-REFRESH-ARCHIVE-FAILED''"

fun credentials_key :: "revtab \<Rightarrow> ekey" where
  "credentials_key (Updates Workbook) = EV ''TABLEAU-ADMIN-CREDENTIALS-FAILED-WORKBOOKS''"
| "credentials_key (Updates DataSource) = EV ''TABLEAU-ADMIN-CREDENTIALS-FAILED-DATASOURCES''"
| "credentials_key (Refreshes k) = EV ''TABLEAU-ADMIN-CREDENTIALS-FAILED-EXTRACTS''"

text \<open>The events of an update are its publisher's, those of a refresh are the owner's of the item.\<close>

definition archive_eventgen :: "revtab \<Rightarrow> nat \<Rightarrow> ekey \<Rightarrow> string \<Rightarrow> body \<Rightarrow> unit rio" where
  "archive_eventgen k i key err data =
     bnd (rev_row k i) (\<lambda>r. bnd (parent_row k r) (\<lambda>(p, item).
       sendevent key
         (case k of Updates _ \<Rightarrow> col r ''system_user_id'' | Refreshes _ \<Rightarrow> col item ''system_user_id'') err
         (row_todict (item_key (kind_of k)) p item ++ row_todict (rev_key k) i r ++ data)))"

fun archive_dir :: "revtab \<Rightarrow> string" where
  "archive_dir (Updates Workbook) = ''tableau-workbooks''"
| "archive_dir (Updates DataSource) = ''tableau-datasources''"
| "archive_dir (Refreshes Workbook) = ''tableau-workbooks-refresh''"
| "archive_dir (Refreshes DataSource) = ''tableau-datasources-refresh''"

fun kind_file_type :: "kind \<Rightarrow> string" where
  "kind_file_type Workbook = ''workbook''"
| "kind_file_type DataSource = ''datasource''"

fun packed_ext :: "kind \<Rightarrow> string" where
  "packed_ext Workbook = ''.twbx''"
| "packed_ext DataSource = ''.tdsx''"

definition item_url :: "kind \<Rightarrow> body \<Rightarrow> string" where
  "item_url k item =
     (case k of Workbook \<Rightarrow> ''/workbooks/'' | DataSource \<Rightarrow> ''/datasources/'') @
     jshow (col item ''repository_url'') @ packed_ext k"

text \<open>
  What a failed \<open>tabcmd get\<close> leads to, after its event: bad credentials switch the archive off and
  raise, a version that is gone from Tableau loses its row.  The answer is whether the error text was
  there.
\<close>

definition get_failed :: "revtab \<Rightarrow> nat \<Rightarrow> body \<Rightarrow> bool rio" where
  "get_failed k i b =
     sq (archive_eventgen k i (failed_key k) [] b)
       (case b ''stderr'' of
          None \<Rightarrow> ret False
        | Some v \<Rightarrow> bnd (lift_repo (mentions ''Not authorized'' v)) (\<lambda>unauthorized.
            if unauthorized then
              sq (system_set (retain_key k) (JInt 0))
             (sq (archive_eventgen k i (credentials_key k) [] b)
                 (raise (ArchiveException ''Bad Credentials'')))
            else bnd (lift_repo (mentions ''404'' v)) (\<lambda>n404. bnd (lift_repo (mentions ''Not Found'' v)) (\<lambda>nf.
              sq (when_m (n404 \<and> nf) (change_revs k (del_row i))) (ret True)))))"

text \<open>
  \<open>_tabcmd_get\<close> of \<open>workbooks.py\<close> gives up only when there is an error text; the one of
  \<open>datasources.py\<close> always.  When the row of the item is missing, the log line of the first one raises.
\<close>

definition tabcmd_get :: "libs \<Rightarrow> kind \<Rightarrow> agent \<Rightarrow> nat \<Rightarrow> string \<Rightarrow> string option rio" where
  "tabcmd_get lb k a i tmpdir =
     bnd (rev_row (Updates k) i) (\<lambda>r.
     bnd (gets (\<lambda>rp. tb_rows (items k rp))) (\<lambda>rows.
       case (case parent (Updates k) r of JInt p \<Rightarrow> map_of rows (nat p) | _ \<Rightarrow> None) of
         None \<Rightarrow> (case k of Workbook \<Rightarrow> raise (AttributeError ''workbookdid'') | DataSource \<Rightarrow> ret None)
       | Some item \<Rightarrow>
           bnd (clean_filename lb item (col r ''revision'') []) (\<lambda>name.
             let dst = path_join (ag_iswin a) tmpdir (name @ packed_ext k) in
             bnd (tabcmd_run a (item_url k item) dst (col item ''site_id'')) (\<lambda>b.
               if success b then ret (Some dst)
               else bnd (get_failed (Updates k) i b) (\<lambda>explained.
                 ret (if k = Workbook \<and> \<not> explained then Some dst else None))))))"

definition delete_quietly :: "agent \<Rightarrow> string \<Rightarrow> unit io" where
  "delete_quietly a path = bnd (attempt is_io (fm_delete a path)) (\<lambda>_. ret ())"

fun unpack_command :: "kind \<Rightarrow> string" where
  "unpack_command Workbook = ''ptwbx''"
| "unpack_command DataSource = ''ptdsx''"

fun save_packed_key :: "kind \<Rightarrow> string" where
  "save_packed_key Workbook = ''archive-save-twbx''"
| "save_packed_key DataSource = ''datasource-save-tdsx''"

definition extract_from_packed :: "kind \<Rightarrow> agent \<Rightarrow> nat \<Rightarrow> string \<Rightarrow> string option rio" where
  "extract_from_packed k a i dst =
     sq (on_world (if k = DataSource then delete_quietly a (butlast dst) else ret ()))
    (bnd (on_world (cli_cmd (unpack_command k @ '' '' @ [CHR 0x22] @ dst @ [CHR 0x22]) a Map.empty False (60 * 30))) (\<lambda>b.
     bnd (system_get (save_packed_key k)) (\<lambda>save.
       sq (on_world (if truthy save then ret () else delete_quietly a dst))
         (if failed b then sq (archive_eventgen (Updates k) i (failed_key (Updates k)) [] b) (ret None)
          else ret (Some (butlast dst))))))"

fun content_col :: "kind \<Rightarrow> string" where
  "content_col Workbook = ''twb''"
| "content_col DataSource = ''tds''"

definition copy_to_controller :: "libs \<Rightarrow> kind \<Rightarrow> agent \<Rightarrow> nat \<Rightarrow> string \<Rightarrow> bool rio" where
  "copy_to_controller lb k a i path =
     bnd (on_world (attempt is_io (fm_get a path))) (\<lambda>r. case r of
       Inl msg \<Rightarrow> ret False
     | Inr body \<Rightarrow> sq (set_cell (Updates k) i (content_col k) (JStr (lb_text lb body))) (ret True))"

text \<open>The file, in the folder of the primary; then where it is archived, and the packed file with it.\<close>

definition place_versions :: "libs \<Rightarrow> kind \<Rightarrow> agent \<Rightarrow> nat \<Rightarrow> dcheck \<Rightarrow> string \<Rightarrow> string option \<Rightarrow> string option rio" where
  "place_versions lb k a i d plain packed =
     bnd (copy_to_controller lb k a i plain) (\<lambda>copied.
       if \<not> copied then ret None
       else bnd (archive_file a d plain) (\<lambda>f.
         sq (set_cell (Updates k) i (file_col (Updates k)) (JInt (int f)))
        (bnd (system_get (save_packed_key k)) (\<lambda>save.
           sq (case packed of
                 Some dst \<Rightarrow> if truthy save
                   then bnd (archive_file a d dst) (\<lambda>f. set_cell (Updates k) i (packed_col k) (JInt (int f)))
                   else ret ()
               | None \<Rightarrow> ret ())
              (ret (Some plain))))))"

definition build_version :: "libs \<Rightarrow> kind \<Rightarrow> agent \<Rightarrow> nat \<Rightarrow> string option rio" where
  "build_version lb k a i =
     bnd (on_world (attempt is_disk (disk_check a (archive_dir (Updates k)) (kind_file_type k) 0))) (\<lambda>r. case r of
       Inl msg \<Rightarrow>
         sq (archive_eventgen (Updates k) i (failed_key (Updates k))
              ((case k of Workbook \<Rightarrow> ''build_workbook disk check : '' | DataSource \<Rightarrow> ''build_tds disk check: '') @ msg) Map.empty)
            (ret None)
     | Inr d \<Rightarrow>
         bnd (tabcmd_get lb k a i (dc_primary_dir d)) (\<lambda>got. case got of
           None \<Rightarrow> ret None
         | Some dst \<Rightarrow>
             bnd (on_world (attempt is_io (get_archive_file_type a dst))) (\<lambda>ft. case ft of
               Inl msg \<Rightarrow> sq (archive_eventgen (Updates k) i (failed_key (Updates k)) msg Map.empty) (ret None)
             | Inr Zip \<Rightarrow>
                 bnd (extract_from_packed k a i dst) (\<lambda>plain. case plain of
                   None \<Rightarrow> ret None
                 | Some p \<Rightarrow> place_versions lb k a i d p (Some dst))
             | Inr Xml \<Rightarrow>
                 sq (on_world (bnd (fm_move a dst (butlast dst)) (\<lambda>_. ret ())))
                    (place_versions lb k a i d (butlast dst) None))))"

text \<open>Without its helper program on the agent a data source is left for later.\<close>

definition have_pcmd :: "agent \<Rightarrow> bool io" where
  "have_pcmd a =
     bnd (fm_listdir a (ag_install_dir a)) (\<lambda>b. bnd (need_body b) (\<lambda>b.
       case b ''files'' of
         None \<Rightarrow> raise (KeyError ''files'')
       | Some v \<Rightarrow> lift_sum (mentions ''ptdsx.exe'' v)))"

definition archive_one :: "libs \<Rightarrow> kind \<Rightarrow> agent \<Rightarrow> nat \<Rightarrow> unit rio" where
  "archive_one lb k a i =
     bnd (on_world (if k = DataSource then have_pcmd a else ret True)) (\<lambda>ready.
       when_m ready
         (bnd (rev_row (Updates k) i) (\<lambda>r. bnd (parent_row (Updates k) r) (\<lambda>_.
            bnd (build_version lb k a i) (\<lambda>filename.
              case filename of
                None \<Rightarrow> ret ()
              | Some f \<Rightarrow> set_cell (Updates k) i ''url'' (JStr (path_basename (ag_iswin a) f)))))))"

text \<open>
  The loop over the updates, each of which is read again from the database; the second result says
  that bad credentials ended it.
\<close>

fun archive_loop :: "libs \<Rightarrow> kind \<Rightarrow> agent \<Rightarrow> nat list \<Rightarrow> nat \<Rightarrow> (nat \<times> bool) rio" where
  "archive_loop lb k a [] n = ret (n, False)"
| "archive_loop lb k a (i # rest) n =
     bnd (int_setting (retain_key (Updates k))) (\<lambda>retain.
       if retain = 0 then ret (n, False)
       else bnd (on_world odbc_ok) (\<lambda>ok.
         if \<not> ok then ret (n, False)
         else bnd (rev_row (Updates k) i) (\<lambda>_.
           bnd (catch (sq (archive_one lb k a i) (ret True))
                  (\<lambda>e. case e of ArchiveException s \<Rightarrow> s = ''Bad Credentials'' | _ \<Rightarrow> False) (\<lambda>_. ret False)) (\<lambda>good.
             if good then archive_loop lb k a rest (n + 1) else ret (n, True)))))"

definition BAD_CREDENTIALS_TEXT :: string where
  "BAD_CREDENTIALS_TEXT =
     ''workbook _archive_updates: tabcmd failed due to bad credentials. Skipping any remaining workbook updates now.''"

definition archive_updates :: "libs \<Rightarrow> kind \<Rightarrow> agent \<Rightarrow> nat list \<Rightarrow> body rio" where
  "archive_updates lb k a updates =
     bnd (archive_loop lb k a updates 0) (\<lambda>(n, bad).
     bnd (if n = 0 then ret 0 else retain_some k) (\<lambda>removed.
       ret ((case k of
               Workbook \<Rightarrow> if bad then [''error'' \<mapsto> JStr BAD_CREDENTIALS_TEXT] else Map.empty
             | DataSource \<Rightarrow> [''status'' \<mapsto> JStr ''OK''])
            (''updates-archived'' \<mapsto> JInt (int n), ''retain-removed-count'' \<mapsto> JInt (int removed)))))"

section \<open>Loading\<close>

text \<open>
  \<open>cache.py\<close>: the user behind a user of a site.  After a failed query the cache is an ordinary empty
  dictionary, whose \<open>get\<close> takes the owner for the default.
\<close>

type_synonym user_cache = "(string \<rightharpoonup> jval) option"

definition cache_key :: "jval \<Rightarrow> jval \<Rightarrow> string" where
  "cache_key site_id user_id = jshow site_id @ '':'' @ jshow user_id"

definition cache_row :: "jval \<Rightarrow> (string \<rightharpoonup> jval) \<Rightarrow> pyexn + (string \<rightharpoonup> jval)" where
  "cache_row row c =
     (case cell row 1 of Inl e \<Rightarrow> Inl e | Inr s \<Rightarrow>
     (case cell row 2 of Inl e \<Rightarrow> Inl e | Inr i \<Rightarrow>
     (case cell row 0 of Inl e \<Rightarrow> Inl e | Inr u \<Rightarrow>
     (case to_int u of Inl e \<Rightarrow> Inl e | Inr n \<Rightarrow> Inr (c(cache_key s i \<mapsto> JInt n))))))"

definition load_user_cache :: "agent \<Rightarrow> user_cache rio" where
  "load_user_cache a =
     bnd (on_world (odbc_execute a ''SELECT system_user_id, site_id, id FROM users'')) (\<lambda>data.
       if failed data \<or> data '''' = None then ret None
       else bnd (lift_repo (answer_rows data)) (\<lambda>rows.
            bnd (lift_repo (fold_sum cache_row rows Map.empty)) (\<lambda>c. ret (Some c))))"

definition cached_user :: "user_cache \<Rightarrow> jval \<Rightarrow> jval \<Rightarrow> jval" where
  "cached_user users site_id owner_id =
     (case users of
        None \<Rightarrow> owner_id
      | Some c \<Rightarrow> (case c (cache_key site_id owner_id) of Some u \<Rightarrow> u | None \<Rightarrow> JInt (-1)))"

text \<open>\<open>query.one()\<close>: more than one row is an error.\<close>

definition unique_row :: "(body \<Rightarrow> bool) \<Rightarrow> table \<Rightarrow> pyexn + (nat \<times> body) option" where
  "unique_row p t =
     (case filter (p \<circ> snd) (tb_rows t) of
        [] \<Rightarrow> Inr None
      | [x] \<Rightarrow> Inr (Some x)
      | _ \<Rightarrow> Inl (DBError ''MultipleResultsFound''))"

text \<open>The number of the project of samples, once it is known.\<close>

definition sample_project :: "jval rio" where
  "sample_project =
     bnd (gets rp_sample_project) (\<lambda>known.
       if truthy known then ret known
       else bnd (gets (unique_row (\<lambda>r. col r ''name'' = JStr ''Tableau Samples'') \<circ> rp_projects)) (\<lambda>x.
            bnd (lift_repo x) (\<lambda>p. case p of
              None \<Rightarrow> ret known
            | Some (i, r) \<Rightarrow> sq (modify (\<lambda>rp. rp\<lparr>rp_sample_project := col r ''id''\<rparr>)) (ret (col r ''id'')))))"

definition same_item :: "jval \<Rightarrow> jval \<Rightarrow> jval \<Rightarrow> body \<Rightarrow> bool" where
  "same_item site_id project_id luid r \<longleftrightarrow>
     col r ''site_id'' = site_id \<and> col r ''project_id'' = project_id \<and> col r ''luid'' = luid"

definition odbc_cell :: "string \<Rightarrow> (string \<times> jval) list \<Rightarrow> pyexn + jval" where
  "odbc_cell c d = (case map_of d c of None \<Rightarrow> Inl (KeyError c) | Some v \<Rightarrow> Inr v)"

definition store_item :: "kind \<Rightarrow> (string \<times> jval) list \<Rightarrow> jval \<Rightarrow> jval \<Rightarrow> jval \<Rightarrow> (nat \<times> body) rio" where
  "store_item k d site_id project_id luid =
     bnd (gets (items k)) (\<lambda>t. bnd (lift_repo (unique_row (same_item site_id project_id luid) t)) (\<lambda>x.
       let (i, r) = (case x of
             Some row \<Rightarrow> row
           | None \<Rightarrow> (tb_next t, [''site_id'' \<mapsto> site_id, ''project_id'' \<mapsto> project_id, ''luid'' \<mapsto> luid]));
           r' = copyto [''revision''] d r
       in sq (modify (set_items k (if x = None then add_row r' t else set_row i r' t))) (ret (i, r'))))"

text \<open>One row of the answer: the item, then its version when that is new.  The answer is the number of a new one.\<close>

definition load_item :: "kind \<Rightarrow> agent \<Rightarrow> (string \<times> jval) list \<Rightarrow> user_cache \<Rightarrow> (user_cache \<times> nat list) rio" where
  "load_item k a d users =
     bnd (lift_repo (odbc_cell ''name'' d)) (\<lambda>_. bnd (lift_repo (odbc_cell ''revision'' d)) (\<lambda>revision.
     bnd (lift_repo (odbc_cell ''site_id'' d)) (\<lambda>site_id. bnd (lift_repo (odbc_cell ''project_id'' d)) (\<lambda>project_id.
     bnd (lift_repo (odbc_cell ''luid'' d)) (\<lambda>luid.
     bnd (gets rp_sample_project) (\<lambda>sample.
       if k = Workbook \<and> project_id = sample then ret (users, [])
       else bnd (store_item k d site_id project_id luid) (\<lambda>(i, r).
         bnd (case users of None \<Rightarrow> load_user_cache a | Some c \<Rightarrow> ret users) (\<lambda>users'.
           let u = cached_user users' (col r ''site_id'') (col r ''owner_id''); r' = r(''system_user_id'' \<mapsto> u) in
           sq (modify (\<lambda>rp. set_items k (set_row i r' (items k rp)) rp))
             (bnd (gets (rev_table (Updates k))) (\<lambda>t.
              bnd (lift_repo (unique_row (\<lambda>q. parent (Updates k) q = JInt (int i) \<and> col q ''revision'' = revision) t)) (\<lambda>known.
                case known of
                  Some _ \<Rightarrow> ret (users', [])
                | None \<Rightarrow>
                    sq (change_revs (Updates k) (add_row [item_key k \<mapsto> JInt (int i), ''revision'' \<mapsto> revision,
                          ''system_user_id'' \<mapsto> u, ''timestamp'' \<mapsto> col r' ''updated_at'', ''url'' \<mapsto> JStr '''']))
                       (ret (users', [tb_next t])))))))))))))"

fun load_items :: "kind \<Rightarrow> agent \<Rightarrow> (string \<times> jval) list list \<Rightarrow> user_cache \<Rightarrow> nat list rio" where
  "load_items k a [] users = ret []"
| "load_items k a (d # rest) users =
     bnd (load_item k a d users) (\<lambda>(users', new). bnd (load_items k a rest users') (\<lambda>more. ret (new @ more)))"

text \<open>\<open>schema\<close> of \<open>cache.py\<close>: the pairs of column and type\<close>

fun schema_pairs :: "jval list \<Rightarrow> jval list" where
  "schema_pairs (x # y # z # rest) = JList [y, z] # schema_pairs rest"
| "schema_pairs [x, y] = [JList [y]]"
| "schema_pairs [x] = [JList []]"
| "schema_pairs [] = []"

definition raw_schema :: "body \<Rightarrow> jval" where
  "raw_schema data =
     (case data ''$schema'' of
        Some (JDict s) \<Rightarrow> (case s ''Info'' of Some (JList info) \<Rightarrow> JList (schema_pairs info) | _ \<Rightarrow> JNull)
      | _ \<Rightarrow> JNull)"

fun items_query :: "kind \<Rightarrow> string" where
  "items_query Workbook =
     ''SELECT id, name, repository_url, description, created_at, updated_at, owner_id, project_id, view_count, '' @
     ''size, embedded, thumb_user, refreshable_extracts, extracts_refreshed_at, lock_version, state, version, checksum, '' @
     ''display_tabs, data_engine_extracts, incrementable_extracts, site_id, revision, repository_data_id, '' @
     ''repository_extract_data_id, first_published_at, primary_content_url, share_description, show_toolbar, '' @
     ''extracts_incremented_at, default_view_index, luid, asset_key_id, document_version FROM workbooks''"
| "items_query DataSource =
     ''SELECT t1.id, t1.name, t1.repository_url, t1.owner_id, t1.created_at, t1.updated_at, t1.project_id, t1.size, '' @
     ''t1.lock_version, t1.state, t1.db_class, t1.db_name, t1.table_name, t1.site_id, t1.revision, t1.repository_data_id, '' @
     ''t1.repository_extract_data_id, t1.embedded, t1.incrementable_extracts, t1.refreshable_extracts, '' @
     ''t1.first_published_at, t1.connectable, t1.is_hierarchical, t1.extracts_incremented_at, t1.luid, t1.asset_key_id '' @
     ''FROM datasources t1 INNER JOIN _datasources t2 on (t1.id = t2.id)''"

fun updated_col :: "kind \<Rightarrow> string" where
  "updated_col Workbook = ''updated_at''"
| "updated_col DataSource = ''t1.updated_at''"

fun disabled_text :: "kind \<Rightarrow> string" where
  "disabled_text Workbook = ''Workbook Archives are not enabled. Will not archive.''"
| "disabled_text DataSource = ''Datasource Archives are not enabled. Will not archive.''"

fun plural :: "kind \<Rightarrow> string" where
  "plural Workbook = ''workbooks''"
| "plural DataSource = ''datasources''"

definition since :: "libs \<Rightarrow> kind \<Rightarrow> int option \<Rightarrow> string" where
  "since lb k t =
     (case t of None \<Rightarrow> [] | Some t \<Rightarrow> '' WHERE '' @ updated_col k @ '' > '' @ [CHR 0x27] @ lb_show_time lb t @ [CHR 0x27])"

fun manager_lock :: "kind \<Rightarrow> string" where
  "manager_lock Workbook = ''workbooks''"
| "manager_lock DataSource = ''datasource''"

definition archive_load :: "libs \<Rightarrow> kind \<Rightarrow> agent \<Rightarrow> body rio" where
  "archive_load lb k a =
     synchronized (manager_lock k)
       (sq (if k = Workbook then bnd sample_project (\<lambda>_. ret ()) else ret ())
       (bnd (gets (max_time ''updated_at'' \<circ> items k)) (\<lambda>newest_at.
        bnd (on_world (odbc_execute a (items_query k @ since lb k newest_at))) (\<lambda>data.
          if failed data \<or> data '''' = None then ret data
          else bnd (lift_repo (odbc_load (lb_dt lb) data)) (\<lambda>rows.
          bnd (load_items k a rows None) (\<lambda>updates.
          bnd (prune_missed (Updates k)) (\<lambda>pruned.
          bnd (int_setting (retain_key (Updates k))) (\<lambda>retain.
          bnd (gets (w_conf \<circ> rp_world)) (\<lambda>c.
          bnd (if retain = 0 then ret [''disabled'' \<mapsto> JStr (disabled_text k)]
               else if \<not> cred_check c then ret (error_body (''Can not load '' @ plural k @ '': missing credentials.''))
               else archive_updates lb k a updates) (\<lambda>result.
            ret (result(''schema'' \<mapsto> raw_schema data, ''updates-new'' \<mapsto> JInt (int (length updates)),
                   ''updates-missed'' \<mapsto> JInt (int pruned)))))))))))))"

text \<open>The same lock of the manager as for \<open>load\<close>, under another name.\<close>

definition synchronized_as :: "string \<Rightarrow> string \<Rightarrow> body rio \<Rightarrow> body rio" where
  "synchronized_as lock label m =
     bnd (gets rp_busy) (\<lambda>busy. if lock \<in> set busy then ret (error_body (label @ '': busy'')) else m)"

fun fixup_text :: "kind \<Rightarrow> string" where
  "fixup_text Workbook = ''Workbook Archives are not enabled.  Fixup not done.''"
| "fixup_text DataSource = ''Datasource Archives are not enabled.  Fixup not done.''"

fun fixup_label :: "kind \<Rightarrow> string" where
  "fixup_label Workbook = ''workbook.fixup''"
| "fixup_label DataSource = ''datasource.fixup''"

definition fixup :: "libs \<Rightarrow> kind \<Rightarrow> agent \<Rightarrow> body rio" where
  "fixup lb k a =
     synchronized_as (manager_lock k) (fixup_label k)
       (bnd (int_setting (retain_key (Updates k))) (\<lambda>retain.
          if retain = 0 then ret [''disabled'' \<mapsto> JStr (fixup_text k)]
          else bnd (gets (\<lambda>rp. map fst (filter (\<lambda>(i, r). col r ''url'' \<in> {JStr '''', JNull}) (tb_rows (rev_table (Updates k) rp)))))
            (archive_updates lb k a)))"


section \<open>The manager of data sources\<close>

text \<open>
  \<open>datasources.py\<close> repeats each method of \<open>workbooks.py\<close> for its own tables, settings, commands and texts; what
  differs is in the branches for \<open>DataSource\<close> of the definitions above.
\<close>

definition datasources_load :: "libs \<Rightarrow> agent \<Rightarrow> body rio" where
  "datasources_load lb = archive_load lb DataSource"

definition datasources_prune_missed :: "nat rio" where
  "datasources_prune_missed = prune_missed (Updates DataSource)"

definition datasources_retain_some :: "nat rio" where
  "datasources_retain_some = retain_some DataSource"

definition datasources_fixup :: "libs \<Rightarrow> agent \<Rightarrow> body rio" where
  "datasources_fixup lb = fixup lb DataSource"

definition datasources_archive_updates :: "libs \<Rightarrow> agent \<Rightarrow> nat list \<Rightarrow> body rio" where
  "datasources_archive_updates lb = archive_updates lb DataSource"

definition archive_ds :: "libs \<Rightarrow> agent \<Rightarrow> nat \<Rightarrow> unit rio" where
  "archive_ds lb = archive_one lb DataSource"

definition build_tds :: "libs \<Rightarrow> agent \<Rightarrow> nat \<Rightarrow> string option rio" where
  "build_tds lb = build_version lb DataSource"

definition datasources_tabcmd_get :: "libs \<Rightarrow> agent \<Rightarrow> nat \<Rightarrow> string \<Rightarrow> string option rio" where
  "datasources_tabcmd_get lb = tabcmd_get lb DataSource"

definition remove_dsu :: "nat \<Rightarrow> unit rio" where
  "remove_dsu i = change_revs (Updates DataSource) (del_row i)"

definition extract_tds_from_tdsx :: "agent \<Rightarrow> nat \<Rightarrow> string \<Rightarrow> string option rio" where
  "extract_tds_from_tdsx = extract_from_packed DataSource"

definition copy_tds_to_controller :: "libs \<Rightarrow> agent \<Rightarrow> nat \<Rightarrow> string \<Rightarrow> bool rio" where
  "copy_tds_to_controller lb = copy_to_controller lb DataSource"

definition datasources_eventgen :: "nat \<Rightarrow> ekey \<Rightarrow> string \<Rightarrow> body \<Rightarrow> unit rio" where
  "datasources_eventgen = archive_eventgen (Updates DataSource)"


section \<open>A table among the others\<close>

text \<open>
  What the methods here rely on of a table of the repository: it is read as it was written, and
  neither the world nor the settings are part of it.
\<close>

locale kept_table =
  fixes read :: "repo \<Rightarrow> table" and write_table :: "table \<Rightarrow> repo \<Rightarrow> repo"
  assumes read_write: "read (write_table t rp) = t"
    and read_world: "read (rp\<lparr>rp_world := w\<rparr>) = read rp"
    and read_system: "read (rp\<lparr>rp_system := s\<rparr>) = read rp"
begin

lemma keeps_world: "keeps read (on_world m)"
  by (auto simp: keeps_def on_world_def read_world split: prod.splits)

lemma keeps_settings: "keeps read (system_set key v)" "keeps read (system_get key)"
  by (auto simp: keeps_def system_set_def system_get_def read_system split: sum.splits)

lemma changed: "modify (\<lambda>rp. write_table (f (read rp)) rp) rp = (Inr (), rp') \<Longrightarrow> read rp' = f (read rp)"
  by (auto simp: modify_def read_write)

end

interpretation revs: kept_table "rev_table k" "set_rev_table k" for k
  by (unfold_locales; cases k rule: rev_table.cases; simp)

interpretation item_rows: kept_table "items k" "set_items k" for k
  by (unfold_locales; cases k; simp)

section \<open>What is retained\<close>

lemma too_old_sub: "set (too_old k n x rows) \<subseteq> set (siblings (archived k) k x rows)"
  by (auto simp: too_old_def Let_def dest: in_set_takeD)

lemma in_siblings: "row \<in> set (siblings p k x rows) \<longleftrightarrow> row \<in> set rows \<and> p (snd row) \<and> parent k (snd row) = x"
  by (cases row) (auto simp: siblings_def)

lemma old_row: "row \<in> set (too_old k n x rows) \<Longrightarrow> row \<in> set rows \<and> archived k (snd row) \<and> parent k (snd row) = x"
  using too_old_sub [of k n x rows] in_siblings [of row "archived k" k x rows] by blast

lemma in_excess:
  "row \<in> set (excess k n rows) \<longleftrightarrow> row \<in> set (too_old k n (parent k (snd row)) rows)"
proof
  assume "row \<in> set (excess k n rows)"
  then obtain x where "row \<in> set (too_old k n x rows)" by (auto simp: excess_def)
  with old_row [OF this] show "row \<in> set (too_old k n (parent k (snd row)) rows)" by simp
next
  assume r: "row \<in> set (too_old k n (parent k (snd row)) rows)"
  with old_row [OF this] have "parent k (snd row) \<in> set (parents (archived k) k rows)"
    by (cases row) (force simp: parents_def)
  with r show "row \<in> set (excess k n rows)" by (auto simp: excess_def)
qed

lemma distinct_concat_map:
  assumes "distinct xs" and "\<And>x. distinct (f x)" and disj: "\<And>x y z. z \<in> set (f x) \<Longrightarrow> z \<in> set (f y) \<Longrightarrow> x = y"
  shows "distinct (concat (map f xs))"
  using assms(1)
proof (induction xs)
  case (Cons x xs)
  have "z \<notin> set (f x)" if "y \<in> set xs" "z \<in> set (f y)" for y z
    using disj [of z x y] that Cons.prems by auto
  with Cons assms(2) show ?case by auto
qed simp

lemma distinct_excess: "distinct rows \<Longrightarrow> distinct (excess k n rows)"
  unfolding excess_def
proof (rule distinct_concat_map)
  show "distinct rows \<Longrightarrow> distinct (too_old k n x rows)" for x
    by (simp add: too_old_def Let_def siblings_def)
  show "row \<in> set (too_old k n x rows) \<Longrightarrow> row \<in> set (too_old k n y rows) \<Longrightarrow> x = y" for x y row
    using old_row [of row k n x rows] old_row [of row k n y rows] by simp
qed (simp add: parents_def)

lemma remove_version_rows:
  assumes "remove_version k row rp = (Inr (), rp')"
  shows "tb_rows (rev_table k rp') = filter (\<lambda>q. fst q \<noteq> fst row) (tb_rows (rev_table k rp))"
proof -
  have w: "keeps (rev_table k) (for_each is (\<lambda>i. on_world (remove_file_by_id i)))" for "is"
    by (rule frame revs.keeps_world)+
  from assms obtain rp1 where "change_revs k (del_row (fst row)) rp = (Inr (), rp1)"
    "for_each (version_files k (snd row)) (\<lambda>i. on_world (remove_file_by_id i)) rp1 = (Inr (), rp')"
    unfolding remove_version_def by (rule sq_returnsE) simp
  then have "rev_table k rp1 = del_row (fst row) (rev_table k rp)" "rev_table k rp' = rev_table k rp1"
    using revs.changed [of k "del_row (fst row)"] keepsD [OF w] unfolding change_revs_def by metis+
  then show ?thesis by (simp add: del_row_def case_prod_unfold)
qed

lemma remove_versions_rows:
  "for_each old (remove_version k) rp = (Inr (), rp') \<Longrightarrow>
     tb_rows (rev_table k rp') = filter (\<lambda>q. fst q \<notin> fst ` set old) (tb_rows (rev_table k rp))"
proof (induction old arbitrary: rp)
  case Nil
  then show ?case by simp
next
  case (Cons row old)
  from Cons.prems obtain rp1 where "remove_version k row rp = (Inr (), rp1)" "for_each old (remove_version k) rp1 = (Inr (), rp')"
    unfolding for_each.simps by (rule sq_returnsE) simp
  then have "tb_rows (rev_table k rp') =
      filter (\<lambda>q. fst q \<notin> fst ` set old) (filter (\<lambda>q. fst q \<noteq> fst row) (tb_rows (rev_table k rp)))"
    using remove_version_rows Cons.IH by metis
  then show ?case by (simp add: conj_commute)
qed

lemma same_row: "distinct (map fst rows) \<Longrightarrow> row \<in> set rows \<Longrightarrow> set old \<subseteq> set rows \<Longrightarrow> fst row \<in> fst ` set old \<longleftrightarrow> row \<in> set old"
  by (cases row) (force dest: eq_key_imp_eq_value)

lemma retain_obj_run:
  assumes "retain_obj k n rp = (Inr m, rp')" and "distinct (map fst (tb_rows (rev_table k rp)))"
  defines "rows \<equiv> tb_rows (rev_table k rp)"
  shows "tb_rows (rev_table k rp') = filter (\<lambda>q. q \<notin> set (excess k n rows)) rows \<and> m = length (excess k n rows)"
proof -
  from assms(1) have run: "for_each (excess k n rows) (remove_version k) rp = (Inr (), rp')" "m = length (excess k n rows)"
    by (auto simp: retain_obj_def rows_def elim!: sq_returnsE bnd_returnsE)
  have sub: "set (excess k n rows) \<subseteq> set rows"
    using old_row in_excess by blast
  show ?thesis
    using remove_versions_rows [OF run(1)] run(2) same_row [OF assms(2) [folded rows_def] _ sub]
    by (simp add: rows_def cong: filter_cong)
qed

text \<open>Taking the oldest out of a list without duplicates.\<close>

lemma oldest_out:
  fixes f :: "'a \<Rightarrow> int" and d :: nat
  assumes "distinct xs"
  defines "P \<equiv> \<lambda>q. q \<notin> set (take d (sort_key f xs))"
  shows "length (filter P xs) = length xs - d"
    and "q \<in> set xs \<Longrightarrow> \<not> P q \<Longrightarrow> q' \<in> set xs \<Longrightarrow> P q' \<Longrightarrow> f q \<le> f q'"
proof -
  let ?s = "sort_key f xs"
  have dis: "distinct (take d ?s @ drop d ?s)" using assms(1) by simp
  then have "filter P (take d ?s) = []" "filter P (drop d ?s) = drop d ?s"
    unfolding distinct_append by (auto simp: P_def filter_empty_conv filter_id_conv)
  then have "filter P (take d ?s @ drop d ?s) = drop d ?s" unfolding filter_append by simp
  then have f: "filter P ?s = drop d ?s" by simp
  then show "length (filter P xs) = length xs - d" by (metis filter_sort length_drop length_sort)
  show "f q \<le> f q'" if "q \<in> set xs" "\<not> P q" "q' \<in> set xs" "P q'"
  proof -
    from that have "q' \<in> set (drop d ?s)" unfolding f [symmetric] by simp
    moreover from that have "q \<in> set (take d ?s)" by (simp add: P_def)
    moreover have "sorted (map f (take d ?s @ drop d ?s))" by simp
    ultimately show ?thesis by (simp only: map_append sorted_append) auto
  qed
qed

lemma length_without:
  assumes "distinct xs" "distinct ys" "set ys \<subseteq> set xs"
  shows "length ys = length xs - length (filter (\<lambda>q. q \<notin> set ys) xs)"
proof -
  have "set (filter (\<lambda>q. q \<in> set ys) xs) = set ys" using assms(3) by auto
  then have "length (filter (\<lambda>q. q \<in> set ys) xs) = length ys"
    using assms(1,2) by (metis distinct_card distinct_filter)
  then show ?thesis using sum_length_filter_compl [of "\<lambda>q. q \<in> set ys" xs] by simp
qed

lemma too_old_eq:
  "too_old k n x rows = take (nat (int (length (siblings (archived k) k x rows)) - n)) (sort_key (age k) (siblings (archived k) k x rows))"
  by (simp add: too_old_def Let_def)

lemma siblings_left:
  "siblings (archived k) k x (filter (\<lambda>q. q \<notin> set (excess k n rows)) rows) =
     filter (\<lambda>q. q \<notin> set (too_old k n x rows)) (siblings (archived k) k x rows)"
  unfolding siblings_def filter_filter by (rule filter_cong) (auto simp: in_excess)

text \<open>
  C33: after the old versions have been removed, every workbook, data source and refreshed extract has as
  many archived versions as the setting asks for, or all it had, and whatever was removed was an
  archived version no newer than any archived version of the same item that is left.  Versions that
  are not archived yet stay, and the answer is how many rows are gone.
\<close>

theorem retain_keeps_newest:
  assumes "retain_obj k n rp = (Inr m, rp')" and "distinct (map fst (tb_rows (rev_table k rp)))" and "0 \<le> n"
  shows "(\<exists>P. tb_rows (rev_table k rp') = filter P (tb_rows (rev_table k rp))) \<and>
    m = length (tb_rows (rev_table k rp)) - length (tb_rows (rev_table k rp')) \<and>
    length (siblings (archived k) k x (tb_rows (rev_table k rp'))) =
      min (nat n) (length (siblings (archived k) k x (tb_rows (rev_table k rp)))) \<and>
    (\<forall>old \<in> set (tb_rows (rev_table k rp)) - set (tb_rows (rev_table k rp')).
       archived k (snd old) \<and>
       (\<forall>new \<in> set (siblings (archived k) k (parent k (snd old)) (tb_rows (rev_table k rp'))). age k old \<le> age k new))"
proof -
  let ?rows = "tb_rows (rev_table k rp)" and ?rows' = "tb_rows (rev_table k rp')"
  have dis: "distinct ?rows" using assms(2) by (simp add: distinct_map)
  have run: "?rows' = filter (\<lambda>q. q \<notin> set (excess k n ?rows)) ?rows" "m = length (excess k n ?rows)"
    using retain_obj_run [OF assms(1,2)] by simp_all
  have sub: "set (excess k n ?rows) \<subseteq> set ?rows" using old_row in_excess by blast
  let ?own = "\<lambda>x. siblings (archived k) k x ?rows"
  have own: "distinct (?own x)" for x using dis by (simp add: siblings_def)
  have left: "siblings (archived k) k x ?rows' = filter (\<lambda>q. q \<notin> set (too_old k n x ?rows)) (?own x)" for x
    unfolding run by (rule siblings_left)
  have count: "m = length ?rows - length ?rows'"
    unfolding run by (rule length_without [OF dis distinct_excess [OF dis] sub])
  have size: "length (siblings (archived k) k x ?rows') = min (nat n) (length (?own x))"
    using oldest_out(1) [OF own, of "nat (int (length (?own x)) - n)" "age k" x] assms(3)
    unfolding left too_old_eq by (auto simp: min_def)
  have old: "archived k (snd q) \<and> (\<forall>new \<in> set (siblings (archived k) k (parent k (snd q)) ?rows'). age k q \<le> age k new)"
    if "q \<in> set ?rows" "q \<notin> set ?rows'" for q
  proof -
    let ?x = "parent k (snd q)"
    from that have q: "q \<in> set (too_old k n ?x ?rows)" unfolding run by (simp add: in_excess)
    with old_row [OF this] in_siblings [of q "archived k" k ?x ?rows] have "archived k (snd q)" "q \<in> set (?own ?x)" by auto
    with q show ?thesis
      using oldest_out(2) [OF own, of q ?x "nat (int (length (?own ?x)) - n)" "age k"]
      unfolding left too_old_eq by auto
  qed
  show ?thesis using run(1) count size old by blast
qed


text \<open>A workbook with three archived versions, whose files are no longer in the table of files, and one that waits.\<close>

definition no_repo :: repo where
  "no_repo = \<lparr>rp_world = world1, rp_system = [], rp_volumes = [], rp_busy = [], rp_sites = empty_table,
     rp_projects = empty_table, rp_connections = empty_table, rp_users = empty_table, rp_extracts = empty_table,
     rp_workbooks = empty_table, rp_workbook_updates = empty_table, rp_workbook_extracts = empty_table,
     rp_datasources = empty_table, rp_datasource_updates = empty_table, rp_datasource_extracts = empty_table,
     rp_sample_project = JNull, rp_requests = empty_table, rp_http_control = empty_table,
     rp_firewall = empty_table\<rparr>"

definition version_row :: "int \<Rightarrow> string \<Rightarrow> body" where
  "version_row t url = [''workbookid'' \<mapsto> JInt 1, ''timestamp'' \<mapsto> JInt t, ''url'' \<mapsto> JStr url]"

definition four_versions :: repo where
  "four_versions = no_repo\<lparr>rp_workbook_updates :=
     \<lparr>tb_rows = [(1, version_row 30 ''b.twb''), (2, version_row 10 ''a.twb''), (3, version_row 50 ''''), (4, version_row 40 ''c.twb'')],
      tb_next = 5\<rparr>\<rparr>"

lemmas rows_of_versions =
  four_versions_def no_repo_def version_row_def siblings_def parent_def col_def

lemma old_versions:
  "excess (Updates Workbook) 1 (tb_rows (rp_workbook_updates four_versions)) =
     [(2, version_row 10 ''a.twb''), (1, version_row 30 ''b.twb'')]"
  by (simp add: excess_def parents_def too_old_def rows_of_versions)

lemma removed_version:
  "fst (remove_version (Updates Workbook) (i, version_row t url) rp) = Inr ()"
  by (simp add: remove_version_def version_files_def change_revs_def sq_def bnd_def modify_def version_row_def col_def List.map_filter_def)

lemma removed_versions:
  "fst (for_each (map (\<lambda>(i, t, url). (i, version_row t url)) vs) (remove_version (Updates Workbook)) rp) = Inr ()"
proof (induction vs arbitrary: rp)
  case (Cons v vs)
  obtain i t url where "v = (i, t, url)" by (cases v)
  then show ?case using Cons.IH removed_version [of i t url rp]
    by (cases "remove_version (Updates Workbook) (i, version_row t url) rp") (simp add: sq_def bnd_def)
qed simp

theorem retain_keeps_newest_witness:
  "fst (retain_obj (Updates Workbook) 1 four_versions) = Inr 2 \<and>
   length (siblings (archived (Updates Workbook)) (Updates Workbook) (JInt 1)
     (tb_rows (rev_table (Updates Workbook) (snd (retain_obj (Updates Workbook) 1 four_versions))))) = 1"
proof -
  let ?k = "Updates Workbook"
  let ?old = "[(2, version_row 10 ''a.twb''), (1, version_row 30 ''b.twb'')]"
  have "fst (for_each ?old (remove_version ?k) four_versions) = Inr ()"
    using removed_versions [of "[(2, 10, ''a.twb''), (1, 30, ''b.twb'')]" four_versions] by (simp del: for_each.simps)
  then obtain rp1 where "for_each ?old (remove_version ?k) four_versions = (Inr (), rp1)"
    by (metis prod.collapse)
  then have run: "fst (retain_obj ?k 1 four_versions) = Inr 2"
    by (simp add: retain_obj_def old_versions bnd_def sq_def gets_def ret_def del: for_each.simps)
  then have run': "retain_obj ?k 1 four_versions = (Inr 2, snd (retain_obj ?k 1 four_versions))"
    by (metis prod.collapse)
  have ids: "distinct (map fst (tb_rows (rev_table ?k four_versions)))" by (simp add: four_versions_def)
  have own: "length (siblings (archived ?k) ?k (JInt 1) (tb_rows (rev_table ?k four_versions))) = 3"
    by (simp add: rows_of_versions)
  have "length (siblings (archived ?k) ?k (JInt 1) (tb_rows (rev_table ?k (snd (retain_obj ?k 1 four_versions))))) = min (nat 1) 3"
    using retain_keeps_newest [OF run' ids, of "JInt 1"] own by simp
  with run show ?thesis by simp
qed

section \<open>Versions that are kept to be fetched\<close>

lemma latest_pending_Some:
  "row \<in> set rows \<Longrightarrow> pending k (snd row) \<Longrightarrow>
     latest_pending k (parent k (snd row)) rows = Some (Max (age k ` set (siblings (pending k) k (parent k (snd row)) rows)))"
proof -
  assume "row \<in> set rows" "pending k (snd row)"
  then have "row \<in> set (siblings (pending k) k (parent k (snd row)) rows)" by (simp add: in_siblings)
  then obtain a as where "map (age k) (siblings (pending k) k (parent k (snd row)) rows) = a # as"
    by (cases "siblings (pending k) k (parent k (snd row)) rows") auto
  moreover from this have "age k ` set (siblings (pending k) k (parent k (snd row)) rows) = set (a # as)"
    by (metis set_map)
  ultimately show ?thesis by (simp add: latest_pending_def Max.set_eq_fold [symmetric])
qed

text \<open>What stays: the archived versions, and of the others the latest of each item.\<close>

lemma prune_keeps_latest:
  assumes "prune_missed k rp = (Inr c, rp')"
  shows "tb_rows (rev_table k rp') =
    filter (\<lambda>row. pending k (snd row) \<longrightarrow>
        (\<forall>other \<in> set (siblings (pending k) k (parent k (snd row)) (tb_rows (rev_table k rp))). age k other \<le> age k row))
      (tb_rows (rev_table k rp))"
proof -
  let ?rows = "tb_rows (rev_table k rp)"
  have rows': "tb_rows (rev_table k rp') = filter (\<lambda>row. \<not> missed k ?rows row) ?rows"
    using assms by (auto simp: prune_missed_def change_revs_def sq_def bnd_def gets_def modify_def ret_def revs.read_write)
  have "missed k ?rows row \<longleftrightarrow> \<not> (pending k (snd row) \<longrightarrow>
      (\<forall>other \<in> set (siblings (pending k) k (parent k (snd row)) ?rows). age k other \<le> age k row))"
    if "row \<in> set ?rows" for row
  proof (cases "pending k (snd row)")
    case True
    let ?ages = "age k ` set (siblings (pending k) k (parent k (snd row)) ?rows)"
    have "age k row \<in> ?ages" using that True by (auto simp: in_siblings)
    then have "Max ?ages = age k row \<longleftrightarrow> (\<forall>a \<in> ?ages. a \<le> age k row)"
      by (metis List.finite_set Max_eqI Max_ge finite_imageI)
    with that True show ?thesis by (auto simp: missed_def latest_pending_Some)
  qed (simp add: missed_def)
  then show ?thesis unfolding rows' by (auto intro: filter_cong)
qed


section \<open>Bad credentials\<close>

text \<open>Nothing that works on the world raises an \<open>ArchiveException\<close>.\<close>

lemma avoids_catch_all: "avoids e m \<Longrightarrow> (\<And>x. p x \<Longrightarrow> avoids e (h x)) \<Longrightarrow> avoids e (catch m p h)"
  by (simp add: avoids_def catch_def split: prod.splits sum.splits) (metis fst_conv)

lemma avoids_raw [total]:
  "(\<And>s. avoids e (f s)) \<Longrightarrow> (\<And>s. avoids e (g s)) \<Longrightarrow> (\<And>n s x. avoids e (h n s x)) \<Longrightarrow>
     avoids e (case r of NetIOError s \<Rightarrow> f s | NetHTTPError s \<Rightarrow> g s | Resp n s x \<Rightarrow> h n s x)"
  by (cases r) simp_all

lemma avoids_commands_x:
  "avoids (ArchiveException x) (kill_cmd xid a)" "avoids (ArchiveException x) (send_cleanup xid a cmd)"
  "avoids (ArchiveException x) (send_cli cmd a env im)" "avoids (ArchiveException x) (finished_status a b)"
  "avoids (ArchiveException x) (timed_out xid a cmd timeout)" "avoids (ArchiveException x) (bad_status a)"
  "avoids (ArchiveException x) (unknown_status a)" "avoids (ArchiveException x) (poll xid a)"
  unfolding kill_cmd_def send_cleanup_def send_cli_def post_start_def next_xid_def finished_status_def
    poll_def timed_out_def bad_status_def unknown_status_def
  by (rule total | simp)+

lemma avoids_get_cli_status_x: "avoids (ArchiveException x) (get_cli_status fuel xid a cmd timeout start)"
  by (induction fuel)
    (simp_all only: get_cli_status.simps agent_connected_def sleep_def, (rule total avoids_commands_x | assumption | simp)+)

lemma avoids_cli_cmd_x: "avoids (ArchiveException x) (cli_cmd cmd a env im timeout)"
  unfolding cli_cmd_def by (rule total avoids_commands_x avoids_get_cli_status_x | simp)+

lemma avoids_attempt: "avoids e m \<Longrightarrow> avoids e (attempt p m)"
  unfolding attempt_def by (intro avoids_catch_all total)

lemma avoids_http_x: "avoids (ArchiveException x) (http_send a m u b)"
  unfolding http_send_def by (rule total | simp)+

lemma avoids_io_x: "avoids (ArchiveException x) (raise (IOError s))"
  by (rule total) simp

lemma avoids_files_x:
  "avoids (ArchiveException x) (fm_mkdirs a p)" "avoids (ArchiveException x) (fm_filesize a p)"
  "avoids (ArchiveException x) (fm_delete a p)" "avoids (ArchiveException x) (fm_listdir a p)"
  "avoids (ArchiveException x) (fm_filetype a p)" "avoids (ArchiveException x) (fm_move a p q)"
  "avoids (ArchiveException x) (fm_get a p)" "avoids (ArchiveException x) (need_body b)"
  unfolding fm_mkdirs_def fm_filesize_def fm_delete_def fm_listdir_def fm_filetype_def fm_move_def fm_get_def file_action_def
    need_body_def
  by (rule total avoids_catch_all avoids_http_x avoids_io_x | simp)+

lemma avoids_lookups_x:
  "avoids (ArchiveException x) all_agents" "avoids (ArchiveException x) (gen key d u)"
  by (auto simp: avoids_def all_agents_def bnd_def lift_sum_def enabled_agents_eq gen_def)

lemma avoids_copy_x: "avoids (ArchiveException x) (copy_cmd i p j q)"
  unfolding copy_cmd_def copy_transfer_def firewall_failed_def firewall_enable_def Let_def
  by (rule total avoids_lookups_x avoids_cli_cmd_x avoids_attempt avoids_files_x | simp)+

lemma avoids_place_x: "avoids (ArchiveException x) (place_file a d p n auto)"
proof -
  have s: "avoids (ArchiveException x) (stays_on_primary d p n auto i)" for i
    unfolding stays_on_primary_def files_add_def Let_def by (rule total)+
  have c: "avoids (ArchiveException x) (copy_to_cloud a d c p n auto)" for c
    unfolding copy_to_cloud_def cloud_put_def send_put_def files_add_def Let_def
    by (rule total s avoids_cli_cmd_x | simp)+
  have t: "avoids (ArchiveException x) (copy_to_agent a d c p n auto)" for c
    unfolding copy_to_agent_def files_add_def Let_def by (rule total s avoids_copy_x | simp)+
  have l: "avoids (ArchiveException x) (delete_local a p q)" for q
    unfolding delete_local_def delete_vol_file_def by (rule total avoids_attempt avoids_files_x)+
  show ?thesis
    unfolding place_file_def files_add_def Let_def
    by (cases "dc_target_type d") (auto split: option.split intro!: total c t l)
qed

lemma avoids_disk_check_x: "avoids (ArchiveException x) (disk_check a dir ty n)"
proof -
  have z: "avoids (ArchiveException x) (sizestr i)" for i unfolding sizestr_def by (rule total | simp)+
  have p: "avoids (ArchiveException x) (get_primary_loc a dir n)" unfolding get_primary_loc_def by (rule total | simp)+
  have d: "avoids (ArchiveException x) (dest_not_found s i)" for s i unfolding dest_not_found_def by (rule total | simp)+
  have e: "avoids (ArchiveException x) (not_enough t v n)" "avoids (ArchiveException x) (over_limit v n)" for t v
    unfolding not_enough_def over_limit_def by (rule total z | simp)+
  have v: "avoids (ArchiveException x) (config_vol_target a dir ty n)" "avoids (ArchiveException x) (config_cloud_target a dir ty n)"
    unfolding config_vol_target_def config_cloud_target_def by (rule total p d e | simp)+
  have m: "avoids (ArchiveException x) (disk_mkdirs a c)" for c
    unfolding disk_mkdirs_def by (rule total avoids_attempt avoids_files_x | simp)+
  show ?thesis unfolding disk_check_def
    by (intro total m, rename_tac c, case_tac "cf_backup_dest_type c") (simp_all add: v)
qed

lemma avoids_tabcmd_x: "avoids (ArchiveException x) (tabcmd_tries n cmd a b)"
proof (induction n arbitrary: b)
  case (Suc n)
  have t: "avoids (ArchiveException x) (tabcmd cmd a)"
    unfolding tabcmd_def by (rule total avoids_cli_cmd_x | simp)+
  have m: "avoids (ArchiveException x) (lift_sum (mentions s v))" for s v
    by (cases v) (simp_all add: mentions_def lift_sum_def total)
  show ?case unfolding tabcmd_tries.simps by (rule total t m Suc)+
qed (simp add: total)

lemma starts_xml_raises: "starts_xml cs xs \<noteq> Inl (ArchiveException x)"
  by (induction cs xs rule: starts_xml.induct) simp_all

lemma avoids_lift_sum: "r \<noteq> Inl e \<Longrightarrow> avoids e (lift_sum r)"
  by (auto simp: lift_sum_def intro: total split: sum.split)

lemma avoids_archive_x:
  "avoids (ArchiveException x) (get_archive_file_type a p)" "avoids (ArchiveException x) (archive_size a p)"
  "avoids (ArchiveException x) (have_pcmd a)" "avoids (ArchiveException x) (delete_quietly a p)"
proof -
  have "mentions s v \<noteq> Inl (ArchiveException x)" for s v by (cases v) (simp_all add: mentions_def)
  then show "avoids (ArchiveException x) (have_pcmd a)"
    unfolding have_pcmd_def by (intro total avoids_files_x avoids_lift_sum) simp_all
  show "avoids (ArchiveException x) (delete_quietly a p)"
    unfolding delete_quietly_def by (intro total avoids_files_x avoids_attempt)
  show "avoids (ArchiveException x) (archive_size a p)"
    unfolding archive_size_def
    by (intro total avoids_attempt avoids_files_x) (auto split: jval.split intro!: total)
  show "avoids (ArchiveException x) (get_archive_file_type a p)"
    unfolding get_archive_file_type_def
    by (intro total avoids_attempt avoids_files_x avoids_io_x; simp?)
       (auto split: jval.split option.split intro!: total avoids_lift_sum starts_xml_raises)
qed


text \<open>What holds whenever a method raises an \<open>ArchiveException\<close>.\<close>

definition blames :: "('s \<Rightarrow> bool) \<Rightarrow> ('s, 'a) M \<Rightarrow> bool" where
  "blames Q m \<longleftrightarrow> (\<forall>s x s'. m s = (Inl (ArchiveException x), s') \<longrightarrow> Q s')"

lemma blamesD: "blames Q m \<Longrightarrow> m s = (Inl (ArchiveException x), s') \<Longrightarrow> Q s'"
  by (auto simp: blames_def)

lemma blames_never: "(\<And>x. avoids (ArchiveException x) m) \<Longrightarrow> blames Q m"
  by (auto simp: blames_def dest: avoidsD)

lemma blames_bnd:
  assumes "blames Q m" and "\<And>x. blames Q (k x)"
  shows "blames Q (bnd m k)"
  unfolding blames_def bnd_def
proof (intro allI impI)
  fix s x s'
  assume r: "(case m s of (Inl e, s') \<Rightarrow> (Inl e, s') | (Inr x, s') \<Rightarrow> k x s') = (Inl (ArchiveException x), s')"
  obtain y t where m: "m s = (y, t)" by fastforce
  show "Q s'"
    using r m blamesD [OF assms(1), of s x t] blamesD [OF assms(2), of _ t x s'] by (cases y) auto
qed

lemma blames_cases:
  "blames Q m \<Longrightarrow> blames Q n \<Longrightarrow> blames Q (if b then m else n)"
  "blames Q m \<Longrightarrow> (\<And>x. blames Q (k x)) \<Longrightarrow> blames Q (case v of None \<Rightarrow> m | Some x \<Rightarrow> k x)"
  "(\<And>x. blames Q (f x)) \<Longrightarrow> (\<And>x. blames Q (g x)) \<Longrightarrow> blames Q (case w of Inl x \<Rightarrow> f x | Inr x \<Rightarrow> g x)"
  "(\<And>x y. blames Q (h x y)) \<Longrightarrow> blames Q (case p of (x, y) \<Rightarrow> h x y)"
  "(\<And>x. blames Q (j x)) \<Longrightarrow> blames Q (Let v' j)"
  by (simp_all split: option.split sum.split prod.split)

lemma blames_sq: "blames Q m \<Longrightarrow> blames Q n \<Longrightarrow> blames Q (sq m n)"
  unfolding sq_def by (rule blames_bnd)

lemma avoids_on_world: "avoids e m \<Longrightarrow> avoids e (on_world m)"
  by (auto simp: avoids_def on_world_def split: prod.splits) (metis fst_conv)

lemma avoids_lift_repo: "r \<noteq> Inl e \<Longrightarrow> avoids e (lift_repo r)"
  by (simp add: avoids_def lift_repo_def)

lemma sys_get_raises: "sys_get t key \<noteq> Inl (ArchiveException x)"
  by (auto simp: sys_get_def cast_def data_type_def setting_type_def split: option.splits setting.splits jval.splits sum.splits ptype.splits)


lemma int_setting_raises: "avoids (ArchiveException x) (int_setting key)"
proof -
  have "avoids (ArchiveException x) (system_get key)"
    by (simp add: avoids_def system_get_def sys_get_raises)
  then show ?thesis unfolding int_setting_def
    by (intro total) (auto split: jval.split intro!: total)
qed

lemma avoids_rows_x:
  "avoids (ArchiveException x) (system_get key)" "avoids (ArchiveException x) (change_revs k f)"
  "avoids (ArchiveException x) (rev_row k i)" "avoids (ArchiveException x) (parent_row k r)"
  "avoids (ArchiveException x) (set_cell k i c v)" "avoids (ArchiveException x) (sendevent ev u err data)"
  "avoids (ArchiveException x) (clean_filename lb entry r1 d)" "avoids (ArchiveException x) (system_set key (JInt n))"
proof -
  show "avoids (ArchiveException x) (system_get key)"
    by (simp add: avoids_def system_get_def sys_get_raises)
  show m: "avoids (ArchiveException x) (change_revs k f)" for k f
    unfolding change_revs_def by (rule total)
  then show "avoids (ArchiveException x) (set_cell k i c v)" by (simp only: set_cell_def)
  show "avoids (ArchiveException x) (rev_row k i)" "avoids (ArchiveException x) (parent_row k r)"
    unfolding rev_row_def parent_row_def by (rule total | simp)+
  show "avoids (ArchiveException x) (sendevent ev u err data)"
    unfolding sendevent_def Let_def by (rule total avoids_on_world avoids_lookups_x)+
  show "avoids (ArchiveException x) (clean_filename lb entry r1 d)"
    unfolding clean_filename_def by (intro total) (auto split: jval.split intro!: total)
  have "cast key (JInt n) \<noteq> Inl (ArchiveException x)"
    by (auto simp: cast_def data_type_def setting_type_def split: option.splits setting.splits jval.splits sum.splits ptype.splits)
  then show "avoids (ArchiveException x) (system_set key (JInt n))"
    by (auto simp: avoids_def system_set_def sys_set_def split: sum.splits)
qed

lemma avoids_eventgen_x: "avoids (ArchiveException x) (archive_eventgen k i key err data)"
  unfolding archive_eventgen_def by (rule total avoids_rows_x)+

lemma avoids_tabcmd_run_x: "avoids (ArchiveException x) (tabcmd_run a url dst site)"
  unfolding tabcmd_run_def
  by (intro total avoids_on_world avoids_tabcmd_x) (auto split: jval.split intro!: total)

lemma avoids_archive_file_x: "avoids (ArchiveException x) (archive_file a d dst)"
  unfolding archive_file_def by (intro avoids_on_world total avoids_archive_x avoids_place_x) simp

text \<open>The setting that says how many versions are kept is 0: the archive is switched off.\<close>

definition switched_off :: "revtab \<Rightarrow> repo \<Rightarrow> bool" where
  "switched_off k rp \<longleftrightarrow> sys_get (rp_system rp) (retain_key k) = Inr (JInt 0)"

lemma retain_key_int: "data_type (retain_key k) = Inr PyInt"
  by (cases k rule: retain_key.cases) (simp_all add: data_type_def DEFAULTS_def setting_type_def)

lemma switched_off_set: "system_set (retain_key k) (JInt 0) rp = (Inr (), rp') \<Longrightarrow> switched_off k rp'"
  using cast_back [OF retain_key_int, of "JInt 0" k] cast_same [OF retain_key_int, of "JInt 0" k]
  by (auto simp: system_set_def sys_set_def switched_off_def sys_get_def update_conv' split: sum.splits)

lemma keeps_system_eventgen: "keeps rp_system (archive_eventgen k i key err data)"
proof -
  have w: "keeps rp_system (on_world m)" for m :: "unit io"
    by (auto simp: keeps_def on_world_def split: prod.splits)
  show ?thesis
    unfolding archive_eventgen_def rev_row_def parent_row_def sendevent_def Let_def by (rule frame w)+
qed

lemma blames_get_failed: "blames (switched_off k) (get_failed k i b)"
proof -
  have off: "switched_off k rp'"
    if run: "sq (system_set (retain_key k) (JInt 0)) (sq (archive_eventgen k i key [] b) (raise e)) rp = (Inl (ArchiveException x), rp')"
    for key and e :: pyexn and rp rp' x
  proof -
    obtain r rp1 where set: "system_set (retain_key k) (JInt 0) rp = (r, rp1)" by fastforce
    obtain r2 rp2 where tell: "archive_eventgen k i key [] b rp1 = (r2, rp2)" by fastforce
    from run set have ok: "r = Inr ()"
      using avoidsD [OF avoids_rows_x(8) [of x "retain_key k" 0], of rp] by (cases r) (auto simp: sq_def bnd_def)
    from run set tell ok have "rp' = rp2" by (cases r2) (auto simp: sq_def bnd_def)
    moreover have "switched_off k rp1" using switched_off_set set ok by blast
    ultimately show ?thesis
      using keepsD [OF keeps_system_eventgen tell] by (simp add: switched_off_def)
  qed
  have m: "mentions s v \<noteq> Inl (ArchiveException x)" for s v x by (cases v) (simp_all add: mentions_def)
  have stop: "blames (switched_off k)
      (sq (system_set (retain_key k) (JInt 0)) (sq (archive_eventgen k i key [] b) (raise e)))" for key and e :: pyexn
    unfolding blames_def using off by blast
  show ?thesis
    unfolding get_failed_def
    by (intro blames_sq blames_bnd blames_cases stop blames_never avoids_eventgen_x avoids_lift_repo m total avoids_rows_x)
qed

lemma blames_archive_one: "blames (switched_off (Updates k)) (archive_one lb k a i)"
proof -
  note never = blames_never [where Q = "switched_off (Updates k)"]
  have quiet: "avoids (ArchiveException x) (if k = DataSource then delete_quietly a p else ret ())"
    "avoids (ArchiveException x) (if b then ret () else delete_quietly a p)"
    "avoids (ArchiveException x) (if k = DataSource then have_pcmd a else ret True)" for x p b
    by (rule total avoids_archive_x)+
  have get: "blames (switched_off (Updates k)) (tabcmd_get lb k a i dir)" for dir
    unfolding tabcmd_get_def Let_def
    by (intro blames_bnd blames_cases blames_get_failed never total avoids_rows_x avoids_tabcmd_run_x)
       (auto split: kind.split intro!: never total)
  have unpack: "avoids (ArchiveException x) (extract_from_packed k a i dst)" for x dst
    unfolding extract_from_packed_def
    by (rule total avoids_on_world quiet avoids_cli_cmd_x avoids_rows_x avoids_eventgen_x)+
  have copy: "avoids (ArchiveException x) (copy_to_controller lb k a i p)" for x p
    unfolding copy_to_controller_def by (rule total avoids_on_world avoids_attempt avoids_files_x avoids_rows_x)+
  have place: "avoids (ArchiveException x) (place_versions lb k a i d p q)" for x d p q
    unfolding place_versions_def by (rule total copy avoids_archive_file_x avoids_rows_x)+
  have ft: "blames (switched_off (Updates k))
      (case ft of Inl msg \<Rightarrow> sq (archive_eventgen (Updates k) i (failed_key (Updates k)) msg Map.empty) (ret None)
       | Inr Zip \<Rightarrow> bnd (extract_from_packed k a i dst) (\<lambda>plain. case plain of
             None \<Rightarrow> ret None | Some p \<Rightarrow> place_versions lb k a i d p (Some dst))
       | Inr Xml \<Rightarrow> sq (on_world (bnd (fm_move a dst (butlast dst)) (\<lambda>_. ret ())))
                      (place_versions lb k a i d (butlast dst) None))" for ft dst d
    by (intro never) (auto split: sum.split file_type.split
        intro!: total avoids_eventgen_x unpack place avoids_on_world avoids_files_x)
  have disk: "avoids (ArchiveException x) (on_world (attempt is_disk
      (disk_check a (archive_dir (Updates k)) (kind_file_type k) 0)))" for x
    by (rule avoids_on_world avoids_attempt avoids_disk_check_x)+
  have tell: "avoids (ArchiveException x) (sq (archive_eventgen (Updates k) i (failed_key (Updates k)) msg Map.empty) (ret None))"
    for x msg
    by (rule total avoids_eventgen_x)+
  have file_t: "avoids (ArchiveException x) (on_world (attempt is_io (get_archive_file_type a dst)))" for x dst
    by (rule avoids_on_world avoids_attempt avoids_archive_x)+
  have build: "blames (switched_off (Updates k)) (build_version lb k a i)"
    unfolding build_version_def
    by (rule blames_bnd blames_cases get ft never [OF disk] never [OF tell] never [OF file_t] never [OF avoids_ret])+
  have ready: "avoids (ArchiveException x) (on_world (if k = DataSource then have_pcmd a else ret True))" for x
    by (rule avoids_on_world quiet)+
  show ?thesis
    unfolding archive_one_def
    by (rule blames_bnd blames_cases build never [OF ready] never [OF avoids_rows_x(3)] never [OF avoids_rows_x(4)]
        never [OF avoids_rows_x(5)] never [OF avoids_ret])+
qed


text \<open>Only credentials that were refused end the loop early, and then the setting is 0.\<close>

lemma archive_loop_stops:
  "archive_loop lb k a updates n rp = (Inr (m, True), rp') \<Longrightarrow> switched_off (Updates k) rp'"
proof (induction updates arbitrary: n rp)
  case Nil
  then show ?case by simp
next
  case (Cons i rest)
  have one: "switched_off (Updates k) rp2"
    if "catch (sq (archive_one lb k a i) (ret True))
          (\<lambda>e. case e of ArchiveException s \<Rightarrow> s = ''Bad Credentials'' | _ \<Rightarrow> False) (\<lambda>_. ret False) rp1 = (Inr False, rp2)"
    for rp1 rp2
    using that blamesD [OF blames_archive_one]
    by (auto simp: catch_def sq_def bnd_def split: prod.splits sum.splits if_splits pyexn.splits)
  from Cons.prems show ?case
    by (auto simp: bnd_def split: prod.splits sum.splits if_splits dest: Cons.IH one)
qed

lemma switched_off_retain: "switched_off (Updates k) rp \<Longrightarrow> int_setting (retain_key (Updates k)) rp = (Inr 0, rp)"
  by (simp add: switched_off_def int_setting_def system_get_def bnd_def)



text \<open>A Tableau that refuses the credentials, and one workbook whose version is waiting.\<close>

definition refused :: body where
  "refused = [''xid'' \<mapsto> JInt 1, ''run-status'' \<mapsto> JStr ''finished'', ''error'' \<mapsto> JStr ''tabcmd'',
     ''stderr'' \<mapsto> JStr ''Not authorized'']"

definition refusing_world :: world where
  "refusing_world = world_disk\<lparr>w_conf := (w_conf world_disk)\<lparr>cf_credentials := [(''primary'', ''u'', ''p'')],
       cf_tableau_server_url := Some ''http://t''\<rparr>,
     w_net := [(1, Resp 200 ''OK'' (JsonBody Map.empty)), (1, Resp 200 ''OK'' (JsonBody refused))]\<rparr>"

definition refusing_repo :: "world \<Rightarrow> repo" where
  "refusing_repo w = no_repo\<lparr>rp_world := w, rp_system := [(''workbook-retain-count'', ''3'')],
     rp_sites := \<lparr>tb_rows = [(1, [''id'' \<mapsto> JInt 1])], tb_next = 2\<rparr>,
     rp_workbooks := \<lparr>tb_rows = [(1, [''repository_url'' \<mapsto> JStr ''w'', ''site_id'' \<mapsto> JInt 1])], tb_next = 2\<rparr>,
     rp_workbook_updates := \<lparr>tb_rows = [(1, version_row 30 '''')], tb_next = 2\<rparr>\<rparr>"

lemma cli_cmd_at_once:
  assumes "w_net w = (d, Resp 200 reason (JsonBody b)) # rest"
    and "b ''xid'' = Some (JInt (int (w_next_xid w)))" and "b ''run-status'' = Some (JStr ''finished'')"
  shows "\<exists>w'. cli_cmd cmd a env immediate timeout w = (Inr b, w')"
  using assms
  by (simp add: cli_cmd_def send_cli_def post_start_def checked_exchange_def exchange_def next_xid_def
      json_loads_def bnd_def sq_def check_started_def failed_def)

lemma tabcmd_refused:
  assumes "w_net w = [(1, Resp 200 ''OK'' (JsonBody refused))]" and "w_next_xid w = 1"
    and "cf_credentials (w_conf w) = [(''primary'', ''u'', ''p'')]" and "cf_tableau_server_url (w_conf w) = Some ''http://t''"
    and "cf_tableau_internal_server_url (w_conf w) = None"
  shows "\<exists>w'. tabcmd_tries 3 cmd agent0 Map.empty w = (Inr refused, w')"
proof -
  have "\<exists>w'. cli_cmd cmd' agent0 Map.empty False t w = (Inr refused, w')" for cmd' t
    using assms(1,2) by (intro cli_cmd_at_once) (simp_all add: refused_def)
  then obtain w' where "tabcmd cmd agent0 w = (Inr refused, w')"
    using assms(3-5) by (auto simp: tabcmd_def bnd_def truthy_str_def)
  moreover have "\<not> success refused" "refused ''stderr'' = Some (JStr ''Not authorized'')"
    by (simp_all add: refused_def success_def failed_def)
  ultimately show ?thesis
    by (simp add: eval_nat_numeral bnd_def mentions_def lift_sum_def)
qed

lemma refused_dir:
  "\<exists>w d. disk_check agent0 (archive_dir (Updates Workbook)) (kind_file_type Workbook) 0 refusing_world = (Inr d, w) \<and>
     w_net w = [(1, Resp 200 ''OK'' (JsonBody refused))] \<and> w_next_xid w = 1 \<and> w_conf w = w_conf refusing_world"
proof -
  obtain d where "config_vol_target agent0 (archive_dir (Updates Workbook)) (kind_file_type Workbook) 0 refusing_world
      = (Inr d, refusing_world)"
      and t: "dc_target_type d = STORAGE_TYPE_VOL" "dc_target_agent d = Some agent0" "dc_target_dir d = dc_primary_dir d"
    by (simp add: config_vol_target_def bnd_def refusing_world_def world_disk_def world1_def volume_c_def agent0_def 
        get_vol_entry_by_volid_def get_by_id_def conf0_def)
  then show ?thesis
    by (simp add: disk_check_def bnd_def sq_def disk_mkdirs_def attempt_def catch_def fm_mkdirs_def file_action_def
        http_send_def exchange_def json_loads_def refusing_world_def world_disk_def world1_def world0_def conf0_def)
qed


lemma on_gen: "on_world (gen key data u) rp = (Inr (), rp\<lparr>rp_world := snd (gen key data u (rp_world rp))\<rparr>)"
  by (simp add: on_world_def gen_def bnd_def split: option.split)

definition one_waiting :: "repo \<Rightarrow> bool" where
  "one_waiting rp \<longleftrightarrow> tb_rows (rp_workbook_updates rp) = [(1, version_row 30 '''')] \<and>
     tb_rows (rp_workbooks rp) = [(1, [''repository_url'' \<mapsto> JStr ''w'', ''site_id'' \<mapsto> JInt 1])]"

lemma refused_events:
  assumes "one_waiting rp"
  shows "\<exists>w'. archive_eventgen (Updates Workbook) 1 key err data rp = (Inr (), rp\<lparr>rp_world := w'\<rparr>)"
proof -
  have "\<exists>w'. sendevent key' u err data' rp = (Inr (), rp\<lparr>rp_world := w'\<rparr>)" for key' u data'
    unfolding sendevent_def bnd_def gets_def Let_def prod.case sum.case on_gen by blast
  then show ?thesis
    using assms by (simp add: one_waiting_def archive_eventgen_def rev_row_def parent_row_def bnd_def rows_of_versions)
qed

lemma refused_get:
  assumes "one_waiting rp"
  shows "\<exists>rp'. get_failed (Updates Workbook) 1 refused rp = (Inl (ArchiveException ''Bad Credentials''), rp')"
proof -
  obtain v1 where 1: "archive_eventgen (Updates Workbook) 1 (failed_key (Updates Workbook)) [] refused rp = (Inr (), rp\<lparr>rp_world := v1\<rparr>)"
    using refused_events [OF assms] by blast
  obtain t where 2: "system_set (retain_key (Updates Workbook)) (JInt 0) (rp\<lparr>rp_world := v1\<rparr>) = (Inr (), rp\<lparr>rp_world := v1, rp_system := t\<rparr>)"
    using cast_same [OF retain_key_int, of "JInt 0" "Updates Workbook"]
    by (simp add: system_set_def sys_set_def del: retain_key.simps)
  have "one_waiting (rp\<lparr>rp_world := v1, rp_system := t\<rparr>)" using assms by (simp add: one_waiting_def)
  then obtain v2 where 3: "archive_eventgen (Updates Workbook) 1 (credentials_key (Updates Workbook)) [] refused
      (rp\<lparr>rp_world := v1, rp_system := t\<rparr>) = (Inr (), rp\<lparr>rp_world := v1, rp_system := t\<rparr>\<lparr>rp_world := v2\<rparr>)"
    using refused_events by blast
  have "mentions ''Not authorized'' (JStr ''Not authorized'') = Inr True" "refused ''stderr'' = Some (JStr ''Not authorized'')"
    by (simp_all add: mentions_def refused_def)
  then show ?thesis
    by (simp add: get_failed_def sq_def bnd_def lift_repo_def 1 2 3 del: retain_key.simps credentials_key.simps failed_key.simps One_nat_def)
qed


definition lb0 :: libs where
  "lb0 = \<lparr>lb_dt = (\<lambda>_. None), lb_show_time = int_str, lb_ascii = (\<lambda>s. s), lb_text = (\<lambda>_. '''')\<rparr>"

lemma refused_one:
  "\<exists>rp'. archive_one lb Workbook agent0 1 (refusing_repo refusing_world) = (Inl (ArchiveException ''Bad Credentials''), rp')"
proof -
  let ?rp = "refusing_repo refusing_world"
  have w [simp]: "one_waiting (rp\<lparr>rp_world := w\<rparr>) = one_waiting rp" for rp w by (simp add: one_waiting_def)
  have at: "one_waiting ?rp" and sites: "find_row ''id'' (JInt 1) (rp_sites ?rp) = Some (1, [''id'' \<mapsto> JInt 1])"
    by (simp_all add: one_waiting_def refusing_repo_def find_row_def col_def)
  have rows: "rev_row (Updates Workbook) 1 rp = (Inr (version_row 30 ''''), rp)"
    "parent_row (Updates Workbook) (version_row 30 '''') rp =
       (Inr (1, [''repository_url'' \<mapsto> JStr ''w'', ''site_id'' \<mapsto> JInt 1]), rp)" if "one_waiting rp" for rp
    using that by (simp_all add: one_waiting_def rev_row_def parent_row_def bnd_def rows_of_versions)
  obtain d w1 where "disk_check agent0 (archive_dir (Updates Workbook)) (kind_file_type Workbook) 0 refusing_world = (Inr d, w1)"
      and w1: "w_net w1 = [(1, Resp 200 ''OK'' (JsonBody refused))]" "w_next_xid w1 = 1" "w_conf w1 = w_conf refusing_world"
    using refused_dir by blast
  then have dir: "on_world (attempt is_disk (disk_check agent0 (archive_dir (Updates Workbook)) (kind_file_type Workbook) 0)) ?rp =
      (Inr (Inr d), ?rp\<lparr>rp_world := w1\<rparr>)"
    by (simp add: on_world_def attempt_def catch_def bnd_def refusing_repo_def del: archive_dir.simps kind_file_type.simps)
  have "\<exists>w2. tabcmd_tries 3 cmd agent0 Map.empty w1 = (Inr refused, w2)" for cmd
    using tabcmd_refused [OF w1(1,2)] by (simp add: w1(3) refusing_world_def world_disk_def world1_def conf0_def)
  then have "\<exists>w2. on_world (tabcmd_tries 3 cmd agent0 Map.empty) (?rp\<lparr>rp_world := w1\<rparr>) = (Inr refused, ?rp\<lparr>rp_world := w2\<rparr>)" for cmd
    by (simp add: on_world_def split: prod.split) (metis prod.inject)
  then have run: "\<exists>w2. tabcmd_run agent0 url dst (JInt 1) (?rp\<lparr>rp_world := w1\<rparr>) = (Inr refused, ?rp\<lparr>rp_world := w2\<rparr>)" for url dst
    by (simp add: tabcmd_run_def bnd_def sites)
  have get: "\<exists>rp'. tabcmd_get lb Workbook agent0 1 (dc_primary_dir d) (?rp\<lparr>rp_world := w1\<rparr>) =
      (Inl (ArchiveException ''Bad Credentials''), rp')"
  proof -
    have "\<exists>name. clean_filename lb [''repository_url'' \<mapsto> JStr ''w'', ''site_id'' \<mapsto> JInt 1] JNull [] rp = (Inr name, rp)" for rp
      by (simp add: clean_filename_def bnd_def col_def)
    then obtain name where name: "clean_filename lb [''repository_url'' \<mapsto> JStr ''w'', ''site_id'' \<mapsto> JInt 1] JNull []
        (?rp\<lparr>rp_world := w1\<rparr>) = (Inr name, ?rp\<lparr>rp_world := w1\<rparr>)" by blast
    obtain w2 where w2: "tabcmd_run agent0 (item_url Workbook [''repository_url'' \<mapsto> JStr ''w'', ''site_id'' \<mapsto> JInt 1])
        (path_join (ag_iswin agent0) (dc_primary_dir d) (name @ packed_ext Workbook)) (JInt 1) (?rp\<lparr>rp_world := w1\<rparr>) =
        (Inr refused, ?rp\<lparr>rp_world := w2\<rparr>)" using run by blast
    obtain rp' where no: "get_failed (Updates Workbook) 1 refused (?rp\<lparr>rp_world := w2\<rparr>) = (Inl (ArchiveException ''Bad Credentials''), rp')"
      using refused_get at by force
    have cells: "parent (Updates Workbook) (version_row 30 '''') = JInt 1" "col (version_row 30 '''') ''revision'' = JNull"
      "col [''repository_url'' \<mapsto> JStr ''w'', ''site_id'' \<mapsto> JInt 1] ''site_id'' = JInt 1"
      "map_of (tb_rows (rp_workbooks ?rp)) (Suc 0) = Some [''repository_url'' \<mapsto> JStr ''w'', ''site_id'' \<mapsto> JInt 1]"
      "failed refused"
      by (simp_all add: rows_of_versions refusing_repo_def success_def failed_def refused_def)
    show ?thesis
      using at by (simp add: tabcmd_get_def bnd_def rows cells name w2 no Let_def del: packed_ext.simps One_nat_def)
  qed
  then obtain rp' where got: "tabcmd_get lb Workbook agent0 1 (dc_primary_dir d) (?rp\<lparr>rp_world := w1\<rparr>) =
      (Inl (ArchiveException ''Bad Credentials''), rp')" by blast
  have "build_version lb Workbook agent0 1 ?rp = (Inl (ArchiveException ''Bad Credentials''), rp')"
    unfolding build_version_def bnd_def dir by (simp add: got del: One_nat_def)
  moreover have "on_world (ret True) ?rp = (Inr True, ?rp)" by (simp add: on_world_def refusing_repo_def)
  ultimately show ?thesis
    by (simp add: archive_one_def bnd_def rows [OF at] del: One_nat_def)
qed


end
