(* ===== verification/Refresh.thy ===== *)
theory Refresh
  imports Archive
begin

text \<open>
  The archive of refreshed extracts (\<open>extract_archive.py\<close>): \<open>refresh\<close> and the methods below it.  What it
  shares with the archives of workbooks and data sources (the versions that are kept, the command
  that fetches a file, its place, the events) is in theory Archive; the rows here are those of
  \<open>Refreshes k\<close>.
\<close>

definition build_extract :: "libs \<Rightarrow> kind \<Rightarrow> agent \<Rightarrow> nat \<Rightarrow> string option rio" where
  "build_extract lb k a i =
     bnd (rev_row (Refreshes k) i) (\<lambda>r. bnd (parent_row (Refreshes k) r) (\<lambda>(p, item).
     bnd (gets (\<lambda>rp. w_stamp (rp_world rp) (w_now (rp_world rp)))) (\<lambda>date_str.
     bnd (clean_filename lb item JNull date_str) (\<lambda>name.
     bnd (on_world (attempt is_disk (disk_check a (archive_dir (Refreshes k)) (kind_file_type k) 0))) (\<lambda>disk. case disk of
       Inl msg \<Rightarrow>
         sq (archive_eventgen (Refreshes k) i (failed_key (Refreshes k)) (''refresh archive disk check: '' @ msg) Map.empty)
            (ret None)
     | Inr d \<Rightarrow>
         let dst = path_join (ag_iswin a) (dc_primary_dir d) (name @ packed_ext k) in
         bnd (tabcmd_run a (item_url k item) dst (col item ''site_id'')) (\<lambda>b.
           if failed b then bnd (get_failed (Refreshes k) i b) (\<lambda>_. ret None)
           else bnd (archive_file a d dst) (\<lambda>f.
             sq (set_cell (Refreshes k) i ''fileid'' (JInt (int f))) (ret (Some dst)))))))))"

text \<open>
  The loop of \<open>_archive\<close>: the setting is read before each row, a row without a file is passed over, and
  bad credentials end it.
\<close>

fun extracts_loop :: "libs \<Rightarrow> kind \<Rightarrow> agent \<Rightarrow> nat list \<Rightarrow> nat \<Rightarrow> nat rio" where
  "extracts_loop lb k a [] n = ret n"
| "extracts_loop lb k a (i # rest) n =
     bnd (int_setting (retain_key (Refreshes k))) (\<lambda>retain.
       if retain = 0 then ret n
       else bnd (rev_row (Refreshes k) i) (\<lambda>r. bnd (parent_row (Refreshes k) r) (\<lambda>_.
         bnd (catch (bnd (build_extract lb k a i) (\<lambda>f. ret (Some (f \<noteq> None))))
                (\<lambda>e. case e of ArchiveException s \<Rightarrow> s = ''Bad Credentials'' | _ \<Rightarrow> False) (\<lambda>_. ret None)) (\<lambda>got. case got of
           None \<Rightarrow> ret n
         | Some got \<Rightarrow> extracts_loop lb k a rest (if got then n + 1 else n)))))"

definition archive_extracts :: "libs \<Rightarrow> kind \<Rightarrow> agent \<Rightarrow> nat rio" where
  "archive_extracts lb k a =
     bnd (gets (\<lambda>rp. map fst (filter (pending (Refreshes k) \<circ> snd) (tb_rows (rev_table (Refreshes k) rp))))) (\<lambda>updates.
     bnd (extracts_loop lb k a updates 0) (\<lambda>n.
       sq (if n = 0 then ret () else bnd retain_refreshes (\<lambda>_. ret ())) (ret n)))"

definition archive_all_extracts :: "libs \<Rightarrow> agent \<Rightarrow> body rio" where
  "archive_all_extracts lb a =
     bnd (archive_extracts lb Workbook a) (\<lambda>wb. bnd (archive_extracts lb DataSource a) (\<lambda>ds.
       ret [''status'' \<mapsto> JStr ''OK'', ''workbook-extracts-archived'' \<mapsto> JInt (int wb),
            ''datasource-extracts-archive'' \<mapsto> JInt (int ds)]))"

definition refresh :: "libs \<Rightarrow> agent \<Rightarrow> bool \<Rightarrow> body rio" where
  "refresh lb a check_odbc_state =
     synchronized ''refresh''
       (bnd (int_setting (retain_key (Refreshes Workbook))) (\<lambda>retain.
          if retain = 0 then ret [''disabled'' \<mapsto> JStr ''Extract refresh archiving is not enabled.  Not done.'']
          else bnd (on_world odbc_ok) (\<lambda>ok. bnd (gets (cur_state \<circ> rp_world)) (\<lambda>st.
            if check_odbc_state \<and> \<not> ok
            then ret (error_body (''Cannot run extract refresh archive while in state: '' @ state_name st))
            else bnd prune_all_missed (\<lambda>_. archive_all_extracts lb a)))))"

section \<open>Bad credentials\<close>

text \<open>
  A refused command ends the loop over its kind; the rest of the run, which reads the setting again
  for each row, then archives nothing.
\<close>

lemma extracts_loop_off:
  "switched_off (Refreshes k) rp \<Longrightarrow> extracts_loop lb k a updates n rp = (Inr n, rp)"
  by (cases updates) (simp_all add: switched_off_def int_setting_def system_get_def bnd_def)

lemma archive_extracts_off:
  assumes "switched_off (Refreshes k) rp"
  shows "archive_extracts lb k a rp = (Inr 0, rp)"
  by (simp add: archive_extracts_def bnd_def sq_def extracts_loop_off [OF assms])

lemma extracts_loop_counts:
  "extracts_loop lb k a updates n rp = (Inr m, rp') \<Longrightarrow> n \<le> m \<and> m \<le> n + length updates"
proof (induction updates arbitrary: n rp)
  case Nil
  then show ?case by simp
next
  case (Cons i rest)
  then show ?case
    by (auto simp: bnd_def split: prod.splits sum.splits if_splits option.splits dest!: Cons.IH)
qed

text \<open>Whatever the settings say, a disabled archive answers so and does nothing.\<close>

lemma refresh_disabled:
  assumes "switched_off (Refreshes Workbook) rp" and "''refresh'' \<notin> set (rp_busy rp)"
  shows "refresh lb a check rp = (Inr [''disabled'' \<mapsto> JStr ''Extract refresh archiving is not enabled.  Not done.''], rp)"
  using assms by (simp add: refresh_def synchronized_def switched_off_def int_setting_def system_get_def bnd_def)

end
