(* ===== verification/HttpRequests.thy ===== *)
theory HttpRequests
  imports Archive
begin

text \<open>
  \<open>http_requests.py\<close> and \<open>http_control.py\<close>: the log of the requests that Tableau's web server has answered is
  copied in steps, and events tell of bad statuses and of views that take long to load.  The columns
  of a row have the types of its table; the text column \<open>system_user_id\<close> keeps a number as its text.
\<close>

text \<open>
  What is not part of the source: what \<open>dateutil\<close> makes of a date, Python's regular expressions (an
  exception, or which texts a pattern matches from their start), and \<open>decode('utf8')\<close>.
\<close>

record hlibs =
  hl_dt :: "string \<Rightarrow> int option"
  hl_re :: "string \<Rightarrow> pyexn + (string \<Rightarrow> bool)"
  hl_decode :: "string \<Rightarrow> string option"

section \<open>\<open>http_control.py\<close>\<close>

type_synonym patterns = "(string \<Rightarrow> bool) list"

definition list_re :: "hlibs \<Rightarrow> string \<Rightarrow> pyexn + patterns" where
  "list_re lb arg =
     traverse (hl_re lb)
       (filter (\<lambda>s. s \<noteq> []) (split_on (CHR '' '') (map (\<lambda>c. if c = CHR '','' then CHR '' '' else c) arg)))"

definition match_re :: "patterns \<Rightarrow> string \<Rightarrow> bool" where
  "match_re ps arg \<longleftrightarrow> list_ex (\<lambda>p. p arg) ps"

record http_control =
  hc_status :: "(jval \<times> patterns) list"
  hc_load :: patterns

definition control_rows :: "table \<Rightarrow> (nat \<times> body) list" where
  "control_rows t = filter (\<lambda>(k, r). case col r ''level'' of JInt n \<Rightarrow> 0 < n | _ \<Rightarrow> False) (tb_rows t)"

definition status_excludes :: "hlibs \<Rightarrow> nat \<times> body \<Rightarrow> pyexn + (jval \<times> patterns)" where
  "status_excludes lb row =
     (case list_re lb (case col (snd row) ''excludes'' of JStr s \<Rightarrow> s | _ \<Rightarrow> '''') of
        Inl e \<Rightarrow> Inl e
      | Inr ps \<Rightarrow> Inr (col (snd row) ''status'', ps))"

definition http_control_data :: "hlibs \<Rightarrow> http_control rio" where
  "http_control_data lb =
     bnd (gets (control_rows \<circ> rp_http_control)) (\<lambda>rows.
     bnd (lift_repo (traverse (status_excludes lb) rows)) (\<lambda>st.
     bnd (system_get ''http-load-re'') (\<lambda>arg.
     bnd (if truthy arg then (case arg of JStr s \<Rightarrow> lift_repo (list_re lb s) | _ \<Rightarrow> raise (AttributeError ''replace''))
          else ret []) (\<lambda>ps.
       ret \<lparr>hc_status = filter (\<lambda>(s, ps). ps \<noteq> []) st, hc_load = ps\<rparr>))))"

definition status_exclude :: "http_control \<Rightarrow> jval \<Rightarrow> string \<Rightarrow> bool" where
  "status_exclude c st url = (case map_of (hc_status c) st of None \<Rightarrow> False | Some ps \<Rightarrow> match_re ps url)"

definition load_exclude :: "http_control \<Rightarrow> string \<Rightarrow> bool" where
  "load_exclude c url = match_re (hc_load c) url"

section \<open>What a request is about\<close>

definition parse_uri :: "string \<Rightarrow> body \<Rightarrow> body" where
  "parse_uri uri b =
     (let b1 = b(''uri'' \<mapsto> JStr uri);
          b2 = (if CHR ''?'' \<in> set uri
                then b1(''query_string'' \<mapsto> JStr (drop 1 (dropWhile (\<lambda>c. c \<noteq> CHR ''?'') uri))) else b1);
          t = split_on (CHR ''/'') (drop 1 uri)
      in if length t = 3 \<and> lower (t ! 0) = ''views''
         then b2(''repository_url'' \<mapsto> JStr (t ! 1), ''view'' \<mapsto> JStr (t ! 2))
         else if length t = 5 \<and> lower (t ! 0) = ''t''
         then b2(''site'' \<mapsto> JStr (t ! 1), ''repository_url'' \<mapsto> JStr (t ! 3), ''view'' \<mapsto> JStr (t ! 4))
         else if 7 \<le> length t \<and> t ! 0 = ''vizql'' then
           (if t ! 1 = ''t'' \<and> t ! 3 = ''w'' \<and> t ! 5 = ''v''
            then b2(''site'' \<mapsto> JStr (t ! 2), ''repository_url'' \<mapsto> JStr (t ! 4), ''view'' \<mapsto> JStr (t ! 6))
            else if t ! 1 = ''w'' \<and> t ! 3 = ''v''
            then b2(''repository_url'' \<mapsto> JStr (t ! 2), ''view'' \<mapsto> JStr (t ! 4))
            else b2)
         else b2)"

text \<open>The rows of one view: first those of the batch, then the latest of the whole table.\<close>

definition same_view :: "jval \<Rightarrow> string \<Rightarrow> nat \<times> body \<Rightarrow> bool" where
  "same_view vizql action row \<longleftrightarrow> col (snd row) ''vizql_session'' = vizql \<and> col (snd row) ''action'' = JStr action"

definition find_vizql_entry :: "(nat \<times> body) list \<Rightarrow> body \<Rightarrow> string \<Rightarrow> repo \<Rightarrow> (nat \<times> body) option" where
  "find_vizql_entry batch r action rp =
     (let own = same_view (col r ''vizql_session'') action in
      case find own batch of
        Some row \<Rightarrow> Some row
      | None \<Rightarrow> latest_row ''created_at'' (filter own (tb_rows (rp_requests rp))))"

section \<open>Events\<close>

text \<open>\<open>httplib.responses\<close>\<close>

definition responses :: "(int \<times> string) list" where
  "responses =
     [(100, ''Continue''), (101, ''Switching Protocols''), (200, ''OK''), (201, ''Created''), (202, ''Accepted''),
      (203, ''Non-Authoritative Information''), (204, ''No Content''), (205, ''Reset Content''), (206, ''Partial Content''),
      (300, ''Multiple Choices''), (301, ''Moved Permanently''), (302, ''Found''), (303, ''See Other''), (304, ''Not Modified''),
      (305, ''Use Proxy''), (306, ''(Unused)''), (307, ''Temporary Redirect''), (400, ''Bad Request''), (401, ''Unauthorized''),
      (402, ''Payment Required''), (403, ''Forbidden''), (404, ''Not Found''), (405, ''Method Not Allowed''),
      (406, ''Not Acceptable''), (407, ''Proxy Authentication Required''), (408, ''Request Timeout''), (409, ''Conflict''),
      (410, ''Gone''), (411, ''Length Required''), (412, ''Precondition Failed''), (413, ''Request Entity Too Large''),
      (414, ''Request-URI Too Long''), (415, ''Unsupported Media Type''), (416, ''Requested Range Not Satisfiable''),
      (417, ''Expectation Failed''), (500, ''Internal Server Error''), (501, ''Not Implemented''), (502, ''Bad Gateway''),
      (503, ''Service Unavailable''), (504, ''Gateway Timeout''), (505, ''HTTP Version Not Supported'')]"

definition http_reason :: "jval \<Rightarrow> pyexn + string" where
  "http_reason st =
     (case st of
        JInt n \<Rightarrow> (case map_of responses n of Some s \<Rightarrow> Inr s | None \<Rightarrow> Inl (KeyError (int_str n)))
      | _ \<Rightarrow> Inl (KeyError (jshow st)))"

text \<open>
  The workbook behind a request, its owner, project and site.  An unknown site raises; more than one
  workbook is no exception.
\<close>

definition translate_workbook :: "jval \<Rightarrow> body \<Rightarrow> body \<Rightarrow> body rio" where
  "translate_workbook url r b =
     bnd (gets (unique_row (\<lambda>w. col w ''repository_url'' = url \<and> col w ''site_id'' = col r ''site_id'') \<circ> rp_workbooks)) (\<lambda>found.
       case found of
         Inl e \<Rightarrow>
           ret (b(''workbook'' \<mapsto> JStr ''Unknown: Duplicate repository url'', ''owner'' \<mapsto> JStr ''Unknown: Duplicate repository url''))
       | Inr None \<Rightarrow> ret b
       | Inr (Some (i, w)) \<Rightarrow>
           bnd (gets rp_users) (\<lambda>users. bnd (gets rp_projects) (\<lambda>projects. bnd (gets rp_sites) (\<lambda>sites.
             let b1 = b(''workbook'' \<mapsto> col w ''name'');
                 b2 = (case find_row ''system_user_id'' (col w ''system_user_id'') users of
                         Some (j, u) \<Rightarrow> b1(''userid'' \<mapsto> JInt (int j), ''owner'' \<mapsto> display_name u) | None \<Rightarrow> b1);
                 b3 = b2(''project'' \<mapsto> name_by_id projects (col w ''project_id''));
                 site = name_by_id sites (col w ''site_id'')
             in if truthy site then ret (b3(''site'' \<mapsto> site))
                else if truthy (col r ''site_id'') then
                  (case find_row ''id'' (col r ''site_id'') sites of
                     None \<Rightarrow> raise (ValueError ''No such value'')
                   | Some (j, s) \<Rightarrow> ret (b3(''site'' \<mapsto> col s ''name'')))
                else ret b3))))"

text \<open>\<open>urlparse\<close>: as \<open>urlsplit\<close>, but parameters after the last slash of the path are cut off.\<close>

definition without_params :: "string \<Rightarrow> string" where
  "without_params path =
     (case before_last (CHR ''/'') path of
        None \<Rightarrow> takeWhile (\<lambda>c. c \<noteq> CHR '';'') path
      | Some dir \<Rightarrow> dir @ CHR ''/'' # takeWhile (\<lambda>c. c \<noteq> CHR '';'') (after_last (CHR ''/'') path))"

definition url_netloc :: "string \<Rightarrow> string" where
  "url_netloc s =
     (let rest = snd (split_scheme s) in
      if take 2 rest = ''//'' then takeWhile (\<lambda>c. c \<notin> {CHR ''/'', CHR ''?'', CHR ''#''}) (drop 2 rest) else [])"

definition without_query :: "string \<Rightarrow> string" where
  "without_query uri = url_sch (urlsplit uri) @ ''://'' @ url_netloc uri @ without_params (url_pth (urlsplit uri))"

definition decoded :: "hlibs \<Rightarrow> (string \<Rightarrow> string) \<Rightarrow> string \<Rightarrow> body \<Rightarrow> pyexn + body" where
  "decoded lb f c b =
     (case b c of
        None \<Rightarrow> Inr b
      | Some (JStr s) \<Rightarrow>
          (case hl_decode lb (unquote (f s)) of
             None \<Rightarrow> Inl (ValueError ''codec can't decode'')
           | Some t \<Rightarrow> Inr (b(c \<mapsto> JStr t)))
      | Some _ \<Rightarrow> Inl (AttributeError ''find''))"

definition viewer :: "jval \<Rightarrow> table \<Rightarrow> pyexn + (nat \<times> body) option" where
  "viewer i users =
     unique_row (\<lambda>u. if i = JNull then col u ''system_user_id'' = JNull
                     else col u ''system_user_id'' \<noteq> JNull \<and> jshow (col u ''system_user_id'') = jshow i) users"

definition http_eventgen :: "hlibs \<Rightarrow> ekey \<Rightarrow> agent \<Rightarrow> nat \<times> body \<Rightarrow> body \<Rightarrow> unit rio" where
  "http_eventgen lb key a row body = (case row of (k, r) \<Rightarrow>
     bnd (lift_repo (http_reason (col r ''status''))) (\<lambda>reason.
     bnd (gets (viewer (col r ''system_user_id'') \<circ> rp_users)) (\<lambda>v. bnd (lift_repo v) (\<lambda>profile.
       let b1 = (body ++ agent_todict a ++ row_todict ''reqid'' k r)(''http_status'' \<mapsto> JStr reason);
           b2 = (case profile of Some (i, u) \<Rightarrow> b1(''username'' \<mapsto> display_name u) | None \<Rightarrow> b1);
           b3 = b2(''owner'' \<mapsto> JNull, ''workbook'' \<mapsto> JNull, ''userid'' \<mapsto> JNull)
       in bnd (case b3 ''repository_url'' of None \<Rightarrow> ret b3 | Some url \<Rightarrow> translate_workbook url r b3) (\<lambda>b4.
          bnd (lift_repo (decoded lb (\<lambda>s. s) ''http_referer'' b4)) (\<lambda>b5.
          bnd (lift_repo (decoded lb without_query ''http_request_uri'' b5)) (\<lambda>b6.
            if col r ''completed_at'' = JNull then raise (AttributeError ''replace'')
            else on_world (gen key b6 (case col b6 ''userid'' of JInt i \<Rightarrow> Some i | _ \<Rightarrow> None)))))))))"

section \<open>Which requests are told\<close>

definition seconds_taken :: "body \<Rightarrow> pyexn + int" where
  "seconds_taken r =
     (case (col r ''completed_at'', col r ''created_at'') of
        (JInt t2, JInt t1) \<Rightarrow> Inr (whole_seconds (t2 - t1) div 1000000)
      | _ \<Rightarrow> Inl (TypeError ''unsupported operand type(s) for -''))"

definition request_uri :: "body \<Rightarrow> pyexn + string" where
  "request_uri r = (case col r ''http_request_uri'' of JStr s \<Rightarrow> Inr s | _ \<Rightarrow> Inl (AttributeError ''startswith''))"

definition http_level :: "int \<Rightarrow> int \<Rightarrow> int \<Rightarrow> severity option" where
  "http_level err warn seconds =
     (if err \<noteq> 0 \<and> err \<le> seconds then Some Error else if warn \<noteq> 0 \<and> warn \<le> seconds then Some Warn else None)"

definition tell_load :: "hlibs \<Rightarrow> agent \<Rightarrow> int \<Rightarrow> int \<Rightarrow> nat \<times> body \<Rightarrow> body \<Rightarrow> int \<Rightarrow> unit rio" where
  "tell_load lb a err warn row body seconds =
     (case http_level err warn seconds of
        None \<Rightarrow> ret ()
      | Some Error \<Rightarrow> http_eventgen lb (EV ''HTTP-LOAD-ERROR'') a row body
      | Some Warn \<Rightarrow> http_eventgen lb (EV ''HTTP-LOAD-WARN'') a row body)"

definition first_view_ok :: "body \<Rightarrow> bool" where
  "first_view_ok r \<longleftrightarrow>
     truthy (col r ''currentsheet'') \<and> truthy (col r ''vizql_session'') \<and> col r ''status'' = JInt 200"

definition first_view_failed :: "body \<Rightarrow> bool" where
  "first_view_failed r \<longleftrightarrow> truthy (col r ''vizql_session'') \<and> col r ''status'' = JInt 500"

definition LATER_ACTIONS :: "jval list" where
  "LATER_ACTIONS = [JStr ''performPostLoadOperations'', JStr ''sessions'', JStr ''get_customized_views'']"

definition test_for_load_alerts :: "hlibs \<Rightarrow> (nat \<times> body) list \<Rightarrow> nat \<times> body \<Rightarrow> agent \<Rightarrow> body \<Rightarrow> unit rio" where
  "test_for_load_alerts lb batch row a body = (case row of (k, r) \<Rightarrow>
     bnd (int_setting ''http-load-error'') (\<lambda>err. bnd (int_setting ''http-load-warn'') (\<lambda>warn.
       if err = 0 \<and> warn = 0 then ret ()
       else if col r ''action'' \<in> set LATER_ACTIONS then
         bnd (lift_repo (seconds_taken r)) (\<lambda>s.
           tell_load lb a err warn row (body(''post_initial_compute'' \<mapsto> JInt s, ''duration'' \<mapsto> JInt s)) s)
       else if col r ''action'' \<noteq> JStr ''bootstrapSession'' then ret ()
       else if first_view_ok r then
         bnd (lift_repo (seconds_taken r)) (\<lambda>c.
         bnd (gets (find_vizql_entry batch r ''show'')) (\<lambda>shown. case shown of
           None \<Rightarrow> ret ()
         | Some row' \<Rightarrow>
             bnd (lift_repo (seconds_taken (snd row'))) (\<lambda>l.
             bnd (lift_repo (request_uri (snd row'))) (\<lambda>uri.
               tell_load lb a err warn row' (parse_uri uri
                 [''view_compute_duration'' \<mapsto> JInt c, ''view_load_duration'' \<mapsto> JInt l,
                  ''total_view_generation_time'' \<mapsto> JInt (c + l), ''duration'' \<mapsto> JInt (c + l)]) (c + l)))))
       else if first_view_failed r then
         bnd (gets (find_vizql_entry batch r ''show'')) (\<lambda>shown. case shown of
           None \<Rightarrow> ret ()
         | Some row' \<Rightarrow>
             bnd (lift_repo (request_uri (snd row'))) (\<lambda>uri.
               http_eventgen lb (EV ''HTTP-LOAD-TYPE-3'') a row' (parse_uri uri Map.empty)))
       else ret ())))"

definition test_for_alerts :: "hlibs \<Rightarrow> http_control \<Rightarrow> agent \<Rightarrow> (nat \<times> body) list \<Rightarrow> nat \<times> body \<Rightarrow> unit rio" where
  "test_for_alerts lb c a batch row = (case row of (k, r) \<Rightarrow>
     bnd (lift_repo (request_uri r)) (\<lambda>uri.
       if starts_with ''/admin'' uri then ret ()
       else let body = parse_uri uri Map.empty in
         if (case col r ''status'' of JInt n \<Rightarrow> 400 \<le> n | _ \<Rightarrow> False) \<and> col r ''action'' = JStr ''show'' then
           (if status_exclude c (col r ''status'') uri then ret ()
            else http_eventgen lb (EV ''HTTP-BAD-STATUS'') a row body)
         else if col r ''action'' \<in> set (JStr ''show'' # JStr ''bootstrapSession'' # LATER_ACTIONS) then
           (if load_exclude c uri then ret () else test_for_load_alerts lb batch row a body)
         else ret ()))"

definition test_batch :: "hlibs \<Rightarrow> http_control \<Rightarrow> agent \<Rightarrow> (nat \<times> body) list \<Rightarrow> unit rio" where
  "test_batch lb c a batch = for_each batch (test_for_alerts lb c a batch)"

section \<open>The import\<close>

text \<open>A query that fails has no rows: the highest number then counts as 0.\<close>

definition last_http_requests_id :: "agent \<Rightarrow> int rio" where
  "last_http_requests_id a =
     bnd (on_world (odbc_execute a ''SELECT MAX(id) FROM http_requests'')) (\<lambda>data.
       if data '''' = None then ret 0
       else (case col data '''' of
           JList [] \<Rightarrow> raise (IndexError ''list index out of range'')
         | JList (row # rows) \<Rightarrow>
             if row = JNull then ret 0
             else bnd (lift_repo (cell row 0)) (\<lambda>v. if v = JNull then ret 0 else lift_repo (to_int v))
         | _ \<Rightarrow> raise (TypeError ''object has no attribute __getitem__'')))"

definition prune_requests :: "agent \<Rightarrow> unit rio" where
  "prune_requests a =
     bnd (last_http_requests_id a) (\<lambda>maxid.
       modify (\<lambda>rp. rp\<lparr>rp_requests := (rp_requests rp)\<lparr>tb_rows := filter (\<lambda>(k, r). case col r ''id'' of
         JInt i \<Rightarrow> i \<le> maxid | _ \<Rightarrow> True) (tb_rows (rp_requests rp))\<rparr>\<rparr>))"

definition maxid_statement :: "int option \<Rightarrow> string" where
  "maxid_statement maxid =
     (case maxid of
        None \<Rightarrow> ''SELECT * FROM http_requests WHERE id = (SELECT MAX(id) FROM http_requests)''
      | Some i \<Rightarrow> ''SELECT * FROM http_requests WHERE id > '' @ int_str i)"

definition text_column :: "jval \<Rightarrow> jval" where
  "text_column v = (if v = JNull then JNull else JStr (jshow v))"

definition add_request :: "hlibs \<Rightarrow> user_cache \<Rightarrow> (string \<times> string) list \<Rightarrow> jval \<Rightarrow> (nat \<times> body) rio" where
  "add_request lb users schema row =
     bnd (lift_repo (odbc_cells (hl_dt lb) schema 0 row)) (\<lambda>d. bnd (gets rp_requests) (\<lambda>t.
       let r = copyto [] d Map.empty;
           r' = r(''system_user_id'' \<mapsto> text_column (cached_user users (col r ''site_id'') (col r ''user_id''))) in
       sq (modify (\<lambda>rp. rp\<lparr>rp_requests := add_row r' (rp_requests rp)\<rparr>)) (ret (tb_next t, r'))))"

text \<open>
  The loop of \<open>load\<close>, with its counter and the rows since the last commit: before each thousandth
  row the rows before it are tested, unless the table was empty.
\<close>

fun load_rows ::
    "hlibs \<Rightarrow> http_control \<Rightarrow> agent \<Rightarrow> user_cache \<Rightarrow> (string \<times> string) list \<Rightarrow> bool \<Rightarrow> jval list \<Rightarrow> nat \<Rightarrow> (nat \<times> body) list \<Rightarrow> unit rio" where
  "load_rows lb c a users schema known [] counter batch = ret ()"
| "load_rows lb c a users schema known (row # rest) counter batch =
     bnd (if counter mod 1000 = 0
          then sq (when_m (counter \<noteq> 0 \<and> known) (test_batch lb c a batch)) (ret [])
          else ret batch) (\<lambda>batch'.
     bnd (add_request lb users schema row) (\<lambda>new.
       load_rows lb c a users schema known rest (counter + 1) (batch' @ [new])))"

definition http_load :: "hlibs \<Rightarrow> agent \<Rightarrow> body rio" where
  "http_load lb a =
     synchronized ''http_requests''
       (sq (prune_requests a)
       (bnd (http_control_data lb) (\<lambda>c. bnd (load_user_cache a) (\<lambda>users.
        bnd (gets (max_time ''id'' \<circ> rp_requests)) (\<lambda>maxid.
        bnd (on_world (odbc_execute a (maxid_statement maxid))) (\<lambda>data.
          if failed data then ret data
          else if data '''' = None then ret (with_error (''Missing '' @ [CHR 0x27, CHR 0x27] @ '' key in query response.'') data)
          else bnd (lift_repo (odbc_schema data)) (\<lambda>schema. bnd (lift_repo (answer_rows data)) (\<lambda>rows.
            sq (load_rows lb c a users schema (maxid \<noteq> None) rows 0 [])
               (ret [''status'' \<mapsto> JStr ''OK'', ''count'' \<mapsto> JInt (int (length rows))])))))))))"

section \<open>What is tested\<close>

text \<open>
  The same import by thousands: a thousand rows are added, and tested when another row follows.
\<close>

fun add_requests :: "hlibs \<Rightarrow> user_cache \<Rightarrow> (string \<times> string) list \<Rightarrow> jval list \<Rightarrow> (nat \<times> body) list rio" where
  "add_requests lb users schema [] = ret []"
| "add_requests lb users schema (row # rest) =
     bnd (add_request lb users schema row) (\<lambda>x. bnd (add_requests lb users schema rest) (\<lambda>xs. ret (x # xs)))"

fun load_thousands ::
    "hlibs \<Rightarrow> http_control \<Rightarrow> agent \<Rightarrow> user_cache \<Rightarrow> (string \<times> string) list \<Rightarrow> jval list \<Rightarrow> unit rio" where
  "load_thousands lb c a users schema rows =
     bnd (add_requests lb users schema (take 1000 rows)) (\<lambda>batch.
       if length rows \<le> 1000 then ret ()
       else sq (test_batch lb c a batch) (load_thousands lb c a users schema (drop 1000 rows)))"

declare load_thousands.simps [simp del]

lemma bnd_assoc: "bnd (bnd m f) g = bnd m (\<lambda>x. bnd (f x) g)"
  by (rule ext) (simp add: bnd_def split: prod.split sum.split)

lemma bnd_ret [simp]: "bnd (ret x) f = f x" "bnd (Pair (Inr x)) f = f x"
  by (rule ext, simp add: bnd_def)+

lemma sq_bnd: "bnd (sq m n) f = sq m (bnd n f)"
  by (simp add: sq_def bnd_assoc)

lemma load_rows_thousands:
  assumes "n mod 1000 = length batch mod 1000" and "batch \<noteq> [] \<Longrightarrow> n \<noteq> 0" and "length batch \<le> 1000"
  shows "load_rows lb c a users schema True rows n batch =
    bnd (add_requests lb users schema (take (1000 - length batch) rows)) (\<lambda>xs.
      if length rows \<le> 1000 - length batch then ret ()
      else sq (test_batch lb c a (batch @ xs)) (load_thousands lb c a users schema (drop (1000 - length batch) rows)))"
  using assms
proof (induction rows arbitrary: n batch)
  case Nil
  then show ?case by simp
next
  case (Cons row rest)
  have step: "load_rows lb c a users schema True rest (n + 1) (b @ [x]) =
      bnd (add_requests lb users schema (take (999 - length b) rest)) (\<lambda>xs.
        if length rest \<le> 999 - length b then ret ()
        else sq (test_batch lb c a (b @ x # xs)) (load_thousands lb c a users schema (drop (999 - length b) rest)))"
    if "n mod 1000 = length b mod 1000" "length b < 1000" for b x
    using Cons.IH [of "n + 1" "b @ [x]"] that mod_add_cong [of n 1000 "length b" 1 1] by (simp cong: if_cong del: ret_run)
  show ?case
  proof (cases "length batch = 1000")
    case True
    then have "batch \<noteq> []" by auto
    then have n: "n mod 1000 = 0" "n \<noteq> 0" using Cons.prems True by auto
    then show ?thesis
      using True step [of "[]"]
      by (simp add: sq_bnd load_thousands.simps [of lb c a users schema "row # rest"] bnd_assoc cong: if_cong del: ret_run)
  next
    case False
    with Cons.prems have less: "length batch < 1000" by simp
    show ?thesis
    proof (cases "batch = []")
      case True
      with Cons.prems have "n mod 1000 = 0" by simp
      then show ?thesis
        using True step [of "[]"] by (simp add: sq_bnd bnd_assoc test_batch_def sq_def cong: if_cong del: ret_run)
    next
      case False
      with Cons.prems less have "n mod 1000 \<noteq> 0" by simp
      moreover have suc: "1000 - length batch = Suc (999 - length batch)" using less by arith
      moreover have "take (1000 - length batch) (row # rest) = row # take (999 - length batch) rest"
        "drop (1000 - length batch) (row # rest) = drop (999 - length batch) rest"
        "length (row # rest) \<le> 1000 - length batch \<longleftrightarrow> length rest \<le> 999 - length batch"
        unfolding suc by simp_all
      ultimately show ?thesis
        using step [OF Cons.prems(1) less] by (simp add: bnd_assoc cong: if_cong del: ret_run)
    qed
  qed
qed

text \<open>
  C35: the requests that are tested for alerts.  The import is the same as one that adds a thousand rows at
  a time and tests those only when more rows follow: the rows after the last full thousand, and with
  a thousand rows or fewer all of them, are stored but never tested.
\<close>

theorem tested_by_thousands:
  "load_rows lb c a users schema True rows 0 [] = load_thousands lb c a users schema rows \<and>
   load_rows lb c a users schema True (take 1000 rows) 0 [] =
     bnd (add_requests lb users schema (take 1000 rows)) (\<lambda>batch. ret ())"
proof -
  have "load_rows lb c a users schema True rows 0 [] = load_thousands lb c a users schema rows" for rows
    using load_rows_thousands [of 0 "[]" lb c a users schema rows]
    by (simp add: load_thousands.simps [of lb c a users schema rows] cong: if_cong del: ret_run)
  then show ?thesis
    by (simp add: load_thousands.simps [of lb c a users schema "take 1000 rows"] cong: if_cong del: ret_run)
qed

text \<open>So an import of up to a thousand rows tells nobody anything.\<close>

lemma keeps_world_add: "keeps rp_world (add_request lb users schema row)"
proof -
  have m: "keeps rp_world (modify (\<lambda>rp. rp\<lparr>rp_requests := f rp\<rparr>))" for f by (simp add: keeps_def)
  have l: "keeps rp_world (lift_repo x)" for x :: "pyexn + 'b" by (simp add: keeps_def lift_repo_def)
  show ?thesis unfolding add_request_def Let_def by (rule frame m l)+
qed

lemma small_import_untold:
  assumes "length rows \<le> 1000"
  shows "keeps rp_world (load_rows lb c a users schema known rows 0 batch)"
proof -
  have "keeps rp_world (load_rows lb c a users schema known rows n batch)" if "n + length rows \<le> 1000" for n
    using that
  proof (induction rows arbitrary: n batch)
    case (Cons row rest)
    then have "n mod 1000 = 0 \<Longrightarrow> n = 0" by simp
    then have "keeps rp_world (if n mod 1000 = 0
          then sq (when_m (n \<noteq> 0 \<and> known) (test_batch lb c a b)) (ret []) else ret b)" for b
      by (auto simp: keeps_def sq_def)
    then show ?case
      unfolding load_rows.simps using Cons by (intro keeps_bnd keeps_world_add) simp_all
  qed (simp add: keeps_def)
  then show ?thesis using assms by simp
qed

section \<open>A query that fails\<close>

text \<open>
  C36: when Tableau's database cannot say what its highest request is, every row of the table of requests is
  deleted, and the import goes on as for a new installation: it asks for one row, and nothing of what
  happened meanwhile is imported.
\<close>

theorem failed_query_empties_requests:
  assumes "odbc_execute a ''SELECT MAX(id) FROM http_requests'' (rp_world rp) = (Inr data, w)" and "data '''' = None"
    and "\<forall>(k, r) \<in> set (tb_rows (rp_requests rp)). \<exists>i > 0. col r ''id'' = JInt i"
  shows "\<exists>rp'. prune_requests a rp = (Inr (), rp') \<and> tb_rows (rp_requests rp') = [] \<and>
    maxid_statement (max_time ''id'' (rp_requests rp')) =
      ''SELECT * FROM http_requests WHERE id = (SELECT MAX(id) FROM http_requests)''"
proof -
  have "last_http_requests_id a rp = (Inr 0, rp\<lparr>rp_world := w\<rparr>)"
    using assms(1,2) by (simp add: last_http_requests_id_def on_world_def bnd_def)
  moreover have "filter (\<lambda>(k, r). case col r ''id'' of JInt i \<Rightarrow> i \<le> 0 | _ \<Rightarrow> True) (tb_rows (rp_requests rp)) = []"
    using assms(3) by (auto simp: filter_empty_conv split: jval.split)
  ultimately show ?thesis
    by (auto simp: prune_requests_def bnd_def max_time_def maxid_statement_def)
qed

definition one_request :: repo where
  "one_request = no_repo\<lparr>rp_requests := \<lparr>tb_rows = [(1, [''id'' \<mapsto> JInt 7, ''status'' \<mapsto> JInt 200])], tb_next = 2\<rparr>\<rparr>"

theorem failed_query_empties_requests_witness:
  "\<exists>rp'. prune_requests agent0 one_request = (Inr (), rp') \<and> tb_rows (rp_requests rp') = [] \<and>
    maxid_statement (max_time ''id'' (rp_requests rp')) =
      ''SELECT * FROM http_requests WHERE id = (SELECT MAX(id) FROM http_requests)''"
proof (rule failed_query_empties_requests)
  show "odbc_execute agent0 ''SELECT MAX(id) FROM http_requests'' (rp_world one_request) =
      (Inr (error_body READONLY_ERROR_TEXT), world1)"
    by (simp add: odbc_execute_def odbc_connection_def bnd_def one_request_def no_repo_def world1_def world0_def Let_def)
  show "error_body READONLY_ERROR_TEXT '''' = None" by (simp add: error_body_def)
  show "\<forall>(k, r) \<in> set (tb_rows (rp_requests one_request)). \<exists>i > 0. col r ''id'' = JInt i"
    by (simp add: one_request_def col_def)
qed

section \<open>The parts of a URI\<close>

lemma split_on_append_sep: "sep \<notin> set s \<Longrightarrow> split_on sep (s @ sep # t) = s # split_on sep t"
  by (induction s) auto

lemma split_on_whole: "sep \<notin> set s \<Longrightarrow> split_on sep s = [s]"
  by (induction s) auto

text \<open>
  The workbook, the view and the site are read out of the URIs of Tableau's pages as they were put in,
  for each of the four forms.
\<close>

theorem uri_roundtrip:
  assumes "CHR ''/'' \<notin> set site" "CHR ''/'' \<notin> set wb" "CHR ''/'' \<notin> set view"
  shows "map (\<lambda>uri. map (parse_uri uri Map.empty) [''site'', ''repository_url'', ''view''])
     [''/views/'' @ wb @ ''/'' @ view, ''/t/'' @ site @ ''/views/'' @ wb @ ''/'' @ view,
      ''/vizql/w/'' @ wb @ ''/v/'' @ view @ ''/bootstrapSession/sessions'',
      ''/vizql/t/'' @ site @ ''/w/'' @ wb @ ''/v/'' @ view @ ''/performPostLoadOperations''] =
   [[None, Some (JStr wb), Some (JStr view)], [Some (JStr site), Some (JStr wb), Some (JStr view)],
    [None, Some (JStr wb), Some (JStr view)], [Some (JStr site), Some (JStr wb), Some (JStr view)]]"
  using assms by (simp add: parse_uri_def Let_def split_on_append_sep split_on_whole lower_def lower_char_def)

theorem uri_roundtrip_witness:
  "parse_uri ''/t/Sales/views/Pipeline/Q1'' Map.empty ''repository_url'' = Some (JStr ''Pipeline'')"
  using uri_roundtrip [of "''Sales''" "''Pipeline''" "''Q1''"] by simp

end
