(* ===== verification/Connect.thy ===== *)
theory Connect
  imports HttpRequests Handlers Metrics
begin

text \<open>
  The life of an agent's connection (\<open>agentmanager.py\<close>, \<open>controller.py\<close>, \<open>agent.py\<close>, \<open>firewall_manager.py\<close>,
  \<open>yml.py\<close>): the answer to \<open>/auth\<close> is checked, the row of the agent is built, the agent is asked about
  itself, registered and set up, and then pinged until it is gone.
\<close>

text \<open>
  What is not part of the source: \<open>json.loads\<close> of the output of a command (an agent answers with a
  dictionary or null), PyYAML with the text of each value, \<open>float\<close>, and the functions for dates.
\<close>

record clibs =
  cl_json :: "string \<Rightarrow> pyexn + body option"
  cl_yaml :: "raw \<Rightarrow> pyexn + (string \<rightharpoonup> string)"
  cl_float :: "jval \<Rightarrow> pyexn + rat"
  cl_dt :: "string \<Rightarrow> int option"
  cl_strptime :: "string \<Rightarrow> int option"
  cl_show_time :: "int \<Rightarrow> string"
  cl_stamp :: "nat \<Rightarrow> string"

section \<open>Pings\<close>

definition monitored :: "string \<Rightarrow> metrics_db \<Rightarrow> jval list" where
  "monitored ty db =
     map (JStr \<circ> as_process) (filter (\<lambda>s. as_type s = ty \<and>
       (as_threshold_warning s \<noteq> None \<or> as_threshold_error s \<noteq> None)) (md_settings db))"

definition ping :: "metrics_db \<Rightarrow> agent \<Rightarrow> body io" where
  "ping db a =
     send_immediate a ''POST'' ''/ping''
       [''cpu-monitored-processes'' \<mapsto> JList (monitored ''cpu'' db),
        ''memory-monitored-processes'' \<mapsto> JList (monitored ''memory'' db)]"

text \<open>A counter of the answer; one that is incomplete, of another name or no number is left out.\<close>

definition add_counter :: "clibs \<Rightarrow> agent \<Rightarrow> int \<Rightarrow> jval \<Rightarrow> metrics_db \<Rightarrow> pyexn + metrics_db" where
  "add_counter lb a now counter db =
     (case counter of
        JDict c \<Rightarrow>
          (case (c ''counter-name'', c ''value'', c ''instance-name'') of
             (Some name, Some v, Some process) \<Rightarrow>
               if name \<notin> {JStr ''% Processor Time'', JStr ''Working Set - private''} then Inr db
               else (case cl_float lb v of
                   Inl (ValueError s) \<Rightarrow> Inr db
                 | Inl e \<Rightarrow> Inl e
                 | Inr x \<Rightarrow>
                     Inr (if name = JStr ''% Processor Time'' then add_sample (ag_agentid a) (jshow process) (Some x) None now db
                          else add_sample (ag_agentid a) (jshow process) None (Some x) now db))
           | _ \<Rightarrow> Inr db)
      | _ \<Rightarrow> Inl (TypeError ''argument is not iterable''))"

definition add_counters :: "clibs \<Rightarrow> agent \<Rightarrow> int \<Rightarrow> body \<Rightarrow> metrics_db \<Rightarrow> pyexn + metrics_db" where
  "add_counters lb a now b db =
     (case b ''counters'' of
        None \<Rightarrow> Inr db
      | Some (JList cs) \<Rightarrow> fold_sum (add_counter lb a now) cs db
      | Some _ \<Rightarrow> Inl (TypeError ''object is not iterable''))"

text \<open>Whether the ping counts as answered.\<close>

definition ping_agent :: "clibs \<Rightarrow> agent \<Rightarrow> metrics_db \<Rightarrow> (bool \<times> metrics_db) io" where
  "ping_agent lb a db =
     bnd (ping db a) (\<lambda>b.
       if failed b then
         bnd (gets (\<lambda>w. (w_upgrading w, get_by_uuid (w_db w) (ag_uuid a)))) (\<lambda>(upgrading, row).
           if upgrading then ret (True, db)
           else (case row of
               None \<Rightarrow> raise (AttributeError ''_sa_instance_state'')
             | Some temp \<Rightarrow>
                 sq (when_m (ag_enabled temp) (remove_agent a ''Lost contact with an agent'')) (ret (False, db))))
       else bnd (gets (int \<circ> w_now)) (\<lambda>now. bnd (lift_sum (add_counters lb a now b db)) (\<lambda>db'. ret (True, db'))))"

text \<open>
  \<open>ping_check\<close> for at most \<open>n\<close> rounds; \<open>None\<close> when it still goes on after them.
\<close>

primrec ping_rounds :: "nat \<Rightarrow> clibs \<Rightarrow> nat \<Rightarrow> bool \<Rightarrow> agent \<Rightarrow> metrics_db \<Rightarrow> (bool option \<times> metrics_db) io" where
  "ping_rounds 0 lb interval init_enabled a db = ret (None, db)"
| "ping_rounds (Suc n) lb interval init_enabled a db =
     bnd (agent_connected a) (\<lambda>connected.
       if ag_enabled a \<and> \<not> connected then ret (Some False, db)
       else bnd (gets (\<lambda>w. get_by_uuid (w_db w) (ag_uuid a))) (\<lambda>row. case row of
           None \<Rightarrow> raise (AttributeError ''_sa_instance_state'')
         | Some temp \<Rightarrow>
             if \<not> init_enabled \<and> ag_enabled temp then ret (Some True, db)
             else bnd (ping_agent lb a db) (\<lambda>(answered, db').
               if \<not> answered then ret (Some False, db')
               else sq (sleep interval) (ping_rounds n lb interval init_enabled a db'))))"

section \<open>Firewall ports\<close>

definition DEFAULT_PORTS :: "(string \<times> int) list" where
  "DEFAULT_PORTS = [(''HTTP'', 80), (''HTTPS'', 443)]"

definition fw_row :: "agent \<Rightarrow> string \<Rightarrow> int \<Rightarrow> body" where
  "fw_row a name port =
     [''agentid'' \<mapsto> JInt (int (ag_agentid a)), ''name'' \<mapsto> JStr name, ''port'' \<mapsto> JInt port, ''color'' \<mapsto> JStr ''green'']"

definition own_ports :: "agent \<Rightarrow> table \<Rightarrow> (nat \<times> body) list" where
  "own_ports a t = filter (\<lambda>(k, r). col r ''agentid'' = JInt (int (ag_agentid a))) (tb_rows t)"

definition init_firewall_ports :: "agent \<Rightarrow> unit rio" where
  "init_firewall_ports a =
     bnd (gets (own_ports a \<circ> rp_firewall)) (\<lambda>rows.
       when_m (rows = []) (modify (\<lambda>rp. rp\<lparr>rp_firewall :=
         fold (\<lambda>(name, port). add_row (fw_row a name port))
           ((''Palette Agent'', int (ag_listen_port a)) # DEFAULT_PORTS) (rp_firewall rp)\<rparr>)))"

text \<open>One port; the rows of the agent with that port take the colour of the answer.\<close>

definition open_port :: "agent \<Rightarrow> nat \<times> body \<Rightarrow> bool \<Rightarrow> bool rio" where
  "open_port a row all_open =
     (let port = (case col (snd row) ''port'' of JInt p \<Rightarrow> nat p | _ \<Rightarrow> 0); was = col (snd row) ''color'';
          info = [''info'' \<mapsto> JStr (''Port: '' @ nat_str port)] in
      bnd (on_world (firewall_enable a [port])) (\<lambda>b.
        let color = (if failed b then ''red'' else ''green'') in
        sq (seqs [
          when_m (failed b \<and> was \<noteq> JStr ''red'')
            (on_world (gen (EV ''FIREWALL-OPEN-FAILED'') ((agent_todict a)(''error'' := b ''error'') ++ info) None)),
          when_m (\<not> failed b \<and> was = JStr ''red'')
            (on_world (gen (EV ''FIREWALL-OPEN-OKAY'') (agent_todict a ++ info) None)),
          modify (\<lambda>rp. rp\<lparr>rp_firewall := (rp_firewall rp)\<lparr>tb_rows := map (\<lambda>(k, r).
            (k, if col r ''agentid'' = JInt (int (ag_agentid a)) \<and> col r ''port'' = JInt (int port)
                then r(''color'' \<mapsto> JStr color) else r)) (tb_rows (rp_firewall rp))\<rparr>\<rparr>)])
          (ret (all_open \<and> \<not> failed b))))"

definition open_firewall_ports :: "agent \<Rightarrow> unit rio" where
  "open_firewall_ports a =
     bnd (gets (own_ports a \<circ> rp_firewall)) (\<lambda>rows.
     bnd (fold_m (open_port a) rows True) (\<lambda>all_open.
       if all_open then ret () else raise (IOError ''Could not open all firewall ports'')))"

definition do_firewall_ports :: "agent \<Rightarrow> unit rio" where
  "do_firewall_ports a = sq (init_firewall_ports a) (open_firewall_ports a)"

section \<open>What the agent says about itself\<close>

definition opt_str :: "jval option \<Rightarrow> string option" where
  "opt_str v = (case v of Some (JStr s) \<Rightarrow> Some s | _ \<Rightarrow> None)"

definition opt_num :: "jval option \<Rightarrow> int option" where
  "opt_num v = (case v of Some (JInt i) \<Rightarrow> Some i | _ \<Rightarrow> None)"

definition volume_of :: "jval \<Rightarrow> reported_volume" where
  "volume_of v =
     (let d = (case v of JDict d \<Rightarrow> d | _ \<Rightarrow> Map.empty) in
      \<lparr>rv_name = opt_str (d ''name''), rv_path = opt_str (d ''path''), rv_type = opt_str (d ''type''),
       rv_size = opt_num (d ''size''), rv_space = opt_num (d ''available-space''), rv_label = opt_str (d ''label''),
       rv_format = opt_str (d ''drive-format'')\<rparr>)"

definition pinfo_of :: "body \<Rightarrow> pinfo" where
  "pinfo_of b =
     \<lparr>pi_install_dir = opt_str (b ''tableau-install-dir''), pi_tableau_data_dir = opt_str (b ''tableau-data-dir''),
      pi_ip_address = opt_str (b ''ip-address''),
      pi_volumes = (case b ''volumes'' of Some (JList vs) \<Rightarrow> Some (map volume_of vs) | _ \<Rightarrow> None)\<rparr>"

text \<open>
  The rows as the choice of a volume reads them, numbered as they were added; the columns the report does
  not touch (priority, whether it is the system's) stay.
\<close>

definition choose_volume :: "volume list \<Rightarrow> nat \<times> vrow \<Rightarrow> volume option" where
  "choose_volume old = (\<lambda>(i, r). case get_vol_entry_by_volid old i of
       None \<Rightarrow> known_volume r i 0
     | Some v \<Rightarrow> map_option (\<lambda>x. x\<lparr>vol_system := vol_system v\<rparr>) (known_volume r i (vol_priority v)))"

definition set_volumes :: "vrow list \<Rightarrow> unit rio" where
  "set_volumes rows =
     modify (\<lambda>rp. rp\<lparr>rp_volumes := rows, rp_world := (rp_world rp)\<lparr>w_vols :=
       List.map_filter (choose_volume (w_vols (rp_world rp))) (List.enumerate 1 rows)\<rparr>\<rparr>)"

definition update_vols :: "agent \<Rightarrow> body \<Rightarrow> bool rio" where
  "update_vols a pinfo =
     bnd (gets rp_volumes) (\<lambda>rows. bnd (on_world (update_agent_pinfo_vols a (pinfo_of pinfo) rows)) (\<lambda>(ok, rows').
       sq (set_volumes rows') (ret ok)))"

definition store :: "agent \<Rightarrow> unit rio" where
  "store a = on_world (store_agent a)"

text \<open>The sizes and directories of \<open>update_agent_pinfo_dirs\<close> that the other methods read.\<close>

definition update_dirs :: "agent \<Rightarrow> body \<Rightarrow> agent" where
  "update_dirs a pinfo = (case opt_str (pinfo ''tableau-data-dir'') of None \<Rightarrow> a | Some d \<Rightarrow> a\<lparr>ag_tableau_data_dir := d\<rparr>)"

definition update_address :: "agent \<Rightarrow> body \<Rightarrow> agent" where
  "update_address a pinfo = (case opt_str (pinfo ''ip-address'') of None \<Rightarrow> a | Some i \<Rightarrow> a\<lparr>ag_ip_address := i\<rparr>)"

definition raw_pinfo :: "clibs \<Rightarrow> agent \<Rightarrow> body io" where
  "raw_pinfo lb a =
     bnd (cli_cmd ''pinfo'' a Map.empty True (60 * 60 * 2)) (\<lambda>b.
       case b ''exit-status'' of
         None \<Rightarrow> raise (IOError ''Missing 'exit-status' from pinfo command response.'')
       | Some x \<Rightarrow>
           if \<not> is_zero x then
             (case format_d x of
                None \<Rightarrow> raise (TypeError ''%d format: a number is required'')
              | Some s \<Rightarrow> raise (IOError (''pinfo failed with exit status: '' @ s)))
           else (case b ''stdout'' of
               None \<Rightarrow> raise (KeyError ''stdout'')
             | Some (JStr s) \<Rightarrow>
                 (case cl_json lb s of
                    Inl (ValueError e) \<Rightarrow> raise (IOError (''Bad json from pinfo.  Error: '' @ e @ '', json: '' @ s))
                  | Inl e \<Rightarrow> raise e
                  | Inr None \<Rightarrow> raise (IOError (''Bad pinfo output: '' @ s))
                  | Inr (Some pinfo) \<Rightarrow> ret pinfo)
             | Some _ \<Rightarrow> raise (TypeError ''expected string or buffer'')))"

definition get_pinfo :: "clibs \<Rightarrow> agent \<Rightarrow> bool \<Rightarrow> (agent \<times> body) rio" where
  "get_pinfo lb a update_agent =
     bnd (on_world (raw_pinfo lb a)) (\<lambda>pinfo.
       if \<not> update_agent then ret (a, pinfo)
       else if ag_agent_type a = None then
         raise (IOError (''get_pinfo: Could not update agent: unknown displayname.  uuid: '' @ ag_uuid a))
       else let a1 = update_dirs a pinfo in
         bnd (update_vols a1 pinfo) (\<lambda>_. let a2 = update_address a1 pinfo in sq (store a2) (ret (a2, pinfo))))"

section \<open>Setting up an agent\<close>

definition clean_xid_dirs :: "agent \<Rightarrow> unit io" where
  "clean_xid_dirs a =
     (let xid_dir = path_join (ag_iswin a) (ag_data_dir a) ''XID'' in
      bnd (attempt is_io (fm_listdir a xid_dir)) (\<lambda>r. case r of
        Inl msg \<Rightarrow> ret ()
      | Inr b \<Rightarrow> bnd (need_body b) (\<lambda>b.
          if failed b then ret ()
          else (case b ''directories'' of
              None \<Rightarrow> ret ()
            | Some (JList ds) \<Rightarrow>
                for_each ds (\<lambda>d. case d of
                  JStr name \<Rightarrow> delete_quietly a (path_join (ag_iswin a) xid_dir name)
                | _ \<Rightarrow> raise (AttributeError ''startswith''))
            | Some _ \<Rightarrow> raise (TypeError ''object is not iterable'')))))"

definition tell_failed :: "string \<Rightarrow> agent \<Rightarrow> body \<Rightarrow> unit io" where
  "tell_failed key a b = when_m (failed b) (gen (EV key) (b ++ agent_todict a) None)"

definition config_servers :: "agent \<Rightarrow> unit io" where
  "config_servers a =
     seqs [
       (if ag_agent_type a \<in> {Some PRIMARY, Some WORKER}
        then bnd (maint ''stop'' (Some a) False) (tell_failed ''MAINT-STOP-FAILED'' a) else ret ()),
       bnd (archive ''stop'' (Some a) (-1)) (tell_failed ''ARCHIVE-STOP-FAILED'' a),
       bnd (archive ''start'' (Some a) (-1)) (tell_failed ''ARCHIVE-START-FAILED'' a)]"

definition yml_path :: "agent \<Rightarrow> string" where
  "yml_path a =
     (let win = ag_iswin a; d = ag_tableau_data_dir a;
          d' = (if path_basename win d \<noteq> ''data'' then path_join win d ''data'' else d) in
      path_join win (path_join win (path_join win d' ''tabsvc'') ''config'') ''workgroup.yml'')"

text \<open>\<open>YmlManager.sync\<close> with \<open>YmlEntry.sync\<close>: the entries become those of the file.\<close>

definition yml_manager_sync :: "clibs \<Rightarrow> agent \<Rightarrow> unit rio" where
  "yml_manager_sync lb a =
     bnd (gets (w_now \<circ> rp_world)) (\<lambda>now.
     bnd (on_world (fm_get a (yml_path a))) (\<lambda>contents.
     bnd (lift_repo (cl_yaml lb contents)) (\<lambda>yml.
       seqs [
         modify (\<lambda>rp. rp\<lparr>rp_world := (rp_world rp)\<lparr>w_yml := yml\<rparr>\<rparr>),
         system_set ''yml-location'' (JStr ((case ag_displayname a of
             Some d \<Rightarrow> if d = [] then ag_hostname a else d | None \<Rightarrow> ag_hostname a) @ '' - '' @ yml_path a)),
         system_set ''yml-timestamp'' (JStr (cl_stamp lb now))])))"

definition yml_sync :: "clibs \<Rightarrow> agent \<Rightarrow> bool \<Rightarrow> unit rio" where
  "yml_sync lb a set_types =
     bnd (gets (\<lambda>rp. w_yml (rp_world rp) ''gateway.hosts'')) (\<lambda>old.
     sq (yml_manager_sync lb a)
    (bnd (gets (\<lambda>rp. w_yml (rp_world rp) ''gateway.hosts'')) (\<lambda>new.
     sq (when_m set_types (on_world set_all_agent_types))
        (if old \<noteq> None \<and> old \<noteq> new then on_world (bnd (maint ''stop'' None True) (\<lambda>_. ret ())) else ret ()))))"

text \<open>
  \<open>init_new_agent\<close>: \<open>None\<close> in the place of the report is the answer \<open>False\<close>.
\<close>

definition import_all :: "clibs \<Rightarrow> agent \<Rightarrow> unit rio" where
  "import_all lb a =
     bnd (auth_load (cl_dt lb) (cl_stamp lb) a False) (\<lambda>b.
       when_m (success b)
         (sq (bnd (sync_cmd (cl_dt lb) a False) (\<lambda>_. ret ()))
             (bnd (extracts_load (cl_dt lb) (cl_strptime lb) (cl_show_time lb) a False) (\<lambda>_. ret ()))))"

definition find_type :: "(string \<Rightarrow> string option) \<Rightarrow> agent \<Rightarrow> body \<Rightarrow> agent_type" where
  "find_type yml a pinfo =
     (if pinfo ''tableau-install-dir'' \<noteq> None then PRIMARY else if is_tableau_worker yml a then WORKER else ARCHIVE)"

definition init_new_agent :: "clibs \<Rightarrow> agent \<Rightarrow> (agent \<times> body option) rio" where
  "init_new_agent lb a =
     bnd (get_pinfo lb a False) (\<lambda>(a0, pinfo).
     bnd (gets (w_yml \<circ> rp_world)) (\<lambda>yml.
       let ty = find_type yml a pinfo; a1 = a\<lparr>ag_agent_type := Some ty\<rparr> in
       bnd (case pinfo ''tableau-install-dir'' of
              None \<Rightarrow> ret True
            | Some (JStr s) \<Rightarrow> ret (CHR '':'' \<in> set s)
            | Some v \<Rightarrow> raise (AttributeError ''find'')) (\<lambda>colon.
         if \<not> colon then ret (a1, None)
         else let a2 = update_dirs a1 pinfo in
           sq (seqs [
             store a1,
             when_m (ag_iswin a) (do_firewall_ports a1),
             on_world (clean_xid_dirs a1),
             store a2,
             when_m (ty = PRIMARY) (sq (yml_sync lb a2 False) (import_all lb a2)),
             on_world (config_servers a2)])
             (ret (a2, Some pinfo)))))"

text \<open>\<open>update_agent_pinfo_vols\<close> on the answer of \<open>init_new_agent\<close>: \<open>in\<close> does not work on \<open>False\<close>.\<close>

definition setup_vols :: "agent \<Rightarrow> body option \<Rightarrow> bool rio" where
  "setup_vols a pinfo =
     (case pinfo of
        None \<Rightarrow> raise (TypeError ''argument of type 'bool' is not iterable'')
      | Some p \<Rightarrow> update_vols a p)"

definition fm_put :: "agent \<Rightarrow> string \<Rightarrow> string \<Rightarrow> body option io" where
  "fm_put a path data =
     (if is_dir_path path then raise (IOError ('''path' may not refer to a directory''))
      else bnd (catch (http_send a ''PUT'' (''/file?path='' @ quote_plus path) [''data'' \<mapsto> JStr data])
             is_transport (\<lambda>e. raise (IOError (''filemanager.put failed: '' @ exn_str e))))
           (\<lambda>r. case r of NoBody \<Rightarrow> ret (Some Map.empty) | _ \<Rightarrow> json_loads r))"

definition route_line :: "vrow \<Rightarrow> string" where
  "route_line r = opt_text (vr_name r) @ '':'' @ opt_text (vr_path r) @ [CHR 0x0D, CHR 0x0A]"

definition routes :: "agent \<Rightarrow> vrow list \<Rightarrow> string" where
  "routes a rows = concat (map route_line (filter (\<lambda>r. vr_agentid r = ag_agentid a \<and> vr_archive r) rows))"

definition route_path :: "agent \<Rightarrow> string" where
  "route_path a = path_join (ag_iswin a) (path_join (ag_iswin a) (ag_data_dir a) ''archive'') ''routes.txt''"

definition save_routes :: "agent \<Rightarrow> bool rio" where
  "save_routes a =
     bnd (gets (routes a \<circ> rp_volumes)) (\<lambda>lines.
       on_world (bnd (attempt is_io (bnd (fm_put a (route_path a) lines) need_body)) (\<lambda>r. case r of
           Inl msg \<Rightarrow> ret False
         | Inr b \<Rightarrow> ret (\<not> failed b))))"

definition set_default_backup_destid :: "agent \<Rightarrow> unit rio" where
  "set_default_backup_destid a =
     (if ag_agent_type a \<noteq> Some PRIMARY then ret ()
      else bnd (system_get ''backup-dest-id'') (\<lambda>dest.
        if dest \<noteq> JNull then ret ()
        else bnd (on_world (attempt is_disk (get_primary_loc a [] 0))) (\<lambda>r. case r of
            Inl msg \<Rightarrow> ret ()
          | Inr (d, v) \<Rightarrow>
              sq (system_set ''backup-dest-id'' (JInt (int (vol_volid v))))
                 (modify (\<lambda>rp. rp\<lparr>rp_world := (rp_world rp)\<lparr>w_conf :=
                    (w_conf (rp_world rp))\<lparr>cf_backup_dest_id := Some (vol_volid v)\<rparr>\<rparr>\<rparr>)))))"

definition is_setup_error :: "pyexn \<Rightarrow> bool" where
  "is_setup_error e = (case e of
       IOError s \<Rightarrow> True | ValueError s \<Rightarrow> True | InvalidStateError s \<Rightarrow> True | HTTPException s \<Rightarrow> True | _ \<Rightarrow> False)"

definition bad_agent :: "agent \<Rightarrow> string \<Rightarrow> 'a rio" where
  "bad_agent a why = raise (IOError (why @ '' uuid: '' @ ag_uuid a @ ''.  Disconnecting.''))"

text \<open>
  \<open>setup_agent\<close> after \<open>init_new_agent\<close>: the volumes, the table of agents, the routes, then the event.
\<close>

definition initialised :: "agent \<Rightarrow> world \<Rightarrow> world" where
  "initialised a w =
     w\<lparr>w_agents := map (\<lambda>(k, b). (k, if k = ag_conn_id a then b\<lparr>ag_initting := False\<rparr> else b)) (w_agents w)\<rparr>"

definition settle :: "agent_type option \<Rightarrow> agent \<Rightarrow> body option \<Rightarrow> agent rio" where
  "settle orig_agent_type a1 pinfo =
     bnd (setup_vols a1 pinfo) (\<lambda>ok.
       if \<not> ok then bad_agent a1 ''pinfo vols bad for agent with''
       else bnd (gets (\<lambda>rp. register_name (w_yml (rp_world rp)) a1 orig_agent_type)) (\<lambda>a2.
         sq (bnd (on_world (register a1 orig_agent_type)) (\<lambda>_. ret ()))
        (bnd (save_routes a2) (\<lambda>saved.
           if \<not> saved then bad_agent a2 ''Could not save_routes for agent with''
           else sq (modify (\<lambda>rp. rp\<lparr>rp_world := initialised a2 (rp_world rp)\<rparr>))
               (sq (on_world (gen (EV ''AGENT-COMMUNICATION'') (agent_todict a2) None))
               (bnd (if displayname_unset a1 then setup_vols a2 pinfo else ret True) (\<lambda>again.
                  if \<not> again then bad_agent a2 ''pinfo vols failed second time for agent with''
                  else sq (set_default_backup_destid a2) (ret (a2\<lparr>ag_initting := False\<rparr>)))))))))"

definition setup_agent :: "clibs \<Rightarrow> agent \<Rightarrow> agent rio" where
  "setup_agent lb a =
     bnd (\<lambda>rp. case init_new_agent lb a rp of
            (Inl e, rp') \<Rightarrow> if is_setup_error e then bad_agent a (''Bad agent. Error: '' @ exn_str e) rp' else (Inl e, rp')
          | r \<Rightarrow> r)
       (\<lambda>(a1, pinfo). settle (ag_agent_type a) a1 pinfo)"

section \<open>A new connection\<close>

definition REQUIRED :: "string list" where
  "REQUIRED = [''version'', ''os-version'', ''processor-type'', ''processor-count'', ''installed-memory'', ''hostname'',
     ''fqdn'', ''ip-address'', ''listen-port'', ''uuid'', ''install-dir'', ''data-dir'']"

text \<open>Whether the answer is complete and has the key of the license, if the domain has one.\<close>

definition accepted :: "string option \<Rightarrow> body \<Rightarrow> pyexn + bool" where
  "accepted license_key b =
     (if list_ex (\<lambda>k. b k = None) REQUIRED then Inr False
      else (case truthy_str license_key of
          None \<Rightarrow> Inr True
        | Some key \<Rightarrow>
            (case b ''license-key'' of
               None \<Rightarrow> Inr False
             | Some (JStr s) \<Rightarrow> Inr (strip s = key)
             | Some _ \<Rightarrow> Inl (AttributeError ''strip''))))"

definition new_row :: "nat \<Rightarrow> string \<Rightarrow> agent" where
  "new_row i uuid =
     \<lparr>ag_agentid = i, ag_conn_id = 0, ag_uuid = uuid, ag_displayname = None, ag_display_order = 0, ag_enabled = True,
      ag_hostname = [], ag_fqdn = [], ag_agent_type = None, ag_ip_address = [], ag_listen_port = 0, ag_iswin = False,
      ag_data_dir = [], ag_install_dir = [], ag_tableau_data_dir = [], ag_username = [], ag_password = [],
      ag_initting = True\<rparr>"

text \<open>The answer to \<open>/auth\<close>: \<open>None\<close> closes the connection.\<close>

definition ask_auth :: "nat \<Rightarrow> body option io" where
  "ask_auth c =
     bnd (http_send ((new_row 0 [])\<lparr>ag_conn_id := c\<rparr>) ''POST'' ''/auth'' Map.empty) (\<lambda>r. case r of
       NoBody \<Rightarrow> ret (Some Map.empty)
     | NullBody \<Rightarrow> raise (AttributeError ''has_key'')
     | JsonBody b \<Rightarrow> ret (Some b)
     | _ \<Rightarrow> ret None)"

text \<open>\<open>Agent.build\<close>: an agent answers with texts and, for the port, a number.\<close>

definition text_of :: "body \<Rightarrow> string \<Rightarrow> string" where
  "text_of b k = (case b k of None \<Rightarrow> [] | Some v \<Rightarrow> jshow v)"

definition next_agentid :: "agent list \<Rightarrow> nat" where
  "next_agentid db = 1 + fold max (map ag_agentid db) 0"

definition fill_row :: "nat \<Rightarrow> body \<Rightarrow> agent \<Rightarrow> agent" where
  "fill_row c b r =
     r\<lparr>ag_conn_id := c, ag_hostname := text_of b ''hostname'', ag_fqdn := text_of b ''fqdn'',
       ag_ip_address := text_of b ''ip-address'', ag_listen_port := (case opt_num (b ''listen-port'') of None \<Rightarrow> 0 | Some p \<Rightarrow> nat p),
       ag_iswin := contains ''microsoft'' (lower (text_of b ''os-version'')),
       ag_install_dir := text_of b ''install-dir'', ag_username := ''palette'', ag_password := ''tableau2014'',
       ag_initting := True\<rparr>"

definition data_dir_of :: "bool \<Rightarrow> string \<Rightarrow> pyexn + string" where
  "data_dir_of win d =
     (if \<not> win then Inr d
      else (case split_on CHR '':'' d of
          drive # path # rest \<Rightarrow> Inr (path_join True (upper drive @ '':'') path)
        | _ \<Rightarrow> Inl (IndexError ''list index out of range'')))"

definition build_agent :: "nat \<Rightarrow> body \<Rightarrow> agent io" where
  "build_agent c b =
     bnd (gets w_db) (\<lambda>db. let u = text_of b ''uuid'' in
       let e = fill_row c b (case get_by_uuid db u of Some r \<Rightarrow> r | None \<Rightarrow> new_row (next_agentid db) u) in
       sq (if get_by_uuid db u = None then modify (\<lambda>w. w\<lparr>w_db := w_db w @ [e]\<rparr>) else store_agent e)
      (bnd (lift_sum (data_dir_of (ag_iswin e) (text_of b ''data-dir''))) (\<lambda>d.
         let e' = e\<lparr>ag_data_dir := d\<rparr> in sq (store_agent e') (ret e'))))"

text \<open>The read lock around one stage of the connection.\<close>

definition read_locked :: "'a rio \<Rightarrow> 'a rio" where
  "read_locked m =
     sq (bnd (on_world (rw_call (read_acquire True))) (\<lambda>_. ret ()))
        (\<lambda>r. case m r of
           (Inl Blocked, r') \<Rightarrow> (Inl Blocked, r')
         | (x, r') \<Rightarrow> (case on_world (rw_call read_release) r' of
               (Inl e, r'') \<Rightarrow> (Inl e, r'')
             | (Inr _, r'') \<Rightarrow> (x, r'')))"

datatype stage = Closed | Unmonitored agent body | Ready agent

definition ready :: "agent \<Rightarrow> stage rio" where
  "ready a =
     sq (when_m (ag_agent_type a = Some PRIMARY) (on_world (modify (\<lambda>w. w\<lparr>w_check_event := True\<rparr>)))) (ret (Ready a))"

definition first_stage :: "clibs \<Rightarrow> string option \<Rightarrow> nat \<Rightarrow> stage rio" where
  "first_stage lb license_key c =
     bnd (on_world (ask_auth c)) (\<lambda>answer. case answer of
       None \<Rightarrow> ret Closed
     | Some b \<Rightarrow> bnd (lift_repo (accepted license_key b)) (\<lambda>ok.
         if \<not> ok then ret Closed
         else bnd (on_world (build_agent c b)) (\<lambda>a.
           if ag_enabled a then bnd (setup_agent lb a) ready else ret (Unmonitored a b))))"

definition second_stage :: "clibs \<Rightarrow> nat \<Rightarrow> body \<Rightarrow> stage rio" where
  "second_stage lb c b = bnd (on_world (build_agent c b)) (\<lambda>a. bnd (setup_agent lb a) ready)"

definition stage_ends :: "stage rio \<Rightarrow> stage rio" where
  "stage_ends m r = (case read_locked m r of (Inl e, r') \<Rightarrow> if is_transport e then (Inr Closed, r') else (Inl e, r') | x \<Rightarrow> x)"

text \<open>
  The thread of a connection, with at most \<open>n\<close> rounds of pings in each of its two loops.
\<close>

definition ping_ready :: "clibs \<Rightarrow> nat \<Rightarrow> nat \<Rightarrow> stage \<Rightarrow> metrics_db \<Rightarrow> metrics_db rio" where
  "ping_ready lb n interval s db =
     (case s of
        Ready a \<Rightarrow> on_world (bnd (ping_rounds n lb interval True a db) (\<lambda>(alive, db'). ret db'))
      | _ \<Rightarrow> ret db)"

definition handle_agent_connection ::
    "clibs \<Rightarrow> nat \<Rightarrow> nat \<Rightarrow> string option \<Rightarrow> nat \<Rightarrow> metrics_db \<Rightarrow> metrics_db rio" where
  "handle_agent_connection lb n interval license_key c db =
     bnd (stage_ends (first_stage lb license_key c)) (\<lambda>s. case s of
       Unmonitored a b \<Rightarrow>
         bnd (on_world (ping_rounds n lb interval False a db)) (\<lambda>(alive, db').
           if alive \<noteq> Some True then ret db'
           else bnd (stage_ends (second_stage lb c b)) (\<lambda>s'. ping_ready lb n interval s' db'))
     | _ \<Rightarrow> ping_ready lb n interval s db)"

definition handle_agent_connection_pre ::
    "clibs \<Rightarrow> nat \<Rightarrow> nat \<Rightarrow> string option \<Rightarrow> nat \<Rightarrow> metrics_db \<Rightarrow> repo \<Rightarrow> ending \<times> repo" where
  "handle_agent_connection_pre lb n interval license_key c db r =
     (case handle_agent_connection lb n interval license_key c db r of
        (Inr _, r') \<Rightarrow> (Proceeds, r')
      | (Inl Blocked, r') \<Rightarrow> (Waiting, r')
      | (Inl e, r') \<Rightarrow> (Exited 90, snd (on_world (gen EV_SYSTEM_EXCEPTION (error_body (traceback_string e)) None) r')))"

section \<open>A ping without an answer\<close>

lemma lose_connected:
  assumes "agents_wf w" and "rows_known w" and "(k, a) \<in> set (w_agents w)"
  shows "\<exists>w'. lose_agent a r w = (Inr (), w') \<and> w_agents w' = AList.delete k (w_agents w) \<and> w_db w' = w_db w \<and>
    w_upgrading w' = w_upgrading w \<and>
    cur_state w' = (if ag_agent_type a = Some PRIMARY then STATE_DISCONNECTED else cur_state w)"
proof -
  from remove_agent_run [OF assms(1,3), of r] obtain v where
    v: "remove_agent a r w = (Inr (), v)" "w_agents v = AList.delete k (w_agents w)" "w_db v = w_db w"
      "cur_state v = (if ag_agent_type a = Some PRIMARY then STATE_DISCONNECTED else cur_state w)"
    by (auto simp: wp_def split: prod.splits)
  have "keeps w_upgrading (remove_agent a r)" by (rule keeps_remove_agent) simp_all
  with v(1) have up: "w_upgrading v = w_upgrading w" by (auto dest: keepsD)
  have "rows_known v" using assms(2) v(2,3) by (auto simp: rows_known_def delete_filter)
  then have "\<exists>p. agent_by_type PRIMARY v = (Inr p, v)"
    by (auto simp: agent_by_type_def bnd_def all_agents_run rows_known_def)
  then obtain p where "agent_by_type PRIMARY v = (Inr p, v)" ..
  with v up show ?thesis
    by (cases p) (simp_all add: lose_agent_def sq_def bnd_def cur_state_def)
qed

lemma send_immediate_io:
  assumes "agents_wf w" and "rows_known w" and "(k, a) \<in> set (w_agents w)" and "w_net w = (d, NetIOError s) # rest"
  shows "\<exists>e w'. send_immediate a m u b w = (Inr (error_body e), w') \<and> w_agents w' = AList.delete k (w_agents w) \<and>
    w_db w' = w_db w \<and> w_upgrading w' = w_upgrading w \<and>
    cur_state w' = (if ag_agent_type a = Some PRIMARY then STATE_DISCONNECTED else cur_state w)"
proof -
  let ?v = "w\<lparr>w_sent := w_sent w @ [Request (ag_conn_id a) m u b], w_net := rest, w_now := w_now w + d\<rparr>"
  have ex: "exchange (Request (ag_conn_id a) m u b) w = (Inr (NetIOError s), ?v)"
    using assms(4) by (simp add: exchange_def bnd_def sq_def)
  have "agents_wf ?v" "rows_known ?v" using assms(1,2) by (simp_all add: agents_wf_def rows_known_def)
  from lose_connected [OF this, of k a "''Agent send_immediate command '' @ m @ '' '' @ u @ '' failed: '' @ s"] assms(3) ex
  show ?thesis by (auto simp: send_immediate_def checked_exchange_def sq_def bnd_def cur_state_def)
qed

text \<open>
  C39: an agent that does not answer a ping is taken out of the table of agents, and a primary's loss makes
  the main state disconnected; during an upgrade too, when the ping is said to be ignored and counts as
  answered.
\<close>

theorem lost_ping:
  assumes "agents_wf w" and "rows_known w" and "(k, a) \<in> set (w_agents w)" and "w_net w = (d, NetIOError s) # rest"
  shows "\<exists>w'. ping_agent lb a db w = (Inr (w_upgrading w, db), w') \<and> map_of (w_agents w') (ag_conn_id a) = None \<and>
    (ag_agent_type a = Some PRIMARY \<longrightarrow> cur_state w' = STATE_DISCONNECTED)"
proof -
  from send_immediate_io [OF assms] obtain e v where
    v: "ping db a w = (Inr (error_body e), v)" "w_agents v = AList.delete k (w_agents w)" "w_db v = w_db w"
      "w_upgrading v = w_upgrading w"
      "ag_agent_type a = Some PRIMARY \<longrightarrow> cur_state v = STATE_DISCONNECTED"
    unfolding ping_def by (metis (no_types, lifting))
  have gone: "map_of (w_agents v) (ag_conn_id a) = None"
    using v(2) agents_wfD(1) [OF assms(1,3)] by (simp add: delete_conv)
  from assms(2,3) obtain row where row: "get_by_uuid (w_db w) (ag_uuid a) = Some row" by (auto simp: rows_known_def)
  have "remove_agent a r v = (Inr (), v)" for r
    using gone by (simp add: remove_agent_def agent_connected_def Let_def bnd_def)
  with v gone row show ?thesis
    by (auto simp: ping_agent_def bnd_def sq_def failed_def error_body_def)
qed

theorem lost_ping_witness:
  "\<forall>lb db. \<exists>w'. ping_agent lb agent0 db (world1\<lparr>w_upgrading := True, w_net := [(1, NetIOError [])]\<rparr>) = (Inr (True, db), w') \<and>
     map_of (w_agents w') 1 = None \<and> cur_state w' = STATE_DISCONNECTED"
  using lost_ping [of "world1\<lparr>w_upgrading := True, w_net := [(1, NetIOError [])]\<rparr>" 1 agent0 1 "[]" "[]"]
  by (simp add: agents_wf_def rows_known_def world1_def agent0_def get_by_id_def get_by_uuid_def)

section \<open>Stages under the read lock\<close>

definition can_read :: "rwl \<Rightarrow> bool" where
  "can_read l \<longleftrightarrow> \<not> monitor l \<and> 0 \<le> rwlock l \<and> writers_waiting l = 0"

definition with_reader :: "repo \<Rightarrow> repo" where
  "with_reader r = r\<lparr>rp_world := (rp_world r)\<lparr>w_rw := (w_rw (rp_world r))\<lparr>rwlock := rwlock (w_rw (rp_world r)) + 1\<rparr>\<rparr>\<rparr>"

lemma read_locked_run:
  assumes "can_read (w_rw (rp_world r))" and "m (with_reader r) = (x, v)"
    and "w_rw (rp_world v) = w_rw (rp_world (with_reader r))" and "x \<noteq> Inl Blocked"
  shows "read_locked m r = (x, v\<lparr>rp_world := (rp_world v)\<lparr>w_rw := w_rw (rp_world r)\<rparr>\<rparr>)"
proof -
  let ?l = "w_rw (rp_world r)"
  have a: "read_acquire True ?l = Done True (?l\<lparr>rwlock := rwlock ?l + 1\<rparr>)"
    using assms(1) by (simp add: can_read_def read_acquire_def)
  have b: "\<exists>x. read_release (?l\<lparr>rwlock := rwlock ?l + 1\<rparr>) = Done x ?l"
    using assms(1) by (cases ?l) (simp add: can_read_def read_release_def finish_release_def Let_def)
  from a have take: "on_world (rw_call (read_acquire True)) r = (Inr True, with_reader r)"
    by (simp add: on_world_def rw_call_def sq_def bnd_def with_reader_def)
  from b assms(3) obtain y where
    give: "on_world (rw_call read_release) v = (Inr y, v\<lparr>rp_world := (rp_world v)\<lparr>w_rw := ?l\<rparr>\<rparr>)"
    by (auto simp: on_world_def rw_call_def sq_def bnd_def with_reader_def)
  show ?thesis
    using assms(2,4) take give
    by (auto simp: read_locked_def sq_def bnd_def split: sum.split pyexn.split)
qed

lemma ask_auth_run:
  assumes "w_net w = (d, Resp 200 reason (JsonBody b)) # rest"
  shows "ask_auth c w = (Inr (Some b), w\<lparr>w_sent := w_sent w @ [Request c ''POST'' ''/auth'' Map.empty], w_net := rest, w_now := w_now w + d\<rparr>)"
  using assms by (simp add: ask_auth_def http_send_def exchange_def bnd_def sq_def new_row_def)



section \<open>An install directory without a drive\<close>

lemma keeps_locks_raw [frame]: "keeps locks (case r of NoBody \<Rightarrow> m1 | NullBody \<Rightarrow> m2 | BadJson s \<Rightarrow> m3 s | JsonBody b \<Rightarrow> m4 b
    | TextBody s \<Rightarrow> m5 s | BadXml s \<Rightarrow> m6 s | XmlBody x \<Rightarrow> m7 x)"
  if "keeps locks m1" "keeps locks m2" "\<And>s. keeps locks (m3 s)" "\<And>b. keeps locks (m4 b)" "\<And>s. keeps locks (m5 s)"
    "\<And>s. keeps locks (m6 s)" "\<And>x. keeps locks (m7 x)"
  using that by (cases r) simp_all

lemma keeps_locks_http_send [frame]: "keeps locks (http_send a m u b)"
  unfolding http_send_def by (rule frame)+ (auto split: netres.split intro: frame)

lemma keeps_locks_store [frame]: "keeps locks (store_agent a)"
  unfolding store_agent_def by (rule frame) (simp add: locks_def)

lemma keeps_locks_jval [frame]:
  "(\<And>s. keeps locks (m s)) \<Longrightarrow> keeps locks (case v of JStr s \<Rightarrow> m s | _ \<Rightarrow> raise e)"
  by (cases v) (auto intro: frame)

lemma keeps_locks_connect [frame]:
  "keeps locks (ask_auth c)" "keeps locks (build_agent c b)"
  unfolding ask_auth_def build_agent_def Let_def by (rule frame | simp add: locks_def)+

lemma keeps_locks_raw_pinfo [frame]: "keeps locks (raw_pinfo lb a)"
  unfolding raw_pinfo_def
  by (rule frame | auto split: jval.split sum.split pyexn.split option.split intro!: frame)+

lemma keeps_rw: "keeps locks m \<Longrightarrow> m w = (x, w') \<Longrightarrow> w_rw w' = w_rw w"
  using keepsD [of locks m w x w'] by (simp add: locks_def)

text \<open>
  An enabled agent that reports an install directory without a colon ends the controller: the answer
  \<open>False\<close> of \<open>init_new_agent\<close> is used as the report, which raises in the thread of the connection.
\<close>

theorem primary_without_drive:
  assumes "can_read (w_rw (rp_world r))" and "ask_auth c (rp_world (with_reader r)) = (Inr (Some b), w1)"
    and "accepted license_key b = Inr True" and "build_agent c b w1 = (Inr a, w2)" and "ag_enabled a"
    and "raw_pinfo lb a w2 = (Inr pinfo, w3)" and "pinfo ''tableau-install-dir'' = Some (JStr s)" and "CHR '':'' \<notin> set s"
  shows "\<exists>r'. handle_agent_connection_pre lb n interval license_key c db r = (Exited 90, r') \<and>
    w_agents (rp_world r') = w_agents w3 \<and> w_db (rp_world r') = w_db w3"
proof -
  let ?s = "with_reader r" and ?e = "TypeError ''argument of type 'bool' is not iterable''"
  have "init_new_agent lb a (?s\<lparr>rp_world := w2\<rparr>) =
      (Inr (a\<lparr>ag_agent_type := Some PRIMARY\<rparr>, None), ?s\<lparr>rp_world := w3\<rparr>)"
    using assms(6-8) by (simp add: init_new_agent_def get_pinfo_def on_world_def bnd_def find_type_def Let_def)
  then have "setup_agent lb a (?s\<lparr>rp_world := w2\<rparr>) = (Inl ?e, ?s\<lparr>rp_world := w3\<rparr>)"
    by (simp add: setup_agent_def settle_def setup_vols_def bnd_def)
  with assms(2-5) have first: "first_stage lb license_key c ?s = (Inl ?e, ?s\<lparr>rp_world := w3\<rparr>)"
    by (simp add: first_stage_def on_world_def lift_repo_def bnd_def)
  have "w_rw w3 = w_rw (rp_world ?s)"
    using keeps_rw [OF keeps_locks_connect(1) assms(2)] keeps_rw [OF keeps_locks_connect(2) assms(4)]
      keeps_rw [OF keeps_locks_raw_pinfo assms(6)] by simp
  with read_locked_run [where m = "first_stage lb license_key c" and r = r, OF assms(1) first]
  have "read_locked (first_stage lb license_key c) r = (Inl ?e, ?s\<lparr>rp_world := w3\<lparr>w_rw := w_rw (rp_world r)\<rparr>\<rparr>)"
    by simp
  then show ?thesis
    by (simp add: handle_agent_connection_pre_def handle_agent_connection_def stage_ends_def bnd_def on_world_def
        gen_def)
qed

text \<open>A primary whose Tableau directory has no drive letter.\<close>

definition odd_auth :: body where
  "odd_auth = [''version'' \<mapsto> JStr ''1'', ''os-version'' \<mapsto> JStr ''Microsoft'', ''processor-type'' \<mapsto> JStr ''x'',
     ''processor-count'' \<mapsto> JInt 1, ''installed-memory'' \<mapsto> JInt 1, ''hostname'' \<mapsto> JStr ''h'', ''fqdn'' \<mapsto> JStr ''h'',
     ''ip-address'' \<mapsto> JStr ''10.0.0.2'', ''listen-port'' \<mapsto> JInt 8889, ''uuid'' \<mapsto> JStr ''u2'',
     ''install-dir'' \<mapsto> JStr ''C'', ''data-dir'' \<mapsto> JStr ''c:p'']"

definition odd_done :: body where
  "odd_done = [''xid'' \<mapsto> JInt 1, ''run-status'' \<mapsto> JStr ''finished'', ''exit-status'' \<mapsto> JInt 0, ''stdout'' \<mapsto> JStr ''{}'']"

definition odd_pinfo :: body where
  "odd_pinfo = [''tableau-install-dir'' \<mapsto> JStr ''Tableau'']"

definition odd_libs :: clibs where
  "odd_libs = \<lparr>cl_json = (\<lambda>s. Inr (Some odd_pinfo)), cl_yaml = (\<lambda>r. Inr Map.empty), cl_float = (\<lambda>v. Inr 0),
     cl_dt = (\<lambda>s. None), cl_strptime = (\<lambda>s. None), cl_show_time = (\<lambda>t. []), cl_stamp = (\<lambda>t. [])\<rparr>"

definition odd_repo :: repo where
  "odd_repo = no_repo\<lparr>rp_world := world1\<lparr>w_net :=
     [(1, Resp 200 [] (JsonBody odd_auth)), (1, Resp 200 [] (JsonBody odd_done))]\<rparr>\<rparr>"

definition odd_agent :: agent where
  "odd_agent = (fill_row 2 odd_auth (new_row 2 ''u2''))\<lparr>ag_data_dir := path_join True ''C:'' ''p''\<rparr>"

lemma odd_ground:
  "contains ''microsoft'' (lower ''Microsoft'')" "data_dir_of True ''c:p'' = Inr (path_join True ''C:'' ''p'')"
  by code_simp+

lemma odd_build:
  "w_db w = [agent0] \<Longrightarrow> build_agent 2 odd_auth w = (Inr odd_agent, w\<lparr>w_db := [agent0, odd_agent]\<rparr>)"
  by (simp add: build_agent_def odd_agent_def odd_auth_def get_by_uuid_def agent0_def bnd_def sq_def
      text_of_def next_agentid_def Let_def lift_sum_def odd_ground fill_row_def new_row_def store_agent_def opt_num_def
      del: nat_str.simps)

lemma odd_answer:
  assumes "w_net w = [(1, Resp 200 [] (JsonBody odd_done))]" and "w_next_xid w = 1"
  shows "\<exists>w'. raw_pinfo odd_libs odd_agent w = (Inr odd_pinfo, w')"
proof -
  have "\<exists>w'. cli_cmd ''pinfo'' odd_agent Map.empty True (60 * 60 * 2) w = (Inr odd_done, w')"
    using assms
    by (simp add: cli_cmd_def send_cli_def post_start_def checked_exchange_def exchange_def next_xid_def
        json_loads_def bnd_def sq_def check_started_def failed_def odd_done_def)
  then obtain w' where "cli_cmd ''pinfo'' odd_agent Map.empty True (60 * 60 * 2) w = (Inr odd_done, w')" ..
  then show ?thesis by (simp add: raw_pinfo_def bnd_def odd_done_def odd_libs_def)
qed

theorem primary_without_drive_witness:
  "\<forall>n interval db. \<exists>r'. handle_agent_connection_pre odd_libs n interval None 2 db odd_repo = (Exited 90, r')"
proof -
  have auth: "ask_auth 2 (rp_world (with_reader odd_repo)) = (Inr (Some odd_auth), (rp_world (with_reader odd_repo))\<lparr>
      w_sent := [Request 2 ''POST'' ''/auth'' Map.empty], w_net := [(1, Resp 200 [] (JsonBody odd_done))], w_now := 1\<rparr>)"
    (is "_ = (_, ?w1)")
    using ask_auth_run [of "rp_world (with_reader odd_repo)" 1 "[]" odd_auth "[(1, Resp 200 [] (JsonBody odd_done))]" 2]
    by (simp add: with_reader_def odd_repo_def world1_def world0_def)
  have ok: "accepted None odd_auth = Inr True"
    by (simp add: accepted_def REQUIRED_def odd_auth_def truthy_str_def)
  have build: "build_agent 2 odd_auth ?w1 = (Inr odd_agent, ?w1\<lparr>w_db := [agent0, odd_agent]\<rparr>)"
    by (rule odd_build) (simp add: with_reader_def odd_repo_def world1_def)
  from odd_answer [of "?w1\<lparr>w_db := [agent0, odd_agent]\<rparr>"]
  obtain w3 where "raw_pinfo odd_libs odd_agent (?w1\<lparr>w_db := [agent0, odd_agent]\<rparr>) = (Inr odd_pinfo, w3)"
    by (auto simp: with_reader_def odd_repo_def world1_def world0_def)
  from primary_without_drive [OF _ auth ok build _ this, of "''Tableau''"]
  have "\<exists>r'. handle_agent_connection_pre odd_libs n interval None 2 db odd_repo = (Exited 90, r') \<and>
      w_agents (rp_world r') = w_agents w3 \<and> w_db (rp_world r') = w_db w3" for n interval db
    by (simp add: odd_agent_def fill_row_def new_row_def odd_pinfo_def)
      (simp add: can_read_def odd_repo_def world1_def world0_def rw_init_def)
  then show ?thesis by blast
qed

section \<open>An agent that has been set up\<close>

definition tables :: "world \<Rightarrow> (nat \<times> agent) list \<times> agent list \<times> (string \<Rightarrow> string option)" where
  "tables w = (w_agents w, w_db w, w_yml w)"

lemma keeps_on_world: "keeps f m \<Longrightarrow> keeps (f \<circ> rp_world) (on_world m)"
  by (simp add: keeps_def on_world_def split_beta)

lemma keeps_tables_small [frame]: "keeps tables (gen k d u)" "keeps tables (exchange rq)"
  by (rule keeps_gen keeps_exchange; simp add: tables_def)+

lemma keeps_tables_sizes [frame]: "keeps tables (sizestr n)" "keeps tables (percent_used u c)"
  unfolding sizestr_def percent_used_def by (rule frame)+

lemma keeps_tables_disk [frame]: "keeps tables (gen_disk_event a c r cap sp p)" "keeps tables (tell_space a v r)"
  unfolding gen_disk_event_def tell_space_def Let_def by (rule frame)+

lemma keeps_tables_vols [frame]: "keeps tables (update_agent_pinfo_vols a p rows)"
  unfolding update_agent_pinfo_vols_def update_volume_def Let_def by (rule frame)+

lemma keeps_tables_send [frame]: "keeps tables (http_send a m u b)"
  unfolding http_send_def by (rule frame)+ (auto split: netres.split intro: frame)

lemma keeps_tables_put [frame]: "keeps tables (fm_put a p d)"
  unfolding fm_put_def by (rule frame | auto split: raw.split intro: frame)+

lemma keeps_tables_setup:
  "keeps (tables \<circ> rp_world) (setup_vols a pinfo)" "keeps (tables \<circ> rp_world) (save_routes a)"
  "keeps (tables \<circ> rp_world) (set_default_backup_destid a)"
  unfolding setup_vols_def update_vols_def set_volumes_def save_routes_def attempt_def need_body_def
    set_default_backup_destid_def get_primary_loc_def
  by (rule frame keeps_on_world | simp add: tables_def keeps_def system_get_def system_set_def split: sum.split)+

lemma initialised_last:
  assumes "map_of xs (ag_conn_id a) = None" and "w_agents w = xs @ [(ag_conn_id a, b)]"
  shows "w_agents (initialised a w) = xs @ [(ag_conn_id a, b\<lparr>ag_initting := False\<rparr>)]"
proof -
  have "\<forall>(k, b) \<in> set xs. k \<noteq> ag_conn_id a" using assms(1) by (auto simp: map_of_eq_None_iff intro: rev_image_eqI)
  then show ?thesis by (auto simp: initialised_def assms(2) intro!: map_idI)
qed

lemma initialised_wf: "agents_wf w \<Longrightarrow> agents_wf (initialised a w)"
proof -
  assume wf: "agents_wf w"
  have "map fst (w_agents (initialised a w)) = map fst (w_agents w)"
    "map (\<lambda>(k, b). ag_uuid b) (w_agents (initialised a w)) = map (\<lambda>(k, b). ag_uuid b) (w_agents w)"
    by (simp_all add: initialised_def split_beta o_def cong: map_cong)
  moreover have "\<forall>(k, b) \<in> set (w_agents (initialised a w)). ag_conn_id b = k \<and> ag_agentid b \<noteq> 0 \<and>
      get_by_id (w_db (initialised a w)) (ag_agentid b) \<noteq> None"
    using wf by (auto simp: agents_wf_def initialised_def)
  ultimately show ?thesis using wf unfolding agents_wf_def by (metis (no_types, lifting))
qed

lemma agents_wf_tables: "tables v = tables w \<Longrightarrow> agents_wf w \<Longrightarrow> agents_wf v"
  by (simp add: agents_wf_def tables_def)

lemma worker_scan_named: "fst (worker_scan yml a num n) \<noteq> []"
  by (induction yml a num n rule: worker_scan.induct) (auto simp: worker_name_def split: option.split)

lemma register_name_set: "ag_hostname a \<noteq> [] \<Longrightarrow> \<not> displayname_unset (register_name yml a orig)"
  using worker_scan_named [of yml a 1]
  by (auto simp: register_name_def displayname_unset_def rename_def calc_new_displayname_def calc_archive_name_def
      calc_worker_name_def worker_name_def split: option.splits agent_type.splits prod.splits) (metis fst_conv)+

text \<open>The steps of a set-up that ends without an exception.\<close>

lemma settle_returnsE:
  assumes "settle orig a pinfo rp = (Inr a', rp')"
  obtains s1 v y s3 s5 s6 x where
    "setup_vols a pinfo rp = (Inr True, s1)"
    "register a orig (rp_world s1) = (Inr y, v)"
    "save_routes (register_name (w_yml (rp_world s1)) a orig) (s1\<lparr>rp_world := v\<rparr>) = (Inr True, s3)"
    "on_world (gen (EV ''AGENT-COMMUNICATION'') (agent_todict (register_name (w_yml (rp_world s1)) a orig)) None)
       (s3\<lparr>rp_world := initialised (register_name (w_yml (rp_world s1)) a orig) (rp_world s3)\<rparr>) = (Inr (), s5)"
    "(if displayname_unset a then setup_vols (register_name (w_yml (rp_world s1)) a orig) pinfo else ret True) s5 = (Inr True, s6)"
    "set_default_backup_destid (register_name (w_yml (rp_world s1)) a orig) s6 = (Inr x, rp')"
    "a' = (register_name (w_yml (rp_world s1)) a orig)\<lparr>ag_initting := False\<rparr>"
proof -
  from assms obtain s1 where s1: "setup_vols a pinfo rp = (Inr True, s1)"
    unfolding settle_def by (auto elim!: bnd_returnsE split: if_splits simp: bad_agent_def)
  let ?a = "register_name (w_yml (rp_world s1)) a orig"
  from assms s1 obtain y v where v: "register a orig (rp_world s1) = (Inr y, v)"
    by (auto simp: settle_def sq_def bnd_def on_world_def split: sum.splits prod.splits)
  from assms s1 v obtain s3 where s3: "save_routes ?a (s1\<lparr>rp_world := v\<rparr>) = (Inr True, s3)"
    by (auto simp: settle_def sq_def bnd_def on_world_def bad_agent_def split: if_splits prod.splits sum.splits)
  obtain s5 where s5: "on_world (gen (EV ''AGENT-COMMUNICATION'') (agent_todict ?a) None)
      (s3\<lparr>rp_world := initialised ?a (rp_world s3)\<rparr>) = (Inr (), s5)"
    by (simp add: on_gen)
  from assms s1 v s3 s5 obtain s6 where s6: "(if displayname_unset a then setup_vols ?a pinfo else ret True) s5 = (Inr True, s6)"
    and end_of: "sq (set_default_backup_destid ?a) (ret (?a\<lparr>ag_initting := False\<rparr>)) s6 = (Inr a', rp')"
    by (auto simp: settle_def sq_def bnd_def on_world_def bad_agent_def split: if_splits prod.splits sum.splits)
  from end_of obtain x where "set_default_backup_destid ?a s6 = (Inr x, rp')" "a' = ?a\<lparr>ag_initting := False\<rparr>"
    by (auto elim!: sq_returnsE)
  with s1 v s3 s5 s6 show thesis by (rule that)
qed

lemma keeps_tablesD: "keeps (tables \<circ> rp_world) m \<Longrightarrow> m s = (x, t) \<Longrightarrow> tables (rp_world t) = tables (rp_world s)"
  using keepsD by fastforce

text \<open>
  C38: an agent that is set up without an exception is in the table of connected agents, under its
  connection, named (if its host has a name) and no longer being initialised; the table stays well formed and has lost nothing but an
  earlier connection of the same agent.
\<close>

theorem settled_agent:
  assumes "settle orig a pinfo rp = (Inr a', rp')" and "agents_wf (rp_world rp)"
    and "map_of (w_agents (rp_world rp)) (ag_conn_id a) = None" and "ag_agentid a \<noteq> 0"
    and "get_by_id (w_db (rp_world rp)) (ag_agentid a) \<noteq> None"
    and "\<forall>(k, b) \<in> set (w_agents (rp_world rp)). \<not> rival a b"
  shows "agents_wf (rp_world rp') \<and> (ag_hostname a \<noteq> [] \<longrightarrow> \<not> displayname_unset a') \<and> \<not> ag_initting a' \<and>
    w_agents (rp_world rp') = filter (\<lambda>(k, b). ag_uuid b \<noteq> ag_uuid a) (w_agents (rp_world rp)) @ [(ag_conn_id a, a')]"
proof -
  let ?w = "rp_world rp" and ?old = "filter (\<lambda>(k, b). ag_uuid b \<noteq> ag_uuid a) (w_agents (rp_world rp))"
  from assms(1) obtain s1 v y s3 s5 s6 x where
    s1: "setup_vols a pinfo rp = (Inr True, s1)" and v: "register a orig (rp_world s1) = (Inr y, v)"
    and s3: "save_routes (register_name (w_yml (rp_world s1)) a orig) (s1\<lparr>rp_world := v\<rparr>) = (Inr True, s3)"
    and s5: "on_world (gen (EV ''AGENT-COMMUNICATION'') (agent_todict (register_name (w_yml (rp_world s1)) a orig)) None)
       (s3\<lparr>rp_world := initialised (register_name (w_yml (rp_world s1)) a orig) (rp_world s3)\<rparr>) = (Inr (), s5)"
    and s6: "(if displayname_unset a then setup_vols (register_name (w_yml (rp_world s1)) a orig) pinfo else ret True) s5
       = (Inr True, s6)"
    and x: "set_default_backup_destid (register_name (w_yml (rp_world s1)) a orig) s6 = (Inr x, rp')"
    and a': "a' = (register_name (w_yml (rp_world s1)) a orig)\<lparr>ag_initting := False\<rparr>"
    by (rule settle_returnsE)
  let ?a = "register_name (w_yml (rp_world s1)) a orig"
  have t1: "tables (rp_world s1) = tables ?w" by (rule keeps_tablesD [OF keeps_tables_setup(1) s1])
  then have "agents_wf (rp_world s1)" using assms(2) by (rule agents_wf_tables)
  from register_run [OF this, of a orig] assms(3-6) t1 v
  have v': "agents_wf v" "w_agents v = ?old @ [(ag_conn_id a, ?a)]" by (auto simp: tables_def)
  have t3: "tables (rp_world s3) = tables v" using keeps_tablesD [OF keeps_tables_setup(2) s3] by simp
  have w3: "agents_wf (rp_world s3)" using t3 v'(1) by (rule agents_wf_tables)
  have "tables (rp_world s5) = tables (initialised ?a (rp_world s3))"
    using keeps_tablesD [OF keeps_on_world s5] by (simp add: keeps_tables_small)
  moreover have "tables (rp_world s6) = tables (rp_world s5)"
    using s6 keeps_tablesD [OF keeps_tables_setup(1)] by (auto split: if_splits)
  ultimately have t6: "tables (rp_world rp') = tables (initialised ?a (rp_world s3))"
    using keeps_tablesD [OF keeps_tables_setup(3) x] by simp
  have same: "ag_conn_id ?a = ag_conn_id a" by (simp add: register_name_def)
  have "map_of ?old (ag_conn_id ?a) = None" using assms(3) same by (auto simp: map_of_eq_None_iff)
  from initialised_last [OF this, of "rp_world s3" ?a] v'(2) t3 t6 same a'
  have "w_agents (rp_world rp') = ?old @ [(ag_conn_id a, a')]" by (simp add: tables_def)
  moreover have "agents_wf (rp_world rp')" using t6 initialised_wf [OF w3] by (rule agents_wf_tables)
  moreover have "ag_hostname a \<noteq> [] \<longrightarrow> \<not> displayname_unset a'" "\<not> ag_initting a'"
    using register_name_set [of a "w_yml (rp_world s1)" orig] a' by (simp_all add: displayname_unset_def)
  ultimately show ?thesis by blast
qed

definition posix_agent :: agent where
  "posix_agent = agent0\<lparr>ag_conn_id := 7, ag_iswin := False, ag_data_dir := ''/p'', ag_agent_type := Some ARCHIVE\<rparr>"

definition posix_repo :: repo where
  "posix_repo = no_repo\<lparr>rp_world := world1\<lparr>w_net := [(1, Resp 200 [] NoBody)]\<rparr>\<rparr>"

lemma linux_register:
  "\<exists>v. register posix_agent None (rp_world posix_repo) = (Inr True, v) \<and> w_net v = [(1, Resp 200 [] NoBody)]"
  by (simp add: register_def register_name_def displayname_unset_def posix_agent_def posix_repo_def world1_def agent0_def
      bnd_def sq_def remove_agent_def agent_connected_def forget_def get_by_id_def update_state_def store_agent_def
      gen_def Let_def world0_def)

lemma linux_run: "\<exists>a' rp'. settle None posix_agent (Some Map.empty) posix_repo = (Inr a', rp')"
proof -
  have vols: "setup_vols posix_agent (Some Map.empty) posix_repo = (Inr True, posix_repo)"
    by (simp add: setup_vols_def update_vols_def update_agent_pinfo_vols_def posix_agent_def agent0_def posix_repo_def
        no_repo_def palette_data_dir_def pinfo_of_def bnd_def sq_def on_world_def set_volumes_def List.map_filter_def world1_def world0_def)
  from linux_register obtain v where v: "register posix_agent None (rp_world posix_repo) = (Inr True, v)"
    "w_net v = [(1, Resp 200 [] NoBody)]" by blast
  have same: "register_name y posix_agent None = posix_agent" for y
    by (simp add: register_name_def displayname_unset_def posix_agent_def agent0_def)
  have path: "\<not> is_dir_path (route_path posix_agent)" by code_simp
  have "\<exists>s. save_routes posix_agent (posix_repo\<lparr>rp_world := v\<rparr>) = (Inr True, s)"
    using v(2) path
    by (simp add: save_routes_def fm_put_def http_send_def exchange_def bnd_def sq_def on_world_def attempt_def
        need_body_def failed_def catch_def)
  then obtain s where s: "save_routes posix_agent (posix_repo\<lparr>rp_world := v\<rparr>) = (Inr True, s)" ..
  have set_up: "\<not> displayname_unset posix_agent" "ag_agent_type posix_agent \<noteq> Some PRIMARY"
    by (simp_all add: posix_agent_def agent0_def displayname_unset_def)
  from vols v(1) same s set_up show ?thesis
    by (simp add: settle_def sq_def bnd_def on_world_def)
      (simp add: sq_def bnd_def set_default_backup_destid_def gen_def)
qed

theorem settled_agent_witness:
  "\<exists>a' rp'. settle None posix_agent (Some Map.empty) posix_repo = (Inr a', rp') \<and> agents_wf (rp_world rp') \<and>
     w_agents (rp_world rp') = [(7, a')] \<and> \<not> ag_initting a'"
proof -
  from linux_run obtain a' rp' where run: "settle None posix_agent (Some Map.empty) posix_repo = (Inr a', rp')" by blast
  let ?w = "rp_world posix_repo"
  have "agents_wf ?w" "map_of (w_agents ?w) (ag_conn_id posix_agent) = None" "ag_agentid posix_agent \<noteq> 0"
    "get_by_id (w_db ?w) (ag_agentid posix_agent) \<noteq> None" "\<forall>(k, b) \<in> set (w_agents ?w). \<not> rival posix_agent b"
    and rest: "filter (\<lambda>(k, b). ag_uuid b \<noteq> ag_uuid posix_agent) (w_agents ?w) @ [(ag_conn_id posix_agent, a')] = [(7, a')]"
    by (simp_all add: agents_wf_def posix_agent_def posix_repo_def world1_def agent0_def get_by_id_def rival_def)
  from settled_agent [OF run this(1-5)] rest run show ?thesis by auto
qed

end
