(* ===== verification/Spec2Isabelle.thy ===== *)
theory Spec2Isabelle
  imports Session Web Metrics Ports Alerts Volumes SystemTable Auth Extracts Archive Refresh HttpRequests Connect
begin

text \<open>
  Palette Center looks after a Tableau server.  Its controller
  (\<open>src/controller/controller/\<close>, Python 2) talks to one agent on each machine, keeps the state of
  the server in a database, takes orders on a telnet-like command port and tells the administrators
  what happens; a web application (\<open>src/app/palette/\<close>) shows the state and sends the orders.  This
  library models the logic of both.

  \<^bold>\<open>How the parts fit together.\<close>  An agent connects, is checked, asked about itself, registered and set up (\<open>Connect\<close>, \<open>Agents\<close>).  The
  controller sends it commands and polls their status (\<open>CliCmd\<close>); the answers of the network are
  an arbitrary list, \<open>w_net\<close>, so that every theorem holds for all of them, failures
  included.  The status monitor (\<open>StatusMonitor\<close>) asks the primary agent for the state of Tableau
  at intervals and moves the main state along the table of \<open>States\<close>.  A user's order goes from the
  page (\<open>MonitorView\<close>) through a request (\<open>Web\<close>) and a line of text (\<open>Commands\<close>) to a handler
  (\<open>Handlers\<close>, \<open>Session\<close>), which takes the locks (\<open>RWLock\<close>, \<open>World\<close>), calls the methods behind the
  command (\<open>Server\<close>, \<open>Storage\<close>, \<open>Files\<close>, \<open>Maint\<close>, \<open>Licensing\<close>) and puts the main state back.  What
  the checks find (\<open>Licensing\<close>, \<open>Metrics\<close>, \<open>Ports\<close>, \<open>Volumes\<close>, \<open>Extracts\<close>, \<open>HttpRequests\<close>, \<open>Auth\<close>) becomes
  events and mails (\<open>EmailLimit\<close>, \<open>Alerts\<close>).  What Tableau's repository lists of workbooks, data sources and
  refreshed extracts is fetched with \<open>tabcmd\<close> (\<open>Server\<close>) and archived (\<open>Archive\<close>, \<open>Refresh\<close>).

  \<^bold>\<open>Conventions.\<close>  A method is a function of the state monad \<open>M\<close> of \<open>Prelude\<close>, with exceptions:
  \<open>('s, 'a) M\<close> takes a state to an exception or a result, and the state at that moment.  \<open>'a io\<close> has
  the record \<open>world\<close> as its state (one controller process with its rows of the database), \<open>'a rio\<close>
  of \<open>Odbc\<close> the record \<open>repo\<close>, a world with the tables that are copied from Tableau.  Python's
  exceptions are the datatype \<open>pyexn\<close>; \<open>Blocked\<close> is no exception but a thread that waits, and no
  model of an \<open>except\<close> or \<open>finally\<close> clause catches it.  A reply dictionary is a \<open>body\<close>, a map from
  keys to the values \<open>jval\<close>.  Integers are \<open>int\<close> as in Python; the bits of a job's notifications are a
  word.  \<open>wp\<close>, \<open>keeps\<close>, \<open>acts\<close>, \<open>moves\<close>, \<open>avoids\<close>, \<open>returns\<close> and \<open>sends\<close> are what the proofs say of a
  method; each has rules for the composed statements, so that most lemmas are a few of them.

  \<^bold>\<open>The theories.\<close>
  \<^item> \<open>Prelude\<close>: values, exceptions, texts, the monad and its rules.
  \<^item> \<open>States\<close>: \<open>state.py\<close> and \<open>state_transitions.py\<close>: the main states, the states that are reported,
    the table of transitions and which status is known.
  \<^item> \<open>RWLock\<close>: \<open>rwlock.py\<close> as a step relation over threads; mutual exclusion and no lost wake-up
    as invariants of the reachable states.
  \<^item> \<open>World\<close>: the state; replies, the main state, the event log up to its row, the user action lock,
    the decorator \<open>upgrade_rwlock\<close>, one exchange with an agent.  Locale \<open>bracket\<close>: a lock that is
    taken and given back.
  \<^item> \<open>Agents\<close>: \<open>agentmanager.py\<close>, \<open>agent.py\<close>: who is connected, names and types, registering, removing.
  \<^item> \<open>CliCmd\<close>: \<open>cli_cmd.py\<close>: start, poll, kill and clean up a command.  The loop takes fuel; \<open>status_fuel\<close>
    is computed from the answers that are left and the time limit, and \<open>cli_cmd_ends\<close> shows that it is
    enough when the polling interval is positive.
  \<^item> \<open>Maint\<close>: maintenance page, archive server, \<open>odbc_ok\<close> (\<open>controller.py\<close>).
  \<^item> \<open>StatusMonitor\<close>: \<open>tableau.py\<close>: one round of the status monitor by the page or by tabadmin, the table
    of processes, the decision about state and events; the table of transitions refines the rule
    \<open>settled\<close>.
  \<^item> \<open>Files\<close>, \<open>Storage\<close>: \<open>files.py\<close>, \<open>filemanager.py\<close>, \<open>cloud.py\<close>; \<open>diskcheck.py\<close>, \<open>place_file.py\<close>,
    \<open>get_file.py\<close>: where a backup goes and that placing it never loses it.  Locale \<open>traffic\<close>: what a
    method that only talks to agents leaves alone.
  \<^item> \<open>Server\<close>: \<open>controller.py\<close>: backup, restore, ziplogs, cleanup, tabcmd, rotation of files.
  \<^item> \<open>Licensing\<close>: \<open>licensing.py\<close>.  Locale \<open>edge_notifier\<close>: events that alternate between red and green; it is
    interpreted for the licence, the status page and (in \<open>Auth\<close>) the read-only user.
  \<^item> \<open>Commands\<close>, \<open>Handlers\<close>, \<open>Session\<close>: \<open>clihandler.py\<close>: lexing, options and dispatch; the handlers; what they
    guarantee of locks and main state.
  \<^item> \<open>MonitorView\<close>, \<open>Web\<close>: \<open>monitor.py\<close>, \<open>state_control.py\<close>; \<open>manage.py\<close>, \<open>backup.py\<close>, \<open>rest.py\<close>,
    \<open>request.py\<close>.
  \<^item> \<open>Levels\<close>, \<open>Metrics\<close>, \<open>Ports\<close>, \<open>Volumes\<close>: the checks with colours.  Locale \<open>level_notifier\<close>: events tell
    exactly the changes of the colour.
  \<^item> \<open>EmailLimit\<close>, \<open>Alerts\<close>: \<open>event_control.py\<close>, \<open>alert_email.py\<close>, \<open>email_limit.py\<close>: texts, recipients, the
    limit on mails, the delay of mails about agents.  An event may cause the event about too many
    mails; \<open>gen_fuel\<close> bounds that depth, and \<open>events_end\<close> shows that it is enough.
  \<^item> \<open>SystemTable\<close>: \<open>system/\<close>: keys, defaults and types of the settings.
  \<^item> \<open>Odbc\<close>: \<open>odbc.py\<close>, \<open>sites.py\<close>, \<open>projects.py\<close>, \<open>data_connections.py\<close>, \<open>sync_cmd\<close>: queries to Tableau's
    repository and the copies of its tables.
  \<^item> \<open>Auth\<close>: \<open>auth.py\<close>: the import of Tableau's users.
  \<^item> \<open>Extracts\<close>: \<open>extracts.py\<close>: the import of Tableau's background jobs and their alerts.
  \<^item> \<open>Archive\<close>, \<open>Refresh\<close>: \<open>workbooks.py\<close>, \<open>datasources.py\<close>, \<open>extract_archive.py\<close>, \<open>archive_mixin.py\<close>, \<open>cache.py\<close>: the
    files of workbooks, data sources and refreshed extracts: which versions are kept, how one is
    fetched and placed, what refused credentials lead to.  The managers of workbooks and of data
    sources are one group of definitions over a \<open>kind\<close>.  Locale \<open>kept_table\<close>: a table of the repository is
    read as it was written, and apart from the settings and the world; it is interpreted for the
    tables of versions and of items.
  \<^item> \<open>HttpRequests\<close>: \<open>http_requests.py\<close>, \<open>http_control.py\<close>: the import of the log of Tableau's web server and its
    alerts; \<open>tested_by_thousands\<close> says which requests are tested at all.
  \<^item> \<open>Connect\<close>: \<open>agentmanager.py\<close>, \<open>agent.py\<close>, \<open>controller.py\<close>, \<open>firewall_manager.py\<close>, \<open>yml.py\<close>: the thread of a
    connection, from \<open>/auth\<close> to the pings: what is turned away, the row that is built, the report of the agent,
    firewall ports, configuration file, imports, registration, routes.  The pings go on for ever in the
    code; the model does \<open>n\<close> rounds of them, \<open>None\<close> when they are not over then, and no theorem depends
    on \<open>n\<close>.  The read lock is taken and given back around each stage.

  \<^bold>\<open>What is not modelled.\<close>  Threads other than in \<open>RWLock\<close> and the timers of \<open>Alerts\<close>: a method runs
  alone, and other threads are the arbitrary state it starts in.  Logging.  The listening sockets and
  TLS.  The text of log lines and of tracebacks; in some messages the quotation marks around values are
  left out.  \<open>fmt % args\<close> of \<open>print_client\<close>.  The version of the controller in the event about an
  exception.  Integrity errors and the transactions of the database, but for those the code relies on
  (the two views of the process table, rows dropped by an exception in the copies of tables are not
  put back).  Negative time limits of \<open>cli\<close> count as 0.  Floating point: sizes and averages are
  rationals, times are microseconds.  Dates: what the parsers and formatters of times make of a text
  are the parameters \<open>dt\<close>, \<open>strptime\<close>, \<open>show_time\<close>, \<open>stamp\<close>.  Formatting of event texts, the parser of
  the mail's template and JSON are parameters too.  Drives by UNC names.  Volumes whose size is null, in
  \<open>world\<close>.  The collation of Postgres.  Unicode normalisation of file names, and the text of a file that is fetched, are the
  parameters of the record \<open>libs\<close>; regular expressions and the decoding of UTF-8 are those of \<open>hlibs\<close>, JSON and YAML of an agent's
  reports those of \<open>clibs\<close>.  The times an agent connected and disconnected at.  The licensing server and phone-home.  Commands of the package
  manager.  Events, drop-down lists and trial days on the web page.  The scheduler, the remaining pages of the web application,
  its framework, the test agent for Linux, and the copy of croniter in the tree.
\<close>

end
